(* ===== verification/Prelude.thy ===== *)
theory Prelude
  imports Main "HOL-Library.List_Lexorder" "HOL-Library.Char_ord"
begin

text \<open>
  Vocabulary shared by every component: Go's \<open>error\<close> values and the two ways the code
  inspects them (\<open>errors.Is\<close>, \<open>errors.As\<close>), functions that return \<open>(value, error)\<close> as a
  state-and-error monad with a weakest-precondition calculus, 64-bit integer wrap-around, and
  the few \<open>strings\<close> and \<open>strconv\<close> functions the code calls.
\<close>

named_theorems wp_rules \<open>equations of the weakest-precondition calculus\<close>
named_theorems pres_rules \<open>introduction rules for preserved state predicates\<close>

subsection \<open>Errors\<close>

text \<open>
  \<open>BizErr\<close> is \<open>*errcode.Error\<close> (code, message, cause); \<open>WrapErr s e\<close> is
  \<open>fmt.Errorf("s: %w", e)\<close>; \<open>Sentinel\<close> is an \<open>errors.New\<close> value; \<open>DriverErr\<close> is an error
  of the database driver that no code inspects; \<open>PlainErr\<close> is \<open>fmt.Errorf\<close> without
  \<open>%w\<close>.
\<close>

datatype sentinel = RecordNotFound | StoreNotFound | InvalidCredentials

datatype gerr =
    BizErr int string "gerr option"
  | WrapErr string gerr
  | Sentinel sentinel
  | DriverErr
  | PlainErr string

fun sentinel_text :: "sentinel \<Rightarrow> string" where
  "sentinel_text RecordNotFound = ''record not found''"
| "sentinel_text StoreNotFound = ''record not found''"
| "sentinel_text InvalidCredentials = ''invalid username or password''"

text \<open>\<open>err.Error()\<close>; a business error shows only its stable message.\<close>

fun err_text :: "gerr \<Rightarrow> string" where
  "err_text (BizErr c m e) = m"
| "err_text (WrapErr s e) = s @ '': '' @ err_text e"
| "err_text (Sentinel s) = sentinel_text s"
| "err_text DriverErr = ''driver error''"
| "err_text (PlainErr s) = s"

text \<open>\<open>errors.Is(err, sentinel)\<close>: walks the \<open>Unwrap\<close> chain, through wrapped errors and
  through the cause of a business error.\<close>

fun errors_is :: "gerr \<Rightarrow> sentinel \<Rightarrow> bool" where
  "errors_is (BizErr c m None) s = False"
| "errors_is (BizErr c m (Some e)) s = errors_is e s"
| "errors_is (WrapErr t e) s = errors_is e s"
| "errors_is (Sentinel t) s = (t = s)"
| "errors_is DriverErr s = False"
| "errors_is (PlainErr t) s = False"

subsection \<open>Functions that return a value or an error and may change the state\<close>

type_synonym ('s, 'a) gm = "'s \<Rightarrow> (gerr + 'a) \<times> 's"

definition ok :: "'a \<Rightarrow> ('s, 'a) gm" where
  "ok x = (\<lambda>s. (Inr x, s))"

definition err :: "gerr \<Rightarrow> ('s, 'a) gm" where
  "err e = (\<lambda>s. (Inl e, s))"

text \<open>\<open>v, err := m(); if err != nil { h(err) } else { k(v) }\<close>\<close>

definition on_result :: "('s, 'a) gm \<Rightarrow> (gerr \<Rightarrow> ('s, 'b) gm) \<Rightarrow> ('a \<Rightarrow> ('s, 'b) gm) \<Rightarrow> ('s, 'b) gm" where
  "on_result m h k = (\<lambda>s. case m s of (Inl e, s') \<Rightarrow> h e s' | (Inr x, s') \<Rightarrow> k x s')"

text \<open>\<open>v, err := m(); if err != nil { return err }\<close>\<close>

definition and_then :: "('s, 'a) gm \<Rightarrow> ('a \<Rightarrow> ('s, 'b) gm) \<Rightarrow> ('s, 'b) gm" where
  "and_then m k = on_result m err k"

text \<open>\<open>if err != nil { return fmt.Errorf("w: %w", err) }\<close>\<close>

definition errorf :: "string \<Rightarrow> ('s, 'a) gm \<Rightarrow> ('s, 'a) gm" where
  "errorf w m = on_result m (\<lambda>e. err (WrapErr w e)) ok"

text \<open>A check that returns early with an error, and a pure function that may fail.\<close>

definition guard :: "bool \<Rightarrow> gerr \<Rightarrow> ('s, unit) gm" where
  "guard b e = (if b then ok () else err e)"

definition from_sum :: "gerr + 'a \<Rightarrow> ('s, 'a) gm" where
  "from_sum r = (case r of Inl e \<Rightarrow> err e | Inr x \<Rightarrow> ok x)"

text \<open>A Go \<open>for ... range\<close> loop that returns at the first error and collects its results.\<close>

fun mapM :: "('a \<Rightarrow> ('s, 'b) gm) \<Rightarrow> 'a list \<Rightarrow> ('s, 'b list) gm" where
  "mapM f [] = ok []"
| "mapM f (x # xs) = and_then (f x) (\<lambda>y. and_then (mapM f xs) (\<lambda>ys. ok (y # ys)))"

text \<open>Writing and reading the state.\<close>

definition modify :: "('s \<Rightarrow> 's) \<Rightarrow> ('s, unit) gm" where
  "modify f = (\<lambda>s. (Inr (), f s))"

definition gets :: "('s \<Rightarrow> 'a) \<Rightarrow> ('s, 'a) gm" where
  "gets f = (\<lambda>s. (Inr (f s), s))"

subsection \<open>Weakest preconditions and preserved predicates\<close>

definition wp :: "('s, 'a) gm \<Rightarrow> ('a \<Rightarrow> 's \<Rightarrow> bool) \<Rightarrow> (gerr \<Rightarrow> 's \<Rightarrow> bool) \<Rightarrow> 's \<Rightarrow> bool" where
  "wp m Q E s = (case m s of (Inl e, s') \<Rightarrow> E e s' | (Inr x, s') \<Rightarrow> Q x s')"

lemma wp_ok [wp_rules]: "wp (ok x) Q E = Q x"
  by (simp add: wp_def ok_def fun_eq_iff)

lemma wp_err [wp_rules]: "wp (err e) Q E = E e"
  by (simp add: wp_def err_def fun_eq_iff)

lemma wp_on_result [wp_rules]:
  "wp (on_result m h k) Q E s = wp m (\<lambda>x. wp (k x) Q E) (\<lambda>e. wp (h e) Q E) s"
  by (simp add: wp_def on_result_def split: prod.splits sum.splits)

lemma wp_and_then [wp_rules]: "wp (and_then m k) Q E s = wp m (\<lambda>x. wp (k x) Q E) E s"
  by (simp add: and_then_def wp_on_result wp_err)

lemma wp_errorf [wp_rules]: "wp (errorf w m) Q E s = wp m Q (\<lambda>e. E (WrapErr w e)) s"
  by (simp add: errorf_def wp_rules)

lemma wp_guard [wp_rules]: "wp (guard b e) Q E s = (if b then Q () s else E e s)"
  by (simp add: guard_def wp_rules)

lemma wp_from_sum [wp_rules]:
  "wp (from_sum r) Q E s = (case r of Inl e \<Rightarrow> E e s | Inr x \<Rightarrow> Q x s)"
  by (simp add: from_sum_def wp_rules split: sum.splits)

lemma wp_if [wp_rules]: "wp (if b then m else n) Q E s = (if b then wp m Q E s else wp n Q E s)"
  by simp

lemma wp_state [wp_rules]: "wp (modify f) R F s = R () (f s)" "wp (gets g) R' F s = R' (g s) s"
  by (simp_all add: wp_def modify_def gets_def)

lemma wp_mono:
  assumes "wp m Q E s" and "\<And>x t. Q x t \<Longrightarrow> Q' x t" and "\<And>e t. E e t \<Longrightarrow> E' e t"
  shows "wp m Q' E' s"
  using assms by (auto simp: wp_def split: prod.splits sum.splits)

lemma wp_InrD: "wp m Q E s \<Longrightarrow> m s = (Inr x, t) \<Longrightarrow> Q x t"
  by (simp add: wp_def)

lemma wp_InlD: "wp m Q E s \<Longrightarrow> m s = (Inl e, t) \<Longrightarrow> E e t"
  by (simp add: wp_def)

text \<open>\<open>preserves I m\<close>: whatever \<open>m\<close> returns, it leaves \<open>I\<close> true if it held before.\<close>

definition preserves :: "('s \<Rightarrow> bool) \<Rightarrow> ('s, 'a) gm \<Rightarrow> bool" where
  "preserves I m \<longleftrightarrow> (\<forall>s. I s \<longrightarrow> I (snd (m s)))"

lemma preservesD: "preserves I m \<Longrightarrow> I s \<Longrightarrow> I (snd (m s))"
  by (simp add: preserves_def)

lemma preserves_wp: "preserves I m \<longleftrightarrow> (\<forall>s. I s \<longrightarrow> wp m (\<lambda>_. I) (\<lambda>_. I) s)"
proof -
  have "wp m (\<lambda>_. I) (\<lambda>_. I) s = I (snd (m s))" for s
    by (cases "m s"; cases "fst (m s)") (auto simp: wp_def)
  then show ?thesis by (simp add: preserves_def)
qed

lemma preserves_ok [pres_rules]: "preserves I (ok x)"
  by (simp add: preserves_def ok_def)

lemma preserves_err [pres_rules]: "preserves I (err e)"
  by (simp add: preserves_def err_def)

lemma preserves_on_result [pres_rules]:
  assumes "preserves I m" and "\<And>e. preserves I (h e)" and "\<And>x. preserves I (k x)"
  shows "preserves I (on_result m h k)"
proof -
  have "I s' \<Longrightarrow> I (snd (h e s'))" "I s' \<Longrightarrow> I (snd (k x s'))" for e x s'
    using assms(2,3) by (auto simp: preserves_def)
  then show ?thesis
    using assms(1) by (fastforce simp: preserves_def on_result_def split: prod.splits sum.splits)
qed

lemma preserves_and_then [pres_rules]:
  assumes "preserves I m" and "\<And>x. preserves I (k x)"
  shows "preserves I (and_then m k)"
  unfolding and_then_def using assms by (intro pres_rules)

lemma preserves_errorf [pres_rules]: "preserves I m \<Longrightarrow> preserves I (errorf w m)"
  unfolding errorf_def by (intro pres_rules)

lemma preserves_guard [pres_rules]: "preserves I (guard b e)"
  by (simp add: guard_def pres_rules)

lemma preserves_from_sum [pres_rules]: "preserves I (from_sum r)"
  by (simp add: from_sum_def pres_rules split: sum.splits)

lemma preserves_if [pres_rules]:
  "(b \<Longrightarrow> preserves I m) \<Longrightarrow> (\<not> b \<Longrightarrow> preserves I n) \<Longrightarrow> preserves I (if b then m else n)"
  by simp

lemma preserves_mapM [pres_rules]: "(\<And>x. preserves I (f x)) \<Longrightarrow> preserves I (mapM f xs)"
  by (induction xs) (auto intro!: pres_rules)

text \<open>Whether a call returned a value.\<close>

definition is_ok :: "gerr + 'a \<Rightarrow> bool" where
  "is_ok r = (case r of Inl _ \<Rightarrow> False | Inr _ \<Rightarrow> True)"

lemma is_okE: "is_ok (fst (m w)) \<Longrightarrow> \<exists>x w'. m w = (Inr x, w')"
  by (cases "m w"; cases "fst (m w)") (auto simp: is_ok_def)

lemma list_all2_in_set2: "list_all2 P xs ys \<Longrightarrow> y \<in> set ys \<Longrightarrow> \<exists>x \<in> set xs. P x y"
  by (induction rule: list_all2_induct) auto

text \<open>A Go map as an association list with distinct keys; iteration order is not significant.\<close>

definition al_put :: "'k \<Rightarrow> 'v \<Rightarrow> ('k \<times> 'v) list \<Rightarrow> ('k \<times> 'v) list" where
  "al_put k v m = (k, v) # filter (\<lambda>p. fst p \<noteq> k) m"

definition al_del :: "'k \<Rightarrow> ('k \<times> 'v) list \<Rightarrow> ('k \<times> 'v) list" where
  "al_del k m = filter (\<lambda>p. fst p \<noteq> k) m"

lemma al_filter: "map_of (filter (\<lambda>p. fst p \<noteq> k) m) j = (if j = k then None else map_of m j)"
  by (induction m) auto

lemma al_lookup [simp]:
  "map_of (al_put k v m) j = (if j = k then Some v else map_of m j)"
  "map_of (al_del k m) j = (if j = k then None else map_of m j)"
  by (auto simp: al_put_def al_del_def al_filter)

subsection \<open>Integers and strings of the Go standard library\<close>

text \<open>Go's \<open>int\<close>, \<open>int64\<close> and \<open>time.Duration\<close> are 64-bit two's complement and wrap.\<close>

definition wrap64 :: "int \<Rightarrow> int" where
  "wrap64 x = (x + 2 ^ 63) mod 2 ^ 64 - 2 ^ 63"

definition int64 :: "int \<Rightarrow> bool" where
  "int64 x \<longleftrightarrow> - (2 ^ 63) \<le> x \<and> x < 2 ^ 63"

lemma wrap64_id [simp]: "int64 x \<Longrightarrow> wrap64 x = x"
  by (simp add: wrap64_def int64_def)

lemma int64_wrap64 [simp]: "int64 (wrap64 x)"
  by (simp add: wrap64_def int64_def)

text \<open>\<open>strconv.Itoa\<close>, and decimal digits read back.\<close>

fun digits_of :: "nat \<Rightarrow> string" where
  "digits_of n = (if n < 10 then [char_of (48 + n)] else digits_of (n div 10) @ [char_of (48 + n mod 10)])"

declare digits_of.simps [simp del]

definition itoa :: "int \<Rightarrow> string" where
  "itoa i = (if i < 0 then ''-'' @ digits_of (nat (- i)) else digits_of (nat i))"

definition is_digit :: "char \<Rightarrow> bool" where
  "is_digit c \<longleftrightarrow> 48 \<le> (of_char c :: nat) \<and> (of_char c :: nat) \<le> 57"

fun digits_val :: "int \<Rightarrow> string \<Rightarrow> int" where
  "digits_val acc [] = acc"
| "digits_val acc (c # cs) = digits_val (10 * acc + (of_char c - 48)) cs"

text \<open>\<open>strconv.Atoi\<close> and \<open>strconv.ParseInt(s, 10, 64)\<close>: an optional sign, at least one digit,
and an error when the value does not fit 64 bits.\<close>

definition parse_digits :: "string \<Rightarrow> int option" where
  "parse_digits ds = (if ds \<noteq> [] \<and> list_all is_digit ds then Some (digits_val 0 ds) else None)"

fun atoi :: "string \<Rightarrow> int option" where
  "atoi s = (case (case s of [] \<Rightarrow> None
       | c # cs \<Rightarrow> if c = CHR ''-'' then map_option uminus (parse_digits cs)
                   else if c = CHR ''+'' then parse_digits cs else parse_digits s) of
     None \<Rightarrow> None
   | Some n \<Rightarrow> if int64 n then Some n else None)"

text \<open>\<open>strconv.Quote\<close>, the verb \<open>%q\<close>; bytes above ASCII are kept, as in printable text. The error of \<open>Atoi\<close>.\<close>

definition hex_digit :: "nat \<Rightarrow> char" where
  "hex_digit n = (if n < 10 then char_of (48 + n) else char_of (87 + n))"

definition quote_char :: "char \<Rightarrow> string" where
  "quote_char c = (let n = (of_char c :: nat) in
     if c = CHR 0x22 \<or> c = CHR 0x5C then [CHR 0x5C, c]
     else if 7 \<le> n \<and> n \<le> 13 then [CHR 0x5C, ''abtnvfr'' ! (n - 7)]
     else if n < 32 \<or> n = 127 then [CHR 0x5C, CHR ''x'', hex_digit (n div 16), hex_digit (n mod 16)]
     else [c])"

definition go_quote :: "string \<Rightarrow> string" where
  "go_quote s = [CHR 0x22] @ concat (map quote_char s) @ [CHR 0x22]"

definition atoi_error :: "string \<Rightarrow> gerr" where
  "atoi_error s = WrapErr (''strconv.Atoi: parsing '' @ go_quote s)
     (PlainErr (if parse_digits s \<noteq> None \<or> s \<noteq> [] \<and> hd s \<in> {CHR ''-'', CHR ''+''} \<and> parse_digits (tl s) \<noteq> None
        then ''value out of range'' else ''invalid syntax''))"

text \<open>\<open>strings.HasPrefix\<close>, \<open>strings.HasSuffix\<close>, \<open>strings.CutPrefix\<close>.\<close>

fun has_prefix :: "string \<Rightarrow> string \<Rightarrow> bool" where
  "has_prefix s [] = True"
| "has_prefix [] (c # p) = False"
| "has_prefix (d # s) (c # p) = (c = d \<and> has_prefix s p)"

definition has_suffix :: "string \<Rightarrow> string \<Rightarrow> bool" where
  "has_suffix s p = has_prefix (rev s) (rev p)"

definition cut_prefix :: "string \<Rightarrow> string \<Rightarrow> string option" where
  "cut_prefix s p = (if has_prefix s p then Some (drop (length p) s) else None)"

lemma has_prefix_iff: "has_prefix s p \<longleftrightarrow> (\<exists>r. s = p @ r)"
  by (induction s p rule: has_prefix.induct) auto

lemma has_suffix_iff: "has_suffix s p \<longleftrightarrow> (\<exists>r. s = r @ p)"
proof -
  have "(\<exists>r. rev s = rev p @ r) \<longleftrightarrow> (\<exists>r. s = r @ p)"
    by (metis rev_append rev_rev_ident)
  then show ?thesis by (simp add: has_suffix_def has_prefix_iff)
qed

lemma cut_prefix_Some: "cut_prefix s p = Some r \<longleftrightarrow> s = p @ r"
  by (auto simp: cut_prefix_def has_prefix_iff)

text \<open>\<open>strings.ToLower\<close> and \<open>strings.TrimSpace\<close> on ASCII text.\<close>

definition lower_char :: "char \<Rightarrow> char" where
  "lower_char c = (let n = (of_char c :: nat) in if 65 \<le> n \<and> n \<le> 90 then char_of (n + 32) else c)"

definition to_lower :: "string \<Rightarrow> string" where
  "to_lower = map lower_char"

definition is_space :: "char \<Rightarrow> bool" where
  "is_space c \<longleftrightarrow> c = CHR '' '' \<or> (9 \<le> (of_char c :: nat) \<and> (of_char c :: nat) \<le> 13)"

definition trim_space :: "string \<Rightarrow> string" where
  "trim_space s = rev (dropWhile is_space (rev (dropWhile is_space s)))"

text \<open>A slice expression \<open>xs[lo:hi]\<close> with \<open>hi\<close> at most the length: \<open>None\<close> is the run-time panic.\<close>

definition go_slice :: "'a list \<Rightarrow> int \<Rightarrow> int \<Rightarrow> 'a list option" where
  "go_slice xs lo hi = (if 0 \<le> lo \<and> lo \<le> hi \<and> hi \<le> int (length xs)
     then Some (take (nat (hi - lo)) (drop (nat lo) xs)) else None)"

lemma int64_leI: "0 \<le> x \<Longrightarrow> x < 2 ^ 63 \<Longrightarrow> int64 x"
  by (simp add: int64_def)

lemma digits_val_nonneg: "0 \<le> acc \<Longrightarrow> list_all is_digit ds \<Longrightarrow> acc \<le> digits_val acc ds"
proof (induction ds arbitrary: acc)
  case (Cons c cs)
  from Cons.prems have "48 \<le> (of_char c :: nat)" by (simp add: is_digit_def)
  then have c: "(48::int) \<le> of_char c" by (metis of_nat_le_iff of_nat_numeral of_nat_of_char)
  with Cons.prems have "acc \<le> 10 * acc + (of_char c - 48)" by simp
  also have "\<dots> \<le> digits_val (10 * acc + (of_char c - 48)) cs"
    using Cons c by (intro Cons.IH) auto
  finally show ?case by simp
qed simp

lemma atoi_int64: "atoi s = Some n \<Longrightarrow> int64 n"
  by (auto split: option.splits if_splits)

declare atoi.simps [simp del]

end
