(* ===== verification/Sql_Table.thy ===== *)
theory Sql_Table
  imports Prelude
begin

text \<open>
  One SQL table as the queries of the store package use it: rows with an auto-incremented
  integer primary key (\<open>INTEGER PRIMARY KEY AUTOINCREMENT\<close>: keys only grow and are never
  reused), one unique index, and the statements GORM issues for \<open>Create\<close>, \<open>First\<close>, \<open>Find\<close>,
  \<open>Save\<close>, \<open>Update(s)\<close> and \<open>Delete\<close>. The laws every table obeys are proved once, in the
  locale \<open>sql_table\<close>.
\<close>

record 'r tbl =
  trows :: "'r list"
  tseq :: int

definition tbl_empty :: "'r tbl" where
  "tbl_empty = \<lparr>trows = [], tseq = 0\<rparr>"

text \<open>\<open>Create\<close>: the new row gets the next key; \<open>None\<close> is the unique-index violation.\<close>

definition tbl_insert :: "(int \<Rightarrow> 'r \<Rightarrow> 'r) \<Rightarrow> ('r \<Rightarrow> 'r \<Rightarrow> bool) \<Rightarrow> 'r \<Rightarrow> 'r tbl \<Rightarrow> ('r \<times> 'r tbl) option" where
  "tbl_insert with_id uniq r t =
     (let i = tseq t + 1; r' = with_id i r in
      if list_ex (uniq r') (trows t) then None
      else Some (r', \<lparr>trows = trows t @ [r'], tseq = i\<rparr>))"

text \<open>A batch insert is one statement: all rows or none.\<close>

fun tbl_insert_all :: "(int \<Rightarrow> 'r \<Rightarrow> 'r) \<Rightarrow> ('r \<Rightarrow> 'r \<Rightarrow> bool) \<Rightarrow> 'r list \<Rightarrow> 'r tbl \<Rightarrow> ('r list \<times> 'r tbl) option" where
  "tbl_insert_all with_id uniq [] t = Some ([], t)"
| "tbl_insert_all with_id uniq (r # rs) t = (case tbl_insert with_id uniq r t of None \<Rightarrow> None
     | Some (r', t') \<Rightarrow> (case tbl_insert_all with_id uniq rs t' of None \<Rightarrow> None
        | Some (rs', t'') \<Rightarrow> Some (r' # rs', t'')))"

text \<open>\<open>Where(p).Order("id").Find\<close> and \<open>Where(p).First\<close> (\<open>ORDER BY id LIMIT 1\<close>).\<close>

definition tbl_find :: "('r \<Rightarrow> int) \<Rightarrow> ('r \<Rightarrow> bool) \<Rightarrow> 'r tbl \<Rightarrow> 'r list" where
  "tbl_find rid p t = sort_key rid (filter p (trows t))"

definition tbl_first :: "('r \<Rightarrow> int) \<Rightarrow> ('r \<Rightarrow> bool) \<Rightarrow> 'r tbl \<Rightarrow> 'r option" where
  "tbl_first rid p t = (case tbl_find rid p t of [] \<Rightarrow> None | r # _ \<Rightarrow> Some r)"

text \<open>\<open>Save\<close>: \<open>UPDATE\<close> of the row with this key, or an insert under that key if it is gone.\<close>

definition tbl_save :: "('r \<Rightarrow> int) \<Rightarrow> ('r \<Rightarrow> 'r \<Rightarrow> bool) \<Rightarrow> 'r \<Rightarrow> 'r tbl \<Rightarrow> 'r tbl option" where
  "tbl_save rid uniq r t =
     (if list_ex (\<lambda>x. rid x \<noteq> rid r \<and> uniq r x) (trows t) then None
      else if list_ex (\<lambda>x. rid x = rid r) (trows t)
      then Some (t\<lparr>trows := map (\<lambda>x. if rid x = rid r then r else x) (trows t)\<rparr>)
      else Some \<lparr>trows = trows t @ [r], tseq = max (tseq t) (rid r)\<rparr>)"

definition tbl_update :: "('r \<Rightarrow> bool) \<Rightarrow> ('r \<Rightarrow> 'r) \<Rightarrow> 'r tbl \<Rightarrow> 'r tbl" where
  "tbl_update p f t = t\<lparr>trows := map (\<lambda>r. if p r then f r else r) (trows t)\<rparr>"

definition tbl_delete :: "('r \<Rightarrow> bool) \<Rightarrow> 'r tbl \<Rightarrow> 'r tbl" where
  "tbl_delete p t = t\<lparr>trows := filter (\<lambda>r. \<not> p r) (trows t)\<rparr>"

definition tbl_count :: "('r \<Rightarrow> bool) \<Rightarrow> 'r tbl \<Rightarrow> nat" where
  "tbl_count p t = length (filter p (trows t))"

text \<open>Keys are distinct, positive and below the sequence; the unique index holds.\<close>

definition tbl_wf :: "('r \<Rightarrow> int) \<Rightarrow> ('r \<Rightarrow> 'r \<Rightarrow> bool) \<Rightarrow> 'r tbl \<Rightarrow> bool" where
  "tbl_wf rid uniq t \<longleftrightarrow> 0 \<le> tseq t \<and> distinct (map rid (trows t)) \<and>
     list_all (\<lambda>r. 0 < rid r \<and> rid r \<le> tseq t) (trows t) \<and>
     list_all (\<lambda>x. list_all (\<lambda>y. uniq x y \<longrightarrow> rid x = rid y) (trows t)) (trows t)"

lemma set_tbl_find [simp]: "set (tbl_find rid p t) = {r \<in> set (trows t). p r}"
  by (auto simp: tbl_find_def)

lemma tbl_first_None: "tbl_first rid p t = None \<longleftrightarrow> (\<forall>r \<in> set (trows t). \<not> p r)"
proof -
  have "tbl_first rid p t = None \<longleftrightarrow> tbl_find rid p t = []"
    by (simp add: tbl_first_def split: list.splits)
  also have "\<dots> \<longleftrightarrow> set (tbl_find rid p t) = {}" by (simp only: set_empty)
  finally show ?thesis by auto
qed

lemma tbl_first_SomeD: "tbl_first rid p t = Some r \<Longrightarrow> r \<in> set (trows t) \<and> p r"
proof -
  assume "tbl_first rid p t = Some r"
  then obtain rs where "tbl_find rid p t = r # rs"
    by (auto simp: tbl_first_def simp del: set_tbl_find split: list.splits)
  then have "r \<in> set (tbl_find rid p t)" by simp
  then show ?thesis by simp
qed

lemma trows_update [simp]: "trows (tbl_update p f t) = map (\<lambda>r. if p r then f r else r) (trows t)"
  by (simp add: tbl_update_def)

lemma trows_delete [simp]: "trows (tbl_delete p t) = filter (\<lambda>r. \<not> p r) (trows t)"
  by (simp add: tbl_delete_def)

lemma tseq_update [simp]: "tseq (tbl_update p f t) = tseq t"
  by (simp add: tbl_update_def)

lemma tseq_delete [simp]: "tseq (tbl_delete p t) = tseq t"
  by (simp add: tbl_delete_def)

lemma trows_empty [simp]: "trows tbl_empty = []"
  by (simp add: tbl_empty_def)

lemma tbl_wf_iff:
  "tbl_wf rid uniq t \<longleftrightarrow> 0 \<le> tseq t \<and> distinct (map rid (trows t)) \<and>
     (\<forall>r \<in> set (trows t). 0 < rid r \<and> rid r \<le> tseq t) \<and>
     (\<forall>x \<in> set (trows t). \<forall>y \<in> set (trows t). uniq x y \<longrightarrow> rid x = rid y)"
  by (simp add: tbl_wf_def list_all_iff)

lemma tbl_wf_empty: "tbl_wf rid uniq tbl_empty"
  by (simp add: tbl_wf_def tbl_empty_def)

text \<open>The laws of one table: \<open>rid\<close> reads the key, \<open>with_id\<close> sets it, \<open>uniq\<close> is the unique
index (two rows that may not be in the table together).\<close>

locale sql_table =
  fixes rid :: "'r \<Rightarrow> int"
    and with_id :: "int \<Rightarrow> 'r \<Rightarrow> 'r"
    and uniq :: "'r \<Rightarrow> 'r \<Rightarrow> bool"
  assumes rid_with_id: "rid (with_id i r) = i"
    and uniq_sym: "uniq x y = uniq y x"
begin

abbreviation wf :: "'r tbl \<Rightarrow> bool" where
  "wf \<equiv> tbl_wf rid uniq"

lemma key_inj:
  assumes "wf t" "x \<in> set (trows t)" "y \<in> set (trows t)" "rid x = rid y"
  shows "x = y"
proof -
  from assms(1) have "inj_on rid (set (trows t))" by (simp add: tbl_wf_iff distinct_map)
  then show ?thesis using assms(2-4) by (auto dest: inj_onD)
qed

lemma index_key: "wf t \<Longrightarrow> x \<in> set (trows t) \<Longrightarrow> y \<in> set (trows t) \<Longrightarrow> uniq x y \<Longrightarrow> x = y"
  by (rule key_inj) (auto simp: tbl_wf_iff)

lemma first_by_key:
  assumes "wf t"
  shows "tbl_first rid (\<lambda>r. rid r = i) t = Some r \<longleftrightarrow> r \<in> set (trows t) \<and> rid r = i"
proof
  assume r: "r \<in> set (trows t) \<and> rid r = i"
  then have "tbl_first rid (\<lambda>r. rid r = i) t \<noteq> None" by (auto simp: tbl_first_None)
  then obtain r' where r': "tbl_first rid (\<lambda>r. rid r = i) t = Some r'" by blast
  from tbl_first_SomeD [OF r'] r have "r' = r" by (auto intro: key_inj [OF assms])
  with r' show "tbl_first rid (\<lambda>r. rid r = i) t = Some r" by simp
qed (use tbl_first_SomeD in fast)

lemma first_by_index:
  assumes "wf t" and "\<And>x y. p x \<Longrightarrow> p y \<Longrightarrow> uniq x y"
  shows "tbl_first rid p t = Some r \<longleftrightarrow> r \<in> set (trows t) \<and> p r"
proof
  assume r: "r \<in> set (trows t) \<and> p r"
  then have "tbl_first rid p t \<noteq> None" by (auto simp: tbl_first_None)
  then obtain r' where r': "tbl_first rid p t = Some r'" by blast
  from tbl_first_SomeD [OF r'] r assms(2) have "r' = r" by (auto intro: index_key [OF assms(1)])
  with r' show "tbl_first rid p t = Some r" by simp
qed (use tbl_first_SomeD in fast)

lemma insert_SomeD:
  assumes "tbl_insert with_id uniq r t = Some (r', t')"
  shows "r' = with_id (tseq t + 1) r" and "rid r' = tseq t + 1"
    and "trows t' = trows t @ [r']" and "tseq t' = tseq t + 1"
    and "\<And>x. x \<in> set (trows t) \<Longrightarrow> \<not> uniq r' x"
  using assms by (auto simp: tbl_insert_def Let_def list_ex_iff rid_with_id split: if_splits)

lemma append_wf:
  assumes wf: "wf t" and fresh: "\<And>x. x \<in> set (trows t) \<Longrightarrow> rid x \<noteq> rid r \<and> \<not> uniq r x"
    and k: "0 < rid r" "rid r \<le> n" "tseq t \<le> n"
  shows "wf \<lparr>trows = trows t @ [r], tseq = n\<rparr>"
proof -
  have "rid r \<notin> rid ` set (trows t)" using fresh by force
  then have "distinct (map rid (trows t @ [r]))" using wf by (simp add: tbl_wf_iff)
  moreover have "\<forall>x \<in> set (trows t @ [r]). 0 < rid x \<and> rid x \<le> n"
    using wf k by (auto simp: tbl_wf_iff intro: order_trans)
  moreover have "\<forall>x \<in> set (trows t @ [r]). \<forall>y \<in> set (trows t @ [r]). uniq x y \<longrightarrow> rid x = rid y"
  proof (intro ballI impI)
    fix x y assume xy: "x \<in> set (trows t @ [r])" "y \<in> set (trows t @ [r])" "uniq x y"
    have "\<not> uniq r z" "\<not> uniq z r" if "z \<in> set (trows t)" for z
      using fresh [OF that] uniq_sym [of z r] by simp_all
    then show "rid x = rid y" using xy wf by (auto simp: tbl_wf_iff)
  qed
  ultimately show ?thesis using wf k(3) by (simp add: tbl_wf_iff)
qed

lemma insert_wf:
  assumes wf: "wf t" and ins: "tbl_insert with_id uniq r t = Some (r', t')"
  shows "wf t'"
proof -
  note d = insert_SomeD [OF ins]
  have t': "t' = \<lparr>trows = trows t @ [r'], tseq = tseq t + 1\<rparr>"
    using ins by (auto simp: tbl_insert_def Let_def split: if_splits)
  have "rid x \<noteq> rid r'" if "x \<in> set (trows t)" for x
    using that wf d(2) by (auto simp: tbl_wf_iff)
  then show ?thesis
    unfolding t' using wf d(2,5) by (intro append_wf) (auto simp: tbl_wf_iff)
qed

lemma insert_all_ConsD:
  assumes "tbl_insert_all with_id uniq (r # rs) t = Some (rs', t')"
  obtains r1 t1 rs1 where "tbl_insert with_id uniq r t = Some (r1, t1)"
    and "tbl_insert_all with_id uniq rs t1 = Some (rs1, t')" and "rs' = r1 # rs1"
  using assms by (auto split: option.splits prod.splits)

lemma insert_all_wf:
  "wf t \<Longrightarrow> tbl_insert_all with_id uniq rs t = Some (rs', t') \<Longrightarrow> wf t'"
proof (induction rs arbitrary: t rs')
  case (Cons r rs)
  from Cons.prems(2) show ?case
    by (rule insert_all_ConsD) (use Cons.IH insert_wf [OF Cons.prems(1)] in blast)
qed simp

lemma insert_all_rows:
  "tbl_insert_all with_id uniq rs t = Some (rs', t') \<Longrightarrow> trows t' = trows t @ rs'"
proof (induction rs arbitrary: t rs')
  case (Cons r rs)
  from Cons.prems show ?case
    by (rule insert_all_ConsD) (use Cons.IH insert_SomeD(3) in fastforce)
qed simp

lemma insert_all_new:
  "tbl_insert_all with_id uniq rs t = Some (rs', t') \<Longrightarrow> list_all2 (\<lambda>r r'. \<exists>i. r' = with_id i r) rs rs'"
proof (induction rs arbitrary: t rs')
  case (Cons r rs)
  from Cons.prems show ?case
    by (rule insert_all_ConsD) (use Cons.IH insert_SomeD(1) in fastforce)
qed simp

lemma map_row_wf:
  assumes wf: "wf t" and k: "\<And>x. x \<in> set (trows t) \<Longrightarrow> rid (f x) = rid x"
    and u: "\<And>x y. x \<in> set (trows t) \<Longrightarrow> y \<in> set (trows t) \<Longrightarrow> uniq (f x) (f y) \<Longrightarrow> rid x = rid y"
  shows "wf (t\<lparr>trows := map f (trows t)\<rparr>)"
proof -
  have "map rid (map f (trows t)) = map rid (trows t)" using k by simp
  then have "distinct (map rid (map f (trows t)))" using wf by (simp only: tbl_wf_iff)
  then show ?thesis using wf k u by (auto simp: tbl_wf_iff)
qed

lemma save_wf:
  assumes wf: "wf t" and sv: "tbl_save rid uniq r t = Some t'" and pos: "0 < rid r"
  shows "wf t'"
proof -
  have u: "\<not> uniq r x" "\<not> uniq x r" if "x \<in> set (trows t)" "rid x \<noteq> rid r" for x
    using sv that uniq_sym [of x r] by (auto simp: tbl_save_def list_ex_iff split: if_splits)
  show ?thesis
  proof (cases "list_ex (\<lambda>x. rid x = rid r) (trows t)")
    case True
    then have t': "t' = t\<lparr>trows := map (\<lambda>x. if rid x = rid r then r else x) (trows t)\<rparr>"
      using sv by (simp add: tbl_save_def split: if_splits)
    show ?thesis unfolding t'
      by (rule map_row_wf [OF wf]) (use u wf in \<open>auto simp: tbl_wf_iff split: if_splits\<close>)
  next
    case False
    then have t': "t' = \<lparr>trows = trows t @ [r], tseq = max (tseq t) (rid r)\<rparr>"
      using sv by (simp add: tbl_save_def split: if_splits)
    have fresh: "rid x \<noteq> rid r \<and> \<not> uniq r x" if "x \<in> set (trows t)" for x
      using False that u(1) [of x] by (auto simp: list_ex_iff)
    show ?thesis
      unfolding t' by (rule append_wf [OF wf fresh pos]) simp_all
  qed
qed

lemma update_wf:
  assumes wf: "wf t" and k: "\<And>r. rid (f r) = rid r" and uf: "\<And>x y. uniq (f x) y = uniq x y"
  shows "wf (tbl_update p f t)"
proof -
  have uf': "uniq x (f y) = uniq x y" for x y
    using uf [of y x] uniq_sym [of x "f y"] uniq_sym [of y x] by simp
  have u: "uniq (if p x then f x else x) (if p y then f y else y) = uniq x y" for x y
    by (simp add: uf uf')
  show ?thesis unfolding tbl_update_def
  proof (rule map_row_wf [OF wf])
    fix x y assume "x \<in> set (trows t)" "y \<in> set (trows t)"
      "uniq (if p x then f x else x) (if p y then f y else y)"
    then show "rid x = rid y" using wf unfolding u by (simp add: tbl_wf_iff)
  qed (simp add: k)
qed

lemma delete_wf: "wf t \<Longrightarrow> wf (tbl_delete p t)"
  by (auto simp: tbl_wf_iff distinct_map intro: inj_on_subset)

end

end
