(* ===== verification/Errcode.thy ===== *)
theory Errcode
  imports Prelude
begin

text \<open>
  Package \<open>errcode\<close>: the business error codes, their HTTP status, the lookup of a business
  error in an error chain, and the \<open>response.Fail\<close> exit every handler uses.
\<close>

subsection \<open>The code table (codes.go)\<close>

definition ParamInvalid :: int where "ParamInvalid = 40001"
definition Unauthorized :: int where "Unauthorized = 40100"
definition Forbidden :: int where "Forbidden = 40300"
definition NotFound :: int where "NotFound = 40400"
definition UserNotFound :: int where "UserNotFound = 40410"
definition UserDisabled :: int where "UserDisabled = 40411"
definition UserAlreadyExists :: int where "UserAlreadyExists = 40412"
definition ClusterNotFound :: int where "ClusterNotFound = 40401"
definition ClusterKubeconfigBad :: int where "ClusterKubeconfigBad = 40402"
definition ClusterKubeconfigMultiContext :: int where "ClusterKubeconfigMultiContext = 40403"
definition ClusterUnreachable :: int where "ClusterUnreachable = 40404"
definition ClusterAlreadyExists :: int where "ClusterAlreadyExists = 40405"
definition ResourceConflict :: int where "ResourceConflict = 40406"
definition DownloadCodeInvalid :: int where "DownloadCodeInvalid = 40407"
definition EnrollTokenInvalid :: int where "EnrollTokenInvalid = 40101"
definition IssuedTokenInvalid :: int where "IssuedTokenInvalid = 40102"
definition RoleAlreadyExists :: int where "RoleAlreadyExists = 40413"
definition RoleNotFound :: int where "RoleNotFound = 40414"
definition UserGroupAlreadyExists :: int where "UserGroupAlreadyExists = 40415"
definition UserGroupNotFound :: int where "UserGroupNotFound = 40416"
definition InternalError :: int where "InternalError = 50000"
definition UpstreamK8sError :: int where "UpstreamK8sError = 50100"
definition AgentTunnelUnavailable :: int where "AgentTunnelUnavailable = 50200"

lemmas errcode_defs = ParamInvalid_def Unauthorized_def Forbidden_def NotFound_def UserNotFound_def
  UserDisabled_def UserAlreadyExists_def ClusterNotFound_def ClusterKubeconfigBad_def
  ClusterKubeconfigMultiContext_def ClusterUnreachable_def ClusterAlreadyExists_def
  ResourceConflict_def DownloadCodeInvalid_def EnrollTokenInvalid_def IssuedTokenInvalid_def
  RoleAlreadyExists_def RoleNotFound_def UserGroupAlreadyExists_def UserGroupNotFound_def
  InternalError_def UpstreamK8sError_def AgentTunnelUnavailable_def

definition all_codes :: "int list" where
  "all_codes = [ParamInvalid, Unauthorized, Forbidden, NotFound, UserNotFound, UserDisabled,
     UserAlreadyExists, ClusterNotFound, ClusterKubeconfigBad, ClusterKubeconfigMultiContext,
     ClusterUnreachable, ClusterAlreadyExists, ResourceConflict, DownloadCodeInvalid,
     EnrollTokenInvalid, IssuedTokenInvalid, RoleAlreadyExists, RoleNotFound,
     UserGroupAlreadyExists, UserGroupNotFound, InternalError, UpstreamK8sError,
     AgentTunnelUnavailable]"

subsection \<open>Errors and their HTTP status (errcode.go, response.go)\<close>

definition New :: "int \<Rightarrow> string \<Rightarrow> gerr" where
  "New code msg = BizErr code msg None"

fun WithCause :: "gerr \<Rightarrow> gerr \<Rightarrow> gerr" where
  "WithCause (BizErr c m _) e = BizErr c m (Some e)"
| "WithCause e _ = e"

definition HTTPStatusOf :: "int \<Rightarrow> int" where
  "HTTPStatusOf code =
     (if code = ResourceConflict then 409
      else if 40000 \<le> code \<and> code < 40100 then 400
      else if 40100 \<le> code \<and> code < 40300 then 401
      else if 40300 \<le> code \<and> code < 40400 then 403
      else if 40400 \<le> code \<and> code < 40500 then 404
      else if 50000 \<le> code then 500
      else 500)"

text \<open>\<open>errors.As(err, *errcode.Error)\<close>: the first business error of the chain.\<close>

fun From :: "gerr \<Rightarrow> (int \<times> string) option" where
  "From (BizErr c m e) = Some (c, m)"
| "From (WrapErr t e) = From e"
| "From (Sentinel t) = None"
| "From DriverErr = None"
| "From (PlainErr t) = None"

record body =
  b_code :: int
  b_message :: string

definition Fail :: "gerr \<Rightarrow> int \<times> body" where
  "Fail e = (case From e of
       Some (c, m) \<Rightarrow> (HTTPStatusOf c, \<lparr>b_code = c, b_message = m\<rparr>)
     | None \<Rightarrow> (500, \<lparr>b_code = InternalError, b_message = ''internal error''\<rparr>))"

lemma WithCause_New [simp]: "WithCause (New c m) e = BizErr c m (Some e)"
  by (simp add: New_def)

lemma From_New [simp]: "From (New c m) = Some (c, m)"
  by (simp add: New_def)

lemma errors_is_New [simp]: "errors_is (New c m) s = False"
  by (simp add: New_def)

lemma New_eq_iff [simp]: "New c m = New c' m' \<longleftrightarrow> c = c' \<and> m = m'"
  by (simp add: New_def)

lemma New_neq_WrapErr [simp]: "New c m \<noteq> WrapErr t e" "WrapErr t e \<noteq> New c m"
  by (simp_all add: New_def)

end
