(* ===== verification/Store.thy ===== *)
theory Store
  imports Sql_Table Errcode
begin

text \<open>
  Package \<open>store\<close>: the entities (store.go), the database as one table per entity, the world
  a service call runs in (database, clock, and which statements the database refuses), and the
  GORM statements the repositories are written with. A transaction that fails leaves the
  database as it was.
\<close>

type_synonym time = int

subsection \<open>Entities\<close>

record user =
  u_id :: int
  u_username :: string
  u_password_hash :: string
  u_role :: string
  u_disabled :: bool
  u_created :: time
  u_updated :: time

record refresh_token =
  rt_id :: int
  rt_user_id :: int
  rt_token_hash :: string
  rt_expires :: time
  rt_revoked :: bool
  rt_created :: time

record cluster =
  cl_id :: int
  cl_name :: string
  cl_description :: string
  cl_kubeconfig :: string
  cl_access_mode :: string
  cl_status :: string
  cl_version :: string
  cl_message :: string
  cl_transition :: time
  cl_created :: time
  cl_updated :: time

record audit_log =
  al_id :: int
  al_request_id :: string
  al_user_id :: int
  al_username :: string
  al_action :: string
  al_resource :: string
  al_resource_type :: string
  al_cluster :: string
  al_namespace :: string
  al_name :: string
  al_source_ip :: string
  al_user_agent :: string
  al_result :: string
  al_created :: time

record role =
  ro_id :: int
  ro_name :: string
  ro_description :: string
  ro_builtin :: bool
  ro_permissions :: string
  ro_created :: time
  ro_updated :: time

record role_group =
  rg_id :: int
  rg_name :: string
  rg_description :: string
  rg_created :: time
  rg_updated :: time

record role_group_role =
  rgr_id :: int
  rgr_group :: int
  rgr_role :: int
  rgr_created :: time

record grant_scope =
  gs_id :: int
  gs_grant :: int
  gs_cluster :: string
  gs_namespace :: string

text \<open>A row of \<open>grants\<close>; a loaded grant carries its preloaded scopes as well.\<close>

record grant =
  g_id :: int
  g_subject_type :: string
  g_subject_id :: int
  g_object_type :: string
  g_object_id :: int
  g_created :: time

record loaded_grant = grant +
  g_scopes :: "grant_scope list"

record user_group =
  ug_id :: int
  ug_name :: string
  ug_description :: string
  ug_created :: time
  ug_updated :: time

record user_group_member =
  ugm_id :: int
  ugm_group :: int
  ugm_user :: int
  ugm_created :: time

record enroll_token =
  et_id :: int
  et_cluster :: string
  et_token_hash :: string
  et_no_expiry :: bool
  et_expires :: time
  et_revoked :: bool
  et_used :: "time option"
  et_created :: time

record issued_kubeconfig =
  ik_id :: int
  ik_user_id :: int
  ik_cluster :: string
  ik_token_hash :: string
  ik_description :: string
  ik_expires :: time
  ik_revoked :: bool
  ik_created :: time

subsection \<open>Unique indexes\<close>

definition user_uniq :: "user \<Rightarrow> user \<Rightarrow> bool" where
  "user_uniq x y \<longleftrightarrow> u_username x = u_username y"

definition refresh_token_uniq :: "refresh_token \<Rightarrow> refresh_token \<Rightarrow> bool" where
  "refresh_token_uniq x y \<longleftrightarrow> rt_token_hash x = rt_token_hash y"

definition cluster_uniq :: "cluster \<Rightarrow> cluster \<Rightarrow> bool" where
  "cluster_uniq x y \<longleftrightarrow> cl_name x = cl_name y"

definition audit_log_uniq :: "audit_log \<Rightarrow> audit_log \<Rightarrow> bool" where
  "audit_log_uniq x y \<longleftrightarrow> False"

definition role_uniq :: "role \<Rightarrow> role \<Rightarrow> bool" where
  "role_uniq x y \<longleftrightarrow> ro_name x = ro_name y"

definition role_group_uniq :: "role_group \<Rightarrow> role_group \<Rightarrow> bool" where
  "role_group_uniq x y \<longleftrightarrow> rg_name x = rg_name y"

definition role_group_role_uniq :: "role_group_role \<Rightarrow> role_group_role \<Rightarrow> bool" where
  "role_group_role_uniq x y \<longleftrightarrow> rgr_group x = rgr_group y \<and> rgr_role x = rgr_role y"

definition grant_uniq :: "grant \<Rightarrow> grant \<Rightarrow> bool" where
  "grant_uniq x y \<longleftrightarrow> g_subject_type x = g_subject_type y \<and> g_subject_id x = g_subject_id y \<and>
     g_object_type x = g_object_type y \<and> g_object_id x = g_object_id y"

definition grant_scope_uniq :: "grant_scope \<Rightarrow> grant_scope \<Rightarrow> bool" where
  "grant_scope_uniq x y \<longleftrightarrow> False"

definition user_group_uniq :: "user_group \<Rightarrow> user_group \<Rightarrow> bool" where
  "user_group_uniq x y \<longleftrightarrow> ug_name x = ug_name y"

definition user_group_member_uniq :: "user_group_member \<Rightarrow> user_group_member \<Rightarrow> bool" where
  "user_group_member_uniq x y \<longleftrightarrow> ugm_group x = ugm_group y \<and> ugm_user x = ugm_user y"

definition enroll_token_uniq :: "enroll_token \<Rightarrow> enroll_token \<Rightarrow> bool" where
  "enroll_token_uniq x y \<longleftrightarrow> et_token_hash x = et_token_hash y"

definition issued_uniq :: "issued_kubeconfig \<Rightarrow> issued_kubeconfig \<Rightarrow> bool" where
  "issued_uniq x y \<longleftrightarrow> ik_token_hash x = ik_token_hash y"

lemmas uniq_defs = user_uniq_def refresh_token_uniq_def cluster_uniq_def audit_log_uniq_def
  role_uniq_def role_group_uniq_def role_group_role_uniq_def grant_uniq_def grant_scope_uniq_def
  user_group_uniq_def user_group_member_uniq_def enroll_token_uniq_def issued_uniq_def

subsection \<open>The database and the world of a service call\<close>

text \<open>One table per entity, as \<open>allEntities\<close> lists them for \<open>AutoMigrate\<close>.\<close>

record database =
  db_users :: "user tbl"
  db_refresh_tokens :: "refresh_token tbl"
  db_clusters :: "cluster tbl"
  db_audit_logs :: "audit_log tbl"
  db_roles :: "role tbl"
  db_role_groups :: "role_group tbl"
  db_role_group_roles :: "role_group_role tbl"
  db_grants :: "grant tbl"
  db_grant_scopes :: "grant_scope tbl"
  db_user_groups :: "user_group tbl"
  db_user_group_members :: "user_group_member tbl"
  db_enroll_tokens :: "enroll_token tbl"
  db_issued :: "issued_kubeconfig tbl"

definition empty_db :: database where
  "empty_db = \<lparr>db_users = tbl_empty, db_refresh_tokens = tbl_empty, db_clusters = tbl_empty,
     db_audit_logs = tbl_empty, db_roles = tbl_empty, db_role_groups = tbl_empty,
     db_role_group_roles = tbl_empty, db_grants = tbl_empty, db_grant_scopes = tbl_empty,
     db_user_groups = tbl_empty, db_user_group_members = tbl_empty, db_enroll_tokens = tbl_empty,
     db_issued = tbl_empty\<rparr>"

definition db_wf :: "database \<Rightarrow> bool" where
  "db_wf d \<longleftrightarrow> tbl_wf u_id user_uniq (db_users d) \<and>
     tbl_wf rt_id refresh_token_uniq (db_refresh_tokens d) \<and>
     tbl_wf cl_id cluster_uniq (db_clusters d) \<and>
     tbl_wf al_id audit_log_uniq (db_audit_logs d) \<and>
     tbl_wf ro_id role_uniq (db_roles d) \<and>
     tbl_wf rg_id role_group_uniq (db_role_groups d) \<and>
     tbl_wf rgr_id role_group_role_uniq (db_role_group_roles d) \<and>
     tbl_wf g_id grant_uniq (db_grants d) \<and>
     tbl_wf gs_id grant_scope_uniq (db_grant_scopes d) \<and>
     tbl_wf ug_id user_group_uniq (db_user_groups d) \<and>
     tbl_wf ugm_id user_group_member_uniq (db_user_group_members d) \<and>
     tbl_wf et_id enroll_token_uniq (db_enroll_tokens d) \<and>
     tbl_wf ik_id issued_uniq (db_issued d)"

text \<open>
  \<open>w_faults\<close> is chosen by the environment: its head says whether the next statement is
  refused by the database (lost connection, locked file, cancelled context); an empty list
  means that no further statement is refused. \<open>w_now\<close> is \<open>time.Now()\<close> during the call.
\<close>

record world =
  w_db :: database
  w_faults :: "bool list"
  w_now :: time

type_synonym 'a act = "(world, 'a) gm"

definition fault :: "world \<Rightarrow> bool" where
  "fault w \<longleftrightarrow> w_faults w \<noteq> [] \<and> hd (w_faults w)"

definition tick :: "world \<Rightarrow> world" where
  "tick w = w\<lparr>w_faults := tl (w_faults w)\<rparr>"

definition now :: "time act" where
  "now = (\<lambda>w. (Inr (w_now w), w))"

subsection \<open>Statements\<close>

definition sql_query :: "(database \<Rightarrow> 'a) \<Rightarrow> 'a act" where
  "sql_query f = (\<lambda>w. if fault w then (Inl DriverErr, tick w) else (Inr (f (w_db w)), tick w))"

definition sql_exec :: "(database \<Rightarrow> ('a \<times> database) option) \<Rightarrow> 'a act" where
  "sql_exec f = (\<lambda>w. if fault w then (Inl DriverErr, tick w) else
     (case f (w_db w) of None \<Rightarrow> (Inl DriverErr, tick w)
      | Some (x, d) \<Rightarrow> (Inr x, (tick w)\<lparr>w_db := d\<rparr>)))"

text \<open>\<open>db.Transaction(...)\<close>: an error of the body or of the commit rolls back.\<close>

definition transaction :: "'a act \<Rightarrow> 'a act" where
  "transaction m = (\<lambda>w. case m w of
       (Inl e, w') \<Rightarrow> (Inl e, w'\<lparr>w_db := w_db w\<rparr>)
     | (Inr x, w') \<Rightarrow> if fault w' then (Inl DriverErr, (tick w')\<lparr>w_db := w_db w\<rparr>) else (Inr x, tick w'))"

definition sql_first :: "(database \<Rightarrow> 'r tbl) \<Rightarrow> ('r \<Rightarrow> int) \<Rightarrow> ('r \<Rightarrow> bool) \<Rightarrow> 'r act" where
  "sql_first get rid p = on_result (sql_query (\<lambda>d. tbl_first rid p (get d))) err
     (\<lambda>r. case r of None \<Rightarrow> err (Sentinel RecordNotFound) | Some x \<Rightarrow> ok x)"

definition sql_find :: "(database \<Rightarrow> 'r tbl) \<Rightarrow> ('r \<Rightarrow> int) \<Rightarrow> ('r \<Rightarrow> bool) \<Rightarrow> 'r list act" where
  "sql_find get rid p = sql_query (\<lambda>d. tbl_find rid p (get d))"

definition sql_create :: "(database \<Rightarrow> 'r tbl) \<Rightarrow> (('r tbl \<Rightarrow> 'r tbl) \<Rightarrow> database \<Rightarrow> database) \<Rightarrow>
    (int \<Rightarrow> 'r \<Rightarrow> 'r) \<Rightarrow> ('r \<Rightarrow> 'r \<Rightarrow> bool) \<Rightarrow> 'r \<Rightarrow> 'r act" where
  "sql_create get upd with_id uniq r = sql_exec (\<lambda>d. case tbl_insert with_id uniq r (get d) of
       None \<Rightarrow> None | Some (r', t) \<Rightarrow> Some (r', upd (\<lambda>_. t) d))"

definition sql_create_all :: "(database \<Rightarrow> 'r tbl) \<Rightarrow> (('r tbl \<Rightarrow> 'r tbl) \<Rightarrow> database \<Rightarrow> database) \<Rightarrow>
    (int \<Rightarrow> 'r \<Rightarrow> 'r) \<Rightarrow> ('r \<Rightarrow> 'r \<Rightarrow> bool) \<Rightarrow> 'r list \<Rightarrow> 'r list act" where
  "sql_create_all get upd with_id uniq rs = sql_exec (\<lambda>d. case tbl_insert_all with_id uniq rs (get d) of
       None \<Rightarrow> None | Some (rs', t) \<Rightarrow> Some (rs', upd (\<lambda>_. t) d))"

definition sql_save :: "(database \<Rightarrow> 'r tbl) \<Rightarrow> (('r tbl \<Rightarrow> 'r tbl) \<Rightarrow> database \<Rightarrow> database) \<Rightarrow>
    ('r \<Rightarrow> int) \<Rightarrow> ('r \<Rightarrow> 'r \<Rightarrow> bool) \<Rightarrow> 'r \<Rightarrow> unit act" where
  "sql_save get upd rid uniq r = sql_exec (\<lambda>d. case tbl_save rid uniq r (get d) of
       None \<Rightarrow> None | Some t \<Rightarrow> Some ((), upd (\<lambda>_. t) d))"

text \<open>\<open>Update\<close>, \<open>Updates\<close> and \<open>Delete\<close> return \<open>RowsAffected\<close>.\<close>

definition sql_update :: "(database \<Rightarrow> 'r tbl) \<Rightarrow> (('r tbl \<Rightarrow> 'r tbl) \<Rightarrow> database \<Rightarrow> database) \<Rightarrow>
    ('r \<Rightarrow> bool) \<Rightarrow> ('r \<Rightarrow> 'r) \<Rightarrow> nat act" where
  "sql_update get upd p f = sql_exec (\<lambda>d. Some (tbl_count p (get d), upd (tbl_update p f) d))"

definition sql_delete :: "(database \<Rightarrow> 'r tbl) \<Rightarrow> (('r tbl \<Rightarrow> 'r tbl) \<Rightarrow> database \<Rightarrow> database) \<Rightarrow>
    ('r \<Rightarrow> bool) \<Rightarrow> nat act" where
  "sql_delete get upd p = sql_exec (\<lambda>d. Some (tbl_count p (get d), upd (tbl_delete p) d))"

text \<open>\<open>wrapNotFound\<close> (repos.go).\<close>

definition wrapNotFound :: "gerr \<Rightarrow> string \<Rightarrow> gerr" where
  "wrapNotFound e what = (if errors_is e RecordNotFound then WrapErr what (Sentinel StoreNotFound)
     else WrapErr (''query '' @ what) e)"

definition first_or_not_found :: "string \<Rightarrow> 'r act \<Rightarrow> 'r act" where
  "first_or_not_found what m = on_result m (\<lambda>e. err (wrapNotFound e what)) ok"

text \<open>\<open>if res.RowsAffected == 0 { return fmt.Errorf("what: %w", ErrNotFound) }\<close>\<close>

definition require_rows :: "string \<Rightarrow> nat \<Rightarrow> unit act" where
  "require_rows what n = guard (n \<noteq> 0) (WrapErr what (Sentinel StoreNotFound))"

text \<open>A struct in \<open>Where\<close> compares its non-zero fields only.\<close>

definition nz_int :: "int \<Rightarrow> int \<Rightarrow> bool" where
  "nz_int v x \<longleftrightarrow> v = 0 \<or> x = v"

definition nz_str :: "string \<Rightarrow> string \<Rightarrow> bool" where
  "nz_str v x \<longleftrightarrow> v = '''' \<or> x = v"

text \<open>\<open>Offset(o).Limit(l)\<close>: GORM leaves out a non-positive offset and a negative limit.\<close>

definition sql_page :: "int \<Rightarrow> int \<Rightarrow> 'r list \<Rightarrow> 'r list" where
  "sql_page off lim rs = (let rs' = (if off > 0 then drop (nat off) rs else rs)
     in if lim \<ge> 0 then take (nat lim) rs' else rs')"

text \<open>A zero-valued column with a \<open>default\<close> tag takes the default on \<open>Create\<close>.\<close>

definition with_default :: "string \<Rightarrow> string \<Rightarrow> string" where
  "with_default v d = (if v = '''' then d else v)"

text \<open>\<open>isNotFound\<close> (service/auth.go).\<close>

definition isNotFound :: "gerr \<Rightarrow> bool" where
  "isNotFound e \<longleftrightarrow> errors_is e StoreNotFound"

end
