(* ===== verification/Permissions.thy ===== *)
theory Permissions
  imports Store
begin

text \<open>
  The permission model of the service package (user.go): the permission points, the permission
  sets of the built-in roles, the validation of a point, the seeds of the built-in roles, and
  the JSON text in which a role keeps its points (role.go \<open>encodePermissions\<close> and
  \<open>decodePermissions\<close>, with the part of \<open>encoding/json\<close> they use: arrays of strings).
\<close>

subsection \<open>Permission points (user.go)\<close>

definition PermAll :: string where "PermAll = ''*''"
definition PermClustersRead :: string where "PermClustersRead = ''clusters:read''"
definition PermClustersWrite :: string where "PermClustersWrite = ''clusters:write''"
definition PermUsersManage :: string where "PermUsersManage = ''users:manage''"
definition PermAuditRead :: string where "PermAuditRead = ''audit:read''"
definition PermEnrollManage :: string where "PermEnrollManage = ''enroll-tokens:manage''"
definition PermResourcesRead :: string where "PermResourcesRead = ''resources:read''"
definition PermResourcesWrite :: string where "PermResourcesWrite = ''resources:write''"
definition PermSecretsRead :: string where "PermSecretsRead = ''secrets:read''"
definition PermSecretsReadMask :: string where "PermSecretsReadMask = ''secrets:read-masked''"
definition PermLogsRead :: string where "PermLogsRead = ''logs:read''"
definition PermTerminalUse :: string where "PermTerminalUse = ''terminal:use''"
definition PermEventsRead :: string where "PermEventsRead = ''events:read''"
definition PermMetricsRead :: string where "PermMetricsRead = ''metrics:read''"
definition PermCredentialsIssue :: string where "PermCredentialsIssue = ''credentials:issue''"
definition PermK8sProxyUse :: string where "PermK8sProxyUse = ''k8s-proxy:use''"

lemmas perm_defs = PermAll_def PermClustersRead_def PermClustersWrite_def PermUsersManage_def
  PermAuditRead_def PermEnrollManage_def PermResourcesRead_def PermResourcesWrite_def
  PermSecretsRead_def PermSecretsReadMask_def PermLogsRead_def PermTerminalUse_def
  PermEventsRead_def PermMetricsRead_def PermCredentialsIssue_def PermK8sProxyUse_def

definition RoleAdmin :: string where "RoleAdmin = ''admin''"
definition RoleOperator :: string where "RoleOperator = ''operator''"
definition RoleViewer :: string where "RoleViewer = ''viewer''"

lemmas role_name_defs = RoleAdmin_def RoleOperator_def RoleViewer_def

definition operatorPermissions :: "string list" where
  "operatorPermissions = [PermClustersRead, PermResourcesRead, PermResourcesWrite, PermSecretsRead,
     PermLogsRead, PermTerminalUse, PermEventsRead, PermMetricsRead, PermCredentialsIssue, PermK8sProxyUse]"

definition viewerPermissions :: "string list" where
  "viewerPermissions = [PermClustersRead, PermResourcesRead, PermSecretsReadMask,
     PermLogsRead, PermEventsRead, PermMetricsRead, PermCredentialsIssue, PermK8sProxyUse]"

text \<open>\<open>dedupStrings\<close>: keeps the first occurrence of each string, in order.\<close>

fun dedup_from :: "string list \<Rightarrow> string list \<Rightarrow> string list" where
  "dedup_from seen [] = []"
| "dedup_from seen (s # xs) = (if s \<in> set seen then dedup_from seen xs else s # dedup_from (s # seen) xs)"

definition dedupStrings :: "string list \<Rightarrow> string list" where
  "dedupStrings xs = dedup_from [] xs"

definition AllPermissionPoints :: "string list" where
  "AllPermissionPoints = dedupStrings (operatorPermissions @ viewerPermissions @
     [PermUsersManage, PermAuditRead, PermEnrollManage])"

definition validPermissionPoint :: "string \<Rightarrow> bool" where
  "validPermissionPoint p \<longleftrightarrow> p = PermAll \<or> list_ex (\<lambda>known. p = known) AllPermissionPoints"

definition PermissionsFor :: "string \<Rightarrow> string list" where
  "PermissionsFor r = (if r = RoleAdmin then [PermAll]
     else if r = RoleOperator then operatorPermissions
     else if r = RoleViewer then viewerPermissions else [])"

lemma set_dedup_from: "set (dedup_from seen xs) = set xs - set seen"
  by (induction xs arbitrary: seen) auto

lemma distinct_dedup_from: "distinct (dedup_from seen xs)"
  by (induction xs arbitrary: seen) (auto simp: set_dedup_from)

lemma set_AllPermissionPoints: "set AllPermissionPoints =
  set operatorPermissions \<union> set viewerPermissions \<union> {PermUsersManage, PermAuditRead, PermEnrollManage}"
  by (simp add: AllPermissionPoints_def dedupStrings_def set_dedup_from Un_assoc)

subsection \<open>JSON arrays of strings\<close>

text \<open>
  \<open>json.Marshal\<close> of a \<open>[]string\<close>, with its HTML escaping; a character is a byte of the
  UTF-8 text, and bytes above 127 are copied.
\<close>

definition json_escape_char :: "char \<Rightarrow> string" where
  "json_escape_char c = (let n = (of_char c :: nat) in
     if n = 34 \<or> n = 92 then [CHR 0x5C, c]
     else if n = 8 then [CHR 0x5C, CHR ''b''] else if n = 9 then [CHR 0x5C, CHR ''t'']
     else if n = 10 then [CHR 0x5C, CHR ''n''] else if n = 12 then [CHR 0x5C, CHR ''f'']
     else if n = 13 then [CHR 0x5C, CHR ''r'']
     else if n < 32 \<or> n = 60 \<or> n = 62 \<or> n = 38
     then [CHR 0x5C, CHR ''u'', CHR ''0'', CHR ''0'', hex_digit (n div 16), hex_digit (n mod 16)]
     else [c])"

definition json_quote :: "string \<Rightarrow> string" where
  "json_quote s = CHR 0x22 # concat (map json_escape_char s) @ [CHR 0x22]"

fun json_elems :: "string list \<Rightarrow> string" where
  "json_elems [] = '']''"
| "json_elems (s # ss) = '','' @ json_quote s @ json_elems ss"

fun json_array :: "string list \<Rightarrow> string" where
  "json_array [] = ''[]''"
| "json_array (s # ss) = ''['' @ json_quote s @ json_elems ss"

text \<open>
  \<open>json.Unmarshal\<close> into a \<open>[]string\<close>: white space, escapes, surrogate pairs, \<open>null\<close>
  elements (which leave the empty string) and a \<open>null\<close> document (which leaves \<open>nil\<close>);
  \<open>None\<close> is any error, syntax or type.
\<close>

definition hex_val :: "char \<Rightarrow> nat option" where
  "hex_val c = (let n = (of_char c :: nat) in
     if 48 \<le> n \<and> n \<le> 57 then Some (n - 48)
     else if 97 \<le> n \<and> n \<le> 102 then Some (n - 87)
     else if 65 \<le> n \<and> n \<le> 70 then Some (n - 55) else None)"

fun hex4 :: "string \<Rightarrow> (nat \<times> string) option" where
  "hex4 (a # b # c # d # r) = (case (hex_val a, hex_val b, hex_val c, hex_val d) of
     (Some w, Some x, Some y, Some z) \<Rightarrow> Some (((w * 16 + x) * 16 + y) * 16 + z, r) | _ \<Rightarrow> None)"
| "hex4 _ = None"

definition utf8 :: "nat \<Rightarrow> string" where
  "utf8 r = (if r < 128 then [char_of r]
     else if r < 2048 then [char_of (192 + r div 64), char_of (128 + r mod 64)]
     else if r < 65536 then [char_of (224 + r div 4096), char_of (128 + r div 64 mod 64), char_of (128 + r mod 64)]
     else [char_of (240 + r div 262144), char_of (128 + r div 4096 mod 64),
           char_of (128 + r div 64 mod 64), char_of (128 + r mod 64)])"

definition json_unicode :: "string \<Rightarrow> (string \<times> string) option" where
  "json_unicode cs = (case hex4 cs of None \<Rightarrow> None
     | Some (r, rest) \<Rightarrow>
       if \<not> (55296 \<le> r \<and> r \<le> 57343) then Some (utf8 r, rest)
       else (case (if 55296 \<le> r \<and> r < 56320 \<and> take 2 rest = [CHR 0x5C, CHR ''u''] then hex4 (drop 2 rest) else None) of
           Some (q, rest') \<Rightarrow> if 56320 \<le> q \<and> q \<le> 57343
              then Some (utf8 ((r - 55296) * 1024 + (q - 56320) + 65536), rest')
              else Some (utf8 65533, rest)
         | None \<Rightarrow> Some (utf8 65533, rest)))"

fun json_escape :: "string \<Rightarrow> (string \<times> string) option" where
  "json_escape [] = None"
| "json_escape (c # cs) =
     (if c = CHR 0x22 \<or> c = CHR 0x5C \<or> c = CHR ''/'' then Some ([c], cs)
      else if c = CHR ''b'' then Some ([CHR 0x08], cs) else if c = CHR ''f'' then Some ([CHR 0x0C], cs)
      else if c = CHR ''n'' then Some ([CHR 0x0A], cs) else if c = CHR ''r'' then Some ([CHR 0x0D], cs)
      else if c = CHR ''t'' then Some ([CHR 0x09], cs)
      else if c = CHR ''u'' then json_unicode cs else None)"

lemma hex4_length: "hex4 cs = Some (r, rest) \<Longrightarrow> length rest < length cs"
  by (induction cs rule: hex4.induct) (auto split: option.splits)

lemma json_escape_length: "json_escape cs = Some (s, rest) \<Longrightarrow> length rest < length cs"
proof (induction cs rule: json_escape.induct)
  case (2 c cs)
  have "length rest < length cs" if "json_unicode cs = Some (s, rest)"
    using that by (force simp: json_unicode_def split: option.splits if_splits prod.splits dest: hex4_length)
  with 2 show ?case by (auto split: if_splits)
qed simp

text \<open>The characters of a string literal after its opening quote, up to the closing one.\<close>

function (sequential) json_string :: "string \<Rightarrow> (string \<times> string) option" where
  "json_string [] = None"
| "json_string (c # cs) =
     (if c = CHR 0x22 then Some ([], cs)
      else if c = CHR 0x5C then (case json_escape cs of None \<Rightarrow> None
         | Some (s, rest) \<Rightarrow> map_option (\<lambda>(t, r). (s @ t, r)) (json_string rest))
      else if (of_char c :: nat) < 32 then None
      else map_option (\<lambda>(t, r). (c # t, r)) (json_string cs))"
  by pat_completeness auto
termination
  by (relation "measure length") (auto dest: json_escape_length)

definition json_space :: "string \<Rightarrow> string" where
  "json_space = dropWhile (\<lambda>c. c \<in> {CHR '' '', CHR 0x09, CHR 0x0A, CHR 0x0D})"

definition json_elem :: "string \<Rightarrow> (string \<times> string) option" where
  "json_elem cs = (case cs of
       [] \<Rightarrow> None
     | c # r \<Rightarrow> if c = CHR 0x22 then json_string r
                else if has_prefix cs ''null'' then Some ([], drop 4 cs) else None)"

text \<open>The elements after the first one; the fuel is the length of the text.\<close>

fun json_more :: "nat \<Rightarrow> string \<Rightarrow> (string list \<times> string) option" where
  "json_more 0 cs = None"
| "json_more (Suc n) cs = (case json_space cs of
       [] \<Rightarrow> None
     | c # r \<Rightarrow> if c = CHR '']'' then Some ([], r)
                else if c = CHR '','' then (case json_elem (json_space r) of None \<Rightarrow> None
                   | Some (s, r') \<Rightarrow> map_option (\<lambda>(ss, t). (s # ss, t)) (json_more n r'))
                else None)"

definition json_strings :: "string \<Rightarrow> string list option" where
  "json_strings cs = (case json_space cs of
       [] \<Rightarrow> None
     | c # r \<Rightarrow>
       if c = CHR ''['' then
         (case (if has_prefix (json_space r) '']'' then Some ([], drop 1 (json_space r))
                else case json_elem (json_space r) of None \<Rightarrow> None
                   | Some (s, r') \<Rightarrow> map_option (\<lambda>(ss, t). (s # ss, t)) (json_more (Suc (length r')) r')) of
            None \<Rightarrow> None
          | Some (ss, t) \<Rightarrow> if json_space t = [] then Some ss else None)
       else if has_prefix (c # r) ''null'' \<and> json_space (drop 4 (c # r)) = [] then Some [] else None)"

definition encodePermissions :: "string list \<Rightarrow> string" where
  "encodePermissions perms = json_array perms"

definition decodePermissions :: "string \<Rightarrow> string list" where
  "decodePermissions raw = (if raw = '''' then [] else
     (case json_strings raw of None \<Rightarrow> [] | Some perms \<Rightarrow> perms))"

text \<open>The UTF-8 bytes of the three descriptions.\<close>

definition admin_description :: string where
  "admin_description =
        [CHR 0xE5, CHR 0xB9, CHR 0xB3, CHR 0xE5, CHR 0x8F, CHR 0xB0, CHR 0xE5, CHR 0x85, CHR 0xA8, CHR 0xE9, CHR 0x83, CHR 0xA8,
         CHR 0xE6, CHR 0x9D, CHR 0x83, CHR 0xE9, CHR 0x99, CHR 0x90, CHR 0x2C, CHR 0xE5, CHR 0x90, CHR 0xAB, CHR 0xE7, CHR 0x94,
         CHR 0xA8, CHR 0xE6, CHR 0x88, CHR 0xB7, CHR 0xE4, CHR 0xB8, CHR 0x8E, CHR 0xE9, CHR 0x9B, CHR 0x86, CHR 0xE7, CHR 0xBE,
         CHR 0xA4, CHR 0xE7, CHR 0xAE, CHR 0xA1, CHR 0xE7, CHR 0x90, CHR 0x86]"

definition operator_description :: string where
  "operator_description =
        [CHR 0xE6, CHR 0x8C, CHR 0x87, CHR 0xE5, CHR 0xAE, CHR 0x9A, CHR 0xE9, CHR 0x9B, CHR 0x86, CHR 0xE7, CHR 0xBE, CHR 0xA4,
         CHR 0xE5, CHR 0x86, CHR 0x85, CHR 0xE8, CHR 0xAF, CHR 0xBB, CHR 0xE5, CHR 0x86, CHR 0x99]"

definition viewer_description :: string where
  "viewer_description =
        [CHR 0xE6, CHR 0x8C, CHR 0x87, CHR 0xE5, CHR 0xAE, CHR 0x9A, CHR 0xE9, CHR 0x9B, CHR 0x86, CHR 0xE7, CHR 0xBE, CHR 0xA4,
         CHR 0xE5, CHR 0x86, CHR 0x85, CHR 0xE5, CHR 0x8F, CHR 0xAA, CHR 0xE8, CHR 0xAF, CHR 0xBB]"

definition BuiltinRoleSeeds :: "role list" where
  "BuiltinRoleSeeds =
     [\<lparr>ro_id = 0, ro_name = RoleAdmin, ro_description = admin_description, ro_builtin = True,
       ro_permissions = [CHR ''['', CHR 0x22] @ PermAll @ [CHR 0x22, CHR '']''], ro_created = 0, ro_updated = 0\<rparr>,
      \<lparr>ro_id = 0, ro_name = RoleOperator, ro_description = operator_description, ro_builtin = True,
       ro_permissions = encodePermissions operatorPermissions, ro_created = 0, ro_updated = 0\<rparr>,
      \<lparr>ro_id = 0, ro_name = RoleViewer, ro_description = viewer_description, ro_builtin = True,
       ro_permissions = encodePermissions viewerPermissions, ro_created = 0, ro_updated = 0\<rparr>]"

subsection \<open>The codec round trip\<close>

definition ascii :: "string \<Rightarrow> bool" where
  "ascii = list_all (\<lambda>c. (of_char c :: nat) < 128)"

lemma hex_val_digit: "k < 16 \<Longrightarrow> hex_val (hex_digit k) = Some k"
  by (auto simp: hex_val_def hex_digit_def Let_def)

lemma json_escape_hex:
  "n < 128 \<Longrightarrow> json_escape (CHR ''u'' # CHR ''0'' # CHR ''0'' # hex_digit (n div 16) # hex_digit (n mod 16) # r)
     = Some ([char_of n], r)"
proof -
  assume n: "n < 128"
  have z: "hex_val CHR ''0'' = Some 0" by (simp add: hex_val_def)
  have "hex4 (CHR ''0'' # CHR ''0'' # hex_digit (n div 16) # hex_digit (n mod 16) # r) = Some (n, r)"
    using n by (simp add: hex_val_digit z)
  with n show ?thesis by (simp add: json_unicode_def utf8_def)
qed

lemma json_string_escape_char:
  assumes "(of_char c :: nat) < 128"
  shows "json_string (json_escape_char c @ r) = map_option (\<lambda>(t, u). (c # t, u)) (json_string r)"
proof -
  define n where "n = (of_char c :: nat)"
  have c: "c = char_of n" by (simp add: n_def)
  have n: "n < 128" using assms by (simp add: n_def)
  have eq: "c = CHR 0x22 \<longleftrightarrow> n = 34" "c = CHR 0x5C \<longleftrightarrow> n = 92"
    unfolding n_def by (auto simp flip: of_char_eq_iff [where 'a = nat])
  have lits: "char_of (34::nat) = CHR 0x22" "char_of (92::nat) = CHR 0x5C" "char_of (8::nat) = CHR 0x08"
    "char_of (9::nat) = CHR 0x09" "char_of (10::nat) = CHR 0x0A" "char_of (12::nat) = CHR 0x0C"
    "char_of (13::nat) = CHR 0x0D"
    by (simp_all add: char_of_def bit_0)
  consider "n = 34" | "n = 92" | "n = 8" | "n = 9" | "n = 10" | "n = 12" | "n = 13"
    | (hex) "n \<notin> {34, 92, 8, 9, 10, 12, 13}" "n < 32 \<or> n = 60 \<or> n = 62 \<or> n = 38"
    | (plain) "32 \<le> n" "n \<notin> {34, 92, 60, 62, 38}"
    by (cases "n < 32") auto
  then show ?thesis
  proof cases
    case hex
    then show ?thesis using n
      by (simp add: json_escape_char_def n_def [symmetric] Let_def json_escape_hex c [symmetric] del: json_escape.simps)
  next
    case plain
    then show ?thesis
      by (simp add: json_escape_char_def n_def [symmetric] Let_def eq)
  qed (use lits c in \<open>simp_all add: json_escape_char_def\<close>)
qed

lemma json_string_quote:
  "ascii s \<Longrightarrow> json_string (concat (map json_escape_char s) @ CHR 0x22 # r) = Some (s, r)"
  by (induction s) (simp_all add: ascii_def json_string_escape_char)

lemma json_elem_quote: "ascii s \<Longrightarrow> json_elem (json_quote s @ r) = Some (s, r)"
  by (simp add: json_elem_def json_quote_def json_string_quote)

lemma json_space_quote: "json_space (json_quote s @ r) = json_quote s @ r"
  by (simp add: json_space_def json_quote_def)

lemma json_more_elems:
  "list_all ascii ss \<Longrightarrow> length ss < n \<Longrightarrow> json_more n (json_elems ss) = Some (ss, [])"
proof (induction ss arbitrary: n)
  case Nil
  then show ?case by (cases n) (simp_all add: json_space_def)
next
  case (Cons s ss)
  then obtain m where n: "n = Suc m" "length ss < m" by (cases n) auto
  have "json_space ('','' @ json_quote s @ json_elems ss) = '','' @ json_quote s @ json_elems ss"
    by (simp add: json_space_def)
  with Cons n show ?case by (simp add: json_space_quote json_elem_quote)
qed

lemma length_json_elems: "length ss < length (json_elems ss)"
  by (induction ss) auto

lemma json_strings_array:
  assumes "list_all ascii ss"
  shows "json_strings (json_array ss) = Some ss"
proof (cases ss)
  case Nil
  then show ?thesis by (simp add: json_strings_def json_space_def)
next
  case (Cons s rest)
  have sp: "json_space (''['' @ r) = ''['' @ r" for r by (simp add: json_space_def)
  have np: "\<not> has_prefix (json_quote s @ json_elems rest) '']''" by (simp add: json_quote_def)
  have "json_more (Suc (length (json_elems rest))) (json_elems rest) = Some (rest, [])"
    using assms Cons length_json_elems [of rest] by (intro json_more_elems) auto
  moreover have "json_space [] = []" by (simp add: json_space_def)
  ultimately show ?thesis
    using assms Cons sp np by (simp add: json_strings_def json_space_quote json_elem_quote)
qed

lemma decode_encode: "list_all ascii ss \<Longrightarrow> decodePermissions (encodePermissions ss) = ss"
proof -
  assume a: "list_all ascii ss"
  have "json_array ss \<noteq> []" by (cases ss) simp_all
  with json_strings_array [OF a] show ?thesis
    by (simp add: decodePermissions_def encodePermissions_def)
qed

lemma valid_point_ascii: "validPermissionPoint p \<Longrightarrow> ascii p"
  by (auto simp: validPermissionPoint_def list_ex_iff set_AllPermissionPoints operatorPermissions_def
      viewerPermissions_def perm_defs ascii_def)

end
