(* ===== verification/Store_Laws.thy ===== *)
theory Store_Laws
  imports Store
begin

text \<open>
  What every statement does to the database: its weakest precondition, with the fault branch,
  and the preservation of well-formedness. The laws are proved once in the locale \<open>db_table\<close>,
  a table placed in the database, and interpreted for each of the thirteen tables.
\<close>

subsection \<open>The world\<close>

lemma tick_fields [simp]: "w_db (tick w) = w_db w" "w_now (tick w) = w_now w"
  "w_faults (tick w) = tl (w_faults w)"
  by (simp_all add: tick_def)

lemma no_faults [simp]: "w_faults w = [] \<Longrightarrow> \<not> fault w" "w_faults w = [] \<Longrightarrow> tick w = w"
  by (simp_all add: fault_def tick_def)

abbreviation on_db :: "(database \<Rightarrow> bool) \<Rightarrow> world \<Rightarrow> bool" where
  "on_db I \<equiv> \<lambda>w. I (w_db w)"

lemma wp_now [wp_rules]: "wp now Q E w = Q (w_now w) w"
  by (simp add: wp_def now_def)

lemma preserves_now [pres_rules]: "preserves I now"
  by (simp add: preserves_def now_def)

lemma wp_sql_query [wp_rules]:
  "wp (sql_query f) Q E w = (if fault w then E DriverErr (tick w) else Q (f (w_db w)) (tick w))"
  by (simp add: wp_def sql_query_def)

lemma preserves_sql_query [pres_rules]: "preserves (on_db I) (sql_query f)"
  by (simp add: preserves_def sql_query_def)

lemma wp_sql_exec [wp_rules]:
  "wp (sql_exec f) Q E w = (if fault w then E DriverErr (tick w) else
     (case f (w_db w) of None \<Rightarrow> E DriverErr (tick w)
      | Some (x, d) \<Rightarrow> Q x ((tick w)\<lparr>w_db := d\<rparr>)))"
  by (simp add: wp_def sql_exec_def split: option.splits prod.splits)

lemma preserves_sql_exec:
  assumes "\<And>d x d'. I d \<Longrightarrow> f d = Some (x, d') \<Longrightarrow> I d'"
  shows "preserves (on_db I) (sql_exec f)"
  using assms by (auto simp: preserves_def sql_exec_def split: option.splits)

lemma wp_transaction [wp_rules]:
  "wp (transaction m) Q E w = wp m
     (\<lambda>x w'. if fault w' then E DriverErr ((tick w')\<lparr>w_db := w_db w\<rparr>) else Q x (tick w'))
     (\<lambda>e w'. E e (w'\<lparr>w_db := w_db w\<rparr>)) w"
  by (simp add: wp_def transaction_def split: prod.splits sum.splits)

lemma preserves_transaction [pres_rules]:
  assumes "preserves (on_db I) m"
  shows "preserves (on_db I) (transaction m)"
proof -
  have "I (w_db w) \<Longrightarrow> m w = (r, w') \<Longrightarrow> I (w_db w')" for w r w'
    using assms by (force simp: preserves_def)
  then show ?thesis
    by (fastforce simp: preserves_def transaction_def split: prod.splits sum.splits)
qed

text \<open>A transaction that reports an error has no effect on the database.\<close>

lemma transaction_atomic:
  "transaction m w = (Inl e, w') \<Longrightarrow> w_db w' = w_db w"
  by (auto simp: transaction_def split: prod.splits sum.splits if_splits)

lemma wp_sql_first [wp_rules]:
  "wp (sql_first get rid p) Q E w = (if fault w then E DriverErr (tick w) else
     (case tbl_first rid p (get (w_db w)) of None \<Rightarrow> E (Sentinel RecordNotFound) (tick w)
      | Some x \<Rightarrow> Q x (tick w)))"
  by (simp add: sql_first_def wp_rules split: option.splits)

lemma wp_sql_find [wp_rules]:
  "wp (sql_find get rid p) Q E w =
     (if fault w then E DriverErr (tick w) else Q (tbl_find rid p (get (w_db w))) (tick w))"
  by (simp add: sql_find_def wp_rules)

lemma preserves_sql_first [pres_rules]: "preserves (on_db I) (sql_first get rid p)"
  unfolding sql_first_def by (intro pres_rules) (auto intro: pres_rules split: option.splits)

lemma preserves_sql_find [pres_rules]: "preserves (on_db I) (sql_find get rid p)"
  unfolding sql_find_def by (intro pres_rules)

lemma wp_sql_create [wp_rules]:
  "wp (sql_create get upd with_id uniq r) Q E w = (if fault w then E DriverErr (tick w) else
     (case tbl_insert with_id uniq r (get (w_db w)) of None \<Rightarrow> E DriverErr (tick w)
      | Some (r', t) \<Rightarrow> Q r' ((tick w)\<lparr>w_db := upd (\<lambda>_. t) (w_db w)\<rparr>)))"
  by (simp add: sql_create_def wp_rules split: option.splits prod.splits)

lemma wp_sql_create_all [wp_rules]:
  "wp (sql_create_all get upd with_id uniq rs) Q E w = (if fault w then E DriverErr (tick w) else
     (case tbl_insert_all with_id uniq rs (get (w_db w)) of None \<Rightarrow> E DriverErr (tick w)
      | Some (rs', t) \<Rightarrow> Q rs' ((tick w)\<lparr>w_db := upd (\<lambda>_. t) (w_db w)\<rparr>)))"
  by (simp add: sql_create_all_def wp_rules split: option.splits prod.splits)

lemma wp_sql_save [wp_rules]:
  "wp (sql_save get upd rid uniq r) Q E w = (if fault w then E DriverErr (tick w) else
     (case tbl_save rid uniq r (get (w_db w)) of None \<Rightarrow> E DriverErr (tick w)
      | Some t \<Rightarrow> Q () ((tick w)\<lparr>w_db := upd (\<lambda>_. t) (w_db w)\<rparr>)))"
  by (simp add: sql_save_def wp_rules split: option.splits prod.splits)

lemma wp_sql_update [wp_rules]:
  "wp (sql_update get upd p f) Q E w = (if fault w then E DriverErr (tick w) else
     Q (tbl_count p (get (w_db w))) ((tick w)\<lparr>w_db := upd (tbl_update p f) (w_db w)\<rparr>))"
  by (simp add: sql_update_def wp_rules)

lemma wp_sql_delete [wp_rules]:
  "wp (sql_delete get upd p) Q E w = (if fault w then E DriverErr (tick w) else
     Q (tbl_count p (get (w_db w))) ((tick w)\<lparr>w_db := upd (tbl_delete p) (w_db w)\<rparr>))"
  by (simp add: sql_delete_def wp_rules)

lemma tbl_count_0 [simp]: "tbl_count p t = 0 \<longleftrightarrow> (\<forall>r \<in> set (trows t). \<not> p r)"
  by (simp add: tbl_count_def filter_empty_conv)

lemma wp_first_or_not_found [wp_rules]:
  "wp (first_or_not_found what m) Q E w = wp m Q (\<lambda>e. E (wrapNotFound e what)) w"
  by (simp add: first_or_not_found_def wp_rules)

lemma preserves_first_or_not_found [pres_rules]:
  "preserves I m \<Longrightarrow> preserves I (first_or_not_found what m)"
  unfolding first_or_not_found_def by (intro pres_rules)

lemma wp_require_rows [wp_rules]:
  "wp (require_rows what n) Q E w =
     (if n \<noteq> 0 then Q () w else E (WrapErr what (Sentinel StoreNotFound)) w)"
  by (simp add: require_rows_def wp_rules)

lemma preserves_require_rows [pres_rules]: "preserves I (require_rows what n)"
  unfolding require_rows_def by (intro pres_rules)

lemma isNotFound_wrapNotFound [simp]:
  "isNotFound (wrapNotFound (Sentinel RecordNotFound) what)"
  "\<not> isNotFound (wrapNotFound DriverErr what)"
  "isNotFound (WrapErr what (Sentinel StoreNotFound))"
  "\<not> isNotFound (WrapErr what DriverErr)" "\<not> isNotFound DriverErr"
  by (simp_all add: isNotFound_def wrapNotFound_def)

lemma From_wrapNotFound [simp]:
  "From (wrapNotFound (Sentinel RecordNotFound) what) = None"
  "From (wrapNotFound DriverErr what) = None"
  by (simp_all add: wrapNotFound_def)

text \<open>Frame rules: a statement on one table keeps every predicate that does not look at it.\<close>

lemma frame_rules:
  assumes "\<And>f d. I d \<Longrightarrow> I (upd f d)"
  shows "preserves (on_db I) (sql_create get upd wi u r)"
    and "preserves (on_db I) (sql_create_all get upd wi u rs)"
    and "preserves (on_db I) (sql_save get upd rid u r)"
    and "preserves (on_db I) (sql_update get upd p g)"
    and "preserves (on_db I) (sql_delete get upd p)"
  unfolding sql_create_def sql_create_all_def sql_save_def sql_update_def sql_delete_def
  using assms by (auto intro!: preserves_sql_exec split: option.splits)

subsection \<open>A table in the database\<close>

locale db_table = sql_table rid with_id uniq
  for rid :: "'r \<Rightarrow> int" and with_id :: "int \<Rightarrow> 'r \<Rightarrow> 'r" and uniq :: "'r \<Rightarrow> 'r \<Rightarrow> bool" +
  fixes get :: "database \<Rightarrow> 'r tbl"
    and upd :: "('r tbl \<Rightarrow> 'r tbl) \<Rightarrow> database \<Rightarrow> database"
  assumes get_wf: "db_wf d \<Longrightarrow> tbl_wf rid uniq (get d)"
    and upd_wf: "db_wf d \<Longrightarrow> tbl_wf rid uniq (f (get d)) \<Longrightarrow> db_wf (upd f d)"
begin

lemma preserves_create: "preserves (on_db db_wf) (sql_create get upd with_id uniq r)"
  unfolding sql_create_def
proof (rule preserves_sql_exec)
  fix d x d'
  assume "db_wf d" and "(case tbl_insert with_id uniq r (get d) of None \<Rightarrow> None
      | Some (r', t) \<Rightarrow> Some (r', upd (\<lambda>_. t) d)) = Some (x, d')"
  then show "db_wf d'"
    by (auto split: option.splits intro: upd_wf insert_wf [OF get_wf])
qed

lemma preserves_create_all: "preserves (on_db db_wf) (sql_create_all get upd with_id uniq rs)"
  unfolding sql_create_all_def
proof (rule preserves_sql_exec)
  fix d x d'
  assume "db_wf d" and "(case tbl_insert_all with_id uniq rs (get d) of None \<Rightarrow> None
      | Some (rs', t) \<Rightarrow> Some (rs', upd (\<lambda>_. t) d)) = Some (x, d')"
  then show "db_wf d'"
    by (auto split: option.splits intro: upd_wf insert_all_wf [OF get_wf])
qed

lemma preserves_save:
  assumes "0 < rid r"
  shows "preserves (on_db db_wf) (sql_save get upd rid uniq r)"
  unfolding sql_save_def
proof (rule preserves_sql_exec)
  fix d x d'
  assume "db_wf d" and "(case tbl_save rid uniq r (get d) of None \<Rightarrow> None
      | Some t \<Rightarrow> Some ((), upd (\<lambda>_. t) d)) = Some (x, d')"
  then show "db_wf d'"
    by (auto split: option.splits intro: upd_wf save_wf [OF get_wf _ assms])
qed

lemma save_ok: "db_wf d \<Longrightarrow> tbl_save rid uniq r (get d) = Some t \<Longrightarrow> 0 < rid r \<Longrightarrow> db_wf (upd (\<lambda>_. t) d)"
  by (rule upd_wf) (auto intro: save_wf [OF get_wf])

lemma first_key_pos: "db_wf d \<Longrightarrow> tbl_first rid p (get d) = Some r \<Longrightarrow> 0 < rid r"
  using get_wf [of d] by (auto simp: tbl_wf_iff dest: tbl_first_SomeD)

lemma preserves_update:
  assumes "\<And>r. rid (f r) = rid r" and "\<And>x y. uniq (f x) y = uniq x y"
  shows "preserves (on_db db_wf) (sql_update get upd p f)"
  unfolding sql_update_def
  by (rule preserves_sql_exec)
    (simp, blast intro: upd_wf update_wf [OF get_wf assms])

lemma preserves_delete: "preserves (on_db db_wf) (sql_delete get upd p)"
  unfolding sql_delete_def
  by (rule preserves_sql_exec) (simp, blast intro: upd_wf delete_wf [OF get_wf])

lemma by_key: "db_wf d \<Longrightarrow>
  tbl_first rid (\<lambda>r. rid r = i) (get d) = Some r \<longleftrightarrow> r \<in> set (trows (get d)) \<and> rid r = i"
  by (rule first_by_key) (rule get_wf)

lemma by_index: "db_wf d \<Longrightarrow> (\<And>x y. p x \<Longrightarrow> p y \<Longrightarrow> uniq x y) \<Longrightarrow>
  tbl_first rid p (get d) = Some r \<longleftrightarrow> r \<in> set (trows (get d)) \<and> p r"
  by (rule first_by_index) (auto intro: get_wf)

lemma key_pos: "db_wf d \<Longrightarrow> r \<in> set (trows (get d)) \<Longrightarrow> 0 < rid r"
  using get_wf [of d] by (auto simp: tbl_wf_iff)

lemma key_le_seq: "db_wf d \<Longrightarrow> r \<in> set (trows (get d)) \<Longrightarrow> rid r \<le> tseq (get d)"
  using get_wf [of d] by (auto simp: tbl_wf_iff)

lemma same_key: "db_wf d \<Longrightarrow> x \<in> set (trows (get d)) \<Longrightarrow> y \<in> set (trows (get d)) \<Longrightarrow>
  rid x = rid y \<Longrightarrow> x = y"
  by (rule key_inj) (rule get_wf)

lemma same_index: "db_wf d \<Longrightarrow> x \<in> set (trows (get d)) \<Longrightarrow> y \<in> set (trows (get d)) \<Longrightarrow>
  uniq x y \<Longrightarrow> x = y"
  by (rule index_key) (rule get_wf)

end

interpretation users: db_table u_id "\<lambda>i. u_id_update (\<lambda>_. i)" user_uniq db_users db_users_update
  by unfold_locales (auto simp: user_uniq_def db_wf_def)

interpretation refresh_tokens: db_table rt_id "\<lambda>i. rt_id_update (\<lambda>_. i)" refresh_token_uniq db_refresh_tokens db_refresh_tokens_update
  by unfold_locales (auto simp: refresh_token_uniq_def db_wf_def)

interpretation clusters: db_table cl_id "\<lambda>i. cl_id_update (\<lambda>_. i)" cluster_uniq db_clusters db_clusters_update
  by unfold_locales (auto simp: cluster_uniq_def db_wf_def)

interpretation audit_logs: db_table al_id "\<lambda>i. al_id_update (\<lambda>_. i)" audit_log_uniq db_audit_logs db_audit_logs_update
  by unfold_locales (auto simp: audit_log_uniq_def db_wf_def)

interpretation roles: db_table ro_id "\<lambda>i. ro_id_update (\<lambda>_. i)" role_uniq db_roles db_roles_update
  by unfold_locales (auto simp: role_uniq_def db_wf_def)

interpretation role_groups: db_table rg_id "\<lambda>i. rg_id_update (\<lambda>_. i)" role_group_uniq db_role_groups db_role_groups_update
  by unfold_locales (auto simp: role_group_uniq_def db_wf_def)

interpretation role_group_roles: db_table rgr_id "\<lambda>i. rgr_id_update (\<lambda>_. i)" role_group_role_uniq db_role_group_roles db_role_group_roles_update
  by unfold_locales (auto simp: role_group_role_uniq_def db_wf_def)

interpretation grants: db_table g_id "\<lambda>i. g_id_update (\<lambda>_. i)" grant_uniq db_grants db_grants_update
  by unfold_locales (auto simp: grant_uniq_def db_wf_def)

interpretation grant_scopes: db_table gs_id "\<lambda>i. gs_id_update (\<lambda>_. i)" grant_scope_uniq db_grant_scopes db_grant_scopes_update
  by unfold_locales (auto simp: grant_scope_uniq_def db_wf_def)

interpretation user_groups: db_table ug_id "\<lambda>i. ug_id_update (\<lambda>_. i)" user_group_uniq db_user_groups db_user_groups_update
  by unfold_locales (auto simp: user_group_uniq_def db_wf_def)

interpretation group_members: db_table ugm_id "\<lambda>i. ugm_id_update (\<lambda>_. i)" user_group_member_uniq db_user_group_members db_user_group_members_update
  by unfold_locales (auto simp: user_group_member_uniq_def db_wf_def)

interpretation enroll_tokens: db_table et_id "\<lambda>i. et_id_update (\<lambda>_. i)" enroll_token_uniq db_enroll_tokens db_enroll_tokens_update
  by unfold_locales (auto simp: enroll_token_uniq_def db_wf_def)

interpretation issued: db_table ik_id "\<lambda>i. ik_id_update (\<lambda>_. i)" issued_uniq db_issued db_issued_update
  by unfold_locales (auto simp: issued_uniq_def db_wf_def)

lemmas table_pres [pres_rules] =
  users.preserves_create users.preserves_delete users.preserves_create_all
  refresh_tokens.preserves_create refresh_tokens.preserves_delete
  refresh_tokens.preserves_create_all clusters.preserves_create clusters.preserves_delete
  clusters.preserves_create_all audit_logs.preserves_create audit_logs.preserves_delete
  audit_logs.preserves_create_all roles.preserves_create roles.preserves_delete
  roles.preserves_create_all role_groups.preserves_create role_groups.preserves_delete
  role_groups.preserves_create_all role_group_roles.preserves_create
  role_group_roles.preserves_delete role_group_roles.preserves_create_all
  grants.preserves_create grants.preserves_delete grants.preserves_create_all
  grant_scopes.preserves_create grant_scopes.preserves_delete
  grant_scopes.preserves_create_all user_groups.preserves_create
  user_groups.preserves_delete user_groups.preserves_create_all
  group_members.preserves_create group_members.preserves_delete
  group_members.preserves_create_all enroll_tokens.preserves_create
  enroll_tokens.preserves_delete enroll_tokens.preserves_create_all
  issued.preserves_create issued.preserves_delete issued.preserves_create_all

end
