(* ===== verification/Store_Rbac.thy ===== *)
theory Store_Rbac
  imports Store_Laws
begin

text \<open>
  The RBAC repositories (store/rbac.go): roles, role groups and their roles, grants and their
  scopes, user groups and their members. Every method is its GORM statements, in order.
\<close>

subsection \<open>RoleRepo\<close>

definition repo_ListRoles :: "role list act" where
  "repo_ListRoles = errorf ''list roles'' (sql_find db_roles ro_id (\<lambda>_. True))"

definition repo_GetRoleByID :: "int \<Rightarrow> role act" where
  "repo_GetRoleByID i = first_or_not_found (''role '' @ itoa i) (sql_first db_roles ro_id (\<lambda>r. ro_id r = i))"

definition repo_GetRoleByName :: "string \<Rightarrow> role act" where
  "repo_GetRoleByName n = first_or_not_found (''role '' @ n) (sql_first db_roles ro_id (\<lambda>r. ro_name r = n))"

definition repo_CreateRole :: "role \<Rightarrow> role act" where
  "repo_CreateRole r = and_then now (\<lambda>t. errorf (''create role '' @ ro_name r)
     (sql_create db_roles db_roles_update (\<lambda>i. ro_id_update (\<lambda>_. i)) role_uniq
        (r\<lparr>ro_created := t, ro_updated := t\<rparr>)))"

definition repo_UpdateRole :: "role \<Rightarrow> unit act" where
  "repo_UpdateRole r = and_then now (\<lambda>t. errorf (''update role '' @ itoa (ro_id r))
     (sql_save db_roles db_roles_update ro_id role_uniq (r\<lparr>ro_updated := t\<rparr>)))"

text \<open>\<open>DELETE FROM grant_scopes WHERE grant_id IN (SELECT id FROM grants WHERE p)\<close>\<close>

definition delete_scopes_of :: "(grant \<Rightarrow> bool) \<Rightarrow> nat act" where
  "delete_scopes_of p = sql_exec (\<lambda>d.
     let sel = (\<lambda>s. \<exists>g \<in> set (trows (db_grants d)). p g \<and> gs_grant s = g_id g) in
     Some (tbl_count sel (db_grant_scopes d), db_grant_scopes_update (tbl_delete sel) d))"

definition repo_DeleteRole :: "int \<Rightarrow> unit act" where
  "repo_DeleteRole i = transaction (
     and_then (errorf (''delete role_group_roles of role '' @ itoa i)
       (sql_delete db_role_group_roles db_role_group_roles_update (\<lambda>m. rgr_role m = i))) (\<lambda>_.
     and_then (errorf (''delete grant_scopes of role '' @ itoa i)
       (delete_scopes_of (\<lambda>g. g_object_type g = ''role'' \<and> g_object_id g = i))) (\<lambda>_.
     and_then (errorf (''delete grants of role '' @ itoa i)
       (sql_delete db_grants db_grants_update (\<lambda>g. g_object_type g = ''role'' \<and> g_object_id g = i))) (\<lambda>_.
     and_then (errorf (''delete role '' @ itoa i)
       (sql_delete db_roles db_roles_update (\<lambda>r. ro_id r = i))) (\<lambda>n.
     require_rows (''role '' @ itoa i) n)))))"

subsection \<open>RoleGroupRepo\<close>

definition repo_ListRoleGroups :: "role_group list act" where
  "repo_ListRoleGroups = errorf ''list role groups'' (sql_find db_role_groups rg_id (\<lambda>_. True))"

definition repo_GetRoleGroupByID :: "int \<Rightarrow> role_group act" where
  "repo_GetRoleGroupByID i = first_or_not_found (''role group '' @ itoa i)
     (sql_first db_role_groups rg_id (\<lambda>g. rg_id g = i))"

definition repo_GetRoleGroupByName :: "string \<Rightarrow> role_group act" where
  "repo_GetRoleGroupByName n = first_or_not_found (''role group '' @ n)
     (sql_first db_role_groups rg_id (\<lambda>g. rg_name g = n))"

definition repo_CreateRoleGroup :: "role_group \<Rightarrow> role_group act" where
  "repo_CreateRoleGroup g = and_then now (\<lambda>t. errorf (''create role group '' @ rg_name g)
     (sql_create db_role_groups db_role_groups_update (\<lambda>i. rg_id_update (\<lambda>_. i)) role_group_uniq
        (g\<lparr>rg_created := t, rg_updated := t\<rparr>)))"

definition repo_UpdateRoleGroup :: "role_group \<Rightarrow> unit act" where
  "repo_UpdateRoleGroup g = and_then now (\<lambda>t. errorf (''update role group '' @ itoa (rg_id g))
     (sql_save db_role_groups db_role_groups_update rg_id role_group_uniq (g\<lparr>rg_updated := t\<rparr>)))"

definition repo_DeleteRoleGroup :: "int \<Rightarrow> unit act" where
  "repo_DeleteRoleGroup i = transaction (
     and_then (errorf (''delete grant_scopes of role group '' @ itoa i)
       (delete_scopes_of (\<lambda>g. g_object_type g = ''role_group'' \<and> g_object_id g = i))) (\<lambda>_.
     and_then (errorf (''delete grants of role group '' @ itoa i)
       (sql_delete db_grants db_grants_update (\<lambda>g. g_object_type g = ''role_group'' \<and> g_object_id g = i))) (\<lambda>_.
     and_then (errorf (''delete roles of role group '' @ itoa i)
       (sql_delete db_role_group_roles db_role_group_roles_update (\<lambda>m. rgr_group m = i))) (\<lambda>_.
     and_then (errorf (''delete role group '' @ itoa i)
       (sql_delete db_role_groups db_role_groups_update (\<lambda>g. rg_id g = i))) (\<lambda>n.
     require_rows (''role group '' @ itoa i) n)))))"

definition group_roles :: "database \<Rightarrow> int \<Rightarrow> role list" where
  "group_roles d i = sort_key ro_id
     (concat (map (\<lambda>r. map (\<lambda>m. r) (filter (\<lambda>m. rgr_role m = ro_id r \<and> rgr_group m = i)
        (trows (db_role_group_roles d)))) (trows (db_roles d))))"

definition repo_ListGroupRoles :: "int \<Rightarrow> role list act" where
  "repo_ListGroupRoles i = errorf (''list roles of role group '' @ itoa i) (sql_query (\<lambda>d. group_roles d i))"

definition repo_AddGroupRole :: "int \<Rightarrow> int \<Rightarrow> unit act" where
  "repo_AddGroupRole gid rid = and_then now (\<lambda>t.
     errorf (''add role '' @ itoa rid @ '' to role group '' @ itoa gid)
       (and_then (sql_find db_role_group_roles rgr_id (\<lambda>m. nz_int gid (rgr_group m) \<and> nz_int rid (rgr_role m)))
         (\<lambda>ms. if ms \<noteq> [] then ok () else
            and_then (sql_create db_role_group_roles db_role_group_roles_update
                (\<lambda>i. rgr_id_update (\<lambda>_. i)) role_group_role_uniq
                \<lparr>rgr_id = 0, rgr_group = gid, rgr_role = rid, rgr_created = t\<rparr>) (\<lambda>_. ok ()))))"

definition repo_RemoveGroupRole :: "int \<Rightarrow> int \<Rightarrow> unit act" where
  "repo_RemoveGroupRole gid rid =
     and_then (errorf (''remove role '' @ itoa rid @ '' from role group '' @ itoa gid)
       (sql_delete db_role_group_roles db_role_group_roles_update (\<lambda>m. rgr_group m = gid \<and> rgr_role m = rid)))
     (require_rows (''role '' @ itoa rid @ '' in role group '' @ itoa gid))"

subsection \<open>GrantRepo\<close>

record grant_filter =
  gf_subject_type :: string
  gf_subject_id :: int
  gf_object_type :: string
  gf_object_id :: int

definition load_grant :: "grant_scope list \<Rightarrow> grant \<Rightarrow> loaded_grant" where
  "load_grant ss g = grant.extend g (loaded_grant.fields (filter (\<lambda>s. gs_grant s = g_id g) ss))"

text \<open>\<open>grantPreloads\<close>: one more query for the scopes of the grants found, if there are any.\<close>

definition preload_scopes :: "grant list \<Rightarrow> loaded_grant list act" where
  "preload_scopes gs = (if gs = [] then ok [] else
     and_then (sql_find db_grant_scopes gs_id (\<lambda>s. gs_grant s \<in> set (map g_id gs)))
       (\<lambda>ss. ok (map (load_grant ss) gs)))"

definition repo_ListGrants :: "grant_filter \<Rightarrow> loaded_grant list act" where
  "repo_ListGrants f = errorf ''list grants''
     (and_then (sql_find db_grants g_id (\<lambda>g. nz_str (gf_subject_type f) (g_subject_type g) \<and>
          nz_int (gf_subject_id f) (g_subject_id g) \<and> nz_str (gf_object_type f) (g_object_type g) \<and>
          nz_int (gf_object_id f) (g_object_id g)))
       preload_scopes)"

definition repo_GetGrantByID :: "int \<Rightarrow> loaded_grant act" where
  "repo_GetGrantByID i = first_or_not_found (''grant '' @ itoa i)
     (and_then (sql_first db_grants g_id (\<lambda>g. g_id g = i)) (\<lambda>g.
      and_then (preload_scopes [g]) (\<lambda>ls. ok (hd ls))))"

definition repo_GetGrant :: "string \<Rightarrow> int \<Rightarrow> string \<Rightarrow> int \<Rightarrow> grant act" where
  "repo_GetGrant st sid ot oid = first_or_not_found ''grant''
     (sql_first db_grants g_id (\<lambda>g. nz_str st (g_subject_type g) \<and> nz_int sid (g_subject_id g) \<and>
        nz_str ot (g_object_type g) \<and> nz_int oid (g_object_id g)))"

text \<open>\<open>Create\<close> of a grant with scopes: the grant, then its scopes, in one transaction.\<close>

definition repo_CreateGrant :: "grant \<Rightarrow> (string \<times> string) list \<Rightarrow> grant act" where
  "repo_CreateGrant g scopes = and_then now (\<lambda>t. errorf ''create grant'' (transaction (
     and_then (sql_create db_grants db_grants_update (\<lambda>i. g_id_update (\<lambda>_. i)) grant_uniq
        (g\<lparr>g_subject_type := with_default (g_subject_type g) ''user'',
           g_object_type := with_default (g_object_type g) ''role'', g_created := t\<rparr>)) (\<lambda>g'.
     if scopes = [] then ok g' else
     and_then (sql_create_all db_grant_scopes db_grant_scopes_update (\<lambda>i. gs_id_update (\<lambda>_. i)) grant_scope_uniq
        (map (\<lambda>(c, n). \<lparr>gs_id = 0, gs_grant = g_id g', gs_cluster = with_default c ''*'',
                        gs_namespace = with_default n ''*''\<rparr>) scopes)) (\<lambda>_.
     ok g')))))"

definition repo_DeleteGrant :: "int \<Rightarrow> unit act" where
  "repo_DeleteGrant i = transaction (
     and_then (errorf (''delete scopes of grant '' @ itoa i)
       (sql_delete db_grant_scopes db_grant_scopes_update (\<lambda>s. gs_grant s = i))) (\<lambda>_.
     and_then (errorf (''delete grant '' @ itoa i)
       (sql_delete db_grants db_grants_update (\<lambda>g. g_id g = i))) (\<lambda>n.
     require_rows (''grant '' @ itoa i) n)))"

definition grant_applies :: "database \<Rightarrow> int \<Rightarrow> grant \<Rightarrow> bool" where
  "grant_applies d uid g \<longleftrightarrow>
     (g_subject_type g = ''user'' \<and> g_subject_id g = uid) \<or>
     (g_subject_type g = ''group'' \<and>
      g_subject_id g \<in> set (map ugm_group (filter (\<lambda>m. ugm_user m = uid) (trows (db_user_group_members d)))))"

definition repo_GrantsForUser :: "int \<Rightarrow> loaded_grant list act" where
  "repo_GrantsForUser uid = errorf (''list grants of user '' @ itoa uid)
     (and_then (sql_query (\<lambda>d. tbl_find g_id (grant_applies d uid) (db_grants d))) preload_scopes)"

subsection \<open>UserGroupRepo\<close>

definition repo_ListUserGroups :: "user_group list act" where
  "repo_ListUserGroups = errorf ''list user groups'' (sql_find db_user_groups ug_id (\<lambda>_. True))"

definition repo_GetUserGroupByID :: "int \<Rightarrow> user_group act" where
  "repo_GetUserGroupByID i = first_or_not_found (''user group '' @ itoa i)
     (sql_first db_user_groups ug_id (\<lambda>g. ug_id g = i))"

definition repo_GetUserGroupByName :: "string \<Rightarrow> user_group act" where
  "repo_GetUserGroupByName n = first_or_not_found (''user group '' @ n)
     (sql_first db_user_groups ug_id (\<lambda>g. ug_name g = n))"

definition repo_CreateUserGroup :: "user_group \<Rightarrow> user_group act" where
  "repo_CreateUserGroup g = and_then now (\<lambda>t. errorf (''create user group '' @ ug_name g)
     (sql_create db_user_groups db_user_groups_update (\<lambda>i. ug_id_update (\<lambda>_. i)) user_group_uniq
        (g\<lparr>ug_created := t, ug_updated := t\<rparr>)))"

definition repo_UpdateUserGroup :: "user_group \<Rightarrow> unit act" where
  "repo_UpdateUserGroup g = and_then now (\<lambda>t. errorf (''update user group '' @ itoa (ug_id g))
     (sql_save db_user_groups db_user_groups_update ug_id user_group_uniq (g\<lparr>ug_updated := t\<rparr>)))"

definition repo_DeleteUserGroup :: "int \<Rightarrow> unit act" where
  "repo_DeleteUserGroup i = transaction (
     and_then (errorf (''delete grant_scopes of group '' @ itoa i)
       (delete_scopes_of (\<lambda>g. g_subject_type g = ''group'' \<and> g_subject_id g = i))) (\<lambda>_.
     and_then (errorf (''delete grants of group '' @ itoa i)
       (sql_delete db_grants db_grants_update (\<lambda>g. g_subject_type g = ''group'' \<and> g_subject_id g = i))) (\<lambda>_.
     and_then (errorf (''delete members of group '' @ itoa i)
       (sql_delete db_user_group_members db_user_group_members_update (\<lambda>m. ugm_group m = i))) (\<lambda>_.
     and_then (errorf (''delete user group '' @ itoa i)
       (sql_delete db_user_groups db_user_groups_update (\<lambda>g. ug_id g = i))) (\<lambda>n.
     require_rows (''user group '' @ itoa i) n)))))"

definition group_users :: "database \<Rightarrow> int \<Rightarrow> user list" where
  "group_users d i = sort_key u_id
     (concat (map (\<lambda>u. map (\<lambda>m. u) (filter (\<lambda>m. ugm_user m = u_id u \<and> ugm_group m = i)
        (trows (db_user_group_members d)))) (trows (db_users d))))"

definition repo_ListGroupMembers :: "int \<Rightarrow> user list act" where
  "repo_ListGroupMembers i = errorf (''list members of group '' @ itoa i) (sql_query (\<lambda>d. group_users d i))"

definition repo_AddGroupMember :: "int \<Rightarrow> int \<Rightarrow> unit act" where
  "repo_AddGroupMember gid uid = and_then now (\<lambda>t.
     errorf (''add user '' @ itoa uid @ '' to group '' @ itoa gid)
       (and_then (sql_find db_user_group_members ugm_id (\<lambda>m. nz_int gid (ugm_group m) \<and> nz_int uid (ugm_user m)))
         (\<lambda>ms. if ms \<noteq> [] then ok () else
            and_then (sql_create db_user_group_members db_user_group_members_update
                (\<lambda>i. ugm_id_update (\<lambda>_. i)) user_group_member_uniq
                \<lparr>ugm_id = 0, ugm_group = gid, ugm_user = uid, ugm_created = t\<rparr>) (\<lambda>_. ok ()))))"

definition repo_RemoveGroupMember :: "int \<Rightarrow> int \<Rightarrow> unit act" where
  "repo_RemoveGroupMember gid uid =
     and_then (errorf (''remove user '' @ itoa uid @ '' from group '' @ itoa gid)
       (sql_delete db_user_group_members db_user_group_members_update (\<lambda>m. ugm_group m = gid \<and> ugm_user m = uid)))
     (require_rows (''user '' @ itoa uid @ '' in group '' @ itoa gid))"

end
