(* ===== verification/Store_Repos.thy ===== *)
theory Store_Repos
  imports Store_Laws
begin

text \<open>
  The other repositories (store/repos.go): users, refresh tokens, clusters, enrollment tokens,
  issued kubeconfigs and the audit log, and the seeding of the built-in roles. Every method is
  its GORM statements, in order.
\<close>

subsection \<open>UserRepo\<close>

definition repo_CreateUser :: "user \<Rightarrow> user act" where
  "repo_CreateUser u = and_then now (\<lambda>t. errorf (''create user '' @ u_username u)
     (sql_create db_users db_users_update (\<lambda>i. u_id_update (\<lambda>_. i)) user_uniq
        (u\<lparr>u_role := with_default (u_role u) ''viewer'', u_created := t, u_updated := t\<rparr>)))"

definition repo_GetUserByUsername :: "string \<Rightarrow> user act" where
  "repo_GetUserByUsername n = first_or_not_found (''user '' @ n)
     (sql_first db_users u_id (\<lambda>u. u_username u = n))"

definition repo_GetUserByID :: "int \<Rightarrow> user act" where
  "repo_GetUserByID i = first_or_not_found (''user '' @ itoa i)
     (sql_first db_users u_id (\<lambda>u. u_id u = i))"

definition repo_ListUsers :: "int \<Rightarrow> int \<Rightarrow> (user list \<times> int) act" where
  "repo_ListUsers off lim =
     and_then (errorf ''count users'' (sql_query (\<lambda>d. int (tbl_count (\<lambda>_. True) (db_users d))))) (\<lambda>tot.
     and_then (errorf ''list users''
       (sql_query (\<lambda>d. sql_page off lim (tbl_find u_id (\<lambda>_. True) (db_users d))))) (\<lambda>us.
     ok (us, tot)))"

definition repo_UpdateUser :: "user \<Rightarrow> unit act" where
  "repo_UpdateUser u = and_then now (\<lambda>t. errorf (''update user '' @ u_username u)
     (sql_save db_users db_users_update u_id user_uniq (u\<lparr>u_updated := t\<rparr>)))"

definition repo_DeleteUser :: "string \<Rightarrow> unit act" where
  "repo_DeleteUser n = and_then (errorf (''delete user '' @ n)
       (sql_delete db_users db_users_update (\<lambda>u. u_username u = n)))
     (require_rows (''delete user '' @ n))"

subsection \<open>RefreshTokenRepo\<close>

definition repo_CreateRefreshToken :: "refresh_token \<Rightarrow> refresh_token act" where
  "repo_CreateRefreshToken r = and_then now (\<lambda>t. errorf ''create refresh token''
     (sql_create db_refresh_tokens db_refresh_tokens_update (\<lambda>i. rt_id_update (\<lambda>_. i)) refresh_token_uniq
        (r\<lparr>rt_created := t\<rparr>)))"

definition repo_GetRefreshTokenByHash :: "string \<Rightarrow> refresh_token act" where
  "repo_GetRefreshTokenByHash h = first_or_not_found ''refresh token''
     (sql_first db_refresh_tokens rt_id (\<lambda>r. rt_token_hash r = h))"

definition repo_RevokeRefreshToken :: "string \<Rightarrow> unit act" where
  "repo_RevokeRefreshToken h = and_then (errorf ''revoke refresh token''
     (sql_update db_refresh_tokens db_refresh_tokens_update (\<lambda>r. rt_token_hash r = h)
        (rt_revoked_update (\<lambda>_. True)))) (\<lambda>_. ok ())"

definition repo_RevokeAllForUser :: "int \<Rightarrow> unit act" where
  "repo_RevokeAllForUser uid = and_then (errorf (''revoke refresh tokens of user '' @ itoa uid)
     (sql_update db_refresh_tokens db_refresh_tokens_update (\<lambda>r. rt_user_id r = uid)
        (rt_revoked_update (\<lambda>_. True)))) (\<lambda>_. ok ())"

subsection \<open>ClusterRepo\<close>

definition nz_assign :: "string \<Rightarrow> string \<Rightarrow> string" where
  "nz_assign v old = (if v = '''' then old else v)"

text \<open>\<open>Assign(Cluster{...})\<close> writes its non-zero fields only; the zero time is \<open>0\<close>.\<close>

definition assign_cluster :: "cluster \<Rightarrow> cluster \<Rightarrow> cluster" where
  "assign_cluster c x = x\<lparr>
     cl_description := nz_assign (cl_description c) (cl_description x),
     cl_kubeconfig := nz_assign (cl_kubeconfig c) (cl_kubeconfig x),
     cl_access_mode := nz_assign (cl_access_mode c) (cl_access_mode x),
     cl_status := nz_assign (cl_status c) (cl_status x),
     cl_version := nz_assign (cl_version c) (cl_version x),
     cl_message := nz_assign (cl_message c) (cl_message x),
     cl_transition := (if cl_transition c = 0 then cl_transition x else cl_transition c)\<rparr>"

text \<open>\<open>FirstOrCreate\<close> (a query, then an insert or an update of the row found), then \<open>Save\<close>; the
  result is the caller's record, which both fill in.\<close>

definition repo_UpsertCluster :: "cluster \<Rightarrow> cluster act" where
  "repo_UpsertCluster c = and_then now (\<lambda>t.
     and_then (errorf (''upsert cluster '' @ cl_name c)
       (and_then (sql_find db_clusters cl_id
           (\<lambda>x. nz_str (cl_name c) (cl_name x) \<and> nz_int (cl_id c) (cl_id x)))
         (\<lambda>xs. case xs of
            [] \<Rightarrow> sql_create db_clusters db_clusters_update (\<lambda>i. cl_id_update (\<lambda>_. i)) cluster_uniq
                (c\<lparr>cl_access_mode := with_default (cl_access_mode c) ''direct'',
                   cl_status := with_default (cl_status c) ''offline'', cl_created := t, cl_updated := t\<rparr>)
          | x # _ \<Rightarrow> and_then (sql_update db_clusters db_clusters_update (\<lambda>y. cl_id y = cl_id x)
                (\<lambda>y. (assign_cluster c y)\<lparr>cl_updated := t\<rparr>))
              (\<lambda>_. ok ((assign_cluster c x)\<lparr>cl_updated := t\<rparr>))))) (\<lambda>c'.
     and_then (errorf (''save cluster '' @ cl_name c)
       (sql_save db_clusters db_clusters_update cl_id cluster_uniq (c'\<lparr>cl_updated := t\<rparr>))) (\<lambda>_.
     ok (c'\<lparr>cl_updated := t\<rparr>))))"

definition repo_GetClusterByName :: "string \<Rightarrow> cluster act" where
  "repo_GetClusterByName n = first_or_not_found (''cluster '' @ n)
     (sql_first db_clusters cl_id (\<lambda>c. cl_name c = n))"

definition repo_ListClusters :: "cluster list act" where
  "repo_ListClusters = errorf ''list clusters''
     (sql_query (\<lambda>d. sort_key cl_name (trows (db_clusters d))))"

definition repo_DeleteCluster :: "string \<Rightarrow> unit act" where
  "repo_DeleteCluster n = and_then (errorf (''delete cluster '' @ n)
     (sql_delete db_clusters db_clusters_update (\<lambda>c. cl_name c = n))) (\<lambda>_. ok ())"

definition repo_UpdateClusterStatus :: "string \<Rightarrow> string \<Rightarrow> string \<Rightarrow> string \<Rightarrow> unit act" where
  "repo_UpdateClusterStatus n st v msg = and_then now (\<lambda>t.
     and_then (errorf (''update cluster status '' @ n)
       (sql_update db_clusters db_clusters_update (\<lambda>c. cl_name c = n)
         (\<lambda>c. c\<lparr>cl_status := st, cl_version := v, cl_message := msg, cl_transition := t, cl_updated := t\<rparr>)))
     (\<lambda>_. ok ()))"

definition repo_UpdateClusterAccessMode :: "string \<Rightarrow> string \<Rightarrow> unit act" where
  "repo_UpdateClusterAccessMode n mode = and_then now (\<lambda>t.
     and_then (errorf (''update cluster access mode '' @ n)
       (sql_update db_clusters db_clusters_update (\<lambda>c. cl_name c = n)
         (\<lambda>c. c\<lparr>cl_access_mode := mode, cl_updated := t\<rparr>)))
     (\<lambda>_. ok ()))"

subsection \<open>EnrollTokenRepo\<close>

definition repo_CreateEnrollToken :: "enroll_token \<Rightarrow> enroll_token act" where
  "repo_CreateEnrollToken e = and_then now (\<lambda>t. errorf ''create enroll token''
     (sql_create db_enroll_tokens db_enroll_tokens_update (\<lambda>i. et_id_update (\<lambda>_. i)) enroll_token_uniq
        (e\<lparr>et_created := t\<rparr>)))"

definition repo_GetEnrollTokenByHash :: "string \<Rightarrow> enroll_token act" where
  "repo_GetEnrollTokenByHash h = first_or_not_found ''enroll token''
     (sql_first db_enroll_tokens et_id (\<lambda>e. et_token_hash e = h))"

definition repo_ListEnrollTokens :: "enroll_token list act" where
  "repo_ListEnrollTokens = errorf ''list enroll tokens''
     (sql_query (\<lambda>d. rev (tbl_find et_id (\<lambda>_. True) (db_enroll_tokens d))))"

definition repo_RevokeEnrollToken :: "int \<Rightarrow> unit act" where
  "repo_RevokeEnrollToken i = and_then (errorf (''revoke enroll token '' @ itoa i)
       (sql_update db_enroll_tokens db_enroll_tokens_update (\<lambda>e. et_id e = i) (et_revoked_update (\<lambda>_. True))))
     (require_rows (''enroll token '' @ itoa i))"

definition repo_ConsumeEnrollToken :: "int \<Rightarrow> unit act" where
  "repo_ConsumeEnrollToken i = and_then now (\<lambda>t.
     and_then (errorf (''consume enroll token '' @ itoa i)
       (sql_update db_enroll_tokens db_enroll_tokens_update (\<lambda>e. et_id e = i \<and> et_used e = None)
         (et_used_update (\<lambda>_. Some t))))
     (\<lambda>_. ok ()))"

definition repo_DeleteExpiredEnrollTokens :: "time \<Rightarrow> int act" where
  "repo_DeleteExpiredEnrollTokens before = and_then (errorf ''delete expired enroll tokens''
     (sql_delete db_enroll_tokens db_enroll_tokens_update (\<lambda>e. et_expires e < before))) (\<lambda>n. ok (int n))"

subsection \<open>IssuedKubeconfigRepo\<close>

definition repo_CreateIssuedKubeconfig :: "issued_kubeconfig \<Rightarrow> issued_kubeconfig act" where
  "repo_CreateIssuedKubeconfig k = and_then now (\<lambda>t. errorf ''create issued kubeconfig''
     (sql_create db_issued db_issued_update (\<lambda>i. ik_id_update (\<lambda>_. i)) issued_uniq (k\<lparr>ik_created := t\<rparr>)))"

definition repo_GetIssuedKubeconfigByHash :: "string \<Rightarrow> issued_kubeconfig act" where
  "repo_GetIssuedKubeconfigByHash h = first_or_not_found ''issued kubeconfig''
     (sql_first db_issued ik_id (\<lambda>k. ik_token_hash k = h))"

definition repo_GetIssuedKubeconfigByID :: "int \<Rightarrow> issued_kubeconfig act" where
  "repo_GetIssuedKubeconfigByID i = first_or_not_found (''issued kubeconfig '' @ itoa i)
     (sql_first db_issued ik_id (\<lambda>k. ik_id k = i))"

definition repo_ListIssuedKubeconfigsForUser :: "int \<Rightarrow> issued_kubeconfig list act" where
  "repo_ListIssuedKubeconfigsForUser uid = errorf (''list issued kubeconfigs of user '' @ itoa uid)
     (sql_query (\<lambda>d. rev (tbl_find ik_id (\<lambda>k. ik_user_id k = uid) (db_issued d))))"

definition repo_RevokeIssuedKubeconfig :: "int \<Rightarrow> unit act" where
  "repo_RevokeIssuedKubeconfig i = and_then (errorf (''revoke issued kubeconfig '' @ itoa i)
       (sql_update db_issued db_issued_update (\<lambda>k. ik_id k = i) (ik_revoked_update (\<lambda>_. True))))
     (require_rows (''issued kubeconfig '' @ itoa i))"

definition repo_DeleteExpiredIssuedKubeconfigs :: "time \<Rightarrow> int act" where
  "repo_DeleteExpiredIssuedKubeconfigs before = and_then (errorf ''delete expired issued kubeconfigs''
     (sql_delete db_issued db_issued_update (\<lambda>k. ik_expires k < before))) (\<lambda>n. ok (int n))"

subsection \<open>AuditRepo\<close>

record audit_filter =
  af_username :: string
  af_cluster :: string
  af_action :: string

definition audit_matches :: "audit_filter \<Rightarrow> audit_log \<Rightarrow> bool" where
  "audit_matches f a \<longleftrightarrow> nz_str (af_username f) (al_username a) \<and>
     nz_str (af_cluster f) (al_cluster a) \<and> nz_str (af_action f) (al_action a)"

text \<open>The caller's \<open>CreatedAt\<close> is kept when it is set.\<close>

definition repo_CreateAuditLog :: "audit_log \<Rightarrow> audit_log act" where
  "repo_CreateAuditLog a = and_then now (\<lambda>t. errorf ''create audit log''
     (sql_create db_audit_logs db_audit_logs_update (\<lambda>i. al_id_update (\<lambda>_. i)) audit_log_uniq
        (a\<lparr>al_created := (if al_created a = 0 then t else al_created a)\<rparr>)))"

definition repo_ListAuditLogs :: "audit_filter \<Rightarrow> int \<Rightarrow> int \<Rightarrow> (audit_log list \<times> int) act" where
  "repo_ListAuditLogs f off lim =
     and_then (errorf ''count audit logs''
       (sql_query (\<lambda>d. int (tbl_count (audit_matches f) (db_audit_logs d))))) (\<lambda>tot.
     and_then (errorf ''list audit logs''
       (sql_query (\<lambda>d. sql_page off lim (rev (tbl_find al_id (audit_matches f) (db_audit_logs d)))))) (\<lambda>ls.
     ok (ls, tot)))"

subsection \<open>SeedDefaults\<close>

definition seed_role :: "role \<Rightarrow> unit act" where
  "seed_role r = and_then now (\<lambda>t. on_result
     (sql_first db_roles ro_id (\<lambda>x. nz_str (ro_name r) (ro_name x)))
     (\<lambda>e. if errors_is e RecordNotFound
          then and_then (errorf (''seed role '' @ ro_name r)
             (sql_create db_roles db_roles_update (\<lambda>i. ro_id_update (\<lambda>_. i)) role_uniq
                (r\<lparr>ro_created := t, ro_updated := t\<rparr>))) (\<lambda>_. ok ())
          else err (WrapErr (''seed role '' @ ro_name r) e))
     (\<lambda>x. if ro_builtin x \<and> (ro_permissions x = '''' \<or> ro_permissions x = ''[]'' \<or> ro_permissions x = ''null'')
             \<and> ro_permissions r \<noteq> ''''
          then and_then (errorf (''backfill role '' @ ro_name r)
             (sql_update db_roles db_roles_update (\<lambda>y. ro_id y = ro_id x)
                (\<lambda>y. y\<lparr>ro_permissions := ro_permissions r, ro_updated := t\<rparr>))) (\<lambda>_. ok ())
          else ok ()))"

definition SeedDefaults :: "role list \<Rightarrow> unit act" where
  "SeedDefaults rs = and_then (mapM seed_role rs) (\<lambda>_. ok ())"

end
