(* ===== verification/Rbac_Service.thy ===== *)
theory Rbac_Service
  imports Permissions Store_Rbac Store_Repos
begin

text \<open>
  \<open>RoleService\<close> (service/role.go): management of roles, user groups, role groups and grants, and
  the resolution of a user's effective permissions, which the middleware and the handlers ask
  through \<open>Authorize\<close>. Every operation is modelled with its checks in the code's order, its
  error translation, and every statement it sends to the database.
\<close>

subsection \<open>Data transfer objects (model/rbac.go, model/model.go)\<close>

record role_item =
  ri_id :: int
  ri_name :: string
  ri_description :: string
  ri_builtin :: bool
  ri_permissions :: "string list"

record user_dto =
  ud_id :: int
  ud_username :: string
  ud_role :: string
  ud_disabled :: bool
  ud_created :: time
  ud_updated :: time

text \<open>\<open>model.UserGroup\<close> and \<open>model.RoleGroup\<close> have the same fields.\<close>

record group_dto =
  gd_id :: int
  gd_name :: string
  gd_description :: string
  gd_created :: time
  gd_updated :: time

type_synonym scope = "string \<times> string"

record grant_item =
  gi_id :: int
  gi_subject_type :: string
  gi_subject_id :: int
  gi_subject_name :: string
  gi_object_type :: string
  gi_object_id :: int
  gi_object_name :: string
  gi_scopes :: "scope list"
  gi_created :: time

definition SubjectUser :: string where "SubjectUser = ''user''"
definition SubjectGroup :: string where "SubjectGroup = ''group''"
definition ObjectTypeRole :: string where "ObjectTypeRole = ''role''"
definition ObjectTypeRoleGroup :: string where "ObjectTypeRoleGroup = ''role_group''"

lemmas type_defs = SubjectUser_def SubjectGroup_def ObjectTypeRole_def ObjectTypeRoleGroup_def

definition toUserDTO :: "user \<Rightarrow> user_dto" where
  "toUserDTO u = \<lparr>ud_id = u_id u, ud_username = u_username u, ud_role = u_role u,
     ud_disabled = u_disabled u, ud_created = u_created u, ud_updated = u_updated u\<rparr>"

definition roleItemOf :: "role \<Rightarrow> role_item" where
  "roleItemOf r = \<lparr>ri_id = ro_id r, ri_name = ro_name r, ri_description = ro_description r,
     ri_builtin = ro_builtin r, ri_permissions = decodePermissions (ro_permissions r)\<rparr>"

definition userGroupOf :: "user_group \<Rightarrow> group_dto" where
  "userGroupOf g = \<lparr>gd_id = ug_id g, gd_name = ug_name g, gd_description = ug_description g,
     gd_created = ug_created g, gd_updated = ug_updated g\<rparr>"

definition roleGroupOf :: "role_group \<Rightarrow> group_dto" where
  "roleGroupOf g = \<lparr>gd_id = rg_id g, gd_name = rg_name g, gd_description = rg_description g,
     gd_created = rg_created g, gd_updated = rg_updated g\<rparr>"

subsection \<open>The two error translations of the services\<close>

text \<open>\<open>if isNotFound(err) { return errcode.New(code, msg).WithCause(err) }; return err\<close>\<close>

definition not_found_as :: "int \<Rightarrow> string \<Rightarrow> 'a act \<Rightarrow> 'a act" where
  "not_found_as code msg m =
     on_result m (\<lambda>e. if isNotFound e then err (WithCause (New code msg) e) else err e) ok"

text \<open>\<open>if _, err := get(...); err == nil { return errcode.New(code, msg) }\<close>\<close>

definition refuse_existing :: "int \<Rightarrow> string \<Rightarrow> 'a act \<Rightarrow> unit act" where
  "refuse_existing code msg m = on_result m (\<lambda>_. ok ()) (\<lambda>_. err (New code msg))"

lemma wp_not_found_as [wp_rules]: "wp (not_found_as code msg m) Q E w =
  wp m Q (\<lambda>e. E (if isNotFound e then BizErr code msg (Some e) else e)) w"
proof -
  have "wp (not_found_as code msg m) Q E w =
      wp m Q (\<lambda>e s. E (if isNotFound e then BizErr code msg (Some e) else e) s) w"
    unfolding not_found_as_def wp_on_result wp_ok
    by (rule arg_cong [where f = "\<lambda>E'. wp m Q E' w"]) (auto simp: fun_eq_iff wp_rules)
  then show ?thesis .
qed

lemma wp_refuse_existing [wp_rules]:
  "wp (refuse_existing code msg m) Q E w = wp m (\<lambda>_. E (New code msg)) (\<lambda>_. Q ()) w"
  by (simp add: refuse_existing_def wp_rules)

lemma preserves_not_found_as [pres_rules]: "preserves I m \<Longrightarrow> preserves I (not_found_as c t m)"
  unfolding not_found_as_def by (intro pres_rules)

lemma preserves_refuse_existing [pres_rules]: "preserves I m \<Longrightarrow> preserves I (refuse_existing c t m)"
  unfolding refuse_existing_def by (intro pres_rules)

subsection \<open>Validation\<close>

definition validateScopes :: "scope list \<Rightarrow> gerr option" where
  "validateScopes scopes =
     (if scopes = [] then Some (New ParamInvalid ''at least one scope is required'')
      else (case find (\<lambda>(c, n). c = '''' \<or> n = '''' \<or> (c = ''*'' \<and> n \<noteq> ''*'')) scopes of
          None \<Rightarrow> None
        | Some (c, n) \<Rightarrow> Some (New ParamInvalid
            (if c = '''' \<or> n = '''' then ''scope cluster and namespace are required''
             else ''namespace must be '' @ [CHR 0x22] @ ''*'' @ [CHR 0x22] @ '' when cluster is '' @
                  [CHR 0x22] @ ''*'' @ [CHR 0x22]))))"

definition validateSubjectType :: "string \<Rightarrow> gerr option" where
  "validateSubjectType t = (if t = '''' \<or> t = SubjectUser \<or> t = SubjectGroup then None
     else Some (New ParamInvalid ''subjectType must be user or group''))"

definition validateObjectType :: "string \<Rightarrow> gerr option" where
  "validateObjectType t = (if t = '''' \<or> t = ObjectTypeRole \<or> t = ObjectTypeRoleGroup then None
     else Some (New ParamInvalid ''objectType must be role or role_group''))"

definition validatePermissions :: "string list \<Rightarrow> gerr option" where
  "validatePermissions perms = map_option (\<lambda>p. New ParamInvalid (''unknown permission point: '' @ p))
     (find (\<lambda>p. \<not> validPermissionPoint p) perms)"

definition check :: "gerr option \<Rightarrow> unit act" where
  "check r = (case r of None \<Rightarrow> ok () | Some e \<Rightarrow> err e)"

lemma wp_check [wp_rules]: "wp (check r) Q E w = (case r of None \<Rightarrow> Q () w | Some e \<Rightarrow> E e w)"
  by (simp add: check_def wp_rules split: option.splits)

lemma preserves_check [pres_rules]: "preserves I (check r)"
  by (simp add: check_def pres_rules split: option.splits)

text \<open>\<open>scopeMatches\<close>: an empty query side is not compared.\<close>

definition scopeMatches :: "grant_scope list \<Rightarrow> string \<Rightarrow> string \<Rightarrow> bool" where
  "scopeMatches scopes cl ns \<longleftrightarrow>
     (if cl = '''' \<and> ns = '''' then True
      else list_ex (\<lambda>sc. (cl = '''' \<or> gs_cluster sc = ''*'' \<or> gs_cluster sc = cl) \<and>
             (ns = '''' \<or> gs_namespace sc = ''*'' \<or> gs_namespace sc = ns)) scopes)"

subsection \<open>Roles\<close>

definition ListRoles :: "role_item list act" where
  "ListRoles = and_then repo_ListRoles (\<lambda>rs. ok (map roleItemOf rs))"

definition CreateRole :: "string \<Rightarrow> string \<Rightarrow> string list \<Rightarrow> role_item act" where
  "CreateRole name description permissions =
     and_then (guard (name \<noteq> '''') (New ParamInvalid ''role name is required'')) (\<lambda>_.
     and_then (check (validatePermissions permissions)) (\<lambda>_.
     and_then (refuse_existing RoleAlreadyExists ''role name already exists'' (repo_GetRoleByName name)) (\<lambda>_.
     and_then (repo_CreateRole \<lparr>ro_id = 0, ro_name = name, ro_description = description, ro_builtin = False,
         ro_permissions = encodePermissions permissions, ro_created = 0, ro_updated = 0\<rparr>) (\<lambda>r.
     ok (roleItemOf r)))))"

definition UpdateRole :: "int \<Rightarrow> string \<Rightarrow> string \<Rightarrow> string list \<Rightarrow> role_item act" where
  "UpdateRole i name description permissions =
     and_then (not_found_as RoleNotFound ''role not found'' (repo_GetRoleByID i)) (\<lambda>r.
     and_then (guard (\<not> ro_builtin r) (New Forbidden ''built-in role is immutable'')) (\<lambda>_.
     and_then (guard (name \<noteq> '''') (New ParamInvalid ''role name is required'')) (\<lambda>_.
     and_then (check (validatePermissions permissions)) (\<lambda>_.
     and_then (if name \<noteq> ro_name r
        then refuse_existing RoleAlreadyExists ''role name already exists'' (repo_GetRoleByName name)
        else ok ()) (\<lambda>_.
     and_then now (\<lambda>t.
     let r' = r\<lparr>ro_name := name, ro_description := description,
                ro_permissions := encodePermissions permissions\<rparr> in
     and_then (repo_UpdateRole r') (\<lambda>_.
     ok (roleItemOf (r'\<lparr>ro_updated := t\<rparr>)))))))))"

definition DeleteRole :: "int \<Rightarrow> unit act" where
  "DeleteRole i =
     and_then (not_found_as RoleNotFound ''role not found'' (repo_GetRoleByID i)) (\<lambda>r.
     and_then (guard (\<not> ro_builtin r) (New Forbidden ''built-in role cannot be deleted'')) (\<lambda>_.
     repo_DeleteRole i))"

subsection \<open>User groups\<close>

definition ListUserGroups :: "group_dto list act" where
  "ListUserGroups = and_then repo_ListUserGroups (\<lambda>gs. ok (map userGroupOf gs))"

definition CreateUserGroup :: "string \<Rightarrow> string \<Rightarrow> group_dto act" where
  "CreateUserGroup name description =
     and_then (guard (name \<noteq> '''') (New ParamInvalid ''group name is required'')) (\<lambda>_.
     and_then (refuse_existing UserGroupAlreadyExists ''user group name already exists''
        (repo_GetUserGroupByName name)) (\<lambda>_.
     and_then (repo_CreateUserGroup \<lparr>ug_id = 0, ug_name = name, ug_description = description,
         ug_created = 0, ug_updated = 0\<rparr>) (\<lambda>g.
     ok (userGroupOf g))))"

definition UpdateUserGroup :: "int \<Rightarrow> string \<Rightarrow> string \<Rightarrow> group_dto act" where
  "UpdateUserGroup i name description =
     and_then (not_found_as UserGroupNotFound ''user group not found'' (repo_GetUserGroupByID i)) (\<lambda>g.
     and_then (guard (name \<noteq> '''') (New ParamInvalid ''group name is required'')) (\<lambda>_.
     and_then (if name \<noteq> ug_name g
        then refuse_existing UserGroupAlreadyExists ''user group name already exists''
           (repo_GetUserGroupByName name)
        else ok ()) (\<lambda>_.
     and_then now (\<lambda>t.
     let g' = g\<lparr>ug_name := name, ug_description := description\<rparr> in
     and_then (repo_UpdateUserGroup g') (\<lambda>_.
     ok (userGroupOf (g'\<lparr>ug_updated := t\<rparr>)))))))"

definition DeleteUserGroup :: "int \<Rightarrow> unit act" where
  "DeleteUserGroup i =
     and_then (not_found_as UserGroupNotFound ''user group not found'' (repo_GetUserGroupByID i)) (\<lambda>_.
     repo_DeleteUserGroup i)"

definition ListGroupMembers :: "int \<Rightarrow> user_dto list act" where
  "ListGroupMembers gid =
     and_then (not_found_as UserGroupNotFound ''user group not found'' (repo_GetUserGroupByID gid)) (\<lambda>_.
     and_then (repo_ListGroupMembers gid) (\<lambda>us. ok (map toUserDTO us)))"

definition AddGroupMember :: "int \<Rightarrow> int \<Rightarrow> unit act" where
  "AddGroupMember gid uid =
     and_then (not_found_as UserGroupNotFound ''user group not found'' (repo_GetUserGroupByID gid)) (\<lambda>_.
     and_then (not_found_as UserNotFound ''user not found'' (repo_GetUserByID uid)) (\<lambda>_.
     repo_AddGroupMember gid uid))"

definition RemoveGroupMember :: "int \<Rightarrow> int \<Rightarrow> unit act" where
  "RemoveGroupMember gid uid =
     not_found_as NotFound ''user is not a member of the group'' (repo_RemoveGroupMember gid uid)"

subsection \<open>Role groups\<close>

definition ListRoleGroups :: "group_dto list act" where
  "ListRoleGroups = and_then repo_ListRoleGroups (\<lambda>gs. ok (map roleGroupOf gs))"

definition CreateRoleGroup :: "string \<Rightarrow> string \<Rightarrow> group_dto act" where
  "CreateRoleGroup name description =
     and_then (guard (name \<noteq> '''') (New ParamInvalid ''role group name is required'')) (\<lambda>_.
     and_then (refuse_existing RoleAlreadyExists ''role group name already exists''
        (repo_GetRoleGroupByName name)) (\<lambda>_.
     and_then (repo_CreateRoleGroup \<lparr>rg_id = 0, rg_name = name, rg_description = description,
         rg_created = 0, rg_updated = 0\<rparr>) (\<lambda>g.
     ok (roleGroupOf g))))"

definition UpdateRoleGroup :: "int \<Rightarrow> string \<Rightarrow> string \<Rightarrow> group_dto act" where
  "UpdateRoleGroup i name description =
     and_then (not_found_as NotFound ''role group not found'' (repo_GetRoleGroupByID i)) (\<lambda>g.
     and_then (guard (name \<noteq> '''') (New ParamInvalid ''role group name is required'')) (\<lambda>_.
     and_then (if name \<noteq> rg_name g
        then refuse_existing RoleAlreadyExists ''role group name already exists''
           (repo_GetRoleGroupByName name)
        else ok ()) (\<lambda>_.
     and_then now (\<lambda>t.
     let g' = g\<lparr>rg_name := name, rg_description := description\<rparr> in
     and_then (repo_UpdateRoleGroup g') (\<lambda>_.
     ok (roleGroupOf (g'\<lparr>rg_updated := t\<rparr>)))))))"

definition DeleteRoleGroup :: "int \<Rightarrow> unit act" where
  "DeleteRoleGroup i =
     and_then (not_found_as NotFound ''role group not found'' (repo_GetRoleGroupByID i)) (\<lambda>_.
     repo_DeleteRoleGroup i)"

definition ListRoleGroupRoles :: "int \<Rightarrow> role_item list act" where
  "ListRoleGroupRoles gid =
     and_then (not_found_as NotFound ''role group not found'' (repo_GetRoleGroupByID gid)) (\<lambda>_.
     and_then (repo_ListGroupRoles gid) (\<lambda>rs. ok (map roleItemOf rs)))"

definition AddRoleGroupRole :: "int \<Rightarrow> int \<Rightarrow> unit act" where
  "AddRoleGroupRole gid rid =
     and_then (not_found_as NotFound ''role group not found'' (repo_GetRoleGroupByID gid)) (\<lambda>_.
     and_then (not_found_as RoleNotFound ''role not found'' (repo_GetRoleByID rid)) (\<lambda>_.
     repo_AddGroupRole gid rid))"

definition RemoveRoleGroupRole :: "int \<Rightarrow> int \<Rightarrow> unit act" where
  "RemoveRoleGroupRole gid rid =
     and_then (not_found_as NotFound ''role group not found'' (repo_GetRoleGroupByID gid)) (\<lambda>_.
     not_found_as NotFound ''role is not a member of the role group'' (repo_RemoveGroupRole gid rid))"

subsection \<open>Grants\<close>

definition subjectName :: "string \<Rightarrow> int \<Rightarrow> string act" where
  "subjectName st sid =
     (if st = SubjectUser then
        and_then (not_found_as UserNotFound ''user not found'' (repo_GetUserByID sid)) (\<lambda>u. ok (u_username u))
      else if st = SubjectGroup then
        and_then (not_found_as UserGroupNotFound ''user group not found'' (repo_GetUserGroupByID sid))
          (\<lambda>g. ok (ug_name g))
      else err (New ParamInvalid ''subjectType must be user or group''))"

definition objectName :: "string \<Rightarrow> int \<Rightarrow> string act" where
  "objectName ot oid =
     (if ot = ObjectTypeRole then
        and_then (not_found_as RoleNotFound ''role not found'' (repo_GetRoleByID oid)) (\<lambda>r. ok (ro_name r))
      else if ot = ObjectTypeRoleGroup then
        and_then (not_found_as NotFound ''role group not found'' (repo_GetRoleGroupByID oid))
          (\<lambda>g. ok (rg_name g))
      else err (New ParamInvalid ''objectType must be role or role_group''))"

definition checkSubjectExists :: "string \<Rightarrow> int \<Rightarrow> unit act" where
  "checkSubjectExists st sid = and_then (subjectName st sid) (\<lambda>_. ok ())"

definition grantItemOf :: "loaded_grant \<Rightarrow> grant_item act" where
  "grantItemOf g =
     and_then (subjectName (g_subject_type g) (g_subject_id g)) (\<lambda>sn.
     and_then (objectName (g_object_type g) (g_object_id g)) (\<lambda>on.
     ok \<lparr>gi_id = g_id g, gi_subject_type = g_subject_type g, gi_subject_id = g_subject_id g,
         gi_subject_name = sn, gi_object_type = g_object_type g, gi_object_id = g_object_id g,
         gi_object_name = on, gi_scopes = map (\<lambda>s. (gs_cluster s, gs_namespace s)) (g_scopes g),
         gi_created = g_created g\<rparr>))"

definition ListGrants :: "string \<Rightarrow> int \<Rightarrow> string \<Rightarrow> int \<Rightarrow> grant_item list act" where
  "ListGrants st sid ot oid =
     and_then (check (validateSubjectType st)) (\<lambda>_.
     and_then (check (validateObjectType ot)) (\<lambda>_.
     and_then (repo_ListGrants \<lparr>gf_subject_type = st, gf_subject_id = sid, gf_object_type = ot,
         gf_object_id = oid\<rparr>) (\<lambda>gs.
     mapM grantItemOf gs)))"

definition CreateGrant :: "string \<Rightarrow> int \<Rightarrow> string \<Rightarrow> int \<Rightarrow> scope list \<Rightarrow> grant_item act" where
  "CreateGrant st sid ot oid scopes =
     and_then (check (validateSubjectType st)) (\<lambda>_.
     and_then (check (validateObjectType ot)) (\<lambda>_.
     and_then (checkSubjectExists st sid) (\<lambda>_.
     and_then (objectName ot oid) (\<lambda>on.
     and_then (check (validateScopes scopes)) (\<lambda>_.
     and_then (refuse_existing ResourceConflict ''grant already exists'' (repo_GetGrant st sid ot oid)) (\<lambda>_.
     and_then (subjectName st sid) (\<lambda>sn.
     and_then (repo_CreateGrant \<lparr>g_id = 0, g_subject_type = st, g_subject_id = sid,
         g_object_type = ot, g_object_id = oid, g_created = 0\<rparr> scopes) (\<lambda>g.
     ok \<lparr>gi_id = g_id g, gi_subject_type = st, gi_subject_id = sid, gi_subject_name = sn,
         gi_object_type = ot, gi_object_id = oid, gi_object_name = on, gi_scopes = scopes,
         gi_created = g_created g\<rparr>))))))))"

definition DeleteGrant :: "int \<Rightarrow> unit act" where
  "DeleteGrant i = not_found_as NotFound ''grant not found'' (repo_DeleteGrant i)"

subsection \<open>Effective permissions\<close>

definition permissionsForObject :: "string \<Rightarrow> int \<Rightarrow> string list act" where
  "permissionsForObject ot oid =
     (if ot = ObjectTypeRole then
        on_result (repo_GetRoleByID oid) (\<lambda>e. if isNotFound e then ok [] else err e)
          (\<lambda>r. ok (decodePermissions (ro_permissions r)))
      else if ot = ObjectTypeRoleGroup then
        and_then (repo_ListGroupRoles oid)
          (\<lambda>rs. ok (concat (map (\<lambda>r. decodePermissions (ro_permissions r)) rs)))
      else ok [])"

definition EffectivePermissions :: "int \<Rightarrow> string \<Rightarrow> string \<Rightarrow> string \<Rightarrow> string list act" where
  "EffectivePermissions uid builtinRole cl ns =
     (if builtinRole = RoleAdmin then ok [PermAll] else
      and_then (repo_GrantsForUser uid) (\<lambda>gs.
      and_then (mapM (\<lambda>g. if scopeMatches (g_scopes g) cl ns
           then permissionsForObject (g_object_type g) (g_object_id g) else ok []) gs) (\<lambda>pss.
      ok (sort (remdups (PermissionsFor builtinRole @ concat pss))))))"

definition Authorize :: "int \<Rightarrow> string \<Rightarrow> string \<Rightarrow> string \<Rightarrow> string \<Rightarrow> bool act" where
  "Authorize uid builtinRole perm cl ns =
     on_result (EffectivePermissions uid builtinRole cl ns) (\<lambda>_. ok False)
       (\<lambda>ps. ok (list_ex (\<lambda>p. p = PermAll \<or> p = perm) ps))"

end
