(* ===== verification/Rbac_Authz.thy ===== *)
theory Rbac_Authz
  imports Rbac_Service
begin

text \<open>
  What \<open>EffectivePermissions\<close> and \<open>Authorize\<close> promise, as sets over the rows of the database:
  the points of the user's built-in role and of every role reached through a grant to the user,
  or to a group of the user, whose scope covers the request. The implementation agrees with the
  specification when no statement fails, and never grants more when statements fail.
\<close>

subsection \<open>Specification\<close>

definition role_points :: "database \<Rightarrow> int \<Rightarrow> string set" where
  "role_points d i = {p. \<exists>r \<in> set (trows (db_roles d)). ro_id r = i \<and> p \<in> set (decodePermissions (ro_permissions r))}"

definition object_points :: "database \<Rightarrow> string \<Rightarrow> int \<Rightarrow> string set" where
  "object_points d ot oid =
     (if ot = ObjectTypeRole then role_points d oid
      else if ot = ObjectTypeRoleGroup
      then {p. \<exists>m \<in> set (trows (db_role_group_roles d)). rgr_group m = oid \<and> p \<in> role_points d (rgr_role m)}
      else {})"

definition scope_covers :: "string \<Rightarrow> string \<Rightarrow> grant_scope \<Rightarrow> bool" where
  "scope_covers cl ns s \<longleftrightarrow> (cl = '''' \<or> gs_cluster s \<in> {''*'', cl}) \<and> (ns = '''' \<or> gs_namespace s \<in> {''*'', ns})"

definition grant_covers :: "database \<Rightarrow> string \<Rightarrow> string \<Rightarrow> grant \<Rightarrow> bool" where
  "grant_covers d cl ns g \<longleftrightarrow> (cl = '''' \<and> ns = '''') \<or>
     (\<exists>s \<in> set (trows (db_grant_scopes d)). gs_grant s = g_id g \<and> scope_covers cl ns s)"

definition subject_of :: "database \<Rightarrow> int \<Rightarrow> grant \<Rightarrow> bool" where
  "subject_of d uid g \<longleftrightarrow> (g_subject_type g = SubjectUser \<and> g_subject_id g = uid) \<or>
     (g_subject_type g = SubjectGroup \<and> (\<exists>m \<in> set (trows (db_user_group_members d)).
        ugm_user m = uid \<and> ugm_group m = g_subject_id g))"

definition effective :: "database \<Rightarrow> int \<Rightarrow> string \<Rightarrow> string \<Rightarrow> string \<Rightarrow> string set" where
  "effective d uid r cl ns = (if r = RoleAdmin then {PermAll} else
     set (PermissionsFor r) \<union> {p. \<exists>g \<in> set (trows (db_grants d)).
        subject_of d uid g \<and> grant_covers d cl ns g \<and> p \<in> object_points d (g_object_type g) (g_object_id g)})"

definition authorized :: "database \<Rightarrow> int \<Rightarrow> string \<Rightarrow> string \<Rightarrow> string \<Rightarrow> string \<Rightarrow> bool" where
  "authorized d uid r p cl ns \<longleftrightarrow> PermAll \<in> effective d uid r cl ns \<or> p \<in> effective d uid r cl ns"

subsection \<open>Code that only reads\<close>

text \<open>
  \<open>reads d nf m R E\<close>: run on the database \<open>d\<close>, with no faults ahead if \<open>nf\<close>, \<open>m\<close> leaves the
  database alone, returns a value in \<open>R\<close> or an error in \<open>E\<close>.
\<close>

definition quiet :: "database \<Rightarrow> bool \<Rightarrow> world \<Rightarrow> bool" where
  "quiet d nf w \<longleftrightarrow> w_db w = d \<and> (nf \<longrightarrow> w_faults w = [])"

definition reads :: "database \<Rightarrow> bool \<Rightarrow> 'a act \<Rightarrow> ('a \<Rightarrow> bool) \<Rightarrow> (gerr \<Rightarrow> bool) \<Rightarrow> bool" where
  "reads d nf m R E \<longleftrightarrow> (\<forall>w. quiet d nf w \<longrightarrow>
     wp m (\<lambda>x w'. R x \<and> quiet d nf w') (\<lambda>e w'. E e \<and> quiet d nf w') w)"

lemma quiet_tick [simp]: "quiet d nf w \<Longrightarrow> quiet d nf (tick w)"
  by (auto simp: quiet_def tick_def)

lemma quiet_fault [simp]: "quiet d True w \<Longrightarrow> \<not> fault w"
  by (simp add: quiet_def)

lemma readsD: "reads d nf m R E \<Longrightarrow> quiet d nf w \<Longrightarrow>
    wp m (\<lambda>x w'. R x \<and> quiet d nf w') (\<lambda>e w'. E e \<and> quiet d nf w') w"
  by (simp add: reads_def)

lemma reads_mono:
  "reads d nf m R E \<Longrightarrow> (\<And>x. R x \<Longrightarrow> R' x) \<Longrightarrow> (\<And>e. E e \<Longrightarrow> E' e) \<Longrightarrow> reads d nf m R' E'"
  unfolding reads_def by (blast intro: wp_mono)

lemma reads_ok: "R x \<Longrightarrow> reads d nf (ok x) R E"
  by (simp add: reads_def wp_rules)

lemma reads_err: "E e \<Longrightarrow> reads d nf (err e) R E"
  by (simp add: reads_def wp_rules)

lemma reads_on_result:
  assumes "reads d nf m S F" "\<And>e. F e \<Longrightarrow> reads d nf (h e) R E" "\<And>x. S x \<Longrightarrow> reads d nf (k x) R E"
  shows "reads d nf (on_result m h k) R E"
  unfolding reads_def wp_on_result
  using assms by (blast intro: wp_mono [OF readsD] dest: readsD)

lemma reads_and_then:
  assumes "reads d nf m S E" "\<And>x. S x \<Longrightarrow> reads d nf (k x) R E"
  shows "reads d nf (and_then m k) R E"
  unfolding and_then_def by (rule reads_on_result [OF assms(1) reads_err assms(2)])

lemma reads_errorf:
  "reads d nf m R F \<Longrightarrow> (\<And>e. F e \<Longrightarrow> E (WrapErr w e)) \<Longrightarrow> reads d nf (errorf w m) R E"
  unfolding errorf_def by (rule reads_on_result [of _ _ _ R F]) (auto intro: reads_err reads_ok)

lemma reads_query:
  "R (f d) \<Longrightarrow> (\<not> nf \<Longrightarrow> E DriverErr) \<Longrightarrow> reads d nf (sql_query f) R E"
  by (cases nf) (auto simp: reads_def wp_rules, simp_all add: quiet_def)

lemma reads_find:
  "R (tbl_find rid p (get d)) \<Longrightarrow> (\<not> nf \<Longrightarrow> E DriverErr) \<Longrightarrow> reads d nf (sql_find get rid p) R E"
  unfolding sql_find_def by (rule reads_query)

lemma reads_first:
  assumes "\<And>x. tbl_first rid p (get d) = Some x \<Longrightarrow> R x"
    and "tbl_first rid p (get d) = None \<Longrightarrow> E (Sentinel RecordNotFound)" and "\<not> nf \<Longrightarrow> E DriverErr"
  shows "reads d nf (sql_first get rid p) R E"
  unfolding sql_first_def
  by (rule reads_on_result [OF reads_query [where R = "\<lambda>r. r = tbl_first rid p (get d)" and E = "\<lambda>e. e = DriverErr \<and> \<not> nf"]])
    (use assms in \<open>auto intro: reads_err reads_ok split: option.splits\<close>)

lemma reads_mapM:
  assumes "\<And>x. x \<in> set xs \<Longrightarrow> reads d nf (f x) (R x) E"
  shows "reads d nf (mapM f xs) (list_all2 R xs) E"
  using assms
proof (induction xs)
  case (Cons x xs)
  then have "reads d nf (f x) (R x) E" "reads d nf (mapM f xs) (list_all2 R xs) E" by simp_all
  then show ?case
    unfolding mapM.simps by (intro reads_and_then [of _ _ _ "R x"] reads_and_then [of _ _ _ "list_all2 R xs"])
      (auto intro: reads_ok)
qed (simp add: reads_ok)

subsection \<open>The pieces of EffectivePermissions\<close>

lemma scopeMatches_iff: "scopeMatches ss cl ns \<longleftrightarrow>
  (cl = '''' \<and> ns = '''') \<or> (\<exists>s \<in> set ss. scope_covers cl ns s)"
  by (auto simp: scopeMatches_def scope_covers_def list_ex_iff)

lemma grant_applies_iff: "grant_applies d uid g \<longleftrightarrow> subject_of d uid g"
  by (auto simp: grant_applies_def subject_of_def type_defs image_iff)

lemma load_grant_simps [simp]:
  "g_scopes (load_grant ss g) = filter (\<lambda>s. gs_grant s = g_id g) ss"
  "g_object_type (load_grant ss g) = g_object_type g" "g_object_id (load_grant ss g) = g_object_id g"
  "g_id (load_grant ss g) = g_id g" "g_subject_type (load_grant ss g) = g_subject_type g"
  "g_subject_id (load_grant ss g) = g_subject_id g" "g_created (load_grant ss g) = g_created g"
  by (simp_all add: load_grant_def grant.defs loaded_grant.defs)

lemma reads_preload:
  assumes "\<not> nf \<Longrightarrow> E DriverErr"
  shows "reads d nf (preload_scopes gs)
    (\<lambda>ls. ls = map (load_grant (tbl_find gs_id (\<lambda>s. gs_grant s \<in> set (map g_id gs)) (db_grant_scopes d))) gs) E"
proof (cases "gs = []")
  case False
  then show ?thesis
    unfolding preload_scopes_def using assms
    by (auto intro!: reads_and_then [OF reads_find [where R = "\<lambda>ss. ss =
          tbl_find gs_id (\<lambda>s. gs_grant s \<in> g_id ` set gs) (db_grant_scopes d)"]] intro: reads_ok)
qed (simp add: preload_scopes_def reads_ok)

definition user_grants :: "database \<Rightarrow> int \<Rightarrow> grant list" where
  "user_grants d uid = tbl_find g_id (subject_of d uid) (db_grants d)"

definition with_scopes :: "database \<Rightarrow> grant list \<Rightarrow> loaded_grant list" where
  "with_scopes d gs =
     map (load_grant (tbl_find gs_id (\<lambda>s. gs_grant s \<in> set (map g_id gs)) (db_grant_scopes d))) gs"

lemma reads_GrantsForUser:
  "reads d nf (repo_GrantsForUser uid) (\<lambda>ls. ls = with_scopes d (user_grants d uid)) (\<lambda>e. \<not> nf)"
  unfolding repo_GrantsForUser_def grant_applies_iff
  by (intro reads_errorf [where F = "\<lambda>_. \<not> nf"] reads_and_then
      [OF reads_query [where R = "\<lambda>gs. gs = user_grants d uid"]])
    (auto simp: user_grants_def with_scopes_def intro: reads_mono [OF reads_preload])

lemma covers_with_scopes:
  assumes "g \<in> set gs"
  shows "scopeMatches (g_scopes (load_grant (tbl_find gs_id (\<lambda>s. gs_grant s \<in> set (map g_id gs))
           (db_grant_scopes d)) g)) cl ns \<longleftrightarrow> grant_covers d cl ns g"
  using assms by (auto simp: scopeMatches_iff grant_covers_def)

lemma set_group_roles: "set (group_roles d i) =
  {r \<in> set (trows (db_roles d)). \<exists>m \<in> set (trows (db_role_group_roles d)). rgr_role m = ro_id r \<and> rgr_group m = i}"
  by (auto simp: group_roles_def)

lemma reads_GetRoleByID:
  assumes "db_wf d"
  shows "reads d nf (repo_GetRoleByID i) (\<lambda>r. r \<in> set (trows (db_roles d)) \<and> ro_id r = i)
     (\<lambda>e. if isNotFound e then \<forall>r \<in> set (trows (db_roles d)). ro_id r \<noteq> i else \<not> nf)"
  unfolding repo_GetRoleByID_def first_or_not_found_def
  by (rule reads_on_result [OF reads_first
      [where R = "\<lambda>r. r \<in> set (trows (db_roles d)) \<and> ro_id r = i"
        and E = "\<lambda>e. (e = DriverErr \<and> \<not> nf) \<or> (e = Sentinel RecordNotFound \<and>
           (\<forall>r \<in> set (trows (db_roles d)). ro_id r \<noteq> i))"]])
    (auto simp: roles.by_key [OF assms] tbl_first_None intro!: reads_err reads_ok)

lemma role_points_eq:
  assumes "db_wf d" "r \<in> set (trows (db_roles d))"
  shows "role_points d (ro_id r) = set (decodePermissions (ro_permissions r))"
  using roles.same_key [OF assms(1) _ assms(2)] assms(2) by (auto simp: role_points_def)

lemma reads_permissionsForObject:
  assumes wf: "db_wf d"
  shows "reads d nf (permissionsForObject ot oid) (\<lambda>ps. set ps = object_points d ot oid) (\<lambda>e. \<not> nf)"
proof -
  consider (role) "ot = ObjectTypeRole" | (group) "ot = ObjectTypeRoleGroup" "ot \<noteq> ObjectTypeRole"
    | (other) "ot \<noteq> ObjectTypeRole" "ot \<noteq> ObjectTypeRoleGroup" by blast
  then show ?thesis
  proof cases
    case role
    have "reads d nf (on_result (repo_GetRoleByID oid) (\<lambda>e. if isNotFound e then ok [] else err e)
       (\<lambda>r. ok (decodePermissions (ro_permissions r)))) (\<lambda>ps. set ps = role_points d oid) (\<lambda>e. \<not> nf)"
      by (rule reads_on_result [OF reads_GetRoleByID [OF wf]])
        (auto intro!: reads_ok reads_err simp: role_points_eq [OF wf, symmetric],
          auto simp: role_points_def)
    with role show ?thesis by (simp add: permissionsForObject_def object_points_def)
  next
    case group
    have "object_points d ot oid = set (concat (map (\<lambda>r. decodePermissions (ro_permissions r)) (group_roles d oid)))"
      using group by (simp add: object_points_def set_group_roles role_points_def set_eq_iff) (metis (lifting))
    with group show ?thesis
      unfolding permissionsForObject_def repo_ListGroupRoles_def
      by (auto intro!: reads_and_then [OF reads_errorf [OF reads_query
          [where R = "\<lambda>rs. rs = group_roles d oid" and E = "\<lambda>_. \<not> nf"]]] reads_ok)
  next
    case other
    then show ?thesis by (simp add: permissionsForObject_def object_points_def reads_ok)
  qed
qed

lemma set_concat_list_all2:
  "list_all2 (\<lambda>x ys. set ys = F x) xs yss \<Longrightarrow> set (concat yss) = (\<Union>x \<in> set xs. F x)"
  by (induction rule: list_all2_induct) auto

lemma reads_EffectivePermissions:
  assumes wf: "db_wf d"
  shows "reads d nf (EffectivePermissions uid r cl ns)
    (\<lambda>ps. set ps = effective d uid r cl ns \<and> sorted ps \<and> distinct ps) (\<lambda>e. \<not> nf)"
proof (cases "r = RoleAdmin")
  case True
  then show ?thesis by (simp add: EffectivePermissions_def effective_def reads_ok)
next
  case False
  let ?gs = "user_grants d uid"
  define F where "F = (\<lambda>g :: loaded_grant. if scopeMatches (g_scopes g) cl ns
     then object_points d (g_object_type g) (g_object_id g) else {})"
  have un: "(\<Union>g \<in> set (with_scopes d ?gs). F g) = {p. \<exists>g \<in> set (trows (db_grants d)).
      subject_of d uid g \<and> grant_covers d cl ns g \<and> p \<in> object_points d (g_object_type g) (g_object_id g)}"
  proof -
    have "(\<Union>g \<in> set (with_scopes d ?gs). F g) = (\<Union>g \<in> set ?gs. if grant_covers d cl ns g
        then object_points d (g_object_type g) (g_object_id g) else {})"
      unfolding with_scopes_def set_map UN_simps F_def
      by (intro SUP_cong refl) (simp add: covers_with_scopes [simplified])
    also have "\<dots> = {p. \<exists>g \<in> set (trows (db_grants d)). subject_of d uid g \<and>
       grant_covers d cl ns g \<and> p \<in> object_points d (g_object_type g) (g_object_id g)}"
      by (auto simp: user_grants_def split: if_splits)
    finally show ?thesis .
  qed
  have m: "reads d nf (mapM (\<lambda>g. if scopeMatches (g_scopes g) cl ns
        then permissionsForObject (g_object_type g) (g_object_id g) else ok []) (with_scopes d ?gs))
      (list_all2 (\<lambda>g ps. set ps = F g) (with_scopes d ?gs)) (\<lambda>e. \<not> nf)"
    by (rule reads_mapM) (simp add: F_def reads_permissionsForObject [OF wf] reads_ok)
  show ?thesis
    using False unfolding EffectivePermissions_def
    by (auto intro!: reads_and_then [OF reads_GrantsForUser] reads_and_then [OF m] reads_ok
        simp: set_concat_list_all2 [where F = F, simplified] un effective_def)
qed

lemma wp_Authorize:
  assumes wf: "db_wf (w_db w)"
  shows "wp (Authorize uid r p cl ns)
    (\<lambda>b w'. w_db w' = w_db w \<and> (b \<longrightarrow> authorized (w_db w) uid r p cl ns) \<and>
       (w_faults w = [] \<longrightarrow> b = authorized (w_db w) uid r p cl ns)) (\<lambda>_ _. False) w"
proof -
  let ?nf = "w_faults w = []"
  have q: "quiet (w_db w) ?nf w" by (simp add: quiet_def)
  show ?thesis
    unfolding Authorize_def wp_on_result
    by (rule wp_mono [OF readsD [OF reads_EffectivePermissions [OF wf] q]])
      (auto simp: wp_rules quiet_def authorized_def list_ex_iff)
qed

subsection \<open>Properties\<close>

text \<open>The database of the examples: user 7 reaches role 4 through group 2 in namespace \<open>ns1\<close>
  of cluster \<open>c1\<close>, and role 5 through role group 3 in every namespace of \<open>c2\<close>.\<close>

definition demo_db :: database where
  "demo_db = empty_db\<lparr>
     db_users := \<lparr>trows = [\<lparr>u_id = 7, u_username = ''eve'', u_password_hash = ''h'', u_role = ''viewer'',
        u_disabled = False, u_created = 1, u_updated = 1\<rparr>], tseq = 7\<rparr>,
     db_roles := \<lparr>trows = [
        \<lparr>ro_id = 1, ro_name = ''viewer'', ro_description = '''', ro_builtin = True,
         ro_permissions = encodePermissions viewerPermissions, ro_created = 1, ro_updated = 1\<rparr>,
        \<lparr>ro_id = 4, ro_name = ''dev'', ro_description = '''', ro_builtin = False,
         ro_permissions = encodePermissions [''resources:write''], ro_created = 1, ro_updated = 1\<rparr>,
        \<lparr>ro_id = 5, ro_name = ''aud'', ro_description = '''', ro_builtin = False,
         ro_permissions = encodePermissions [''audit:read''], ro_created = 1, ro_updated = 1\<rparr>], tseq = 5\<rparr>,
     db_role_groups := \<lparr>trows = [\<lparr>rg_id = 3, rg_name = ''audit'', rg_description = '''',
        rg_created = 1, rg_updated = 1\<rparr>], tseq = 3\<rparr>,
     db_role_group_roles := \<lparr>trows = [\<lparr>rgr_id = 1, rgr_group = 3, rgr_role = 5, rgr_created = 1\<rparr>], tseq = 1\<rparr>,
     db_user_groups := \<lparr>trows = [\<lparr>ug_id = 2, ug_name = ''team'', ug_description = '''',
        ug_created = 1, ug_updated = 1\<rparr>], tseq = 2\<rparr>,
     db_user_group_members := \<lparr>trows = [\<lparr>ugm_id = 1, ugm_group = 2, ugm_user = 7, ugm_created = 1\<rparr>], tseq = 1\<rparr>,
     db_grants := \<lparr>trows = [
        \<lparr>g_id = 1, g_subject_type = ''group'', g_subject_id = 2, g_object_type = ''role'',
         g_object_id = 4, g_created = 1\<rparr>,
        \<lparr>g_id = 2, g_subject_type = ''user'', g_subject_id = 7, g_object_type = ''role_group'',
         g_object_id = 3, g_created = 1\<rparr>], tseq = 2\<rparr>,
     db_grant_scopes := \<lparr>trows = [
        \<lparr>gs_id = 1, gs_grant = 1, gs_cluster = ''c1'', gs_namespace = ''ns1''\<rparr>,
        \<lparr>gs_id = 2, gs_grant = 2, gs_cluster = ''c2'', gs_namespace = ''*''\<rparr>], tseq = 2\<rparr>\<rparr>"

definition demo :: "bool list \<Rightarrow> world" where
  "demo fs = \<lparr>w_db = demo_db, w_faults = fs, w_now = 100\<rparr>"

text \<open>C1: with a working database, \<open>Authorize\<close> always answers, and its answer is the
  specification: the permission (or the wildcard) belongs to the user's built-in role or to a
  role reached by a grant to the user or to one of the user's groups whose scope covers the
  cluster and namespace of the request. The database is not changed.\<close>

theorem Authorize_exact:
  assumes "db_wf (w_db w)" and "w_faults w = []"
  shows "\<exists>w'. Authorize uid r perm cl ns w = (Inr (authorized (w_db w) uid r perm cl ns), w') \<and>
    w_db w' = w_db w"
  using wp_Authorize [OF assms(1), of uid r perm cl ns] assms(2)
  by (auto simp: wp_def split: prod.splits sum.splits)

lemma Authorize_exact_witness:
  "authorized demo_db 7 ''viewer'' ''resources:write'' ''c1'' ''ns1'' \<and>
   \<not> authorized demo_db 7 ''viewer'' ''resources:write'' ''c1'' ''ns2''"
proof -
  have wf: "db_wf (w_db (demo []))" by code_simp
  have "fst (Authorize 7 ''viewer'' ''resources:write'' ''c1'' ''ns1'' (demo [])) = Inr True" by code_simp
  moreover have "fst (Authorize 7 ''viewer'' ''resources:write'' ''c1'' ''ns2'' (demo [])) = Inr False" by code_simp
  ultimately show ?thesis
    using Authorize_exact [OF wf, of 7 "''viewer''" "''resources:write''" "''c1''" "''ns1''"]
      Authorize_exact [OF wf, of 7 "''viewer''" "''resources:write''" "''c1''" "''ns2''"]
    by (auto simp: demo_def)
qed

text \<open>C2: \<open>Authorize\<close> fails closed. Whatever statements the database refuses, a positive answer
  is only given when the specification grants the permission; it never returns an error.\<close>

theorem Authorize_fail_closed:
  assumes "db_wf (w_db w)" and "Authorize uid r perm cl ns w = (Inr True, w')"
  shows "authorized (w_db w) uid r perm cl ns"
  using wp_InrD [OF wp_Authorize [OF assms(1)] assms(2)] by blast

lemma Authorize_fail_closed_witness:
  "fst (Authorize 7 ''viewer'' ''audit:read'' ''c2'' ''x'' (demo [False, False, False])) = Inr True \<and>
   fst (Authorize 7 ''viewer'' ''audit:read'' ''c2'' ''x'' (demo [False, True])) = Inr False \<and>
   authorized demo_db 7 ''viewer'' ''audit:read'' ''c2'' ''x''"
proof -
  let ?a = "Authorize 7 ''viewer'' ''audit:read'' ''c2'' ''x''"
  have wf: "db_wf (w_db (demo [False, False, False]))" by code_simp
  have a: "fst (?a (demo [False, False, False])) = Inr True" by code_simp
  have b: "fst (?a (demo [False, True])) = Inr False" by code_simp
  obtain w' where "?a (demo [False, False, False]) = (Inr True, w')"
    using a by (metis prod.collapse)
  from Authorize_fail_closed [OF wf this] a b show ?thesis by (simp add: demo_def)
qed

end
