(* ===== verification/Rbac_Invariant.thy ===== *)
theory Rbac_Invariant
  imports Rbac_Authz
begin

text \<open>
  The RBAC management operations as steps on the database: any operation, with any arguments, at
  any time and with any statements refused, may follow any other. The tables are always
  well-formed, every reference between the RBAC tables points at a row, and the built-in roles
  never change.
\<close>

datatype rbac_op =
    OpCreateRole string string "string list"
  | OpUpdateRole int string string "string list"
  | OpDeleteRole int
  | OpCreateUserGroup string string
  | OpUpdateUserGroup int string string
  | OpDeleteUserGroup int
  | OpAddGroupMember int int
  | OpRemoveGroupMember int int
  | OpCreateRoleGroup string string
  | OpUpdateRoleGroup int string string
  | OpDeleteRoleGroup int
  | OpAddRoleGroupRole int int
  | OpRemoveRoleGroupRole int int
  | OpCreateGrant string int string int "scope list"
  | OpDeleteGrant int

definition ignore :: "'a act \<Rightarrow> unit act" where
  "ignore m = and_then m (\<lambda>_. ok ())"

fun run_op :: "rbac_op \<Rightarrow> unit act" where
  "run_op (OpCreateRole n d ps) = ignore (CreateRole n d ps)"
| "run_op (OpUpdateRole i n d ps) = ignore (UpdateRole i n d ps)"
| "run_op (OpDeleteRole i) = DeleteRole i"
| "run_op (OpCreateUserGroup n d) = ignore (CreateUserGroup n d)"
| "run_op (OpUpdateUserGroup i n d) = ignore (UpdateUserGroup i n d)"
| "run_op (OpDeleteUserGroup i) = DeleteUserGroup i"
| "run_op (OpAddGroupMember g u) = AddGroupMember g u"
| "run_op (OpRemoveGroupMember g u) = RemoveGroupMember g u"
| "run_op (OpCreateRoleGroup n d) = ignore (CreateRoleGroup n d)"
| "run_op (OpUpdateRoleGroup i n d) = ignore (UpdateRoleGroup i n d)"
| "run_op (OpDeleteRoleGroup i) = DeleteRoleGroup i"
| "run_op (OpAddRoleGroupRole g r) = AddRoleGroupRole g r"
| "run_op (OpRemoveRoleGroupRole g r) = RemoveRoleGroupRole g r"
| "run_op (OpCreateGrant st sid ot oid ss) = ignore (CreateGrant st sid ot oid ss)"
| "run_op (OpDeleteGrant i) = DeleteGrant i"

inductive rbac_reach :: "database \<Rightarrow> database \<Rightarrow> bool" for d0 where
  init: "rbac_reach d0 d0"
| step: "rbac_reach d0 d \<Longrightarrow> run_op op \<lparr>w_db = d, w_faults = fs, w_now = t\<rparr> = (r, w') \<Longrightarrow>
    rbac_reach d0 (w_db w')"

subsection \<open>References\<close>

definition ids :: "('r \<Rightarrow> int) \<Rightarrow> 'r tbl \<Rightarrow> int set" where
  "ids rid t = rid ` set (trows t)"

definition grant_refs :: "database \<Rightarrow> grant \<Rightarrow> bool" where
  "grant_refs d g \<longleftrightarrow>
     (g_subject_type g = SubjectUser \<or>
      g_subject_type g = SubjectGroup \<and> g_subject_id g \<in> ids ug_id (db_user_groups d)) \<and>
     (g_object_type g = ObjectTypeRole \<and> g_object_id g \<in> ids ro_id (db_roles d) \<or>
      g_object_type g = ObjectTypeRoleGroup \<and> g_object_id g \<in> ids rg_id (db_role_groups d)) \<and>
     g_id g \<in> gs_grant ` set (trows (db_grant_scopes d))"

definition valid_scope :: "string \<Rightarrow> string \<Rightarrow> bool" where
  "valid_scope c n \<longleftrightarrow> c \<noteq> '''' \<and> n \<noteq> '''' \<and> (c = ''*'' \<longrightarrow> n = ''*'')"

definition refs :: "database \<Rightarrow> bool" where
  "refs d \<longleftrightarrow>
     (\<forall>m \<in> set (trows (db_role_group_roles d)).
        rgr_group m \<in> ids rg_id (db_role_groups d) \<and> rgr_role m \<in> ids ro_id (db_roles d)) \<and>
     (\<forall>m \<in> set (trows (db_user_group_members d)). ugm_group m \<in> ids ug_id (db_user_groups d)) \<and>
     (\<forall>g \<in> set (trows (db_grants d)). grant_refs d g) \<and>
     (\<forall>s \<in> set (trows (db_grant_scopes d)).
        gs_grant s \<in> ids g_id (db_grants d) \<and> valid_scope (gs_cluster s) (gs_namespace s))"

subsection \<open>What the statements do to references\<close>

lemma ids_insert:
  "tbl_insert (\<lambda>i. f (\<lambda>_. i)) uniq r t = Some (r', t') \<Longrightarrow> trows t' = trows t @ [r'] \<and> r' = f (\<lambda>_. tseq t + 1) r"
  by (auto simp: tbl_insert_def Let_def split: if_splits)

lemma ids_save: "tbl_save rid uniq r t = Some t' \<Longrightarrow> ids rid t' = insert (rid r) (ids rid t)"
proof -
  assume s: "tbl_save rid uniq r t = Some t'"
  have f: "rid (if rid x = rid r then r else x) = rid x" for x by simp
  show ?thesis
  proof (cases "list_ex (\<lambda>x. rid x = rid r) (trows t)")
    case True
    then have t': "trows t' = map (\<lambda>x. if rid x = rid r then r else x) (trows t)"
      using s by (auto simp: tbl_save_def split: if_splits)
    have "ids rid t' = ids rid t" unfolding ids_def t' set_map image_image f ..
    moreover have "rid r \<in> ids rid t" using True by (auto simp: ids_def list_ex_iff intro: rev_image_eqI)
    ultimately show ?thesis by blast
  next
    case False
    then show ?thesis using s by (auto simp: tbl_save_def ids_def split: if_splits)
  qed
qed

lemma grant_refs_mono:
  assumes "grant_refs d g" and "ids ug_id (db_user_groups d) \<subseteq> ids ug_id (db_user_groups d')"
    and "ids ro_id (db_roles d) \<subseteq> ids ro_id (db_roles d')"
    and "ids rg_id (db_role_groups d) \<subseteq> ids rg_id (db_role_groups d')"
    and "set (trows (db_grant_scopes d)) \<subseteq> set (trows (db_grant_scopes d'))"
  shows "grant_refs d' g"
  using assms unfolding grant_refs_def by blast

text \<open>Growing a referenced table keeps every reference.\<close>

lemma refs_grow:
  assumes "refs d" and "ids ug_id (db_user_groups d) \<subseteq> ids ug_id (db_user_groups d')"
    and "ids ro_id (db_roles d) \<subseteq> ids ro_id (db_roles d')"
    and "ids rg_id (db_role_groups d) \<subseteq> ids rg_id (db_role_groups d')"
    and "db_grant_scopes d' = db_grant_scopes d" and "db_grants d' = db_grants d"
    and "\<And>m. m \<in> set (trows (db_role_group_roles d')) \<Longrightarrow> m \<notin> set (trows (db_role_group_roles d)) \<Longrightarrow>
      rgr_group m \<in> ids rg_id (db_role_groups d') \<and> rgr_role m \<in> ids ro_id (db_roles d')"
    and "\<And>m. m \<in> set (trows (db_user_group_members d')) \<Longrightarrow> m \<notin> set (trows (db_user_group_members d)) \<Longrightarrow>
      ugm_group m \<in> ids ug_id (db_user_groups d')"
  shows "refs d'"
  unfolding refs_def
proof (intro conjI ballI)
  fix g assume "g \<in> set (trows (db_grants d'))"
  then have "grant_refs d g" using assms(1,6) by (simp add: refs_def)
  then show "grant_refs d' g" by (rule grant_refs_mono) (use assms in auto)
qed (use assms in \<open>auto simp: refs_def\<close>)

lemma refs_insert_row:
  "refs d \<Longrightarrow> tbl_insert (\<lambda>i. ro_id_update (\<lambda>_. i)) u r (db_roles d) = Some (r', t) \<Longrightarrow> refs (db_roles_update (\<lambda>_. t) d)"
  "refs d \<Longrightarrow> tbl_insert (\<lambda>i. ug_id_update (\<lambda>_. i)) v ug (db_user_groups d) = Some (ug', tg) \<Longrightarrow>
     refs (db_user_groups_update (\<lambda>_. tg) d)"
  "refs d \<Longrightarrow> tbl_insert (\<lambda>i. rg_id_update (\<lambda>_. i)) x rg (db_role_groups d) = Some (rg', tr) \<Longrightarrow>
     refs (db_role_groups_update (\<lambda>_. tr) d)"
  by (erule refs_grow; auto simp: ids_def tbl_insert_def Let_def split: if_splits)+

lemma refs_save_row:
  "refs d \<Longrightarrow> tbl_save ro_id u r (db_roles d) = Some t \<Longrightarrow> refs (db_roles_update (\<lambda>_. t) d)"
  "refs d \<Longrightarrow> tbl_save ug_id v ug (db_user_groups d) = Some tg \<Longrightarrow> refs (db_user_groups_update (\<lambda>_. tg) d)"
  "refs d \<Longrightarrow> tbl_save rg_id x rg (db_role_groups d) = Some tr \<Longrightarrow> refs (db_role_groups_update (\<lambda>_. tr) d)"
  by (erule refs_grow; auto simp: ids_save)+

lemma refs_insert_member:
  "tbl_insert (\<lambda>i. ugm_id_update (\<lambda>_. i)) u m (db_user_group_members d) = Some (m', t) \<Longrightarrow>
   refs d \<Longrightarrow> ugm_group m \<in> ids ug_id (db_user_groups d) \<Longrightarrow>
   refs (db_user_group_members_update (\<lambda>_. t) d)"
  "tbl_insert (\<lambda>i. rgr_id_update (\<lambda>_. i)) v n (db_role_group_roles d) = Some (n', tr) \<Longrightarrow>
   refs d \<Longrightarrow> rgr_group n \<in> ids rg_id (db_role_groups d) \<Longrightarrow> rgr_role n \<in> ids ro_id (db_roles d) \<Longrightarrow>
   refs (db_role_group_roles_update (\<lambda>_. tr) d)"
  by (erule refs_grow; auto simp: ids_def tbl_insert_def Let_def split: if_splits)+

text \<open>Removing grants with their scopes, memberships, and then the row nothing refers to.\<close>

lemma refs_remove_grants:
  assumes "refs d" "db_wf d"
  shows "refs (db_grants_update (tbl_delete p) (db_grant_scopes_update
    (tbl_delete (\<lambda>s. \<exists>g \<in> set (trows (db_grants d)). p g \<and> gs_grant s = g_id g)) d))"
proof -
  have same: "g = h" if "g \<in> set (trows (db_grants d))" "h \<in> set (trows (db_grants d))" "g_id g = g_id h" for g h
    using grants.same_key [OF assms(2)] that by blast
  show ?thesis
    using assms(1) unfolding refs_def grant_refs_def
    by (auto simp: tbl_delete_def ids_def image_iff dest: same) (metis same)+
qed

lemma refs_remove_memberships:
  "refs d \<Longrightarrow> refs (db_role_group_roles_update (tbl_delete p) d)"
  "refs d \<Longrightarrow> refs (db_user_group_members_update (tbl_delete q) d)"
  by (auto simp: refs_def grant_refs_def tbl_delete_def ids_def)

lemma refs_remove_role:
  assumes "refs d" and "\<And>m. m \<in> set (trows (db_role_group_roles d)) \<Longrightarrow> rgr_role m \<noteq> i"
    and "\<And>g. g \<in> set (trows (db_grants d)) \<Longrightarrow> \<not> (g_object_type g = ObjectTypeRole \<and> g_object_id g = i)"
  shows "refs (db_roles_update (tbl_delete (\<lambda>r. ro_id r = i)) d)"
  using assms by (fastforce simp: refs_def grant_refs_def tbl_delete_def ids_def)

lemma refs_remove_role_group:
  assumes "refs d" and "\<And>m. m \<in> set (trows (db_role_group_roles d)) \<Longrightarrow> rgr_group m \<noteq> i"
    and "\<And>g. g \<in> set (trows (db_grants d)) \<Longrightarrow> \<not> (g_object_type g = ObjectTypeRoleGroup \<and> g_object_id g = i)"
  shows "refs (db_role_groups_update (tbl_delete (\<lambda>r. rg_id r = i)) d)"
  using assms by (fastforce simp: refs_def grant_refs_def tbl_delete_def ids_def)

lemma refs_remove_user_group:
  assumes "refs d" and "\<And>m. m \<in> set (trows (db_user_group_members d)) \<Longrightarrow> ugm_group m \<noteq> i"
    and "\<And>g. g \<in> set (trows (db_grants d)) \<Longrightarrow> \<not> (g_subject_type g = SubjectGroup \<and> g_subject_id g = i)"
  shows "refs (db_user_groups_update (tbl_delete (\<lambda>r. ug_id r = i)) d)"
  using assms by (fastforce simp: refs_def grant_refs_def tbl_delete_def ids_def)

subsection \<open>Every operation keeps the references\<close>

definition keeps :: "(database \<Rightarrow> bool) \<Rightarrow> 'a act \<Rightarrow> bool" where
  "keeps I m \<longleftrightarrow> (\<forall>w. I (w_db w) \<longrightarrow> wp m (\<lambda>_ w'. I (w_db w')) (\<lambda>_ w'. I (w_db w')) w)"

lemma keeps_preserves: "keeps I m \<longleftrightarrow> preserves (on_db I) m"
  by (simp add: keeps_def preserves_wp)

abbreviation sound :: "database \<Rightarrow> bool" where
  "sound d \<equiv> db_wf d \<and> refs d"

lemma CreateRole_sound: "keeps refs (CreateRole n ds ps)"
  by (auto simp: keeps_def CreateRole_def repo_CreateRole_def repo_GetRoleByName_def wp_rules
      refs_insert_row split: option.splits)

lemma CreateGroup_sound: "keeps refs (CreateUserGroup n ds)" "keeps refs (CreateRoleGroup n ds)"
  by (auto simp: keeps_def CreateUserGroup_def CreateRoleGroup_def repo_CreateUserGroup_def
      repo_CreateRoleGroup_def repo_GetUserGroupByName_def repo_GetRoleGroupByName_def wp_rules
      refs_insert_row split: option.splits)

lemma UpdateRole_sound: "keeps refs (UpdateRole i n ds ps)"
  by (auto simp: keeps_def UpdateRole_def repo_UpdateRole_def repo_GetRoleByName_def
      repo_GetRoleByID_def wp_rules Let_def refs_save_row split: option.splits)

lemma UpdateGroup_sound: "keeps refs (UpdateUserGroup i n ds)" "keeps refs (UpdateRoleGroup i n ds)"
  by (auto simp: keeps_def UpdateUserGroup_def UpdateRoleGroup_def repo_UpdateUserGroup_def
      repo_UpdateRoleGroup_def repo_GetUserGroupByName_def repo_GetRoleGroupByName_def
      repo_GetUserGroupByID_def repo_GetRoleGroupByID_def wp_rules Let_def refs_save_row split: option.splits)

lemma first_ids: "tbl_first rid (\<lambda>r. rid r = i) t = Some x \<Longrightarrow> i \<in> ids rid t"
  by (auto simp: ids_def dest!: tbl_first_SomeD)

lemma AddGroupMember_sound: "keeps refs (AddGroupMember g u)"
  by (auto simp: keeps_def AddGroupMember_def repo_AddGroupMember_def repo_GetUserGroupByID_def
      repo_GetUserByID_def wp_rules refs_insert_member first_ids split: option.splits)

lemma AddRoleGroupRole_sound: "keeps refs (AddRoleGroupRole g r)"
  by (auto simp: keeps_def AddRoleGroupRole_def repo_AddGroupRole_def repo_GetRoleGroupByID_def
      repo_GetRoleByID_def wp_rules refs_insert_member first_ids split: option.splits)

lemma RemoveGroupMember_sound: "keeps refs (RemoveGroupMember g u)"
  by (auto simp: keeps_def RemoveGroupMember_def repo_RemoveGroupMember_def wp_rules refs_remove_memberships)

lemma RemoveRoleGroupRole_sound: "keeps refs (RemoveRoleGroupRole g r)"
  by (auto simp: keeps_def RemoveRoleGroupRole_def repo_RemoveGroupRole_def repo_GetRoleGroupByID_def
      wp_rules refs_remove_memberships split: option.splits)

lemma refs_delete_role:
  assumes "refs d" "db_wf d"
  shows "refs (db_roles_update (tbl_delete (\<lambda>r. ro_id r = i)) (db_grants_update
      (tbl_delete (\<lambda>g. g_object_type g = ''role'' \<and> g_object_id g = i)) (db_grant_scopes_update
      (tbl_delete (\<lambda>s. \<exists>g \<in> set (trows (db_grants d)).
         (g_object_type g = ''role'' \<and> g_object_id g = i) \<and> gs_grant s = g_id g))
      (db_role_group_roles_update (tbl_delete (\<lambda>m. rgr_role m = i)) d))))"
proof -
  let ?d = "db_role_group_roles_update (tbl_delete (\<lambda>m. rgr_role m = i)) d"
  let ?p = "\<lambda>g. g_object_type g = ''role'' \<and> g_object_id g = i"
  have "db_wf ?d"
    using assms(2) by (intro role_group_roles.upd_wf role_group_roles.delete_wf role_group_roles.get_wf)
  then have "refs (db_grants_update (tbl_delete ?p) (db_grant_scopes_update (tbl_delete
      (\<lambda>s. \<exists>g \<in> set (trows (db_grants ?d)). ?p g \<and> gs_grant s = g_id g)) ?d))"
    by (intro refs_remove_grants refs_remove_memberships assms(1))
  then show ?thesis
    by (intro refs_remove_role) (auto simp: tbl_delete_def type_defs)
qed

lemma refs_delete_role_group:
  assumes "refs d" "db_wf d"
  shows "refs (db_role_groups_update (tbl_delete (\<lambda>r. rg_id r = i)) (db_role_group_roles_update
      (tbl_delete (\<lambda>m. rgr_group m = i)) (db_grants_update
      (tbl_delete (\<lambda>g. g_object_type g = ''role_group'' \<and> g_object_id g = i)) (db_grant_scopes_update
      (tbl_delete (\<lambda>s. \<exists>g \<in> set (trows (db_grants d)).
         (g_object_type g = ''role_group'' \<and> g_object_id g = i) \<and> gs_grant s = g_id g)) d))))"
  by (rule refs_remove_role_group [OF refs_remove_memberships(1) [OF refs_remove_grants [OF assms]]])
    (auto simp: tbl_delete_def type_defs)

lemma refs_delete_user_group:
  assumes "refs d" "db_wf d"
  shows "refs (db_user_groups_update (tbl_delete (\<lambda>r. ug_id r = i)) (db_user_group_members_update
      (tbl_delete (\<lambda>m. ugm_group m = i)) (db_grants_update
      (tbl_delete (\<lambda>g. g_subject_type g = ''group'' \<and> g_subject_id g = i)) (db_grant_scopes_update
      (tbl_delete (\<lambda>s. \<exists>g \<in> set (trows (db_grants d)).
         (g_subject_type g = ''group'' \<and> g_subject_id g = i) \<and> gs_grant s = g_id g)) d))))"
  by (rule refs_remove_user_group [OF refs_remove_memberships(2) [OF refs_remove_grants [OF assms]]])
    (auto simp: tbl_delete_def type_defs)

lemma wp_delete_scopes_of [wp_rules]:
  "wp (delete_scopes_of p) Q E w = (if fault w then E DriverErr (tick w) else
     (let sel = (\<lambda>s. \<exists>g \<in> set (trows (db_grants (w_db w))). p g \<and> gs_grant s = g_id g) in
      Q (tbl_count sel (db_grant_scopes (w_db w)))
        ((tick w)\<lparr>w_db := db_grant_scopes_update (tbl_delete sel) (w_db w)\<rparr>)))"
  by (simp add: delete_scopes_of_def wp_rules Let_def)

lemma repo_DeleteRole_refs:
  "db_wf (w_db w) \<Longrightarrow> refs (w_db w) \<Longrightarrow>
   wp (repo_DeleteRole i) (\<lambda>_ w'. refs (w_db w')) (\<lambda>_ w'. refs (w_db w')) w"
  by (simp add: repo_DeleteRole_def wp_rules Let_def refs_delete_role [simplified])

lemma repo_DeleteRoleGroup_refs:
  "db_wf (w_db w) \<Longrightarrow> refs (w_db w) \<Longrightarrow>
   wp (repo_DeleteRoleGroup i) (\<lambda>_ w'. refs (w_db w')) (\<lambda>_ w'. refs (w_db w')) w"
  by (simp add: repo_DeleteRoleGroup_def wp_rules Let_def refs_delete_role_group [simplified])

lemma repo_DeleteUserGroup_refs:
  "db_wf (w_db w) \<Longrightarrow> refs (w_db w) \<Longrightarrow>
   wp (repo_DeleteUserGroup i) (\<lambda>_ w'. refs (w_db w')) (\<lambda>_ w'. refs (w_db w')) w"
  by (simp add: repo_DeleteUserGroup_def wp_rules Let_def refs_delete_user_group [simplified])

lemma refs_delete_grant:
  assumes "refs d" "db_wf d" "g \<in> set (trows (db_grants d))" "g_id g = i"
  shows "refs (db_grants_update (tbl_delete (\<lambda>g. g_id g = i))
    (db_grant_scopes_update (tbl_delete (\<lambda>s. gs_grant s = i)) d))"
proof -
  have eq: "(\<lambda>s. \<exists>h \<in> set (trows (db_grants d)). g_id h = i \<and> gs_grant s = g_id h) = (\<lambda>s. gs_grant s = i)"
    using assms(3,4) by auto
  show ?thesis using refs_remove_grants [OF assms(1,2), of "\<lambda>g. g_id g = i"] unfolding eq .
qed

lemma DeleteGrant_refs:
  "db_wf (w_db w) \<Longrightarrow> refs (w_db w) \<Longrightarrow>
   wp (DeleteGrant i) (\<lambda>_ w'. refs (w_db w')) (\<lambda>_ w'. refs (w_db w')) w"
  by (auto simp: DeleteGrant_def repo_DeleteGrant_def wp_rules refs_delete_grant)

lemma Delete_refs:
  assumes "db_wf (w_db w)" "refs (w_db w)"
  shows "wp (DeleteRole i) (\<lambda>_ w'. refs (w_db w')) (\<lambda>_ w'. refs (w_db w')) w"
    and "wp (DeleteRoleGroup i) (\<lambda>_ w'. refs (w_db w')) (\<lambda>_ w'. refs (w_db w')) w"
    and "wp (DeleteUserGroup i) (\<lambda>_ w'. refs (w_db w')) (\<lambda>_ w'. refs (w_db w')) w"
  using assms
  by (auto simp: DeleteRole_def DeleteRoleGroup_def DeleteUserGroup_def repo_GetRoleByID_def
      repo_GetRoleGroupByID_def repo_GetUserGroupByID_def wp_rules split: option.splits
      intro: repo_DeleteRole_refs repo_DeleteRoleGroup_refs repo_DeleteUserGroup_refs)

lemma validateScopes_None: "validateScopes ss = None \<longleftrightarrow> ss \<noteq> [] \<and> (\<forall>(c, n) \<in> set ss. valid_scope c n)"
proof -
  have "validateScopes ss = None \<longleftrightarrow>
      ss \<noteq> [] \<and> find (\<lambda>(c, n). c = [] \<or> n = [] \<or> (c = ''*'' \<and> n \<noteq> ''*'')) ss = None"
    by (auto simp: validateScopes_def split: option.splits)
  then show ?thesis by (auto simp: find_None_iff valid_scope_def)
qed

lemma refs_create_grant:
  assumes r: "refs d" and ss: "ss \<noteq> []" "\<forall>(c, n) \<in> set ss. valid_scope c n"
    and g: "tbl_insert (\<lambda>i. g_id_update (\<lambda>_. i)) grant_uniq g0 (db_grants d) = Some (g, tg)"
    and sc: "tbl_insert_all (\<lambda>i. gs_id_update (\<lambda>_. i)) grant_scope_uniq
        (map (\<lambda>(c, n). \<lparr>gs_id = 0, gs_grant = g_id g, gs_cluster = with_default c ''*'',
           gs_namespace = with_default n ''*''\<rparr>) ss) (db_grant_scopes d) = Some (rs, ts)"
    and st: "g_subject_type g0 = SubjectUser \<or>
      g_subject_type g0 = SubjectGroup \<and> g_subject_id g0 \<in> ids ug_id (db_user_groups d)"
    and ob: "g_object_type g0 = ObjectTypeRole \<and> g_object_id g0 \<in> ids ro_id (db_roles d) \<or>
      g_object_type g0 = ObjectTypeRoleGroup \<and> g_object_id g0 \<in> ids rg_id (db_role_groups d)"
  shows "refs (db_grant_scopes_update (\<lambda>_. ts) (db_grants_update (\<lambda>_. tg) d))"
proof -
  let ?d = "db_grant_scopes_update (\<lambda>_. ts) (db_grants_update (\<lambda>_. tg) d)"
  have tg: "trows tg = trows (db_grants d) @ [g]" and g': "g = g0\<lparr>g_id := tseq (db_grants d) + 1\<rparr>"
    using grants.insert_SomeD [OF g] by simp_all
  have ts: "trows ts = trows (db_grant_scopes d) @ rs" using grant_scopes.insert_all_rows [OF sc] .
  have l: "list_all2 (\<lambda>(c, n) s. gs_grant s = g_id g \<and> gs_cluster s = with_default c ''*'' \<and>
      gs_namespace s = with_default n ''*'') ss rs"
    using grant_scopes.insert_all_new [OF sc] unfolding list_all2_map1
    by (rule list_all2_mono) auto
  have new: "gs_grant s = g_id g \<and> valid_scope (gs_cluster s) (gs_namespace s)" if s: "s \<in> set rs" for s
  proof -
    from l s obtain c n where cn: "(c, n) \<in> set ss" "gs_grant s = g_id g"
        "gs_cluster s = with_default c ''*''" "gs_namespace s = with_default n ''*''"
      by (auto dest!: list_all2_in_set2)
    with ss(2) have "valid_scope c n" by blast
    with cn show ?thesis by (simp add: with_default_def valid_scope_def)
  qed
  have ne: "rs \<noteq> []" using l ss(1) by auto
  show ?thesis unfolding refs_def
  proof (intro conjI ballI)
    fix h assume "h \<in> set (trows (db_grants ?d))"
    then consider "h \<in> set (trows (db_grants d))" | "h = g" by (auto simp: tg)
    then show "grant_refs ?d h"
    proof cases
      case 1
      then have "grant_refs d h" using r by (simp add: refs_def)
      then show ?thesis by (rule grant_refs_mono) (auto simp: ts)
    next
      case 2
      have "hd rs \<in> set (trows ts)" "gs_grant (hd rs) = g_id g" using ne new by (auto simp: ts)
      then have "g_id g \<in> gs_grant ` set (trows ts)" by force
      then show ?thesis using 2 st ob by (simp add: grant_refs_def g')
    qed
  qed (use r new in \<open>auto simp: refs_def ids_def tg ts\<close>)
qed

lemma wp_subjectName_ok:
  assumes "\<And>n w'. w_db w' = w_db w \<Longrightarrow> st = SubjectUser \<or>
      st = SubjectGroup \<and> sid \<in> ids ug_id (db_user_groups (w_db w)) \<Longrightarrow> Q n w'"
    and "\<And>e w'. w_db w' = w_db w \<Longrightarrow> E e w'"
  shows "wp (subjectName st sid) Q E w"
  using assms by (auto simp: subjectName_def repo_GetUserByID_def repo_GetUserGroupByID_def wp_rules
      first_ids split: option.splits)

lemma wp_objectName_ok:
  assumes "\<And>n w'. w_db w' = w_db w \<Longrightarrow> ot = ObjectTypeRole \<and> oid \<in> ids ro_id (db_roles (w_db w)) \<or>
      ot = ObjectTypeRoleGroup \<and> oid \<in> ids rg_id (db_role_groups (w_db w)) \<Longrightarrow> Q n w'"
    and "\<And>e w'. w_db w' = w_db w \<Longrightarrow> E e w'"
  shows "wp (objectName ot oid) Q E w"
  using assms by (auto simp: objectName_def repo_GetRoleByID_def repo_GetRoleGroupByID_def wp_rules
      first_ids split: option.splits)

lemma repo_CreateGrant_refs:
  assumes "refs (w_db w)" "ss \<noteq> []" "\<forall>(c, n) \<in> set ss. valid_scope c n"
    and st: "st = SubjectUser \<or> st = SubjectGroup \<and> sid \<in> ids ug_id (db_user_groups (w_db w))"
    and ob: "ot = ObjectTypeRole \<and> oid \<in> ids ro_id (db_roles (w_db w)) \<or>
      ot = ObjectTypeRoleGroup \<and> oid \<in> ids rg_id (db_role_groups (w_db w))"
  shows "wp (repo_CreateGrant \<lparr>g_id = 0, g_subject_type = st, g_subject_id = sid,
      g_object_type = ot, g_object_id = oid, g_created = 0\<rparr> ss)
    (\<lambda>_ w'. refs (w_db w')) (\<lambda>_ w'. refs (w_db w')) w"
proof -
  have "with_default st ''user'' = st" "with_default ot ''role'' = ot"
    using st ob by (auto simp: with_default_def type_defs)
  then show ?thesis
    using assms by (auto simp: repo_CreateGrant_def wp_rules split: option.splits intro: refs_create_grant)
qed

lemma CreateGrant_refs:
  "refs (w_db w) \<Longrightarrow> wp (CreateGrant st sid ot oid ss) (\<lambda>_ w'. refs (w_db w')) (\<lambda>_ w'. refs (w_db w')) w"
  unfolding CreateGrant_def checkSubjectExists_def wp_and_then wp_check wp_ok
  apply (clarsimp split: option.splits)
  apply (rule wp_subjectName_ok; (clarsimp simp: validateScopes_None)?)
  apply (rule wp_objectName_ok; (clarsimp split: option.splits)?)
  apply (auto simp: wp_rules repo_GetGrant_def validateScopes_None split: option.splits
      intro!: wp_subjectName_ok wp_mono [OF repo_CreateGrant_refs])
  done

subsection \<open>Well-formed tables and built-in roles\<close>

lemma preserves_db_all:
  "preserves (on_db db_wf) (repo_DeleteRole i)" "preserves (on_db db_wf) (repo_DeleteRoleGroup i)"
  "preserves (on_db db_wf) (repo_DeleteUserGroup i)" "preserves (on_db db_wf) (repo_DeleteGrant i)"
  "preserves (on_db db_wf) (repo_RemoveGroupMember i j)" "preserves (on_db db_wf) (repo_RemoveGroupRole i j)"
  "preserves (on_db db_wf) (repo_AddGroupMember i j)" "preserves (on_db db_wf) (repo_AddGroupRole i j)"
  "preserves (on_db db_wf) (repo_CreateRole r)" "preserves (on_db db_wf) (repo_CreateRoleGroup rg)"
  "preserves (on_db db_wf) (repo_CreateUserGroup ug)" "preserves (on_db db_wf) (repo_CreateGrant g ss)"
proof -
  have [pres_rules]: "preserves (on_db db_wf) (delete_scopes_of p)" for p
    unfolding delete_scopes_of_def Let_def
    by (rule preserves_sql_exec) (auto intro: grant_scopes.upd_wf grant_scopes.delete_wf grant_scopes.get_wf)
  show "preserves (on_db db_wf) (repo_DeleteRole i)" "preserves (on_db db_wf) (repo_DeleteRoleGroup i)"
    "preserves (on_db db_wf) (repo_DeleteUserGroup i)" "preserves (on_db db_wf) (repo_DeleteGrant i)"
    "preserves (on_db db_wf) (repo_RemoveGroupMember i j)" "preserves (on_db db_wf) (repo_RemoveGroupRole i j)"
    unfolding repo_DeleteRole_def repo_DeleteRoleGroup_def repo_DeleteUserGroup_def repo_DeleteGrant_def
      repo_RemoveGroupMember_def repo_RemoveGroupRole_def
    by (intro pres_rules)+
  show "preserves (on_db db_wf) (repo_AddGroupMember i j)" "preserves (on_db db_wf) (repo_AddGroupRole i j)"
    "preserves (on_db db_wf) (repo_CreateRole r)" "preserves (on_db db_wf) (repo_CreateRoleGroup rg)"
    "preserves (on_db db_wf) (repo_CreateUserGroup ug)" "preserves (on_db db_wf) (repo_CreateGrant g ss)"
    unfolding repo_AddGroupMember_def repo_AddGroupRole_def repo_CreateRole_def repo_CreateRoleGroup_def
      repo_CreateUserGroup_def repo_CreateGrant_def
    by (intro pres_rules)+
qed

lemmas lookup_defs = repo_GetRoleByID_def repo_GetRoleByName_def repo_GetRoleGroupByID_def
  repo_GetRoleGroupByName_def repo_GetUserGroupByID_def repo_GetUserGroupByName_def
  repo_GetUserByID_def repo_GetGrant_def

lemma Update_wf:
  "preserves (on_db db_wf) (UpdateRole i n ds ps)" "preserves (on_db db_wf) (UpdateUserGroup i n ds)"
  "preserves (on_db db_wf) (UpdateRoleGroup i n ds)"
  by (auto simp: preserves_wp UpdateRole_def UpdateUserGroup_def UpdateRoleGroup_def repo_UpdateRole_def
      repo_UpdateUserGroup_def repo_UpdateRoleGroup_def lookup_defs wp_rules Let_def
      roles.first_key_pos user_groups.first_key_pos role_groups.first_key_pos split: option.splits
      intro: roles.save_ok user_groups.save_ok role_groups.save_ok)

lemma run_op_wf: "preserves (on_db db_wf) (run_op op)"
proof (cases op)
  case (OpUpdateRole i n d ps)
  then show ?thesis by (simp add: ignore_def preserves_and_then Update_wf preserves_ok)
next
  case (OpUpdateUserGroup i n d)
  then show ?thesis by (simp add: ignore_def preserves_and_then Update_wf preserves_ok)
next
  case (OpUpdateRoleGroup i n d)
  then show ?thesis by (simp add: ignore_def preserves_and_then Update_wf preserves_ok)
qed (simp_all add: ignore_def CreateRole_def DeleteRole_def CreateUserGroup_def DeleteUserGroup_def
    AddGroupMember_def RemoveGroupMember_def CreateRoleGroup_def DeleteRoleGroup_def AddRoleGroupRole_def
    RemoveRoleGroupRole_def CreateGrant_def DeleteGrant_def checkSubjectExists_def subjectName_def
    objectName_def lookup_defs pres_rules preserves_db_all)

lemma run_op_refs:
  assumes "db_wf (w_db w)" "refs (w_db w)"
  shows "refs (w_db (snd (run_op op w)))"
proof -
  have snd: "wp m (\<lambda>_ w'. refs (w_db w')) (\<lambda>_ w'. refs (w_db w')) w \<Longrightarrow> refs (w_db (snd (m w)))"
    for m :: "unit act"
    by (cases "m w"; cases "fst (m w)") (auto simp: wp_def)
  have "wp (run_op op) (\<lambda>_ w'. refs (w_db w')) (\<lambda>_ w'. refs (w_db w')) w"
    using assms CreateRole_sound CreateGroup_sound UpdateRole_sound UpdateGroup_sound AddGroupMember_sound
      AddRoleGroupRole_sound RemoveGroupMember_sound RemoveRoleGroupRole_sound
    by (cases op) (simp_all add: ignore_def wp_rules keeps_def Delete_refs CreateGrant_refs DeleteGrant_refs)
  then show ?thesis by (rule snd)
qed

definition builtin_roles :: "database \<Rightarrow> role set" where
  "builtin_roles d = {r \<in> set (trows (db_roles d)). ro_builtin r}"

lemma builtin_create: "tbl_insert (\<lambda>i. ro_id_update (\<lambda>_. i)) u r (db_roles d) = Some (r', t) \<Longrightarrow> \<not> ro_builtin r \<Longrightarrow>
  builtin_roles (db_roles_update (\<lambda>_. t) d) = builtin_roles d"
  by (auto simp: builtin_roles_def tbl_insert_def Let_def split: if_splits)

lemma builtin_other:
  assumes "db_wf d" "tbl_first ro_id (\<lambda>r. ro_id r = i) (db_roles d) = Some x" "\<not> ro_builtin x"
    "r \<in> set (trows (db_roles d))" "ro_builtin r"
  shows "ro_id r \<noteq> i"
  using roles.same_key [OF assms(1,4)] tbl_first_SomeD [OF assms(2)] assms(3,5) by metis

lemma builtin_delete:
  assumes "db_wf d" "tbl_first ro_id (\<lambda>r. ro_id r = i) (db_roles d) = Some x" "\<not> ro_builtin x"
    "db_roles d' = db_roles d"
  shows "builtin_roles (db_roles_update (tbl_delete (\<lambda>r. ro_id r = i)) d') = builtin_roles d"
  using builtin_other [OF assms(1-3)] assms(4) by (auto simp: builtin_roles_def tbl_delete_def)

lemma builtin_save:
  assumes "db_wf d" "tbl_save ro_id u r (db_roles d) = Some t"
    "tbl_first ro_id (\<lambda>r. ro_id r = i) (db_roles d) = Some x" "\<not> ro_builtin x" "ro_id r = ro_id x" "ro_builtin r = ro_builtin x"
  shows "builtin_roles (db_roles_update (\<lambda>_. t) d) = builtin_roles d"
proof -
  have i: "ro_id x = i" "x \<in> set (trows (db_roles d))" using tbl_first_SomeD [OF assms(3)] by simp_all
  show ?thesis
    using builtin_other [OF assms(1,3,4)] assms(2,4-6) i
    by (auto simp: builtin_roles_def tbl_save_def list_ex_iff image_iff split: if_splits)
qed

lemma builtin_irrelevant [simp]:
  "builtin_roles (db_grants_update f d) = builtin_roles d" "builtin_roles (db_grant_scopes_update f1 d) = builtin_roles d"
  "builtin_roles (db_role_groups_update f2 d) = builtin_roles d" "builtin_roles (db_user_groups_update f3 d) = builtin_roles d"
  "builtin_roles (db_role_group_roles_update f4 d) = builtin_roles d"
  "builtin_roles (db_user_group_members_update f5 d) = builtin_roles d"
  by (simp_all add: builtin_roles_def)

lemma builtin_grow [simp]:
  "builtin_roles (d\<lparr>db_role_groups := t1\<rparr>) = builtin_roles d" "builtin_roles (d\<lparr>db_grants := t2\<rparr>) = builtin_roles d"
  by (simp_all add: builtin_roles_def)

fun edits_role :: "rbac_op \<Rightarrow> bool" where
  "edits_role (OpCreateRole n ds ps) = True"
| "edits_role (OpUpdateRole i n ds ps) = True"
| "edits_role (OpDeleteRole i) = True"
| "edits_role _ = False"

lemma builtin_frame:
  assumes "\<And>f d. I d \<Longrightarrow> I (db_grants_update f d)" "\<And>f d. I d \<Longrightarrow> I (db_grant_scopes_update f d)"
    "\<And>f d. I d \<Longrightarrow> I (db_role_groups_update f d)" "\<And>f d. I d \<Longrightarrow> I (db_user_groups_update f d)"
    "\<And>f d. I d \<Longrightarrow> I (db_role_group_roles_update f d)" "\<And>f d. I d \<Longrightarrow> I (db_user_group_members_update f d)"
    and op: "\<not> edits_role op"
  shows "preserves (on_db I) (run_op op)"
proof -
  have scopes: "preserves (on_db I) (delete_scopes_of p)" for p
    unfolding delete_scopes_of_def Let_def by (rule preserves_sql_exec) (use assms(2) in auto)
  note rules = pres_rules scopes
    frame_rules [where I = I and upd = db_grants_update, OF assms(1)]
    frame_rules [where I = I and upd = db_grant_scopes_update, OF assms(2)]
    frame_rules [where I = I and upd = db_role_groups_update, OF assms(3)]
   
    frame_rules [where I = I and upd = db_user_groups_update, OF assms(4)]
    frame_rules [where I = I and upd = db_role_group_roles_update, OF assms(5)]
    frame_rules [where I = I and upd = db_user_group_members_update, OF assms(6)]
  show ?thesis
    using op by (cases op) (simp_all add: ignore_def lookup_defs Let_def subjectName_def objectName_def checkSubjectExists_def
        CreateUserGroup_def repo_CreateUserGroup_def UpdateUserGroup_def repo_UpdateUserGroup_def
        DeleteUserGroup_def repo_DeleteUserGroup_def AddGroupMember_def repo_AddGroupMember_def
        RemoveGroupMember_def repo_RemoveGroupMember_def CreateRoleGroup_def repo_CreateRoleGroup_def
        UpdateRoleGroup_def repo_UpdateRoleGroup_def DeleteRoleGroup_def repo_DeleteRoleGroup_def
        AddRoleGroupRole_def repo_AddGroupRole_def RemoveRoleGroupRole_def repo_RemoveGroupRole_def
        CreateGrant_def repo_CreateGrant_def DeleteGrant_def repo_DeleteGrant_def rules)
qed

lemma run_op_builtin:
  assumes "db_wf (w_db w)"
  shows "builtin_roles (w_db (snd (run_op op w))) = builtin_roles (w_db w)"
proof -
  let ?B = "builtin_roles (w_db w)"
  have wp: "wp m (\<lambda>_ w'. builtin_roles (w_db w') = ?B) (\<lambda>_ w'. builtin_roles (w_db w') = ?B) w \<Longrightarrow>
      builtin_roles (w_db (snd (m w))) = ?B" for m :: "unit act"
    by (cases "m w"; cases "fst (m w)") (auto simp: wp_def)
  consider n ds ps where "op = OpCreateRole n ds ps" | i n ds ps where "op = OpUpdateRole i n ds ps"
    | i where "op = OpDeleteRole i"
    | "\<not> edits_role op"
    by (cases op) simp_all
  then show ?thesis
  proof cases
    case (1 n ds ps)
    show ?thesis unfolding 1 run_op.simps
      by (rule wp) (simp add: ignore_def CreateRole_def repo_CreateRole_def lookup_defs wp_rules builtin_create
        split: option.split)
  next
    case (2 i n ds ps)
    show ?thesis unfolding 2 run_op.simps
      by (rule wp) (simp add: ignore_def UpdateRole_def repo_UpdateRole_def lookup_defs wp_rules Let_def
        builtin_save [OF assms] split: option.split)
  next
    case (3 i)
    show ?thesis unfolding 3 run_op.simps
      by (rule wp) (simp add: DeleteRole_def repo_DeleteRole_def lookup_defs wp_rules Let_def
        builtin_delete [OF assms] split: option.split)
  next
    case 4
    then have "preserves (on_db (\<lambda>d. builtin_roles d = ?B)) (run_op op)" by (intro builtin_frame) simp_all
    then show ?thesis by (rule preservesD) simp
  qed
qed

subsection \<open>Properties\<close>

text \<open>C3: referential integrity of the RBAC tables. Start from a database whose tables are
  well-formed and whose references are sound, and let any sequence of role, group and grant
  operations run, with any arguments, clock and refused statements: keys and unique indexes stay
  valid, every membership, role-group entry and grant refers to existing rows (the user of a
  grant apart), every scope belongs to a grant, and every grant has at least one valid scope.\<close>

theorem rbac_integrity:
  assumes "rbac_reach d0 d" and "db_wf d0" and "refs d0"
  shows "db_wf d \<and> refs d"
  using assms
proof induction
  case (step d op fs t r w')
  let ?w = "\<lparr>w_db = d, w_faults = fs, w_now = t\<rparr>"
  have "w_db (snd (run_op op ?w)) = w_db w'" using step.hyps(2) by simp
  then show ?case
    using preservesD [OF run_op_wf, of ?w op] run_op_refs [of ?w op] step by simp
qed simp

lemma rbac_integrity_witness: "\<exists>d. rbac_reach demo_db d \<and> db_wf d \<and> refs d \<and> db_grants d \<noteq> db_grants demo_db"
proof -
  let ?w = "\<lparr>w_db = demo_db, w_faults = [], w_now = 9\<rparr>"
  let ?op = "OpCreateGrant ''user'' 7 ''role'' 5 [(''c9'', ''*'')]"
  have r: "rbac_reach demo_db (w_db (snd (run_op ?op ?w)))"
    by (rule rbac_reach.step [where op = ?op and fs = "[]" and t = 9 and r = "fst (run_op ?op ?w)",
          OF rbac_reach.init]) simp
  moreover have "db_grants (w_db (snd (run_op ?op ?w))) \<noteq> db_grants demo_db" by code_simp
  moreover have wf: "db_wf demo_db" by code_simp
  moreover have refs: "refs demo_db"
    by (simp add: refs_def grant_refs_def ids_def valid_scope_def demo_db_def type_defs empty_db_def tbl_empty_def)
  ultimately show ?thesis using rbac_integrity [OF r wf refs] by blast
qed

text \<open>C4: the built-in roles are immutable. No sequence of management operations adds, changes or
  removes a built-in role, even when statements fail half-way.\<close>

theorem builtin_roles_immutable:
  assumes "rbac_reach d0 d" and "db_wf d0"
  shows "db_wf d \<and> builtin_roles d = builtin_roles d0"
  using assms
proof induction
  case (step d op fs t r w')
  let ?w = "\<lparr>w_db = d, w_faults = fs, w_now = t\<rparr>"
  have "w_db (snd (run_op op ?w)) = w_db w'" using step.hyps(2) by simp
  then show ?case
    using preservesD [OF run_op_wf, of ?w op] run_op_builtin [of ?w op] step by simp
qed simp

lemma builtin_roles_immutable_witness:
  "\<exists>d. rbac_reach demo_db d \<and> db_roles d \<noteq> db_roles demo_db \<and> builtin_roles d = builtin_roles demo_db"
proof -
  let ?w = "\<lparr>w_db = demo_db, w_faults = [], w_now = 9\<rparr>"
  let ?op = "OpDeleteRole 4"
  have r: "rbac_reach demo_db (w_db (snd (run_op ?op ?w)))"
    by (rule rbac_reach.step [where op = ?op and fs = "[]" and t = 9 and r = "fst (run_op ?op ?w)",
          OF rbac_reach.init]) simp
  moreover have "db_roles (w_db (snd (run_op ?op ?w))) \<noteq> db_roles demo_db" by code_simp
  moreover have wf: "db_wf demo_db" by code_simp
  ultimately show ?thesis using builtin_roles_immutable [OF r wf] by blast
qed

end
