(* ===== verification/Rbac_Effects.thy ===== *)
theory Rbac_Effects
  imports Rbac_Invariant
begin

text \<open>
  What a successful grant, and a successful or failed deletion, does to everybody's effective
  permissions.
\<close>

definition scopes_cover :: "string \<Rightarrow> string \<Rightarrow> scope list \<Rightarrow> bool" where
  "scopes_cover cl ns ss \<longleftrightarrow> (cl = '''' \<and> ns = '''') \<or>
     (\<exists>(c, n) \<in> set ss. (cl = '''' \<or> c \<in> {''*'', cl}) \<and> (ns = '''' \<or> n \<in> {''*'', ns}))"

definition names_user :: "database \<Rightarrow> int \<Rightarrow> string \<Rightarrow> int \<Rightarrow> bool" where
  "names_user d uid st sid \<longleftrightarrow> (st = SubjectUser \<and> sid = uid) \<or>
     (st = SubjectGroup \<and> (\<exists>m \<in> set (trows (db_user_group_members d)). ugm_user m = uid \<and> ugm_group m = sid))"

lemma object_points_cong:
  "db_roles d' = db_roles d \<Longrightarrow> db_role_group_roles d' = db_role_group_roles d \<Longrightarrow>
   object_points d' ot oid = object_points d ot oid"
  by (simp add: object_points_def role_points_def)

text \<open>The rows a successful \<open>CreateGrant\<close> adds.\<close>

definition granted :: "database \<Rightarrow> string \<Rightarrow> int \<Rightarrow> string \<Rightarrow> int \<Rightarrow> scope list \<Rightarrow> database \<Rightarrow> bool" where
  "granted d st sid ot oid ss d' \<longleftrightarrow>
     (\<exists>g rs tg ts. d' = d\<lparr>db_grants := tg, db_grant_scopes := ts\<rparr> \<and>
        trows tg = trows (db_grants d) @ [g] \<and> trows ts = trows (db_grant_scopes d) @ rs \<and>
        g_id g = tseq (db_grants d) + 1 \<and> g_subject_type g = st \<and> g_subject_id g = sid \<and>
        g_object_type g = ot \<and> g_object_id g = oid \<and>
        list_all2 (\<lambda>(c, n) s. gs_grant s = g_id g \<and> gs_cluster s = c \<and> gs_namespace s = n) ss rs)"

lemma granted_rows:
  assumes ss: "\<forall>(c, n) \<in> set ss. valid_scope c n"
    and g: "tbl_insert (\<lambda>i. g_id_update (\<lambda>_. i)) grant_uniq \<lparr>g_id = 0, g_subject_type = st, g_subject_id = sid,
        g_object_type = ot, g_object_id = oid, g_created = t\<rparr> (db_grants d) = Some (g, tg)"
    and sc: "tbl_insert_all (\<lambda>i. gs_id_update (\<lambda>_. i)) grant_scope_uniq
        (map (\<lambda>(c, n). \<lparr>gs_id = 0, gs_grant = g_id g, gs_cluster = with_default c ''*'',
           gs_namespace = with_default n ''*''\<rparr>) ss) (db_grant_scopes d) = Some (rs, ts)"
  shows "granted d st sid ot oid ss (d\<lparr>db_grants := tg, db_grant_scopes := ts\<rparr>)"
proof -
  have "list_all2 (\<lambda>(c, n) s. gs_grant s = g_id g \<and> gs_cluster s = c \<and> gs_namespace s = n) ss rs"
    using grant_scopes.insert_all_new [OF sc] unfolding list_all2_map1
    by (rule list.rel_mono_strong) (use ss in \<open>auto simp: with_default_def valid_scope_def\<close>)
  then show ?thesis
    using grants.insert_SomeD [OF g] grant_scopes.insert_all_rows [OF sc] unfolding granted_def by force
qed

lemma wp_repo_CreateGrant:
  assumes "w_db v = d" and "st = SubjectUser \<or> st = SubjectGroup"
    and "ot = ObjectTypeRole \<or> ot = ObjectTypeRoleGroup"
    and "ss \<noteq> []" and "\<forall>(c, n) \<in> set ss. valid_scope c n"
  shows "wp (repo_CreateGrant \<lparr>g_id = 0, g_subject_type = st, g_subject_id = sid,
      g_object_type = ot, g_object_id = oid, g_created = 0\<rparr> ss)
    (\<lambda>_ w'. granted d st sid ot oid ss (w_db w')) (\<lambda>_ w'. w_db w' = d) v"
proof -
  have "with_default st ''user'' = st" "with_default ot ''role'' = ot"
    using assms(2,3) by (auto simp: with_default_def type_defs)
  then show ?thesis
    using assms by (auto simp: repo_CreateGrant_def wp_rules split: option.splits intro: granted_rows)
qed

lemma wp_CreateGrant:
  "wp (CreateGrant st sid ot oid ss) (\<lambda>_ w'. granted (w_db w) st sid ot oid ss (w_db w'))
     (\<lambda>_ w'. w_db w' = w_db w) w"
  unfolding CreateGrant_def checkSubjectExists_def wp_and_then wp_check wp_ok
  apply (clarsimp split: option.splits)
  apply (rule wp_subjectName_ok; (clarsimp simp: validateScopes_None)?)
  apply (rule wp_objectName_ok; (clarsimp split: option.splits)?)
  apply (auto simp: wp_rules repo_GetGrant_def validateScopes_None split: option.splits
      intro!: wp_subjectName_ok wp_repo_CreateGrant)
  done

lemma effective_granted:
  assumes wf: "db_wf d" and refs: "refs d" and gr: "granted d st sid ot oid ss d'" and r: "r \<noteq> RoleAdmin"
  shows "effective d' uid r cl ns = effective d uid r cl ns \<union>
    (if names_user d uid st sid \<and> scopes_cover cl ns ss then object_points d ot oid else {})"
proof -
  from gr obtain g rs tg ts where d': "d' = d\<lparr>db_grants := tg, db_grant_scopes := ts\<rparr>"
    and tg: "trows tg = trows (db_grants d) @ [g]" and ts: "trows ts = trows (db_grant_scopes d) @ rs"
    and g: "g_id g = tseq (db_grants d) + 1" "g_subject_type g = st" "g_subject_id g = sid"
      "g_object_type g = ot" "g_object_id g = oid"
    and l: "list_all2 (\<lambda>(c, n) s. gs_grant s = g_id g \<and> gs_cluster s = c \<and> gs_namespace s = n) ss rs"
    by (auto simp: granted_def)
  have old_scope: "gs_grant s \<noteq> g_id g" if "s \<in> set (trows (db_grant_scopes d))" for s
  proof -
    have "gs_grant s \<in> ids g_id (db_grants d)" using that refs by (simp add: refs_def)
    then obtain h where "h \<in> set (trows (db_grants d))" "g_id h = gs_grant s" by (auto simp: ids_def)
    then show ?thesis using grants.key_le_seq [OF wf] g(1) by force
  qed
  have new_scope: "gs_grant s = g_id g" if "s \<in> set rs" for s
    using list_all2_in_set2 [OF l that] by auto
  have "grant_covers d' cl ns h = grant_covers d cl ns h" if "h \<in> set (trows (db_grants d))" for h
  proof -
    have "g_id h \<noteq> g_id g" using grants.key_le_seq [OF wf that] g(1) by simp
    then show ?thesis using new_scope by (auto simp: grant_covers_def d' ts)
  qed
  moreover have "grant_covers d' cl ns g \<longleftrightarrow> scopes_cover cl ns ss"
  proof -
    have "(\<exists>s \<in> set rs. scope_covers cl ns s) \<longleftrightarrow>
        (\<exists>(c, n) \<in> set ss. (cl = '''' \<or> c \<in> {''*'', cl}) \<and> (ns = '''' \<or> n \<in> {''*'', ns}))"
      using l by (induction rule: list_all2_induct) (auto simp: scope_covers_def)
    then show ?thesis
      using old_scope new_scope by (auto simp: grant_covers_def scopes_cover_def d' ts)
  qed
  moreover have "subject_of d' uid h = subject_of d uid h" for h by (simp add: subject_of_def d')
  moreover have "subject_of d uid g = names_user d uid st sid" by (simp add: subject_of_def names_user_def g)
  moreover have "object_points d' a b = object_points d a b" for a b by (rule object_points_cong) (simp_all add: d')
  moreover have "trows (db_grants d') = trows (db_grants d) @ [g]" by (simp add: d' tg)
  ultimately show ?thesis using r g(4,5) by (auto simp: effective_def)
qed

text \<open>A grant gives exactly what it says. When \<open>CreateGrant\<close> succeeds, the effective
  permissions of every user at every cluster and namespace are the old ones, plus the points of
  the granted role or role group if the grant's subject is that user or a group the user belongs
  to, and one of its scopes covers the place; nobody gains anything else. When it fails, the
  database is as it was.\<close>

theorem CreateGrant_effect:
  assumes "db_wf (w_db w)" and "refs (w_db w)" and "CreateGrant st sid ot oid ss w = (res, w')"
  shows "case res of
      Inl e \<Rightarrow> w_db w' = w_db w
    | Inr item \<Rightarrow> \<forall>uid r cl ns. r \<noteq> RoleAdmin \<longrightarrow> effective (w_db w') uid r cl ns =
        effective (w_db w) uid r cl ns \<union>
        (if names_user (w_db w) uid st sid \<and> scopes_cover cl ns ss then object_points (w_db w) ot oid else {})"
proof (cases res)
  case (Inl e)
  then show ?thesis using wp_InlD [OF wp_CreateGrant] assms(3) by fastforce
next
  case (Inr item)
  then have "granted (w_db w) st sid ot oid ss (w_db w')" using wp_InrD [OF wp_CreateGrant] assms(3) by fastforce
  then show ?thesis using Inr effective_granted [OF assms(1,2)] by simp
qed

lemma CreateGrant_effect_witness:
  "\<exists>item w'. CreateGrant ''group'' 2 ''role'' 5 [(''c1'', ''*'')] (demo []) = (Inr item, w') \<and>
     effective (w_db w') 7 ''viewer'' ''c1'' ''ns2'' = effective demo_db 7 ''viewer'' ''c1'' ''ns2'' \<union> {''audit:read''}"
proof -
  let ?m = "CreateGrant ''group'' 2 ''role'' 5 [(''c1'', ''*'')] (demo [])"
  have wf: "db_wf (w_db (demo []))" by code_simp
  have refs: "refs (w_db (demo []))"
    by (simp add: refs_def grant_refs_def ids_def valid_scope_def demo_def demo_db_def type_defs empty_db_def tbl_empty_def)
  have ok: "case fst ?m of Inl _ \<Rightarrow> False | Inr _ \<Rightarrow> True" by code_simp
  obtain res w' where m: "?m = (res, w')" by (cases ?m)
  with ok obtain item where res: "res = Inr item" by (auto split: sum.splits)
  have dec: "decodePermissions (encodePermissions [''audit:read'']) = [''audit:read'']" by code_simp
  have o: "object_points (w_db (demo [])) ''role'' 5 = {''audit:read''}"
    by (auto simp: object_points_def role_points_def type_defs demo_def demo_db_def dec)
  have n: "names_user (w_db (demo [])) 7 ''group'' 2 \<and> scopes_cover ''c1'' ''ns2'' [(''c1'', ''*'')]"
    by (simp add: names_user_def type_defs demo_def demo_db_def scopes_cover_def)
  have "''viewer'' \<noteq> RoleAdmin" by (simp add: RoleAdmin_def)
  with CreateGrant_effect [OF wf refs m] o n m show ?thesis by (simp add: res demo_def)
qed

subsection \<open>Deleting a role\<close>

definition object_roles :: "database \<Rightarrow> string \<Rightarrow> int \<Rightarrow> int set" where
  "object_roles d ot oid = (if ot = ObjectTypeRole then {oid}
     else if ot = ObjectTypeRoleGroup then rgr_role ` {m \<in> set (trows (db_role_group_roles d)). rgr_group m = oid}
     else {})"

lemma object_points_roles: "object_points d ot oid = (\<Union>j \<in> object_roles d ot oid. role_points d j)"
  by (auto simp: object_points_def object_roles_def)

definition role_removed :: "int \<Rightarrow> database \<Rightarrow> database \<Rightarrow> bool" where
  "role_removed i d d' \<longleftrightarrow>
     trows (db_roles d') = filter (\<lambda>r. ro_id r \<noteq> i) (trows (db_roles d)) \<and>
     trows (db_role_group_roles d') = filter (\<lambda>m. rgr_role m \<noteq> i) (trows (db_role_group_roles d)) \<and>
     trows (db_grants d') = filter (\<lambda>g. \<not> (g_object_type g = ObjectTypeRole \<and> g_object_id g = i)) (trows (db_grants d)) \<and>
     trows (db_grant_scopes d') = filter (\<lambda>s. \<forall>g \<in> set (trows (db_grants d)). gs_grant s = g_id g \<longrightarrow>
        \<not> (g_object_type g = ObjectTypeRole \<and> g_object_id g = i)) (trows (db_grant_scopes d)) \<and>
     db_user_group_members d' = db_user_group_members d"

lemma wp_DeleteRole:
  "wp (DeleteRole i) (\<lambda>_ w'. (\<exists>r \<in> set (trows (db_roles (w_db w))). ro_id r = i \<and> \<not> ro_builtin r) \<and>
       role_removed i (w_db w) (w_db w'))
     (\<lambda>_ w'. w_db w' = w_db w) w"
  by (auto simp: DeleteRole_def repo_DeleteRole_def lookup_defs wp_rules Let_def role_removed_def
      tbl_delete_def type_defs split: option.splits dest!: tbl_first_SomeD intro!: filter_cong)

lemma effective_role_removed:
  assumes wf: "db_wf d" and rm: "role_removed i d d'" and r: "r \<noteq> RoleAdmin"
  shows "effective d' uid r cl ns = set (PermissionsFor r) \<union> {p. \<exists>g \<in> set (trows (db_grants d)).
    subject_of d uid g \<and> grant_covers d cl ns g \<and>
    (\<exists>j \<in> object_roles d (g_object_type g) (g_object_id g) - {i}. p \<in> role_points d j)}"
proof -
  note rm = rm [unfolded role_removed_def]
  have sub: "subject_of d' uid g = subject_of d uid g" for g using rm by (simp add: subject_of_def)
  have pts: "role_points d' j = (if j = i then {} else role_points d j)" for j
    using rm by (auto simp: role_points_def)
  have objs: "object_roles d' ot oid - {i} = object_roles d ot oid - {i}" for ot oid
    using rm by (auto simp: object_roles_def)
  have op: "object_points d' ot oid = (\<Union>j \<in> object_roles d ot oid - {i}. role_points d j)" for ot oid
    using objs [of ot oid] unfolding object_points_roles by (auto simp: pts split: if_splits)
  have cov: "grant_covers d' cl ns g = grant_covers d cl ns g"
    if g: "g \<in> set (trows (db_grants d))" "\<not> (g_object_type g = ObjectTypeRole \<and> g_object_id g = i)" for g
  proof -
    have "h = g" if "h \<in> set (trows (db_grants d))" "g_id g = g_id h" for h
      using grants.same_key [OF wf g(1) that] by simp
    then have "s \<in> set (trows (db_grant_scopes d')) \<longleftrightarrow> s \<in> set (trows (db_grant_scopes d))"
      if "gs_grant s = g_id g" for s
      using rm g(2) that by auto
    then show ?thesis unfolding grant_covers_def by blast
  qed
  have gone: "object_roles d (g_object_type g) (g_object_id g) - {i} = {}"
    if "g_object_type g = ObjectTypeRole \<and> g_object_id g = i" for g
    using that by (simp add: object_roles_def)
  have gr: "set (trows (db_grants d')) =
      {g \<in> set (trows (db_grants d)). \<not> (g_object_type g = ObjectTypeRole \<and> g_object_id g = i)}"
    using rm by simp
  show ?thesis
    using r cov gone by (fastforce simp: effective_def sub op gr)
qed



end
