(* ===== verification/Pagination.thy ===== *)
theory Pagination
  imports Errcode
begin

text \<open>
  Package \<open>pagination\<close>: parsing of \<open>page\<close> and \<open>size\<close>, the SQL offset, and the in-memory
  window that \<open>ResourceService.List\<close> and \<open>Events\<close> cut out of a full listing, with Go's
  64-bit arithmetic and the slice panic kept.
\<close>

record pagination =
  pg_page :: int
  pg_size :: int

definition defaultPage :: int where "defaultPage = 1"
definition defaultSize :: int where "defaultSize = 20"
definition minSize :: int where "minSize = 1"
definition maxSize :: int where "maxSize = 200"

lemmas page_consts = defaultPage_def defaultSize_def minSize_def maxSize_def

definition Offset :: "pagination \<Rightarrow> int" where
  "Offset p = wrap64 (wrap64 (pg_page p - 1) * pg_size p)"

text \<open>\<open>query\<close> is \<open>url.Values.Get\<close>: the first value of a parameter, empty if absent.\<close>

definition parse_size :: "string \<Rightarrow> gerr + int" where
  "parse_size v = (if v = '''' then Inr defaultSize else
     (case atoi v of None \<Rightarrow> Inl (WrapErr (''invalid size '' @ go_quote v) (atoi_error v))
      | Some n \<Rightarrow> if n < minSize then Inl (PlainErr (''size '' @ itoa n @ '' below minimum '' @ itoa minSize))
                  else if n > maxSize then Inr maxSize else Inr n))"

definition Parse :: "(string \<Rightarrow> string) \<Rightarrow> gerr + pagination" where
  "Parse query =
     (let v = query ''page'' in
      case (if v = '''' then Inr defaultPage
            else case atoi v of None \<Rightarrow> Inl (WrapErr (''invalid page '' @ go_quote v) (atoi_error v))
              | Some n \<Rightarrow> if n < 1 then Inl (PlainErr (''invalid page '' @ go_quote v @ '': %!w(<nil>)'')) else Inr n) of
        Inl e \<Rightarrow> Inl e
      | Inr pg \<Rightarrow>
        (case parse_size (query ''size'') of
           Inl e \<Rightarrow> Inl e
         | Inr sz \<Rightarrow> Inr \<lparr>pg_page = pg, pg_size = sz\<rparr>))"

record 'a result_body =
  rb_items :: "'a list"
  rb_total :: int
  rb_page :: int
  rb_size :: int

definition Result :: "'a list \<Rightarrow> int \<Rightarrow> pagination \<Rightarrow> 'a result_body" where
  "Result items tot p = \<lparr>rb_items = items, rb_total = tot, rb_page = pg_page p, rb_size = pg_size p\<rparr>"

text \<open>\<open>start := (page-1)*size; if start > len ...; end := start+size; if end > len ...;
items[start:end]\<close>; \<open>None\<close> is the slice-bounds panic.\<close>

definition page_window :: "'a list \<Rightarrow> int \<Rightarrow> int \<Rightarrow> 'a list option" where
  "page_window items pg sz =
     (let n = int (length items);
          start0 = wrap64 (wrap64 (pg - 1) * sz);
          start = (if start0 > n then n else start0);
          end0 = wrap64 (start + sz);
          stop = (if end0 > n then n else end0)
      in go_slice items start stop)"

lemma Parse_ranges:
  assumes "Parse q = Inr p"
  shows "1 \<le> pg_page p \<and> int64 (pg_page p) \<and> 1 \<le> pg_size p \<and> pg_size p \<le> 200"
  using assms
  by (auto simp: Parse_def parse_size_def Let_def page_consts int64_def dest: atoi_int64
      split: option.splits if_splits sum.splits)

lemma page_window_exact:
  assumes "1 \<le> pg" "1 \<le> sz" "(pg - 1) * sz < 2 ^ 62" "sz \<le> 200" "int (length xs) < 2 ^ 62"
  shows "page_window xs pg sz = Some (take (nat sz) (drop (nat ((pg - 1) * sz)) xs))"
proof -
  have pg: "pg - 1 \<le> (pg - 1) * sz" using assms by (simp add: mult_le_cancel_left1)
  have w: "wrap64 (wrap64 (pg - 1) * sz) = (pg - 1) * sz"
    using assms pg by (simp add: int64_def)
  note n = assms(5)
  let ?s = "(pg - 1) * sz" and ?n = "int (length xs)"
  have s0: "0 \<le> ?s" using assms by simp
  show ?thesis
  proof (cases "?s > ?n")
    case True
    then have "drop (nat ?s) xs = []" by simp
    moreover have "wrap64 (?n + sz) = ?n + sz"
      using assms n by (intro wrap64_id) (simp add: int64_def)
    ultimately show ?thesis
      using True assms by (simp add: page_window_def w go_slice_def Let_def)
  next
    case False
    have e: "wrap64 (?s + sz) = ?s + sz"
      using assms s0 by (intro wrap64_id int64_leI) simp_all
    have m: "take (nat (?n - ?s)) (drop (nat ?s) xs) = take (nat sz) (drop (nat ?s) xs)"
      if "?n < ?s + sz" using that s0 by (simp add: nat_diff_distrib)
    show ?thesis
      using False assms s0 e m by (auto simp: page_window_def w go_slice_def Let_def)
  qed
qed

end
