(* ===== verification/Auth_Service.thy ===== *)
theory Auth_Service
  imports Rbac_Service Pagination
begin

text \<open>
  \<open>AuthService\<close> and \<open>UserService\<close> (service/auth.go, service/user.go): login, refresh-token
  rotation, revocation, access-token verification, and user management. The cryptographic
  libraries (SHA-256, bcrypt, JWT) are fields of \<open>libs\<close>; random bytes and bcrypt salts are
  arguments of the operations that draw them.
\<close>

subsection \<open>Libraries and encodings\<close>

record claims =
  c_uid :: int
  c_username :: string
  c_role :: string
  c_subject :: string
  c_issued :: int
  c_expires :: int

text \<open>
  \<open>jwt_sign alg claims secret\<close> and \<open>jwt_parse keyfunc now token\<close>: the key function gets the
  signing method of the token's header and returns the key or an error, as in
  \<open>jwt.ParseWithClaims\<close>.
\<close>

record libs =
  sha256_hex :: "string \<Rightarrow> string"
  bcrypt_generate :: "string \<Rightarrow> string \<Rightarrow> gerr + string"
  bcrypt_compare :: "string \<Rightarrow> string \<Rightarrow> bool"
  jwt_sign :: "string \<Rightarrow> claims \<Rightarrow> string \<Rightarrow> gerr + string"
  jwt_parse :: "(string \<Rightarrow> gerr + string) \<Rightarrow> time \<Rightarrow> string \<Rightarrow> gerr + claims"

text \<open>\<open>base64.RawURLEncoding.EncodeToString\<close>\<close>

fun b64_groups :: "nat list \<Rightarrow> nat list" where
  "b64_groups [] = []"
| "b64_groups [a] = [a div 4, a mod 4 * 16]"
| "b64_groups [a, b] = [a div 4, a mod 4 * 16 + b div 16, b mod 16 * 4]"
| "b64_groups (a # b # c # r) =
     [a div 4, a mod 4 * 16 + b div 16, b mod 16 * 4 + c div 64, c mod 64] @ b64_groups r"

definition b64_char :: "nat \<Rightarrow> char" where
  "b64_char n = (if n < 26 then char_of (65 + n) else if n < 52 then char_of (71 + n)
     else if n < 62 then char_of (n - 4) else if n = 62 then CHR ''-'' else CHR ''_'')"

definition base64url :: "string \<Rightarrow> string" where
  "base64url bytes = map b64_char (b64_groups (map of_char bytes))"

text \<open>\<open>rand.Read\<close> of \<open>n\<close> bytes: \<open>None\<close> is a failure of the system's random source.\<close>

definition rand_string :: "string \<Rightarrow> string option \<Rightarrow> gerr + string" where
  "rand_string what r = (case r of None \<Rightarrow> Inl (WrapErr what DriverErr) | Some bytes \<Rightarrow> Inr (base64url bytes))"

definition hashToken :: "libs \<Rightarrow> string \<Rightarrow> string" where
  "hashToken l t = sha256_hex l t"

definition seconds :: time where "seconds = 1000000000"
definition hours :: time where "hours = 3600 * seconds"
definition AccessTokenTTL :: time where "AccessTokenTTL = 2 * hours"
definition RefreshTokenTTL :: time where "RefreshTokenTTL = 7 * 24 * hours"

lemmas time_defs = seconds_def hours_def

subsection \<open>AuthService (auth.go)\<close>

record token_pair =
  tp_access :: string
  tp_refresh :: string
  tp_expires :: time

record identity =
  id_user :: int
  id_username :: string
  id_role :: string

definition HashPassword :: "libs \<Rightarrow> string \<Rightarrow> string \<Rightarrow> string act" where
  "HashPassword l salt password = errorf ''hash password'' (from_sum (bcrypt_generate l salt password))"

definition comparePassword :: "libs \<Rightarrow> string \<Rightarrow> string \<Rightarrow> unit act" where
  "comparePassword l hash password = guard (bcrypt_compare l hash password)
     (WithCause (New Unauthorized ''invalid username or password'') (Sentinel InvalidCredentials))"

definition issuePair :: "libs \<Rightarrow> string \<Rightarrow> string option \<Rightarrow> int \<Rightarrow> string \<Rightarrow> string \<Rightarrow> token_pair act" where
  "issuePair l secret rnd uid username rl =
     and_then now (\<lambda>t.
     let c = \<lparr>c_uid = uid, c_username = username, c_role = rl, c_subject = itoa uid,
              c_issued = t div seconds, c_expires = (t + AccessTokenTTL) div seconds\<rparr> in
     and_then (errorf ''sign access token'' (from_sum (jwt_sign l ''HS256'' c secret))) (\<lambda>access.
     and_then (from_sum (rand_string ''generate refresh token'' rnd)) (\<lambda>refresh.
     and_then (repo_CreateRefreshToken \<lparr>rt_id = 0, rt_user_id = uid, rt_token_hash = hashToken l refresh,
         rt_expires = t + RefreshTokenTTL, rt_revoked = False, rt_created = 0\<rparr>) (\<lambda>_.
     ok \<lparr>tp_access = access, tp_refresh = refresh, tp_expires = t + AccessTokenTTL\<rparr>))))"

definition Login :: "libs \<Rightarrow> string \<Rightarrow> string option \<Rightarrow> string \<Rightarrow> string \<Rightarrow> token_pair act" where
  "Login l secret rnd username password =
     and_then (on_result (repo_GetUserByUsername username)
        (\<lambda>e. if isNotFound e then err (WithCause (New Unauthorized ''invalid username or password'')
                (Sentinel InvalidCredentials)) else err e) ok) (\<lambda>u.
     and_then (guard (\<not> u_disabled u) (New UserDisabled ''user is disabled'')) (\<lambda>_.
     and_then (comparePassword l (u_password_hash u) password) (\<lambda>_.
     issuePair l secret rnd (u_id u) (u_username u) (u_role u))))"

text \<open>\<open>Refresh\<close> in its two halves: the checks, and the rotation that revokes the old token.\<close>

definition refresh_check :: "libs \<Rightarrow> string \<Rightarrow> user act" where
  "refresh_check l refreshToken =
     and_then (on_result (repo_GetRefreshTokenByHash (hashToken l refreshToken))
        (\<lambda>e. if isNotFound e then err (New Unauthorized ''invalid refresh token'') else err e) ok) (\<lambda>rec.
     and_then now (\<lambda>t.
     and_then (guard (\<not> (rt_revoked rec \<or> t > rt_expires rec))
        (New Unauthorized ''refresh token expired or revoked'')) (\<lambda>_.
     and_then (on_result (repo_GetUserByID (rt_user_id rec))
        (\<lambda>e. if isNotFound e then err (New Unauthorized ''user no longer exists'') else err e) ok) (\<lambda>u.
     and_then (guard (\<not> u_disabled u) (New UserDisabled ''user is disabled'')) (\<lambda>_.
     ok u)))))"

definition refresh_rotate :: "libs \<Rightarrow> string \<Rightarrow> string option \<Rightarrow> string \<Rightarrow> user \<Rightarrow> token_pair act" where
  "refresh_rotate l secret rnd refreshToken u =
     and_then (repo_RevokeRefreshToken (hashToken l refreshToken)) (\<lambda>_.
     issuePair l secret rnd (u_id u) (u_username u) (u_role u))"

definition Refresh :: "libs \<Rightarrow> string \<Rightarrow> string option \<Rightarrow> string \<Rightarrow> token_pair act" where
  "Refresh l secret rnd refreshToken =
     and_then (refresh_check l refreshToken) (refresh_rotate l secret rnd refreshToken)"

definition RevokeToken :: "libs \<Rightarrow> string \<Rightarrow> unit act" where
  "RevokeToken l refreshToken = repo_RevokeRefreshToken (hashToken l refreshToken)"

definition RevokeAllForUser :: "int \<Rightarrow> unit act" where
  "RevokeAllForUser uid = repo_RevokeAllForUser uid"

text \<open>The key function accepts the HMAC methods only.\<close>

definition keyfunc :: "string \<Rightarrow> string \<Rightarrow> gerr + string" where
  "keyfunc secret alg = (if alg \<in> {''HS256'', ''HS384'', ''HS512''} then Inr secret
     else Inl (PlainErr (''unexpected signing method '' @ alg)))"

definition VerifyAccessToken :: "libs \<Rightarrow> string \<Rightarrow> string \<Rightarrow> identity act" where
  "VerifyAccessToken l secret token = and_then now (\<lambda>t.
     (case jwt_parse l (keyfunc secret) t token of
        Inl e \<Rightarrow> err (WithCause (New Unauthorized ''invalid or expired token'') e)
      | Inr c \<Rightarrow> ok \<lparr>id_user = c_uid c, id_username = c_username c, id_role = c_role c\<rparr>))"

subsection \<open>UserService (user.go)\<close>

definition CreateUser :: "libs \<Rightarrow> string \<Rightarrow> string \<Rightarrow> string \<Rightarrow> string \<Rightarrow> user_dto act" where
  "CreateUser l salt username password rl =
     and_then (guard (rl = RoleAdmin \<or> rl = RoleOperator \<or> rl = RoleViewer)
        (New ParamInvalid ''role must be admin, operator or viewer'')) (\<lambda>_.
     and_then (guard (length password \<ge> 8) (New ParamInvalid ''password must be at least 8 characters'')) (\<lambda>_.
     and_then (refuse_existing UserAlreadyExists ''username already exists'' (repo_GetUserByUsername username)) (\<lambda>_.
     and_then (HashPassword l salt password) (\<lambda>h.
     and_then (repo_CreateUser \<lparr>u_id = 0, u_username = username, u_password_hash = h, u_role = rl,
         u_disabled = False, u_created = 0, u_updated = 0\<rparr>) (\<lambda>u.
     ok (toUserDTO u))))))"

definition DisableUser :: "string \<Rightarrow> bool \<Rightarrow> unit act" where
  "DisableUser username disabled =
     and_then (not_found_as UserNotFound ''user not found'' (repo_GetUserByUsername username)) (\<lambda>u.
     and_then (repo_UpdateUser (u\<lparr>u_disabled := disabled\<rparr>)) (\<lambda>_.
     if disabled then errorf (''revoke tokens for '' @ username) (RevokeAllForUser (u_id u)) else ok ()))"

definition ChangePassword :: "libs \<Rightarrow> string \<Rightarrow> string \<Rightarrow> string \<Rightarrow> string \<Rightarrow> unit act" where
  "ChangePassword l salt username oldPassword newPassword =
     and_then (guard (length newPassword \<ge> 8) (New ParamInvalid ''password must be at least 8 characters'')) (\<lambda>_.
     and_then (not_found_as UserNotFound ''user not found'' (repo_GetUserByUsername username)) (\<lambda>u.
     and_then (comparePassword l (u_password_hash u) oldPassword) (\<lambda>_.
     and_then (HashPassword l salt newPassword) (\<lambda>h.
     and_then (repo_UpdateUser (u\<lparr>u_password_hash := h\<rparr>)) (\<lambda>_.
     RevokeAllForUser (u_id u))))))"

definition ListUsers :: "pagination \<Rightarrow> user_dto result_body act" where
  "ListUsers p = and_then (repo_ListUsers (Offset p) (pg_size p)) (\<lambda>(us, tot).
     ok (Result (map toUserDTO us) tot p))"

definition UsernameByID :: "int \<Rightarrow> string act" where
  "UsernameByID i = on_result (repo_GetUserByID i) (\<lambda>_. ok '''') (\<lambda>u. ok (u_username u))"

definition GetByUsername :: "string \<Rightarrow> user_dto act" where
  "GetByUsername username =
     and_then (not_found_as UserNotFound ''user not found'' (repo_GetUserByUsername username)) (\<lambda>u.
     ok (toUserDTO u))"

record me_permissions =
  mp_role :: string
  mp_permissions :: "string list"

definition UserPermissions :: "string \<Rightarrow> me_permissions act" where
  "UserPermissions username = and_then (GetByUsername username) (\<lambda>u.
     ok \<lparr>mp_role = ud_role u, mp_permissions = PermissionsFor (ud_role u)\<rparr>)"

definition generatePassword :: "string option \<Rightarrow> gerr + string" where
  "generatePassword rnd = rand_string ''generate password'' rnd"

definition ResetPassword :: "libs \<Rightarrow> string \<Rightarrow> string option \<Rightarrow> string \<Rightarrow> (string \<times> string) act" where
  "ResetPassword l salt rnd username =
     and_then (not_found_as UserNotFound ''user not found'' (repo_GetUserByUsername username)) (\<lambda>u.
     and_then (from_sum (generatePassword rnd)) (\<lambda>password.
     and_then (HashPassword l salt password) (\<lambda>h.
     and_then (repo_UpdateUser (u\<lparr>u_password_hash := h\<rparr>)) (\<lambda>_.
     and_then (errorf (''revoke tokens for '' @ username) (RevokeAllForUser (u_id u))) (\<lambda>_.
     ok (username, password))))))"

definition DeleteUser :: "string \<Rightarrow> string \<Rightarrow> unit act" where
  "DeleteUser operator username =
     and_then (guard (operator \<noteq> username) (New Forbidden ''cannot delete the current user'')) (\<lambda>_.
     and_then (guard (username \<noteq> ''admin'') (New Forbidden ''cannot delete built-in admin user'')) (\<lambda>_.
     and_then (not_found_as UserNotFound ''user not found'' (repo_GetUserByUsername username)) (\<lambda>u.
     and_then (errorf (''revoke tokens for '' @ username) (RevokeAllForUser (u_id u))) (\<lambda>_.
     repo_DeleteUser username))))"

end
