(* ===== verification/Auth_Sessions.thy ===== *)
theory Auth_Sessions
  imports Auth_Service
begin

text \<open>
  Sessions over time: any sequence of login, refresh, logout and user-management operations. A
  refresh token that was rotated or revoked never works again; disabling a user and changing a
  password take effect at once.
\<close>

datatype session_op =
    SLogin "string option" string string
  | SRefresh "string option" string
  | SRevoke string
  | SCreateUser string string string string
  | SDisableUser string bool
  | SChangePassword string string string string
  | SResetPassword string "string option" string
  | SDeleteUser string string

definition discard :: "'a act \<Rightarrow> unit act" where
  "discard m = and_then m (\<lambda>_. ok ())"

fun run_session :: "libs \<Rightarrow> string \<Rightarrow> session_op \<Rightarrow> unit act" where
  "run_session l k (SLogin r n p) = discard (Login l k r n p)"
| "run_session l k (SRefresh r t) = discard (Refresh l k r t)"
| "run_session l k (SRevoke t) = RevokeToken l t"
| "run_session l k (SCreateUser s n p r) = discard (CreateUser l s n p r)"
| "run_session l k (SDisableUser n b) = DisableUser n b"
| "run_session l k (SChangePassword s n p q) = ChangePassword l s n p q"
| "run_session l k (SResetPassword s r n) = discard (ResetPassword l s r n)"
| "run_session l k (SDeleteUser a n) = DeleteUser a n"

inductive session_reach :: "libs \<Rightarrow> string \<Rightarrow> database \<Rightarrow> database \<Rightarrow> bool" for l k d0 where
  init: "session_reach l k d0 d0"
| step: "session_reach l k d0 d \<Longrightarrow> run_session l k op \<lparr>w_db = d, w_faults = fs, w_now = t\<rparr> = (r, w') \<Longrightarrow>
    session_reach l k d0 (w_db w')"

lemmas session_defs = Login_def Refresh_def refresh_check_def refresh_rotate_def issuePair_def
  RevokeToken_def RevokeAllForUser_def CreateUser_def DisableUser_def ChangePassword_def
  ResetPassword_def DeleteUser_def HashPassword_def comparePassword_def

lemmas session_repo_defs = repo_GetUserByUsername_def repo_GetUserByID_def repo_CreateUser_def
  repo_UpdateUser_def repo_DeleteUser_def repo_CreateRefreshToken_def repo_GetRefreshTokenByHash_def
  repo_RevokeRefreshToken_def repo_RevokeAllForUser_def

subsection \<open>Well-formed tables\<close>

lemma preserves_revoke:
  "preserves (on_db db_wf) (sql_update db_refresh_tokens db_refresh_tokens_update p (rt_revoked_update f))"
  by (rule refresh_tokens.preserves_update) (simp_all add: refresh_token_uniq_def)

lemma UpdateUser_wf: "0 < u_id u \<Longrightarrow> preserves (on_db db_wf) (repo_UpdateUser u)"
  unfolding repo_UpdateUser_def by (intro pres_rules users.preserves_save) simp

lemma lookup_user_wf:
  assumes "\<And>u. 0 < u_id u \<Longrightarrow> preserves (on_db db_wf) (k u)"
  shows "preserves (on_db db_wf) (and_then (not_found_as c m (repo_GetUserByUsername n)) k)"
  unfolding preserves_wp wp_and_then wp_not_found_as repo_GetUserByUsername_def
  using assms users.first_key_pos
  by (auto simp: wp_rules preserves_wp split: option.splits)

lemma run_session_wf: "preserves (on_db db_wf) (run_session l k op)"
proof -
  note rules = pres_rules preserves_revoke UpdateUser_wf
  show ?thesis
  proof (cases op)
    case (SDisableUser n b)
    have "preserves (on_db db_wf) (DisableUser n b)"
      unfolding DisableUser_def
      by (rule lookup_user_wf) (auto simp: RevokeAllForUser_def repo_RevokeAllForUser_def intro!: rules)
    then show ?thesis by (simp add: SDisableUser)
  next
    case (SChangePassword s n p q)
    have "preserves (on_db db_wf) (ChangePassword l s n p q)"
      unfolding ChangePassword_def
      by (intro preserves_and_then preserves_guard lookup_user_wf)
        (auto simp: RevokeAllForUser_def repo_RevokeAllForUser_def comparePassword_def HashPassword_def intro!: rules)
    then show ?thesis by (simp add: SChangePassword)
  next
    case (SResetPassword s r n)
    have "preserves (on_db db_wf) (ResetPassword l s r n)"
      unfolding ResetPassword_def
      by (rule lookup_user_wf) (auto simp: RevokeAllForUser_def repo_RevokeAllForUser_def
          HashPassword_def intro!: rules)
    then show ?thesis by (simp add: SResetPassword discard_def rules)
  qed (auto simp: session_defs session_repo_defs discard_def Let_def intro!: rules)
qed

subsection \<open>A revoked refresh token stays revoked\<close>

definition revoked :: "string \<Rightarrow> database \<Rightarrow> bool" where
  "revoked h d \<longleftrightarrow> (\<exists>t \<in> set (trows (db_refresh_tokens d)). rt_token_hash t = h \<and> rt_revoked t)"

lemma revoked_create: "preserves (on_db (revoked h))
    (sql_create db_refresh_tokens db_refresh_tokens_update (\<lambda>i. rt_id_update (\<lambda>_. i)) u r)"
  unfolding sql_create_def
  by (rule preserves_sql_exec) (auto simp: revoked_def tbl_insert_def Let_def split: option.splits if_splits)

lemma revoked_update: "preserves (on_db (revoked h))
    (sql_update db_refresh_tokens db_refresh_tokens_update p (rt_revoked_update (\<lambda>_. True)))"
  unfolding sql_update_def
  by (rule preserves_sql_exec) (force simp: revoked_def tbl_update_def)

lemma run_session_revoked: "preserves (on_db (revoked h)) (run_session l k op)"
proof -
  have frame: "\<And>f d. revoked h d \<Longrightarrow> revoked h (db_users_update f d)" by (simp add: revoked_def)
  note rules = pres_rules revoked_create revoked_update
    frame_rules [where I = "revoked h" and upd = db_users_update, OF frame]
  show ?thesis
    by (cases op) (auto simp: session_defs session_repo_defs discard_def Let_def intro!: rules)
qed

lemma reach_revoked:
  assumes "session_reach l k d0 d" and "db_wf d0" and "revoked h d0"
  shows "db_wf d \<and> revoked h d"
  using assms
proof induction
  case (step d op fs t r w')
  let ?w = "\<lparr>w_db = d, w_faults = fs, w_now = t\<rparr>"
  have "w_db (snd (run_session l k op ?w)) = w_db w'" using step.hyps(2) by simp
  then show ?case
    using preservesD [OF run_session_wf, of ?w l k op] preservesD [OF run_session_revoked, of h ?w l k op] step
    by simp
qed simp

lemma by_token_hash:
  assumes "db_wf d" and "t \<in> set (trows (db_refresh_tokens d))"
  shows "tbl_first rt_id (\<lambda>r. rt_token_hash r = rt_token_hash t) (db_refresh_tokens d) = Some t"
  using refresh_tokens.by_index [OF assms(1), of "\<lambda>r. rt_token_hash r = rt_token_hash t" t] assms(2)
  by (simp add: refresh_token_uniq_def)

lemma Refresh_revoked:
  assumes "db_wf (w_db w)" and "revoked (hashToken l tok) (w_db w)"
  shows "wp (Refresh l k r tok) (\<lambda>_ _. False) (\<lambda>_ w'. w_db w' = w_db w) w"
proof -
  obtain t where t: "t \<in> set (trows (db_refresh_tokens (w_db w)))" "rt_token_hash t = hashToken l tok" "rt_revoked t"
    using assms(2) by (auto simp: revoked_def)
  from by_token_hash [OF assms(1) t(1)] t(2,3) show ?thesis
    by (simp add: Refresh_def refresh_check_def repo_GetRefreshTokenByHash_def wp_rules)
qed

lemma tbl_updateI: "x \<in> set (trows t) \<Longrightarrow> p x \<Longrightarrow> f x \<in> set (trows (tbl_update p f t))"
  by (force simp: tbl_update_def)

lemma save_member: "tbl_save rid uniq r t = Some t' \<Longrightarrow> r \<in> set (trows t')"
  by (force simp: tbl_save_def list_ex_iff split: if_splits)

lemma wp_FalseD: "wp m (\<lambda>_ _. False) E w \<Longrightarrow> \<exists>e w'. m w = (Inl e, w') \<and> E e w'"
  by (auto simp: wp_def split: prod.splits sum.splits)

lemma revoked_rows:
  assumes "t \<in> set (trows (db_refresh_tokens d))" "p t" "rt_token_hash t = h"
  shows "revoked h (db_refresh_tokens_update (tbl_update p (rt_revoked_update (\<lambda>_. True))) d)"
proof -
  let ?t = "rt_revoked_update (\<lambda>_. True) t"
  have m: "?t \<in> set (trows (tbl_update p (rt_revoked_update (\<lambda>_. True)) (db_refresh_tokens d)))"
    using assms(1,2) by (rule tbl_updateI)
  show ?thesis unfolding revoked_def
  proof (rule bexI [where x = ?t])
    show "rt_token_hash ?t = h \<and> rt_revoked ?t" by (simp add: assms(3))
  qed (use m in simp)
qed

lemma disabled_save:
  assumes "tbl_save u_id un (u\<lparr>u_disabled := True, u_updated := t\<rparr>) tb = Some tb'" and "u_username u = n"
  shows "\<exists>u \<in> set (trows tb'). u_username u = n \<and> u_disabled u"
  by (rule bexI [OF _ save_member [OF assms(1)]]) (simp add: assms(2))

lemma wp_RevokeRefreshToken:
  assumes "\<exists>t \<in> set (trows (db_refresh_tokens (w_db w))). rt_token_hash t = h"
  shows "wp (repo_RevokeRefreshToken h) (\<lambda>_ w'. revoked h (w_db w')) (\<lambda>_ w'. w_db w' = w_db w) w"
  using assms by (auto simp: repo_RevokeRefreshToken_def wp_rules intro: revoked_rows)

lemma wp_refresh_check:
  "wp (refresh_check l tok)
     (\<lambda>u w'. w_db w' = w_db w \<and> w_now w' = w_now w \<and> u \<in> set (trows (db_users (w_db w))) \<and> \<not> u_disabled u \<and>
        (\<exists>t \<in> set (trows (db_refresh_tokens (w_db w))). rt_token_hash t = hashToken l tok \<and>
           \<not> rt_revoked t \<and> w_now w \<le> rt_expires t \<and> rt_user_id t = u_id u))
     (\<lambda>_ w'. w_db w' = w_db w) w"
  by (auto simp: refresh_check_def repo_GetRefreshTokenByHash_def repo_GetUserByID_def wp_rules
      split: option.splits dest!: tbl_first_SomeD)

lemma issuePair_revoked: "preserves (on_db (revoked h)) (issuePair l k r i n rl)"
  unfolding issuePair_def repo_CreateRefreshToken_def Let_def
  by (intro pres_rules revoked_create)

lemma wp_preserved: "preserves (on_db I) m \<Longrightarrow> I (w_db w) \<Longrightarrow> wp m (\<lambda>_ w'. I (w_db w')) (\<lambda>_ w'. I (w_db w')) w"
  by (simp add: preserves_wp)

lemma wp_Refresh_revokes:
  "wp (Refresh l k r tok) (\<lambda>_ w'. revoked (hashToken l tok) (w_db w')) (\<lambda>_ _. True) w"
  unfolding Refresh_def refresh_rotate_def wp_and_then
  by (rule wp_mono [OF wp_refresh_check], rule wp_mono [OF wp_RevokeRefreshToken])
    (auto intro: wp_mono [OF wp_preserved [OF issuePair_revoked]])

subsection \<open>Properties\<close>

text \<open>C7: refresh tokens are single-use. Once \<open>Refresh\<close> has exchanged a token, no later
  \<open>Refresh\<close> with the same token succeeds, whatever sessions and user changes happen in between
  and whatever statements fail; and the attempt leaves the database unchanged.\<close>

theorem Refresh_single_use:
  assumes "db_wf (w_db w)" and "Refresh l k r tok w = (Inr pair, w1)"
    and "session_reach l k (w_db w1) (w_db w2)"
  shows "\<exists>e w3. Refresh l k r' tok w2 = (Inl e, w3) \<and> w_db w3 = w_db w2"
proof -
  have "run_session l k (SRefresh r tok) w = (Inr (), w1)"
    using assms(2) by (simp add: discard_def and_then_def on_result_def ok_def)
  then have "db_wf (w_db w1)" using preservesD [OF run_session_wf, of w l k "SRefresh r tok"] assms(1) by simp
  moreover have "revoked (hashToken l tok) (w_db w1)" by (rule wp_InrD [OF wp_Refresh_revokes assms(2)])
  ultimately have "db_wf (w_db w2)" "revoked (hashToken l tok) (w_db w2)"
    using reach_revoked [OF assms(3)] by simp_all
  from wp_FalseD [OF Refresh_revoked [OF this]] show ?thesis .
qed


text \<open>C9: a successful login yields the right identity. The user exists, is enabled and the
  password matches the stored hash; and until the access token expires, the token verifies and
  names exactly that user and role. The hypothesis is the JWT library's contract: a token signed
  with the service's key and not yet expired parses back to its claims.\<close>

theorem Login_identity:
  assumes "Login l k r name pw w = (Inr pair, w')"
    and jwt: "\<And>c tok t. jwt_sign l ''HS256'' c k = Inr tok \<Longrightarrow> t < c_expires c * seconds \<Longrightarrow>
        jwt_parse l (keyfunc k) t tok = Inr c"
    and "w_now v < w_now w + AccessTokenTTL - seconds"
  shows "\<exists>u \<in> set (trows (db_users (w_db w))). u_username u = name \<and> \<not> u_disabled u \<and>
    bcrypt_compare l (u_password_hash u) pw \<and>
    VerifyAccessToken l k (tp_access pair) v =
      (Inr \<lparr>id_user = u_id u, id_username = name, id_role = u_role u\<rparr>, v)"
proof -
  have s: "(0::int) < seconds" by (simp add: seconds_def)
  have sec: "w_now v < (w_now w + AccessTokenTTL) div seconds * seconds"
    using assms(3) s by (simp add: minus_mod_eq_div_mult [symmetric]) (smt (verit) pos_mod_bound)
  have "wp (Login l k r name pw) (\<lambda>p w'. \<exists>u \<in> set (trows (db_users (w_db w))). u_username u = name \<and>
      \<not> u_disabled u \<and> bcrypt_compare l (u_password_hash u) pw \<and>
      (\<exists>c. jwt_sign l ''HS256'' c k = Inr (tp_access p) \<and> c_uid c = u_id u \<and> c_username c = u_username u \<and>
         c_role c = u_role u \<and> c_expires c = (w_now w + AccessTokenTTL) div seconds)) (\<lambda>_ _. True) w"
    by (auto simp: Login_def comparePassword_def issuePair_def session_repo_defs wp_rules Let_def
        split: option.splits sum.splits dest!: tbl_first_SomeD intro!: bexI exI)
  from wp_InrD [OF this assms(1)] obtain u c where u: "u \<in> set (trows (db_users (w_db w)))"
      "u_username u = name" "\<not> u_disabled u" "bcrypt_compare l (u_password_hash u) pw"
    and c: "jwt_sign l ''HS256'' c k = Inr (tp_access pair)" "c_uid c = u_id u" "c_username c = u_username u"
      "c_role c = u_role u" "c_expires c = (w_now w + AccessTokenTTL) div seconds" by blast
  have "jwt_parse l (keyfunc k) (w_now v) (tp_access pair) = Inr c"
    using jwt [OF c(1)] sec c(5) by simp
  then have "VerifyAccessToken l k (tp_access pair) v =
      (Inr \<lparr>id_user = u_id u, id_username = name, id_role = u_role u\<rparr>, v)"
    using c u(2) by (simp add: VerifyAccessToken_def and_then_def on_result_def now_def ok_def)
  with u show ?thesis by blast
qed


subsection \<open>Examples\<close>

text \<open>Stand-ins for the libraries, and a database with one user and one live refresh token.\<close>

definition demo_claims :: claims where
  "demo_claims = \<lparr>c_uid = 7, c_username = ''eve'', c_role = ''viewer'', c_subject = ''7'', c_issued = 0, c_expires = 7200\<rparr>"

definition demo_libs :: libs where
  "demo_libs = \<lparr>sha256_hex = (\<lambda>s. ''h:'' @ s), bcrypt_generate = (\<lambda>s p. Inr (''b:'' @ p)),
     bcrypt_compare = (\<lambda>h p. h = ''b:'' @ p),
     jwt_sign = (\<lambda>alg c k. if c = demo_claims then Inr ''jwt'' else Inl DriverErr),
     jwt_parse = (\<lambda>kf t tok. if tok = ''jwt'' \<and> t < c_expires demo_claims * seconds then Inr demo_claims
        else Inl DriverErr)\<rparr>"

definition session_db :: database where
  "session_db = empty_db\<lparr>
     db_users := \<lparr>trows = [\<lparr>u_id = 7, u_username = ''eve'', u_password_hash = ''b:secret123'', u_role = ''viewer'',
        u_disabled = False, u_created = 1, u_updated = 1\<rparr>], tseq = 7\<rparr>,
     db_refresh_tokens := \<lparr>trows = [\<lparr>rt_id = 1, rt_user_id = 7, rt_token_hash = ''h:tok'', rt_expires = 1000,
        rt_revoked = False, rt_created = 1\<rparr>], tseq = 1\<rparr>\<rparr>"

definition session_world :: "bool list \<Rightarrow> world" where
  "session_world fs = \<lparr>w_db = session_db, w_faults = fs, w_now = 100\<rparr>"

lemma session_wf: "db_wf (w_db (session_world fs))"
proof -
  have "db_wf session_db" by code_simp
  then show ?thesis by (simp add: session_world_def)
qed

lemma Refresh_single_use_witness:
  "\<exists>pair w1. Refresh demo_libs ''key'' (Some ''abc'') ''tok'' (session_world []) = (Inr pair, w1) \<and>
     (\<exists>e w3. Refresh demo_libs ''key'' (Some ''abd'') ''tok'' w1 = (Inl e, w3))"
proof -
  have "is_ok (fst (Refresh demo_libs ''key'' (Some ''abc'') ''tok'' (session_world [])))" by code_simp
  then obtain pair w1 where w1: "Refresh demo_libs ''key'' (Some ''abc'') ''tok'' (session_world []) = (Inr pair, w1)"
    by (blast dest: is_okE)
  with Refresh_single_use [OF session_wf w1 session_reach.init] show ?thesis by blast
qed


lemma Login_identity_witness:
  "\<exists>pair w'. Login demo_libs ''key'' (Some ''abc'') ''eve'' ''secret123'' (session_world []) = (Inr pair, w') \<and>
     VerifyAccessToken demo_libs ''key'' (tp_access pair) w' =
       (Inr \<lparr>id_user = 7, id_username = ''eve'', id_role = ''viewer''\<rparr>, w')"
proof -
  have "is_ok (fst (Login demo_libs ''key'' (Some ''abc'') ''eve'' ''secret123'' (session_world [])))" by code_simp
  then obtain pair w' where w': "Login demo_libs ''key'' (Some ''abc'') ''eve'' ''secret123'' (session_world []) = (Inr pair, w')"
    by (blast dest: is_okE)
  have jwt: "jwt_sign demo_libs ''HS256'' c ''key'' = Inr tok \<Longrightarrow> t < c_expires c * seconds \<Longrightarrow>
      jwt_parse demo_libs (keyfunc ''key'') t tok = Inr c" for c tok t
    by (auto simp: demo_libs_def split: if_splits)
  have now: "w_now (session_world []) < w_now (session_world []) + AccessTokenTTL - seconds"
    by (simp add: AccessTokenTTL_def time_defs)
  have "w_now w' = w_now (session_world [])"
  proof -
    have "w_now (snd (Login demo_libs ''key'' (Some ''abc'') ''eve'' ''secret123'' (session_world []))) = 100" by code_simp
    then have "w_now w' = 100" unfolding w' snd_conv .
    then show ?thesis by (simp add: session_world_def)
  qed
  then have "w_now w' < w_now (session_world []) + AccessTokenTTL - seconds" using now by simp
  from Login_identity [OF w' jwt this] show ?thesis
    using w' by (auto simp: session_world_def session_db_def)
qed


subsection \<open>Two gaps\<close>

text \<open>The check and the rotation of \<open>Refresh\<close> are not one transaction: two requests with the same
  token that both pass the check before either rotates it both get a new pair.\<close>

definition both_refresh :: "libs \<Rightarrow> string \<Rightarrow> string option \<Rightarrow> string option \<Rightarrow> string \<Rightarrow> (token_pair \<times> token_pair) act" where
  "both_refresh l k r1 r2 tok =
     and_then (refresh_check l tok) (\<lambda>u1. and_then (refresh_check l tok) (\<lambda>u2.
     and_then (refresh_rotate l k r1 tok u1) (\<lambda>p1. and_then (refresh_rotate l k r2 tok u2) (\<lambda>p2.
     ok (p1, p2)))))"

lemma refresh_race: "is_ok (fst (both_refresh demo_libs ''key'' (Some ''abc'') (Some ''abd'') ''tok'' (session_world [])))"
  by code_simp

text \<open>\<open>DeleteUser\<close> leaves the grants of the user behind; the next listing of grants fails.\<close>

definition orphan_db :: database where
  "orphan_db = session_db\<lparr>
     db_roles := \<lparr>trows = [\<lparr>ro_id = 4, ro_name = ''dev'', ro_description = '''', ro_builtin = False,
        ro_permissions = ''[]'', ro_created = 1, ro_updated = 1\<rparr>], tseq = 4\<rparr>,
     db_grants := \<lparr>trows = [\<lparr>g_id = 1, g_subject_type = ''user'', g_subject_id = 7, g_object_type = ''role'',
        g_object_id = 4, g_created = 1\<rparr>], tseq = 1\<rparr>,
     db_grant_scopes := \<lparr>trows = [\<lparr>gs_id = 1, gs_grant = 1, gs_cluster = ''*'', gs_namespace = ''*''\<rparr>], tseq = 1\<rparr>\<rparr>"

lemma deleted_user_breaks_ListGrants:
  "is_ok (fst (ListGrants '''' 0 '''' 0 \<lparr>w_db = orphan_db, w_faults = [], w_now = 9\<rparr>)) \<and>
   (case fst (and_then (DeleteUser ''root'' ''eve'') (\<lambda>_. ListGrants '''' 0 '''' 0)
        \<lparr>w_db = orphan_db, w_faults = [], w_now = 9\<rparr>) of
      Inl e \<Rightarrow> From e = Some (UserNotFound, ''user not found'') | Inr _ \<Rightarrow> False)"
  by code_simp

end
