(* ===== verification/Enroll.thy ===== *)
theory Enroll
  imports Auth_Sessions
begin

text \<open>
  \<open>EnrollService\<close> (service/enroll.go): the time-to-live grammar with Go's 64-bit durations, and
  the life of an enrollment token: created, checked on every agent connection, marked as used,
  revoked or expired.
\<close>

subsection \<open>Time to live\<close>

definition EnrollTokenDefaultTTL :: time where "EnrollTokenDefaultTTL = 24 * hours"
definition EnrollTokenMaxTTL :: time where "EnrollTokenMaxTTL = 30 * 365 * 24 * hours"

text \<open>\<open>ttlRE.FindStringSubmatch\<close> for the pattern \<open>^(\d+)(h|d|mo|y)$\<close>.\<close>

definition ttl_match :: "string \<Rightarrow> (string \<times> string) option" where
  "ttl_match s = (let ds = takeWhile is_digit s; u = dropWhile is_digit s in
     if ds \<noteq> [] \<and> u \<in> {''h'', ''d'', ''mo'', ''y''} then Some (ds, u) else None)"

text \<open>\<open>time.Duration(n) * unit\<close> wraps around at 64 bits, factor by factor.\<close>

definition unit_duration :: "string \<Rightarrow> int \<Rightarrow> time" where
  "unit_duration u n =
     (if u = ''h'' then wrap64 (n * hours)
      else if u = ''d'' then wrap64 (wrap64 (n * 24) * hours)
      else if u = ''mo'' then wrap64 (wrap64 (wrap64 (n * 30) * 24) * hours)
      else wrap64 (wrap64 (wrap64 (n * 365) * 24) * hours))"

definition parseTTL :: "string \<Rightarrow> gerr + (time \<times> bool)" where
  "parseTTL raw = (let s = trim_space (to_lower raw) in
     if s = '''' then Inr (EnrollTokenDefaultTTL, False)
     else if s = ''permanent'' then Inr (0, True)
     else (case ttl_match s of
         None \<Rightarrow> Inl (PlainErr ''ttl must be like 24h / 30d / 6mo / 2y or permanent'')
       | Some (ds, u) \<Rightarrow>
         (case atoi ds of
            None \<Rightarrow> Inl (PlainErr ''ttl number must be positive'')
          | Some n \<Rightarrow>
            if n \<le> 0 then Inl (PlainErr ''ttl number must be positive'')
            else let d = unit_duration u n in
              if d > EnrollTokenMaxTTL then Inl (PlainErr ''ttl exceeds maximum 30y'') else Inr (d, False))))"

text \<open>\<open>now.AddDate(100, 0, 0)\<close> on the proleptic Gregorian calendar; time counts nanoseconds from
  the zero time, 1 January of year 1.\<close>

definition leap :: "int \<Rightarrow> bool" where
  "leap y \<longleftrightarrow> y mod 4 = 0 \<and> (y mod 100 \<noteq> 0 \<or> y mod 400 = 0)"

definition days_before :: "int \<Rightarrow> int" where
  "days_before y = 365 * (y - 1) + (y - 1) div 4 - (y - 1) div 100 + (y - 1) div 400"

definition year_of :: "int \<Rightarrow> int" where
  "year_of day = (let y = 400 * day div 146097 + 1 in
     if day < days_before y then y - 1 else if day \<ge> days_before (y + 1) then y + 1 else y)"

definition add_years :: "int \<Rightarrow> time \<Rightarrow> time" where
  "add_years n t = (let per_day = 24 * hours; day = t div per_day; y = year_of day; doy = day - days_before y;
     shift = (if doy < 59 \<or> (leap y \<and> doy = 59) then doy
              else doy - (if leap y then 1 else 0) + (if leap (y + n) then 1 else 0))
     in (days_before (y + n) + shift) * per_day + t mod per_day)"

subsection \<open>Tokens\<close>

record enroll_view =
  ev_id :: int
  ev_cluster :: string
  ev_expires :: time
  ev_no_expiry :: bool
  ev_revoked :: bool
  ev_created :: time

definition toEnrollTokenView :: "enroll_token \<Rightarrow> enroll_view" where
  "toEnrollTokenView r = \<lparr>ev_id = et_id r, ev_cluster = et_cluster r, ev_expires = et_expires r,
     ev_no_expiry = et_no_expiry r, ev_revoked = et_revoked r, ev_created = et_created r\<rparr>"

definition newAgentSecret :: "string option \<Rightarrow> gerr + string" where
  "newAgentSecret rnd = rand_string ''generate secret'' rnd"

definition Enroll_Create :: "libs \<Rightarrow> string option \<Rightarrow> string \<Rightarrow> string \<Rightarrow> (enroll_view \<times> string) act" where
  "Enroll_Create l rnd cluster ttl =
     and_then (not_found_as ClusterNotFound ''cluster not found'' (repo_GetClusterByName cluster)) (\<lambda>_.
     and_then (case parseTTL ttl of Inl e \<Rightarrow> err (New ParamInvalid (err_text e)) | Inr x \<Rightarrow> ok x) (\<lambda>(d, never).
     and_then (from_sum (newAgentSecret rnd)) (\<lambda>raw.
     and_then now (\<lambda>t.
     and_then (repo_CreateEnrollToken \<lparr>et_id = 0, et_cluster = cluster, et_token_hash = hashToken l raw,
         et_no_expiry = never, et_expires = (if never then add_years 100 t else t + d),
         et_revoked = False, et_used = None, et_created = 0\<rparr>) (\<lambda>r.
     ok (toEnrollTokenView r, raw))))))"

definition Enroll_List :: "enroll_view list act" where
  "Enroll_List = and_then repo_ListEnrollTokens (\<lambda>rs. ok (map toEnrollTokenView rs))"

definition Enroll_Revoke :: "int \<Rightarrow> unit act" where
  "Enroll_Revoke i = not_found_as NotFound ''enroll token not found'' (repo_RevokeEnrollToken i)"

definition enroll_lookup :: "libs \<Rightarrow> string \<Rightarrow> enroll_token act" where
  "enroll_lookup l token =
     and_then (on_result (repo_GetEnrollTokenByHash (hashToken l token))
        (\<lambda>e. if isNotFound e then err (New EnrollTokenInvalid ''invalid enrollment token'') else err e) ok) (\<lambda>rec.
     and_then now (\<lambda>t.
     and_then (guard (\<not> (et_revoked rec \<or> (\<not> et_no_expiry rec \<and> t > et_expires rec)))
        (New EnrollTokenInvalid ''enrollment token is revoked or expired'')) (\<lambda>_.
     ok rec)))"

definition Enroll_Check :: "libs \<Rightarrow> string \<Rightarrow> string act" where
  "Enroll_Check l token = and_then (enroll_lookup l token) (\<lambda>rec. ok (et_cluster rec))"

definition Enroll_Validate :: "libs \<Rightarrow> string \<Rightarrow> string act" where
  "Enroll_Validate l token = Enroll_Check l token"

definition Enroll_Confirm :: "libs \<Rightarrow> string \<Rightarrow> unit act" where
  "Enroll_Confirm l token = and_then (enroll_lookup l token) (\<lambda>rec. repo_ConsumeEnrollToken (et_id rec))"

definition Enroll_CleanupExpired :: "unit act" where
  "Enroll_CleanupExpired = and_then now (\<lambda>t.
     on_result (repo_DeleteExpiredEnrollTokens t) (\<lambda>_. ok ()) (\<lambda>_. ok ()))"

subsection \<open>Time-to-live arithmetic\<close>

fun unit_length :: "string \<Rightarrow> time" where
  "unit_length u = (if u = ''h'' then hours else if u = ''d'' then 24 * hours
     else if u = ''mo'' then 30 * 24 * hours else 365 * 24 * hours)"

declare unit_length.simps [simp del]

lemma unit_duration_exact:
  assumes "0 < n" and "n * unit_length u < 2 ^ 63"
  shows "unit_duration u n = n * unit_length u"
proof -
  have h: "hours = 3600000000000" by (simp add: time_defs)
  have "int64 (n * 24)" "int64 (n * 30)" "int64 (n * 30 * 24)" "int64 (n * 365)" "int64 (n * 365 * 24)"
    if "n * k * hours < 2 ^ 63" "k \<in> {24, 30 * 24, 365 * 24}" for k :: int
    using that assms(1) by (auto simp: int64_def h)
  then show ?thesis
    using assms by (auto simp: unit_duration_def unit_length.simps int64_def h split: if_splits)
qed

lemma ttl_match_split:
  assumes "ds \<noteq> []" "list_all is_digit ds" "u \<in> {''h'', ''d'', ''mo'', ''y''}"
  shows "ttl_match (ds @ u) = Some (ds, u)"
proof -
  have u: "takeWhile is_digit u = []" "dropWhile is_digit u = u"
    using assms(3) by (auto simp: is_digit_def)
  have "takeWhile is_digit (ds @ u) = ds" "dropWhile is_digit (ds @ u) = u"
    using assms(2) u by (simp_all add: list_all_iff)
  then show ?thesis using assms(1,3) by (simp add: ttl_match_def Let_def)
qed

lemma atoi_digits:
  assumes "ds \<noteq> []" "list_all is_digit ds" "int64 (digits_val 0 ds)"
  shows "atoi ds = Some (digits_val 0 ds)"
proof -
  obtain c cs where ds: "ds = c # cs" using assms(1) by (cases ds) auto
  have "is_digit c" using assms(2) by (simp add: ds)
  then have "c \<noteq> CHR ''-''" "c \<noteq> CHR ''+''" by (auto simp: is_digit_def)
  then show ?thesis using assms by (simp add: atoi.simps parse_digits_def ds)
qed



text \<open>Beyond 64 bits the product wraps around: a value of about 292 years is accepted, with an
  expiry in the past.\<close>

lemma parseTTL_overflow: "parseTTL ''2562048h'' = Inr (- 9223371273709551616, False)"
  by code_simp

subsection \<open>Life of a token\<close>

lemma wp_enroll_lookup:
  "wp (enroll_lookup l token) (\<lambda>r w'. w_db w' = w_db w \<and> w_now w' = w_now w \<and>
       tbl_first et_id (\<lambda>e. et_token_hash e = hashToken l token) (db_enroll_tokens (w_db w)) = Some r \<and>
       \<not> et_revoked r \<and> (et_no_expiry r \<or> w_now w \<le> et_expires r)) (\<lambda>_ _. True) w"
  by (auto simp: enroll_lookup_def repo_GetEnrollTokenByHash_def wp_rules split: option.splits)

lemma Enroll_Check_row:
  assumes "db_wf (w_db w)" "w_faults w = []" "r \<in> set (trows (db_enroll_tokens (w_db w)))"
    "et_token_hash r = hashToken l token"
  shows "fst (Enroll_Check l token w) = (if et_revoked r \<or> (\<not> et_no_expiry r \<and> w_now w > et_expires r)
    then Inl (New EnrollTokenInvalid ''enrollment token is revoked or expired'') else Inr (et_cluster r))"
proof -
  have "tbl_first et_id (\<lambda>e. et_token_hash e = hashToken l token) (db_enroll_tokens (w_db w)) = Some r"
    using enroll_tokens.by_index [OF assms(1), of "\<lambda>e. et_token_hash e = hashToken l token" r] assms(3,4)
    by (simp add: enroll_token_uniq_def)
  then have "wp (Enroll_Check l token)
     (\<lambda>c _. \<not> (et_revoked r \<or> (\<not> et_no_expiry r \<and> w_now w > et_expires r)) \<and> c = et_cluster r)
     (\<lambda>e _. (et_revoked r \<or> (\<not> et_no_expiry r \<and> w_now w > et_expires r)) \<and>
        e = New EnrollTokenInvalid ''enrollment token is revoked or expired'') w"
    using assms(2) by (simp add: Enroll_Check_def enroll_lookup_def repo_GetEnrollTokenByHash_def wp_rules)
  then show ?thesis by (auto simp: wp_def split: prod.splits sum.splits)
qed

lemma preserves_Enroll_Create: "preserves (on_db db_wf) (Enroll_Create l rnd c ttl)"
  unfolding Enroll_Create_def repo_GetClusterByName_def repo_CreateEnrollToken_def
  by (intro pres_rules) (auto intro!: pres_rules split: sum.splits)


definition enroll_world :: "time \<Rightarrow> world" where
  "enroll_world t = \<lparr>w_db = session_db\<lparr>db_clusters := \<lparr>trows = [\<lparr>cl_id = 1, cl_name = ''c1'', cl_description = '''',
      cl_kubeconfig = ''x'', cl_access_mode = ''agent'', cl_status = ''offline'', cl_version = '''', cl_message = '''',
      cl_transition = 1, cl_created = 1, cl_updated = 1\<rparr>], tseq = 1\<rparr>\<rparr>, w_faults = [], w_now = t\<rparr>"


end
