(* ===== verification/Kubeissue.thy ===== *)
theory Kubeissue
  imports Enroll
begin

text \<open>
  \<open>KubeconfigService\<close> (service/kubeissue.go): short-lived client credentials with a one-time
  download code. The codes live in a map in memory, beside the database; serialising the
  kubeconfig to YAML is the client-go library's.
\<close>

definition minutes :: time where "minutes = 60 * seconds"
definition IssuedDefaultTTL :: time where "IssuedDefaultTTL = 24 * hours"
definition IssuedMaxTTL :: time where "IssuedMaxTTL = 7 * 24 * hours"
definition IssuedMinTTL :: time where "IssuedMinTTL = minutes"
definition DownloadCodeTTL :: time where "DownloadCodeTTL = 10 * minutes"
definition DownloadLinkTTL :: time where "DownloadLinkTTL = 24 * hours"

lemmas issue_consts = IssuedDefaultTTL_def IssuedMaxTTL_def IssuedMinTTL_def DownloadCodeTTL_def
  DownloadLinkTTL_def minutes_def

record download_entry =
  de_cluster :: string
  de_token :: string
  de_expires :: time
  de_link_expiry :: time

text \<open>The kubeconfig the service builds; its maps have one entry each.\<close>

record kubeconfig =
  kc_cluster_name :: string
  kc_server :: string
  kc_skip_tls :: bool
  kc_user_name :: string
  kc_user_token :: string
  kc_context_name :: string
  kc_context_cluster :: string
  kc_context_user :: string
  kc_current_context :: string

record kube_service =
  ks_external_url :: string
  ks_write :: "kubeconfig \<Rightarrow> gerr + string"

record kube_state =
  kw_world :: world
  kw_codes :: "string \<Rightarrow> download_entry option"

type_synonym 'a kact = "(kube_state, 'a) gm"

definition db :: "'a act \<Rightarrow> 'a kact" where
  "db m = (\<lambda>s. case m (kw_world s) of (r, w) \<Rightarrow> (r, s\<lparr>kw_world := w\<rparr>))"

definition put_code :: "string \<Rightarrow> download_entry \<Rightarrow> unit kact" where
  "put_code c e = (\<lambda>s. (Inr (), s\<lparr>kw_codes := (kw_codes s)(c \<mapsto> e)\<rparr>))"

text \<open>Under the lock: look the code up and delete it.\<close>

definition take_code :: "string \<Rightarrow> download_entry option kact" where
  "take_code c = (\<lambda>s. (Inr (kw_codes s c), s\<lparr>kw_codes := (kw_codes s)(c := None)\<rparr>))"

definition drop_codes :: "time \<Rightarrow> unit kact" where
  "drop_codes t = (\<lambda>s. (Inr (), s\<lparr>kw_codes := (\<lambda>c. case kw_codes s c of None \<Rightarrow> None
     | Some e \<Rightarrow> if t > de_link_expiry e then None else Some e)\<rparr>))"

lemma wp_db [wp_rules]: "wp (db m) Q E s =
  wp m (\<lambda>x w. Q x (s\<lparr>kw_world := w\<rparr>)) (\<lambda>e w. E e (s\<lparr>kw_world := w\<rparr>)) (kw_world s)"
  by (simp add: wp_def db_def split: prod.splits sum.splits)

lemma wp_codes [wp_rules]:
  "wp (put_code c e) Q E s = Q () (s\<lparr>kw_codes := (kw_codes s)(c \<mapsto> e)\<rparr>)"
  "wp (take_code c) Q' E' s = Q' (kw_codes s c) (s\<lparr>kw_codes := (kw_codes s)(c := None)\<rparr>)"
  "wp (drop_codes t) Q E s = Q () (s\<lparr>kw_codes := (\<lambda>c. case kw_codes s c of None \<Rightarrow> None
     | Some e \<Rightarrow> if t > de_link_expiry e then None else Some e)\<rparr>)"
  by (simp_all add: wp_def put_code_def take_code_def drop_codes_def)

subsection \<open>Operations\<close>

record issued_view =
  iv_id :: int
  iv_user_id :: int
  iv_cluster :: string
  iv_description :: string
  iv_expires :: time
  iv_revoked :: bool
  iv_created :: time

record issued_created = issued_view +
  ic_token :: string
  ic_download_url :: string
  ic_link_expires :: time

definition toIssuedView :: "issued_kubeconfig \<Rightarrow> issued_view" where
  "toIssuedView r = \<lparr>iv_id = ik_id r, iv_user_id = ik_user_id r, iv_cluster = ik_cluster r,
     iv_description = ik_description r, iv_expires = ik_expires r, iv_revoked = ik_revoked r,
     iv_created = ik_created r\<rparr>"

definition BuildKubeconfigYAML :: "kube_service \<Rightarrow> string \<Rightarrow> string \<Rightarrow> gerr + string" where
  "BuildKubeconfigYAML ks cluster token =
     (let name = ''kubeui-'' @ cluster in
      case ks_write ks \<lparr>kc_cluster_name = name, kc_server = ks_external_url ks @ ''/k8s/'' @ cluster,
          kc_skip_tls = True, kc_user_name = name, kc_user_token = token, kc_context_name = name,
          kc_context_cluster = name, kc_context_user = name, kc_current_context = name\<rparr> of
        Inl e \<Rightarrow> Inl (WrapErr ''write kubeconfig'' e) | Inr y \<Rightarrow> Inr y)"

definition kube_cleanupExpired :: "unit kact" where
  "kube_cleanupExpired = and_then (db now) (\<lambda>t.
     on_result (db (repo_DeleteExpiredIssuedKubeconfigs t)) (\<lambda>_. drop_codes t) (\<lambda>_. drop_codes t))"

text \<open>\<open>switch\<close> on the requested lifetime.\<close>

definition issue_ttl :: "time \<Rightarrow> gerr + time" where
  "issue_ttl ttl = (if ttl \<le> 0 then Inr IssuedDefaultTTL
     else if ttl > IssuedMaxTTL then Inl (New ParamInvalid ''ttl exceeds maximum 7d'')
     else if ttl < IssuedMinTTL then Inl (New ParamInvalid ''ttl too short'') else Inr ttl)"

definition Issue :: "libs \<Rightarrow> kube_service \<Rightarrow> string option \<Rightarrow> string option \<Rightarrow> int \<Rightarrow> string \<Rightarrow> time \<Rightarrow> string \<Rightarrow>
    issued_created kact" where
  "Issue l ks rnd1 rnd2 uid cluster ttl description =
     and_then (db (not_found_as ClusterNotFound ''cluster not found'' (repo_GetClusterByName cluster))) (\<lambda>_.
     and_then (from_sum (issue_ttl ttl)) (\<lambda>d.
     and_then kube_cleanupExpired (\<lambda>_.
     and_then (from_sum (newAgentSecret rnd1)) (\<lambda>raw.
     and_then (db now) (\<lambda>t.
     and_then (db (repo_CreateIssuedKubeconfig \<lparr>ik_id = 0, ik_user_id = uid, ik_cluster = cluster,
         ik_token_hash = hashToken l raw, ik_description = description, ik_expires = t + d,
         ik_revoked = False, ik_created = 0\<rparr>)) (\<lambda>r.
     and_then (from_sum (newAgentSecret rnd2)) (\<lambda>code.
     and_then (put_code code \<lparr>de_cluster = cluster, de_token = raw, de_expires = t + DownloadCodeTTL,
         de_link_expiry = t + DownloadLinkTTL\<rparr>) (\<lambda>_.
     ok (issued_view.extend (toIssuedView r) (issued_created.fields raw
         (ks_external_url ks @ ''/api/v1/clusters/'' @ cluster @ ''/kubeconfigs/download?code='' @ code)
         (t + DownloadLinkTTL)))))))))))"

definition Download :: "libs \<Rightarrow> kube_service \<Rightarrow> string \<Rightarrow> string kact" where
  "Download l ks code =
     and_then (guard (code \<noteq> '''') (New ParamInvalid ''code is required'')) (\<lambda>_.
     and_then (db now) (\<lambda>t.
     and_then (take_code code) (\<lambda>entry.
     case entry of
       None \<Rightarrow> err (New DownloadCodeInvalid ''download code is invalid, used or expired'')
     | Some e \<Rightarrow>
       and_then (guard (\<not> (t > de_expires e \<or> t > de_link_expiry e))
         (New DownloadCodeInvalid ''download code is invalid, used or expired'')) (\<lambda>_.
       and_then (on_result (db (repo_GetIssuedKubeconfigByHash (hashToken l (de_token e))))
         (\<lambda>x. if isNotFound x then err (New DownloadCodeInvalid ''download code is invalid, used or expired'')
             else err x) ok) (\<lambda>rec.
       and_then (guard (\<not> (ik_revoked rec \<or> t > ik_expires rec))
         (New IssuedTokenInvalid ''issued kubeconfig is revoked or expired'')) (\<lambda>_.
       from_sum (BuildKubeconfigYAML ks (de_cluster e) (de_token e))))))))"

definition ListForUser :: "int \<Rightarrow> issued_view list kact" where
  "ListForUser uid = and_then (db (repo_ListIssuedKubeconfigsForUser uid)) (\<lambda>rs. ok (map toIssuedView rs))"

definition Kube_Revoke :: "int \<Rightarrow> int \<Rightarrow> bool \<Rightarrow> unit kact" where
  "Kube_Revoke i requester admin =
     and_then (db (not_found_as NotFound ''issued kubeconfig not found'' (repo_GetIssuedKubeconfigByID i))) (\<lambda>rec.
     and_then (guard (admin \<or> ik_user_id rec = requester) (New Forbidden ''not the owner of this credential'')) (\<lambda>_.
     db (repo_RevokeIssuedKubeconfig i)))"

definition VerifyShortToken :: "libs \<Rightarrow> string \<Rightarrow> issued_kubeconfig kact" where
  "VerifyShortToken l token =
     and_then (on_result (db (repo_GetIssuedKubeconfigByHash (hashToken l token)))
        (\<lambda>e. if isNotFound e then err (New IssuedTokenInvalid ''invalid credential token'') else err e) ok) (\<lambda>rec.
     and_then (db now) (\<lambda>t.
     and_then (guard (\<not> (ik_revoked rec \<or> t > ik_expires rec))
        (New IssuedTokenInvalid ''credential token is revoked or expired'')) (\<lambda>_.
     ok rec)))"

subsection \<open>Steps of the service\<close>

datatype kube_op =
    KIssue "string option" "string option" int string time string
  | KDownload string
  | KRevoke int int bool

fun run_kube :: "libs \<Rightarrow> kube_service \<Rightarrow> kube_op \<Rightarrow> unit kact" where
  "run_kube l ks (KIssue r1 r2 u c t d) = and_then (Issue l ks r1 r2 u c t d) (\<lambda>_. ok ())"
| "run_kube l ks (KDownload c) = and_then (Download l ks c) (\<lambda>_. ok ())"
| "run_kube l ks (KRevoke i q a) = Kube_Revoke i q a"

text \<open>Between two operations anything may happen to the database, the clock and the faults.\<close>

inductive kube_reach :: "libs \<Rightarrow> kube_service \<Rightarrow> string \<Rightarrow> (string \<Rightarrow> download_entry option) \<Rightarrow> (string \<Rightarrow> download_entry option) \<Rightarrow> bool"
  for l ks code c0 where
  init: "kube_reach l ks code c0 c0"
| step: "kube_reach l ks code c0 c \<Longrightarrow>
    (\<And>r1 r2 u cl t d. op = KIssue r1 r2 u cl t d \<Longrightarrow> newAgentSecret r2 \<noteq> Inr code) \<Longrightarrow>
    run_kube l ks op \<lparr>kw_world = w, kw_codes = c\<rparr> = (r, s') \<Longrightarrow> kube_reach l ks code c0 (kw_codes s')"

subsection \<open>Codes are consumed\<close>

lemma wp_code_gone:
  assumes "kw_codes s code = None" and "\<And>r1 r2 u cl t d. op = KIssue r1 r2 u cl t d \<Longrightarrow> newAgentSecret r2 \<noteq> Inr code"
  shows "wp (run_kube l ks op) (\<lambda>_ s'. kw_codes s' code = None) (\<lambda>_ s'. kw_codes s' code = None) s"
proof (cases op)
  case (KIssue r1 r2 u c t d)
  have frame: "wp (db m) (\<lambda>x s'. kw_codes s' = kw_codes v) (\<lambda>e s'. kw_codes s' = kw_codes v) v" for m :: "'b act" and v
    by (simp add: wp_def db_def split: prod.splits sum.splits)
  have keep: "wp (db m) Q E v" if "\<And>x s'. kw_codes s' = kw_codes v \<Longrightarrow> Q x s'"
      "\<And>e s'. kw_codes s' = kw_codes v \<Longrightarrow> E e s'" for m :: "'b act" and Q E v
    using frame that by (rule wp_mono)
  have clean: "wp kube_cleanupExpired (\<lambda>_ s'. kw_codes s' code = None) E v" if "kw_codes v code = None" for v E
    unfolding kube_cleanupExpired_def wp_and_then
    by (simp add: wp_on_result wp_db wp_now) (rule wp_mono [where Q = "\<lambda>_ _. True" and E = "\<lambda>_ _. True"],
      auto simp: drop_codes_def that wp_def split: prod.splits sum.splits)
  have "newAgentSecret r2 \<noteq> Inr code" using assms(2) KIssue by blast
  then show ?thesis
    unfolding KIssue run_kube.simps Issue_def wp_and_then wp_from_sum wp_ok
    by (intro keep) (auto simp: assms(1) split: sum.split intro!: wp_mono [OF clean] keep simp: wp_codes)
next
  case (KDownload c)
  then show ?thesis
    using assms(1) by (auto simp: Download_def wp_rules repo_GetIssuedKubeconfigByHash_def split: option.split sum.split)
next
  case (KRevoke i q a)
  then show ?thesis
    using assms(1) by (auto simp: Kube_Revoke_def wp_rules repo_GetIssuedKubeconfigByID_def
        repo_RevokeIssuedKubeconfig_def split: option.split)
qed

lemma reach_code_gone: "kube_reach l ks code c0 c \<Longrightarrow> c0 code = None \<Longrightarrow> c code = None"
proof (induction rule: kube_reach.induct)
  case (step c op w r s')
  have "wp (run_kube l ks op) (\<lambda>_ s'. kw_codes s' code = None) (\<lambda>_ s'. kw_codes s' code = None)
      \<lparr>kw_world = w, kw_codes = c\<rparr>"
    by (rule wp_code_gone) (use step in auto)
  then show ?case using step.hyps(3) by (auto simp: wp_def split: sum.splits)
qed simp

lemma wp_Download:
  "wp (Download l ks code)
    (\<lambda>yaml s'. kw_codes s' code = None \<and> (\<exists>e. kw_codes s code = Some e \<and> w_now (kw_world s) \<le> de_expires e \<and>
       Inr yaml = BuildKubeconfigYAML ks (de_cluster e) (de_token e) \<and>
       (\<exists>r \<in> set (trows (db_issued (w_db (kw_world s)))). ik_token_hash r = hashToken l (de_token e) \<and>
          \<not> ik_revoked r \<and> w_now (kw_world s) \<le> ik_expires r)))
    (\<lambda>e s'. code \<noteq> '''' \<longrightarrow> kw_codes s' code = None) s"
  by (auto simp: Download_def wp_rules repo_GetIssuedKubeconfigByHash_def split: option.split sum.split
      dest!: tbl_first_SomeD)

subsection \<open>Properties\<close>

text \<open>C13: a download code works at most once. After any \<open>Download\<close> of a code, successful or not,
  every later \<open>Download\<close> of it is refused with the invalid-code error, whatever the service,
  the database and the clock do in between, as long as the random source does not draw the same
  code again.\<close>

theorem Download_single_use:
  assumes "Download l ks code s = (res, s1)" and "code \<noteq> ''''"
    and "kube_reach l ks code (kw_codes s1) (kw_codes s2)"
  shows "fst (Download l ks code s2) = Inl (New DownloadCodeInvalid ''download code is invalid, used or expired'')"
proof -
  have "kw_codes s1 code = None"
    using wp_Download [of l ks code s] assms(1,2) by (auto simp: wp_def split: sum.splits)
  then have "kw_codes s2 code = None" using reach_code_gone [OF assms(3)] by simp
  then have "wp (Download l ks code) (\<lambda>_ _. False)
      (\<lambda>e _. e = New DownloadCodeInvalid ''download code is invalid, used or expired'') s2"
    using assms(2) by (simp add: Download_def wp_rules)
  then show ?thesis by (auto simp: wp_def split: prod.splits sum.splits)
qed

text \<open>A download only ever hands out a live credential. If \<open>Download\<close> returns a file, the
  code was registered and is at most ten minutes old, its credential is in the database, neither
  revoked nor expired, and the file is the kubeconfig for that credential's cluster and token.\<close>

theorem Download_sound:
  assumes "Download l ks code s = (Inr yaml, s')"
  shows "\<exists>e. kw_codes s code = Some e \<and> w_now (kw_world s) \<le> de_expires e \<and>
    BuildKubeconfigYAML ks (de_cluster e) (de_token e) = Inr yaml \<and>
    (\<exists>r \<in> set (trows (db_issued (w_db (kw_world s)))). ik_token_hash r = hashToken l (de_token e) \<and>
       \<not> ik_revoked r \<and> w_now (kw_world s) \<le> ik_expires r)"
  using wp_InrD [OF wp_Download assms] by metis

lemma preserves_cleanup_issued:
  "preserves (on_db db_wf) (repo_DeleteExpiredIssuedKubeconfigs t)"
  "preserves (on_db db_wf) (repo_CreateIssuedKubeconfig k)"
  unfolding repo_DeleteExpiredIssuedKubeconfigs_def repo_CreateIssuedKubeconfig_def by (intro pres_rules)+

text \<open>What a successful \<open>Issue\<close> leaves behind.\<close>

definition issued_state :: "libs \<Rightarrow> string \<Rightarrow> int \<Rightarrow> string \<Rightarrow> time \<Rightarrow> issued_created \<Rightarrow> kube_state \<Rightarrow> bool" where
  "issued_state l code uid cluster t c s \<longleftrightarrow> db_wf (w_db (kw_world s)) \<and>
     kw_codes s code = Some \<lparr>de_cluster = cluster, de_token = ic_token c, de_expires = t + DownloadCodeTTL,
        de_link_expiry = t + DownloadLinkTTL\<rparr> \<and>
     (\<exists>r \<in> set (trows (db_issued (w_db (kw_world s)))). ik_token_hash r = hashToken l (ic_token c) \<and>
        ik_user_id r = uid \<and> ik_cluster r = cluster \<and> \<not> ik_revoked r \<and> ik_expires r = iv_expires c \<and> ik_id r = iv_id c)"

lemma wp_Issue:
  assumes "db_wf (w_db (kw_world s))"
  shows "wp (Issue l ks r1 r2 uid cluster ttl d)
    (\<lambda>c s'. \<exists>code. newAgentSecret r2 = Inr code \<and> issued_state l code uid cluster (w_now (kw_world s)) c s' \<and>
       w_now (kw_world s) + IssuedMinTTL \<le> iv_expires c) (\<lambda>_ _. True) s"
proof -
  have tt: "issue_ttl ttl = Inr x \<Longrightarrow> IssuedMinTTL \<le> x" for x
    by (auto simp: issue_ttl_def issue_consts time_defs split: if_splits)
  have wf: "db_wf (db_issued_update (tbl_delete p) (w_db (kw_world s)))" for p
    by (intro issued.upd_wf issued.delete_wf issued.get_wf assms)
  have wf2: "db_wf (d\<lparr>db_issued := t\<rparr>)"
    if "tbl_insert (\<lambda>i. ik_id_update (\<lambda>_. i)) issued_uniq k (db_issued d) = Some (k', t)" "db_wf d" for d t k k'
    using issued.upd_wf [OF that(2), of "\<lambda>_. t"] issued.insert_wf [OF issued.get_wf [OF that(2)] that(1)] by simp
  have wf3: "db_wf (w_db (kw_world s)\<lparr>db_issued := t\<rparr>)"
    if "tbl_insert (\<lambda>i. ik_id_update (\<lambda>_. i)) issued_uniq k (tbl_delete p (db_issued (w_db (kw_world s)))) = Some (k', t)"
    for t k k' p
    using wf2 [OF _ wf, of k p k' t] that by simp
  have row: "\<exists>r \<in> set (trows t). ik_token_hash r = h \<and> ik_user_id r = uid \<and> ik_cluster r = cluster \<and>
      \<not> ik_revoked r \<and> ik_expires r = ik_expires k' \<and> ik_id r = ik_id k'"
    if "tbl_insert (\<lambda>i. ik_id_update (\<lambda>_. i)) issued_uniq \<lparr>ik_id = 0, ik_user_id = uid, ik_cluster = cluster,
        ik_token_hash = h, ik_description = d, ik_expires = x, ik_revoked = False, ik_created = y\<rparr> tb = Some (k', t)"
    for tb k' t h x y
    using issued.insert_SomeD(1,3) [OF that] by simp
  show ?thesis
    by (auto simp: Issue_def kube_cleanupExpired_def repo_GetClusterByName_def repo_CreateIssuedKubeconfig_def
        repo_DeleteExpiredIssuedKubeconfigs_def wp_rules issued_state_def toIssuedView_def issued_view.defs
        issued_created.defs assms tt wf2 wf3 row split: option.split sum.split
        dest: issued.insert_SomeD(1))
qed

lemma issued_by_hash:
  assumes "db_wf d" and "r \<in> set (trows (db_issued d))"
  shows "tbl_first ik_id (\<lambda>k. ik_token_hash k = ik_token_hash r) (db_issued d) = Some r"
  using issued.by_index [OF assms(1), of "\<lambda>k. ik_token_hash k = ik_token_hash r" r] assms(2)
  by (simp add: issued_uniq_def)

text \<open>C15: what is issued can be used. After a successful \<open>Issue\<close>, and as long as nothing touches
  the stored codes and rows, the one-time code downloads the kubeconfig of that cluster with the
  issued token during the next ten minutes, and the token itself verifies as the issuing user's
  until the expiry shown, which is at least one minute away; afterwards it is refused.\<close>

theorem Issue_roundtrip:
  assumes "db_wf (w_db (kw_world s))" and "Issue l ks r1 r2 uid cluster ttl d s = (Inr c, s1)"
    and "newAgentSecret r2 = Inr code" and "code \<noteq> ''''"
    and "kw_codes s2 = kw_codes s1" and "w_db (kw_world s2) = w_db (kw_world s1)" and "w_faults (kw_world s2) = []"
  shows "w_now (kw_world s) + minutes \<le> iv_expires c \<and>
    (w_now (kw_world s2) \<le> iv_expires c \<longrightarrow>
       (\<exists>r. fst (VerifyShortToken l (ic_token c) s2) = Inr r \<and> ik_user_id r = uid \<and> ik_cluster r = cluster)) \<and>
    (iv_expires c < w_now (kw_world s2) \<longrightarrow> fst (VerifyShortToken l (ic_token c) s2) =
       Inl (New IssuedTokenInvalid ''credential token is revoked or expired'')) \<and>
    (w_now (kw_world s2) \<le> iv_expires c \<longrightarrow> w_now (kw_world s2) \<le> w_now (kw_world s) + DownloadCodeTTL \<longrightarrow>
       fst (Download l ks code s2) = BuildKubeconfigYAML ks cluster (ic_token c))"
proof -
  let ?t = "w_now (kw_world s)" and ?u = "w_now (kw_world s2)"
  from wp_InrD [OF wp_Issue [OF assms(1)] assms(2)] assms(3)
  have st: "issued_state l code uid cluster ?t c s1" and min: "?t + minutes \<le> iv_expires c"
    by (auto simp: issue_consts)
  from st obtain r where wf: "db_wf (w_db (kw_world s2))"
    and r: "r \<in> set (trows (db_issued (w_db (kw_world s2))))" "ik_token_hash r = hashToken l (ic_token c)"
      "ik_user_id r = uid" "ik_cluster r = cluster" "\<not> ik_revoked r" "ik_expires r = iv_expires c"
    and code: "kw_codes s2 code = Some \<lparr>de_cluster = cluster, de_token = ic_token c,
        de_expires = ?t + DownloadCodeTTL, de_link_expiry = ?t + DownloadLinkTTL\<rparr>"
    using assms(5,6) by (auto simp: issued_state_def)
  note find = issued_by_hash [OF wf r(1), unfolded r(2)]
  have "wp (VerifyShortToken l (ic_token c)) (\<lambda>x _. x = r \<and> ?u \<le> iv_expires c)
      (\<lambda>e _. e = New IssuedTokenInvalid ''credential token is revoked or expired'' \<and> iv_expires c < ?u) s2"
    using find r(5,6) assms(7)
    by (simp add: VerifyShortToken_def repo_GetIssuedKubeconfigByHash_def wp_rules not_less)
  then have v: "(?u \<le> iv_expires c \<longrightarrow> fst (VerifyShortToken l (ic_token c) s2) = Inr r) \<and>
      (iv_expires c < ?u \<longrightarrow> fst (VerifyShortToken l (ic_token c) s2) =
         Inl (New IssuedTokenInvalid ''credential token is revoked or expired''))"
    by (auto simp: wp_def split: prod.splits sum.splits)
  have "fst (Download l ks code s2) = BuildKubeconfigYAML ks cluster (ic_token c)"
    if "?u \<le> iv_expires c" "?u \<le> ?t + DownloadCodeTTL"
  proof -
    have "\<not> ?t + DownloadLinkTTL < ?u" using that(2) by (simp add: issue_consts time_defs)
    then have "wp (Download l ks code) (\<lambda>y _. BuildKubeconfigYAML ks cluster (ic_token c) = Inr y)
        (\<lambda>e _. BuildKubeconfigYAML ks cluster (ic_token c) = Inl e) s2"
      using that find r(5,6) assms(4,7) code
      by (simp add: Download_def repo_GetIssuedKubeconfigByHash_def wp_rules split: sum.split)
    then show ?thesis by (auto simp: wp_def split: prod.splits sum.splits)
  qed
  with v r(3,4) min show ?thesis by blast
qed

text \<open>A credential is revoked only by its owner or an administrator, and for good. If
  \<open>Revoke\<close> succeeds, the requester is an administrator or the owner, and the credential's token
  no longer verifies on the resulting database.\<close>

theorem Kube_Revoke_effect:
  assumes "db_wf (w_db (kw_world s))" and "Kube_Revoke i requester admin s = (Inr x, s1)"
    and "r \<in> set (trows (db_issued (w_db (kw_world s))))" and "ik_id r = i" and "ik_token_hash r = hashToken l token"
    and "w_db (kw_world s2) = w_db (kw_world s1)"
  shows "(admin \<or> ik_user_id r = requester) \<and> (\<exists>e s3. VerifyShortToken l token s2 = (Inl e, s3))"
proof -
  let ?d = "w_db (kw_world s)"
  have find: "tbl_first ik_id (\<lambda>k. ik_id k = i) (db_issued ?d) = Some r"
    using issued.by_key [OF assms(1), of i r] assms(3,4) by simp
  define d' where "d' = db_issued_update (tbl_update (\<lambda>k. ik_id k = i) (ik_revoked_update (\<lambda>_. True))) ?d"
  have "wp (Kube_Revoke i requester admin) (\<lambda>_ s'. (admin \<or> ik_user_id r = requester) \<and> w_db (kw_world s') = d')
      (\<lambda>_ _. True) s"
    using find by (simp add: Kube_Revoke_def repo_GetIssuedKubeconfigByID_def repo_RevokeIssuedKubeconfig_def
        wp_rules d'_def)
  from wp_InrD [OF this assms(2)] have own: "admin \<or> ik_user_id r = requester" and d2: "w_db (kw_world s2) = d'"
    using assms(6) by simp_all
  have wf: "db_wf d'" unfolding d'_def
    by (intro issued.upd_wf issued.update_wf issued.get_wf assms(1)) (simp_all add: issued_uniq_def assms(1))
  have "ik_revoked_update (\<lambda>_. True) r \<in> set (trows (db_issued d'))"
    unfolding d'_def using assms(3,4) by simp
  from issued_by_hash [OF wf this] assms(5)
  have "wp (VerifyShortToken l token) (\<lambda>_ _. False) (\<lambda>_ _. True) s2"
    by (simp add: VerifyShortToken_def repo_GetIssuedKubeconfigByHash_def wp_rules d2)
  from wp_FalseD [OF this] own show ?thesis by blast
qed

subsection \<open>Examples\<close>

definition demo_service :: kube_service where
  "demo_service = \<lparr>ks_external_url = ''https://k'', ks_write = (\<lambda>k. Inr (kc_server k @ '' '' @ kc_user_token k))\<rparr>"

definition kube_start :: kube_state where
  "kube_start = \<lparr>kw_world = enroll_world 100, kw_codes = (\<lambda>_. None)\<rparr>"

definition demo_issue :: "issued_created kact" where
  "demo_issue = Issue demo_libs demo_service (Some ''abc'') (Some ''abd'') 7 ''c1'' (2 * hours) ''laptop''"

lemma demo_issued:
  obtains c s1 where "demo_issue kube_start = (Inr c, s1)" and "w_faults (kw_world s1) = []"
    and "w_now (kw_world s1) = 100" and "iv_expires c = 100 + 2 * hours" and "newAgentSecret (Some ''abd'') = Inr ''YWJk''"
proof -
  have ok: "is_ok (fst (demo_issue kube_start))" by code_simp
  then obtain c s1 where i: "demo_issue kube_start = (Inr c, s1)"
    by (cases "demo_issue kube_start"; cases "fst (demo_issue kube_start)") (auto simp: is_ok_def)
  have "case fst (demo_issue kube_start) of Inl _ \<Rightarrow> False | Inr c \<Rightarrow> iv_expires c = 100 + 2 * hours" by code_simp
  then have "iv_expires c = 100 + 2 * hours" by (simp add: i)
  moreover have "w_faults (kw_world (snd (demo_issue kube_start))) = []" by code_simp
  then have "w_faults (kw_world s1) = []" by (simp add: i)
  moreover have "w_now (kw_world (snd (demo_issue kube_start))) = 100" by code_simp
  then have "w_now (kw_world s1) = 100" by (simp add: i)
  moreover have "newAgentSecret (Some ''abd'') = Inr ''YWJk''" by code_simp
  ultimately show thesis using i that by blast
qed

lemma Issue_roundtrip_witness:
  "\<exists>c s1. demo_issue kube_start = (Inr c, s1) \<and>
     fst (Download demo_libs demo_service ''YWJk'' s1) = BuildKubeconfigYAML demo_service ''c1'' (ic_token c)"
proof -
  obtain c s1 where i: "demo_issue kube_start = (Inr c, s1)" "w_faults (kw_world s1) = []"
      "w_now (kw_world s1) = 100" "iv_expires c = 100 + 2 * hours" "newAgentSecret (Some ''abd'') = Inr ''YWJk''"
    by (rule demo_issued)
  have wf: "db_wf (w_db (kw_world kube_start))" by code_simp
  have "w_now (kw_world kube_start) = 100" by (simp add: kube_start_def enroll_world_def)
  with Issue_roundtrip [OF wf i(1) [unfolded demo_issue_def] i(5), of s1] i show ?thesis
    by (auto simp: issue_consts time_defs)
qed

lemma Download_single_use_witness:
  "\<exists>s1 yaml s2. Download demo_libs demo_service ''YWJk'' s1 = (Inr yaml, s2) \<and>
     fst (Download demo_libs demo_service ''YWJk'' s2) =
       Inl (New DownloadCodeInvalid ''download code is invalid, used or expired'')"
proof -
  let ?s1 = "snd (demo_issue kube_start)"
  have "is_ok (fst (Download demo_libs demo_service ''YWJk'' ?s1))" by code_simp
  then obtain yaml s2 where d: "Download demo_libs demo_service ''YWJk'' ?s1 = (Inr yaml, s2)"
    by (cases "Download demo_libs demo_service ''YWJk'' ?s1"; cases "fst (Download demo_libs demo_service ''YWJk'' ?s1)")
      (auto simp: is_ok_def)
  from Download_single_use [OF d _ kube_reach.init] d show ?thesis by blast
qed

lemma Download_sound_witness:
  "\<exists>s1 yaml s2 e. Download demo_libs demo_service ''YWJk'' s1 = (Inr yaml, s2) \<and>
     kw_codes s1 ''YWJk'' = Some e \<and> BuildKubeconfigYAML demo_service (de_cluster e) (de_token e) = Inr yaml"
proof -
  let ?s1 = "snd (demo_issue kube_start)"
  have "is_ok (fst (Download demo_libs demo_service ''YWJk'' ?s1))" by code_simp
  then obtain yaml s2 where d: "Download demo_libs demo_service ''YWJk'' ?s1 = (Inr yaml, s2)"
    by (cases "Download demo_libs demo_service ''YWJk'' ?s1"; cases "fst (Download demo_libs demo_service ''YWJk'' ?s1)")
      (auto simp: is_ok_def)
  from Download_sound [OF d] d show ?thesis by blast
qed

lemma Kube_Revoke_effect_witness:
  "\<exists>s s1 e s3. Kube_Revoke 1 7 False s = (Inr (), s1) \<and> VerifyShortToken demo_libs ''YWJj'' s1 = (Inl e, s3)"
proof -
  let ?s = "snd (demo_issue kube_start)"
  have "is_ok (fst (Kube_Revoke 1 7 False ?s))" by code_simp
  then obtain s1 where k: "Kube_Revoke 1 7 False ?s = (Inr (), s1)"
    by (cases "Kube_Revoke 1 7 False ?s"; cases "fst (Kube_Revoke 1 7 False ?s)") (auto simp: is_ok_def)
  have wf: "db_wf (w_db (kw_world ?s))" by code_simp
  have one: "length (trows (db_issued (w_db (kw_world ?s)))) = 1" by code_simp
  have id: "list_all (\<lambda>r. ik_id r = 1 \<and> ik_token_hash r = hashToken demo_libs ''YWJj'')
      (trows (db_issued (w_db (kw_world ?s))))" by code_simp
  obtain r where r: "r \<in> set (trows (db_issued (w_db (kw_world ?s))))"
    using one by (cases "trows (db_issued (w_db (kw_world ?s)))") auto
  have "ik_id r = 1" "ik_token_hash r = hashToken demo_libs ''YWJj''" using id r by (auto simp: list_all_iff)
  from Kube_Revoke_effect [OF wf k r this refl] k show ?thesis by blast
qed

end
