(* ===== verification/Health.thy ===== *)
theory Health
  imports Auth_Service
begin

text \<open>
  The health state machine of one cluster (k8s/health.go, with the status cell of
  k8s/runtime.go): the loop body of \<open>runHealth\<close> as a step on the outcome of one probe, and the
  classification it computes from the number of consecutive failures.
\<close>

record options =
  op_interval :: time
  op_probe_timeout :: time
  op_backoff_start :: time

definition DefaultHealthInterval :: time where "DefaultHealthInterval = 30 * seconds"
definition DefaultProbeTimeout :: time where "DefaultProbeTimeout = 5 * seconds"
definition degradedThreshold :: int where "degradedThreshold = 3"
definition reconnectThreshold :: int where "reconnectThreshold = 10"
definition backoffStart :: time where "backoffStart = seconds"
definition backoffMax :: time where "backoffMax = 60 * seconds"

lemmas health_consts = degradedThreshold_def reconnectThreshold_def backoffStart_def backoffMax_def
  DefaultHealthInterval_def DefaultProbeTimeout_def seconds_def

text \<open>\<open>NewManager\<close>: options that are not positive take their defaults.\<close>

definition default_options :: "options \<Rightarrow> options" where
  "default_options opts = \<lparr>
     op_interval = (if op_interval opts \<le> 0 then DefaultHealthInterval else op_interval opts),
     op_probe_timeout = (if op_probe_timeout opts \<le> 0 then DefaultProbeTimeout else op_probe_timeout opts),
     op_backoff_start = (if op_backoff_start opts \<le> 0 then backoffStart else op_backoff_start opts)\<rparr>"

text \<open>The status cell of a runtime; \<open>setStatus\<close> says whether anything changed.\<close>

record status_cell =
  st_status :: string
  st_message :: string
  st_transition :: time

definition setStatus :: "string \<Rightarrow> string \<Rightarrow> time \<Rightarrow> status_cell \<Rightarrow> bool \<times> status_cell" where
  "setStatus status message t c =
     (if st_status c = status \<and> st_message c = message then (False, c)
      else (True, \<lparr>st_status = status, st_message = message, st_transition = t\<rparr>))"

text \<open>The local variables of the loop, with the cell.\<close>

record health =
  h_fail :: int
  h_backoff :: time
  h_last :: string
  h_cell :: status_cell

definition health_init :: "options \<Rightarrow> status_cell \<Rightarrow> health" where
  "health_init opts c = \<lparr>h_fail = 0, h_backoff = op_backoff_start opts, h_last = '''', h_cell = c\<rparr>"

text \<open>What one turn of the loop does to the outside: the delay of the timer, whether the
  listeners are notified, and whether the RESTMapper cache is reset.\<close>

record turn =
  tn_delay :: time
  tn_notify :: bool
  tn_reset :: bool

definition health_step :: "options \<Rightarrow> bool \<Rightarrow> time \<Rightarrow> health \<Rightarrow> health \<times> turn" where
  "health_step opts probe_ok t h =
     (if probe_ok then
        let (ch, c) = setStatus ''ready'' '''' t (h_cell h) in
        (\<lparr>h_fail = 0, h_backoff = op_backoff_start opts, h_last = ''ready'', h_cell = c\<rparr>,
         \<lparr>tn_delay = op_interval opts, tn_notify = ch, tn_reset = (h_last h \<noteq> '''')\<rparr>)
      else
        let n = wrap64 (h_fail h + 1) in
        if n \<ge> reconnectThreshold then
          let (ch, c) = setStatus ''reconnecting'' (''probe failed '' @ itoa n @ '' times'') t (h_cell h) in
          (\<lparr>h_fail = n, h_backoff = min (wrap64 (h_backoff h * 2)) backoffMax, h_last = ''reconnecting'', h_cell = c\<rparr>,
           \<lparr>tn_delay = h_backoff h, tn_notify = ch, tn_reset = False\<rparr>)
        else if n \<ge> degradedThreshold then
          let (ch, c) = setStatus ''degraded'' ''probe failing'' t (h_cell h) in
          (h\<lparr>h_fail := n, h_last := ''degraded'', h_cell := c\<rparr>,
           \<lparr>tn_delay = op_interval opts, tn_notify = ch, tn_reset = False\<rparr>)
        else
          (h\<lparr>h_fail := n\<rparr>, \<lparr>tn_delay = op_interval opts, tn_notify = False, tn_reset = False\<rparr>))"

text \<open>A history of probes, oldest first: each outcome with the time it was seen.\<close>

fun health_run :: "options \<Rightarrow> (bool \<times> time) list \<Rightarrow> health \<Rightarrow> health \<times> turn list" where
  "health_run opts [] h = (h, [])"
| "health_run opts ((b, t) # ps) h = (let (h1, u) = health_step opts b t h; (h2, us) = health_run opts ps h1 in (h2, u # us))"

subsection \<open>The classification\<close>

definition trailing_failures :: "(bool \<times> time) list \<Rightarrow> int" where
  "trailing_failures ps = int (length (takeWhile (\<lambda>(b, t). \<not> b) (rev ps)))"

definition classify :: "int \<Rightarrow> string" where
  "classify n = (if n \<ge> 10 then ''reconnecting'' else if n \<ge> 3 then ''degraded'' else ''ready'')"

definition retry_delay :: "options \<Rightarrow> int \<Rightarrow> time" where
  "retry_delay opts n = (if n < 10 then op_interval opts
     else if n = 10 then op_backoff_start opts else min (op_backoff_start opts * 2 ^ nat (n - 10)) backoffMax)"

definition health_ok :: "options \<Rightarrow> int \<Rightarrow> health \<Rightarrow> bool" where
  "health_ok opts n h \<longleftrightarrow> h_fail h = n \<and> st_status (h_cell h) = classify n \<and>
     h_backoff h = (if n < 10 then op_backoff_start opts else min (op_backoff_start opts * 2 ^ nat (n - 9)) backoffMax)"

lemma health_run_append:
  "health_run opts (ps @ qs) h = (let (h1, us) = health_run opts ps h; (h2, vs) = health_run opts qs h1 in (h2, us @ vs))"
  by (induction ps arbitrary: h) (auto simp: Let_def split: prod.splits)

lemma health_run_snoc:
  "fst (health_run opts (ps @ [(b, t)]) h) = fst (health_step opts b t (fst (health_run opts ps h)))"
  "last (snd (health_run opts (ps @ [(b, t)]) h)) = snd (health_step opts b t (fst (health_run opts ps h)))"
  by (simp_all add: health_run_append Let_def split: prod.splits)

lemma trailing_snoc: "trailing_failures (ps @ [(b, t)]) = (if b then 0 else trailing_failures ps + 1)"
  by (simp add: trailing_failures_def)

lemma trailing_nonneg: "0 \<le> trailing_failures ps" "trailing_failures ps \<le> int (length ps)"
proof -
  show "0 \<le> trailing_failures ps" by (simp add: trailing_failures_def)
  show "trailing_failures ps \<le> int (length ps)"
    unfolding trailing_failures_def using length_takeWhile_le [of "\<lambda>(b, t). \<not> b" "rev ps"] by simp
qed

lemma health_step_ok:
  assumes h: "health_ok opts n h" and n: "0 \<le> n" "n < 2 ^ 62"
    and opts: "0 < op_backoff_start opts" "op_backoff_start opts \<le> backoffMax"
  shows "health_ok opts (if b then 0 else n + 1) (fst (health_step opts b t h))"
    and "tn_delay (snd (health_step opts b t h)) = retry_delay opts (if b then 0 else n + 1)"
proof -
  have w: "wrap64 (n + 1) = n + 1" using n by (simp add: int64_def)
  have bb: "wrap64 (h_backoff h * 2) = h_backoff h * 2" if "n \<ge> 9"
  proof -
    have "0 \<le> op_backoff_start opts * 2 ^ k" for k using opts(1) by simp
    then have "0 \<le> h_backoff h" "h_backoff h \<le> backoffMax"
      using h opts by (auto simp: health_ok_def min_def health_consts)
    then show ?thesis by (intro wrap64_id) (simp add: int64_def health_consts)
  qed
  have pow: "min (wrap64 (h_backoff h * 2)) backoffMax = min (op_backoff_start opts * 2 ^ nat (n + 1 - 9)) backoffMax"
    if "n \<ge> 9"
  proof (cases "n = 9")
    case True
    then show ?thesis using bb [OF that] h by (simp add: health_ok_def)
  next
    case False
    then have e: "nat (n + 1 - 9) = Suc (nat (n - 9))" using that by simp
    have "0 \<le> backoffMax" by (simp add: health_consts)
    then show ?thesis using bb [OF that] h False that unfolding e by (auto simp: health_ok_def min_def)
  qed
  show "health_ok opts (if b then 0 else n + 1) (fst (health_step opts b t h))"
    using h n w pow by (auto simp: health_ok_def health_step_def setStatus_def Let_def classify_def
        degradedThreshold_def reconnectThreshold_def)
  show "tn_delay (snd (health_step opts b t h)) = retry_delay opts (if b then 0 else n + 1)"
  proof -
    have d: "tn_delay (snd (health_step opts b t h)) =
        (if \<not> b \<and> n + 1 \<ge> 10 then h_backoff h else op_interval opts)"
      using h w by (simp add: health_ok_def health_step_def Let_def degradedThreshold_def
          reconnectThreshold_def split: prod.split)
    have e: "n + 1 - 10 = n - 9" by simp
    have "h_backoff h = retry_delay opts (n + 1)" if "n + 1 \<ge> 10"
      using h that unfolding health_ok_def retry_delay_def e by auto
    then show ?thesis unfolding d by (simp add: retry_delay_def)
  qed
qed

lemma health_run_ok:
  assumes opts: "0 < op_backoff_start opts" "op_backoff_start opts \<le> backoffMax" and c: "st_status c = ''ready''"
    and "int (length ps) < 2 ^ 62"
  shows "health_ok opts (trailing_failures ps) (fst (health_run opts ps (health_init opts c)))"
  using assms(4)
proof (induction ps rule: rev_induct)
  case Nil
  then show ?case by (simp add: health_ok_def health_init_def trailing_failures_def classify_def c)
next
  case (snoc p ps)
  obtain b t where p: "p = (b, t)" by (cases p)
  have len: "trailing_failures ps < 2 ^ 62" using trailing_nonneg(2) [of ps] snoc.prems by simp
  show ?case
    using health_step_ok(1) [OF _ trailing_nonneg(1) len opts, of _ b t] snoc
    by (simp add: p trailing_snoc health_run_snoc)
qed



text \<open>The cache reset and the notification are broader than recovery: every success after the
  first turn resets the cache, and every failure beyond the tenth notifies again, because the
  message counts the failures.\<close>

lemma health_noise:
  "h_last h \<noteq> '''' \<Longrightarrow> tn_reset (snd (health_step opts True t h))"
  "case health_run opts (replicate 11 (False, 5)) (health_init opts \<lparr>st_status = ''ready'', st_message = '''', st_transition = 1\<rparr>)
   of (h, us) \<Rightarrow> map tn_notify us = [False, False, True, False, False, False, False, False, False, True, True]"
proof -
  show "h_last h \<noteq> '''' \<Longrightarrow> tn_reset (snd (health_step opts True t h))"
    by (simp add: health_step_def split: prod.split)
  have d: "digits_of 10 = ''10''" "digits_of 11 = ''11''" by code_simp+
  have r: "replicate 11 (False, 5::time) =
      [(False, 5), (False, 5), (False, 5), (False, 5), (False, 5), (False, 5), (False, 5), (False, 5), (False, 5), (False, 5), (False, 5)]"
    by (simp add: eval_nat_numeral)
  have w: "wrap64 1 = 1" "wrap64 2 = 2" "wrap64 3 = 3" "wrap64 4 = 4" "wrap64 5 = 5" "wrap64 6 = 6" "wrap64 7 = 7"
    "wrap64 8 = 8" "wrap64 9 = 9" "wrap64 10 = 10" "wrap64 11 = 11" by code_simp+
  show "case health_run opts (replicate 11 (False, 5)) (health_init opts \<lparr>st_status = ''ready'', st_message = '''', st_transition = 1\<rparr>)
   of (h, us) \<Rightarrow> map tn_notify us = [False, False, True, False, False, False, False, False, False, True, True]"
    by (simp add: r health_init_def health_step_def setStatus_def Let_def w d itoa_def
        degradedThreshold_def reconnectThreshold_def)
qed

end
