(* ===== verification/Crypto.thy ===== *)
theory Crypto
  imports Auth_Service
begin

text \<open>
  Package \<open>crypto\<close> (pkg/crypto/crypto.go): sealing of stored kubeconfigs. The text format
  \<open>v1:nonce:ciphertext\<close>, the standard base64 alphabet with padding, and the checks of
  \<open>Decrypt\<close> are modelled; AES-GCM itself is a parameter.
\<close>

subsection \<open>base64.StdEncoding\<close>

definition std_char :: "nat \<Rightarrow> char" where
  "std_char n = (if n < 26 then char_of (65 + n) else if n < 52 then char_of (71 + n)
     else if n < 62 then char_of (n - 4) else if n = 62 then CHR ''+'' else CHR ''/'')"

definition std_val :: "char \<Rightarrow> nat option" where
  "std_val c = (let n = (of_char c :: nat) in
     if 65 \<le> n \<and> n \<le> 90 then Some (n - 65) else if 97 \<le> n \<and> n \<le> 122 then Some (n - 71)
     else if 48 \<le> n \<and> n \<le> 57 then Some (n + 4) else if n = 43 then Some 62 else if n = 47 then Some 63 else None)"

fun std_encode :: "nat list \<Rightarrow> string" where
  "std_encode [] = []"
| "std_encode [a] = [std_char (a div 4), std_char (a mod 4 * 16), CHR ''='', CHR ''='']"
| "std_encode [a, b] = [std_char (a div 4), std_char (a mod 4 * 16 + b div 16), std_char (b mod 16 * 4), CHR ''='']"
| "std_encode (a # b # c # r) = [std_char (a div 4), std_char (a mod 4 * 16 + b div 16),
     std_char (b mod 16 * 4 + c div 64), std_char (c mod 64)] @ std_encode r"

text \<open>Four characters a time; padding ends the text, and its spare bits are not checked.\<close>

fun std_decode :: "string \<Rightarrow> nat list option" where
  "std_decode [] = Some []"
| "std_decode (a # b # c # d # r) = (case (std_val a, std_val b) of
     (Some w, Some x) \<Rightarrow>
       (if c = CHR ''='' then (if d = CHR ''='' \<and> r = [] then Some [w * 4 + x div 16] else None)
        else (case std_val c of None \<Rightarrow> None
          | Some y \<Rightarrow>
            if d = CHR ''='' then (if r = [] then Some [w * 4 + x div 16, x mod 16 * 16 + y div 4] else None)
            else (case (std_val d, std_decode r) of
                (Some z, Some bs) \<Rightarrow> Some ((w * 4 + x div 16) # (x mod 16 * 16 + y div 4) # (y mod 4 * 64 + z) # bs)
              | _ \<Rightarrow> None)))
   | _ \<Rightarrow> None)"
| "std_decode _ = None"

definition EncodeToString :: "string \<Rightarrow> string" where
  "EncodeToString s = std_encode (map of_char s)"

text \<open>Carriage returns and newlines are ignored.\<close>

definition DecodeString :: "string \<Rightarrow> string option" where
  "DecodeString s = map_option (map char_of) (std_decode (filter (\<lambda>c. c \<noteq> CHR 0x0A \<and> c \<noteq> CHR 0x0D) s))"

subsection \<open>Cipher\<close>

record aes_gcm =
  gcm_seal :: "string \<Rightarrow> string \<Rightarrow> string \<Rightarrow> string"
  gcm_open :: "string \<Rightarrow> string \<Rightarrow> string \<Rightarrow> string option"

fun split_on :: "char \<Rightarrow> string \<Rightarrow> string list" where
  "split_on c [] = [[]]"
| "split_on c (x # xs) = (if x = c then [] # split_on c xs
     else (case split_on c xs of [] \<Rightarrow> [[x]] | p # ps \<Rightarrow> (x # p) # ps))"

definition NewCipher :: "string \<Rightarrow> gerr + string" where
  "NewCipher masterKeyB64 = (case DecodeString masterKeyB64 of
       None \<Rightarrow> Inl (WrapErr ''decode master key'' DriverErr)
     | Some key \<Rightarrow> if length key \<noteq> 32
         then Inl (PlainErr (''master key must be 32 bytes, got '' @ itoa (int (length key)))) else Inr key)"

definition Encrypt :: "aes_gcm \<Rightarrow> string \<Rightarrow> string option \<Rightarrow> string \<Rightarrow> gerr + string" where
  "Encrypt g key rnd plain = (case rnd of
       None \<Rightarrow> Inl (WrapErr ''generate nonce'' DriverErr)
     | Some nonce \<Rightarrow> Inr (''v1:'' @ EncodeToString nonce @ '':'' @ EncodeToString (gcm_seal g key nonce plain)))"

definition Decrypt :: "aes_gcm \<Rightarrow> string \<Rightarrow> string \<Rightarrow> gerr + string" where
  "Decrypt g key sealed = (let parts = split_on (CHR '':'') sealed in
     if length parts \<noteq> 3 \<or> parts ! 0 \<noteq> ''v1'' then Inl (PlainErr ''invalid ciphertext format'')
     else (case DecodeString (parts ! 1) of
         None \<Rightarrow> Inl (WrapErr ''decode nonce'' DriverErr)
       | Some nonce \<Rightarrow>
         (case DecodeString (parts ! 2) of
            None \<Rightarrow> Inl (WrapErr ''decode ciphertext'' DriverErr)
          | Some ct \<Rightarrow>
            (case gcm_open g key nonce ct of
               None \<Rightarrow> Inl (WrapErr ''gcm open'' DriverErr) | Some p \<Rightarrow> Inr p))))"

subsection \<open>Round trips\<close>

lemma std_alphabet:
  assumes "n < 64"
  shows "std_val (std_char n) = Some n" and "std_char n \<notin> {CHR ''='', CHR '':'', CHR 0x0A, CHR 0x0D}"
proof -
  have lit: "std_val (CHR ''+'') = Some 62" "std_val (CHR ''/'') = Some 63" by (simp_all add: std_val_def)
  have num: "std_val (char_of k) = (if 65 \<le> k \<and> k \<le> 90 then Some (k - 65) else if 97 \<le> k \<and> k \<le> 122 then Some (k - 71)
     else if 48 \<le> k \<and> k \<le> 57 then Some (k + 4) else if k = 43 then Some 62 else if k = 47 then Some 63 else None)"
    if "k < 256" for k :: nat
    using that by (simp add: std_val_def Let_def)
  consider "n < 26" | "26 \<le> n" "n < 52" | "52 \<le> n" "n < 62" | "n = 62" | "n = 63" using assms by linarith
  then show v: "std_val (std_char n) = Some n" by cases (auto simp: std_char_def num lit)
  have "std_val (CHR ''='') = None" "std_val (CHR '':'') = None" "std_val (CHR 0x0A) = None" "std_val (CHR 0x0D) = None"
    by (simp_all add: std_val_def)
  then show "std_char n \<notin> {CHR ''='', CHR '':'', CHR 0x0A, CHR 0x0D}" using v by auto
qed

lemma sextets:
  fixes a b c :: nat
  assumes "a < 256" "b < 256" "c < 256"
  shows "a div 4 < 64" "a mod 4 * 16 + b div 16 < 64" "b mod 16 * 4 + c div 64 < 64" "c mod 64 < 64"
    "a mod 4 * 16 < 64" "b mod 16 * 4 < 64"
    "a div 4 * 4 + (a mod 4 * 16 + b div 16) div 16 = a"
    "(a mod 4 * 16 + b div 16) mod 16 * 16 + (b mod 16 * 4 + c div 64) div 4 = b"
    "(b mod 16 * 4 + c div 64) mod 4 * 64 + c mod 64 = c"
    "(a mod 4 * 16 + b div 16) mod 16 * 16 + b mod 16 * 4 div 4 = b"
proof -
  have d: "a div 4 < 64" "b div 16 < 16" "c div 64 < 4" using assms by (simp_all add: less_mult_imp_div_less)
  have m: "a mod 4 < 4" "b mod 16 < 16" "c mod 64 < 64" by simp_all
  have x: "(a mod 4 * 16 + b div 16) div 16 = a mod 4" "(a mod 4 * 16 + b div 16) mod 16 = b div 16"
    "(b mod 16 * 4 + c div 64) div 4 = b mod 16" "(b mod 16 * 4 + c div 64) mod 4 = c div 64"
    using d by simp_all
  show "a div 4 < 64" by (rule d)
  show "c mod 64 < 64" by (rule m)
  show "a mod 4 * 16 + b div 16 < 64" "b mod 16 * 4 + c div 64 < 64" "a mod 4 * 16 < 64" "b mod 16 * 4 < 64"
    using d m by linarith+
  show "a div 4 * 4 + (a mod 4 * 16 + b div 16) div 16 = a"
    "(a mod 4 * 16 + b div 16) mod 16 * 16 + (b mod 16 * 4 + c div 64) div 4 = b"
    "(b mod 16 * 4 + c div 64) mod 4 * 64 + c mod 64 = c"
    "(a mod 4 * 16 + b div 16) mod 16 * 16 + b mod 16 * 4 div 4 = b"
    unfolding x by simp_all
qed

lemma std_chars: "\<forall>n \<in> set bs. n < 256 \<Longrightarrow> c \<in> set (std_encode bs) \<Longrightarrow> c = CHR ''='' \<or> (\<exists>n < 64. c = std_char n)"
proof (induction bs rule: std_encode.induct)
  case (4 a b e r)
  then have l: "a < 256" "b < 256" "e < 256" by simp_all
  obtain k1 k2 k3 k4 where k: "k1 < 64" "k2 < 64" "k3 < 64" "k4 < 64"
    "std_encode (a # b # e # r) = [std_char k1, std_char k2, std_char k3, std_char k4] @ std_encode r"
    by (rule that [OF sextets(1-4) [OF l]]) (rule std_encode.simps)
  from "4.prems"(2) have "c \<in> {std_char k1, std_char k2, std_char k3, std_char k4} \<or> c \<in> set (std_encode r)"
    unfolding k(5) by auto
  then show ?case using "4.IH" "4.prems"(1) k(1-4) by auto
next
  case (3 a b)
  then have l: "a < 256" "b < 256" "0 < (256::nat)" by simp_all
  obtain k1 k2 k3 where k: "k1 < 64" "k2 < 64" "k3 < 64"
    "std_encode [a, b] = [std_char k1, std_char k2, std_char k3, CHR ''='']"
    by (rule that [OF sextets(1,2,6) [OF l]]) (rule std_encode.simps)
  from 3(2) show ?case unfolding k(4) using k(1-3) by auto
next
  case (2 a)
  then have l: "a < 256" "0 < (256::nat)" "0 < (256::nat)" by simp_all
  obtain k1 k2 where k: "k1 < 64" "k2 < 64" "std_encode [a] = [std_char k1, std_char k2, CHR ''='', CHR ''='']"
    by (rule that [OF sextets(1,5) [OF l]]) (rule std_encode.simps)
  from 2(2) show ?case unfolding k(3) using k(1,2) by auto
qed simp

lemma std_decode_encode: "\<forall>n \<in> set bs. n < 256 \<Longrightarrow> std_decode (std_encode bs) = Some bs"
proof (induction bs rule: std_encode.induct)
  case (4 a b c r)
  then have l: "a < 256" "b < 256" "c < 256" by simp_all
  note s = sextets [OF l]
  have ne: "std_char (b mod 16 * 4 + c div 64) \<noteq> CHR ''=''" "std_char (c mod 64) \<noteq> CHR ''=''"
    using std_alphabet(2) [OF s(3)] std_alphabet(2) [OF s(4)] by simp_all
  show ?case using 4 ne by (simp add: std_alphabet(1) [OF s(1)] std_alphabet(1) [OF s(2)]
        std_alphabet(1) [OF s(3)] std_alphabet(1) [OF s(4)] s(7-9) del: div_mult_self3 mod_mult_self3)
next
  case (3 a b)
  then have l: "a < 256" "b < 256" "0 < (256::nat)" by simp_all
  note s = sextets [OF l]
  have ne: "std_char (b mod 16 * 4) \<noteq> CHR ''=''" using std_alphabet(2) [OF s(6)] by simp
  show ?case using ne s(7,10) by (simp add: std_alphabet(1) [OF s(1)] std_alphabet(1) [OF s(2)] std_alphabet(1) [OF s(6)])
next
  case (2 a)
  then have l: "a < 256" "0 < (256::nat)" "0 < (256::nat)" by simp_all
  note s = sextets [OF l]
  show ?case by (simp add: std_alphabet(1) [OF s(1)] std_alphabet(1) [OF s(5)])
qed simp

lemma encoded_chars: "c \<in> set (EncodeToString s) \<Longrightarrow> c \<notin> {CHR '':'', CHR 0x0A, CHR 0x0D}"
proof -
  assume "c \<in> set (EncodeToString s)"
  moreover have "\<forall>n \<in> set (map of_char s). n < (256::nat)" by auto
  ultimately have "c = CHR ''='' \<or> (\<exists>n < 64. c = std_char n)" unfolding EncodeToString_def using std_chars by blast
  then show ?thesis using std_alphabet(2) by fastforce
qed

lemma DecodeString_EncodeToString: "DecodeString (EncodeToString s) = Some s"
proof -
  have b: "\<forall>n \<in> set (map of_char s). n < (256::nat)" by auto
  have "filter (\<lambda>c. c \<noteq> CHR 0x0A \<and> c \<noteq> CHR 0x0D) (EncodeToString s) = EncodeToString s"
    using encoded_chars by (fastforce simp: filter_id_conv)
  then show ?thesis using std_decode_encode [OF b] by (simp add: DecodeString_def EncodeToString_def comp_def)
qed

lemma split_on_plain: "c \<notin> set s \<Longrightarrow> split_on c (s @ c # r) = s # split_on c r" "c \<notin> set s \<Longrightarrow> split_on c s = [s]"
  by (induction s) auto

lemma Decrypt_sealed:
  assumes "\<And>n p. gcm_open g key n (gcm_seal g key n p) = Some p" and "Encrypt g key rnd plain = Inr sealed"
  shows "Decrypt g key sealed = Inr plain"
proof -
  from assms(2) obtain nonce where s: "sealed = ''v1'' @ CHR '':'' # EncodeToString nonce @ CHR '':'' #
      EncodeToString (gcm_seal g key nonce plain)"
    by (auto simp: Encrypt_def split: option.splits)
  have "split_on (CHR '':'') sealed = [''v1'', EncodeToString nonce, EncodeToString (gcm_seal g key nonce plain)]"
    unfolding s using encoded_chars by (subst split_on_plain, fastforce)+ (simp add: split_on_plain)
  then show ?thesis by (simp add: Decrypt_def DecodeString_EncodeToString assms(1))
qed



end
