(* ===== verification/Clusters.thy ===== *)
theory Clusters
  imports Health Crypto
begin

text \<open>
  The life of a registered cluster: the in-memory registry (service/registry.go), the runtime
  manager (k8s/manager.go, k8s/runtime.go, k8s/dialer.go), the registration service
  (service/clusterreg.go) and the callbacks that the server wires between them
  (cmd/server/main.go). The Kubernetes client library is a parameter: loading a kubeconfig,
  building a client configuration, building clients, and probing a server.
\<close>

subsection \<open>State\<close>

record registry_entry =
  re_name :: string
  re_status :: string
  re_version :: string
  re_access_mode :: string
  re_transition :: time

text \<open>\<open>rest.Config\<close>: opaque, but for the dialer that may be mounted on it.\<close>

record rest_config =
  rc_target :: string
  rc_dial :: "int option"

text \<open>A runtime object: its identity stands for its stop channel and its goroutines.\<close>

record k8s_runtime =
  kr_inst :: nat
  kr_version :: string
  kr_config :: rest_config
  kr_health :: health

record status_change =
  sc_name :: string
  sc_status :: string
  sc_version :: string
  sc_message :: string
  sc_transition :: time

record sys =
  s_world :: world
  s_registry :: "(string \<times> registry_entry) list"
  s_runtimes :: "(string \<times> k8s_runtime) list"
  s_dialers :: "(string \<times> int) list"
  s_listeners :: "int list"
  s_next_listener :: int
  s_next_inst :: nat
  s_stopped :: "nat list"
  s_sent :: "(int \<times> status_change) list"

type_synonym 'a sact = "(sys, 'a) gm"

definition on_world :: "'a act \<Rightarrow> 'a sact" where
  "on_world m = (\<lambda>s. case m (s_world s) of (r, w) \<Rightarrow> (r, s\<lparr>s_world := w\<rparr>))"

lemma wp_sys [wp_rules]:
  "wp (on_world m) Q E s = wp m (\<lambda>x w. Q x (s\<lparr>s_world := w\<rparr>)) (\<lambda>e w. E e (s\<lparr>s_world := w\<rparr>)) (s_world s)"
  by (simp add: wp_def on_world_def split: prod.splits sum.splits)

subsection \<open>memRegistry (service/registry.go)\<close>

definition reg_Put :: "registry_entry \<Rightarrow> unit sact" where
  "reg_Put e = modify (s_registry_update (al_put (re_name e) e))"

definition reg_Get :: "string \<Rightarrow> registry_entry sact" where
  "reg_Get name = and_then (gets (\<lambda>s. map_of (s_registry s) name)) (\<lambda>r.
     case r of None \<Rightarrow> err (PlainErr (''cluster not registered: '' @ name)) | Some e \<Rightarrow> ok e)"

definition reg_Remove :: "string \<Rightarrow> unit sact" where
  "reg_Remove name = modify (s_registry_update (al_del name))"

definition reg_Names :: "string list sact" where
  "reg_Names = gets (\<lambda>s. map fst (s_registry s))"

subsection \<open>Manager (k8s/manager.go)\<close>

definition SetDialer :: "string \<Rightarrow> int option \<Rightarrow> unit sact" where
  "SetDialer cluster d = modify (s_dialers_update
     (case d of None \<Rightarrow> al_del cluster | Some x \<Rightarrow> al_put cluster x))"

definition Dialer :: "string \<Rightarrow> int option sact" where
  "Dialer cluster = gets (\<lambda>s. map_of (s_dialers s) cluster)"

definition applyDialer :: "rest_config \<Rightarrow> int option \<Rightarrow> rest_config" where
  "applyDialer cfg d = (case d of None \<Rightarrow> cfg | Some x \<Rightarrow> cfg\<lparr>rc_dial := Some x\<rparr>)"

definition AddStatusListener :: "int sact" where
  "AddStatusListener = and_then (gets s_next_listener) (\<lambda>i.
     and_then (modify (\<lambda>s. s\<lparr>s_next_listener := wrap64 (i + 1), s_listeners := s_listeners s @ [i]\<rparr>)) (\<lambda>_. ok i))"

definition unsubscribe :: "int \<Rightarrow> unit sact" where
  "unsubscribe i = modify (s_listeners_update (filter (\<lambda>j. j \<noteq> i)))"

text \<open>\<open>notify\<close>: the status updater first, then every listener.\<close>

definition notify :: "(status_change \<Rightarrow> unit sact) \<Rightarrow> status_change \<Rightarrow> unit sact" where
  "notify updater ch = and_then (updater ch) (\<lambda>_.
     modify (\<lambda>s. s\<lparr>s_sent := s_sent s @ map (\<lambda>i. (i, ch)) (s_listeners s)\<rparr>))"

definition change_of :: "string \<Rightarrow> k8s_runtime \<Rightarrow> status_change" where
  "change_of name rt = \<lparr>sc_name = name, sc_status = st_status (h_cell (kr_health rt)), sc_version = kr_version rt,
     sc_message = st_message (h_cell (kr_health rt)), sc_transition = st_transition (h_cell (kr_health rt))\<rparr>"

text \<open>\<open>Stop\<close>: closes the stop channel once and waits for the health goroutine.\<close>

definition stop_runtime :: "nat \<Rightarrow> unit sact" where
  "stop_runtime i = modify (s_stopped_update (\<lambda>xs. if i \<in> set xs then xs else i # xs))"

text \<open>\<open>newClusterRuntime\<close>: a new identity, the empty status.\<close>

definition newClusterRuntime :: "options \<Rightarrow> string \<Rightarrow> rest_config \<Rightarrow> k8s_runtime sact" where
  "newClusterRuntime opts version cfg = and_then (gets s_next_inst) (\<lambda>i.
     and_then (on_world now) (\<lambda>t.
     and_then (modify (s_next_inst_update Suc)) (\<lambda>_.
     ok \<lparr>kr_inst = i, kr_version = version, kr_config = cfg,
         kr_health = health_init opts \<lparr>st_status = '''', st_message = '''', st_transition = t\<rparr>\<rparr>)))"

text \<open>\<open>Register\<close> in the sections its lock divides it into: build, look at the old runtime, stop it,
  and publish the new one.\<close>

definition register_build :: "options \<Rightarrow> (rest_config \<Rightarrow> gerr option) \<Rightarrow> string \<Rightarrow> string \<Rightarrow> rest_config option \<Rightarrow>
    k8s_runtime sact" where
  "register_build opts new_clients name version cfg =
     (case cfg of None \<Rightarrow> err (PlainErr (''register cluster '' @ name @ '': rest config is nil''))
      | Some c \<Rightarrow>
        and_then (Dialer name) (\<lambda>d.
        let c' = applyDialer c d in
        and_then (case new_clients c' of None \<Rightarrow> ok ()
           | Some e \<Rightarrow> err (WrapErr (''build clients for cluster '' @ name) e)) (\<lambda>_.
        newClusterRuntime opts version c')))"

definition register_look :: "string \<Rightarrow> nat option sact" where
  "register_look name = gets (\<lambda>s. map_option kr_inst (map_of (s_runtimes s) name))"

definition register_publish :: "(status_change \<Rightarrow> unit sact) \<Rightarrow> string \<Rightarrow> k8s_runtime \<Rightarrow> unit sact" where
  "register_publish updater name rt =
     and_then (on_world now) (\<lambda>t.
     let rt' = rt\<lparr>kr_health := (kr_health rt)\<lparr>h_cell := snd (setStatus ''ready'' '''' t (h_cell (kr_health rt)))\<rparr>\<rparr> in
     and_then (modify (s_runtimes_update (al_put name rt'))) (\<lambda>_.
     notify updater \<lparr>sc_name = name, sc_status = ''ready'', sc_version = kr_version rt, sc_message = '''',
       sc_transition = st_transition (h_cell (kr_health rt'))\<rparr>))"

definition manager_Register :: "options \<Rightarrow> (rest_config \<Rightarrow> gerr option) \<Rightarrow> (status_change \<Rightarrow> unit sact) \<Rightarrow>
    string \<Rightarrow> string \<Rightarrow> rest_config option \<Rightarrow> unit sact" where
  "manager_Register opts new_clients updater name version cfg =
     and_then (register_build opts new_clients name version cfg) (\<lambda>rt.
     and_then (register_look name) (\<lambda>old.
     and_then (case old of None \<Rightarrow> ok () | Some i \<Rightarrow> stop_runtime i) (\<lambda>_.
     register_publish updater name rt)))"

definition manager_Unregister :: "string \<Rightarrow> unit sact" where
  "manager_Unregister name = and_then (gets (\<lambda>s. map_of (s_runtimes s) name)) (\<lambda>r.
     and_then (modify (s_runtimes_update (al_del name))) (\<lambda>_.
     case r of None \<Rightarrow> ok () | Some rt \<Rightarrow> stop_runtime (kr_inst rt)))"

definition manager_Close :: "unit sact" where
  "manager_Close = and_then (gets (\<lambda>s. map fst (s_runtimes s))) (\<lambda>names.
     and_then (mapM manager_Unregister names) (\<lambda>_. ok ()))"

definition manager_Get :: "string \<Rightarrow> k8s_runtime sact" where
  "manager_Get name = and_then (gets (\<lambda>s. map_of (s_runtimes s) name)) (\<lambda>r.
     case r of None \<Rightarrow> err (PlainErr (''cluster '' @ name @ '' is not registered'')) | Some rt \<Rightarrow> ok rt)"

definition manager_Snapshot :: "string \<Rightarrow> status_change option sact" where
  "manager_Snapshot name = gets (\<lambda>s. map_option (change_of name) (map_of (s_runtimes s) name))"

definition manager_Names :: "string list sact" where
  "manager_Names = gets (\<lambda>s. map fst (s_runtimes s))"

text \<open>One turn of the health loop of a runtime that has not been stopped, with \<open>onTransition\<close>.\<close>

definition manager_probe :: "options \<Rightarrow> (status_change \<Rightarrow> unit sact) \<Rightarrow> string \<Rightarrow> bool \<Rightarrow> unit sact" where
  "manager_probe opts updater name probe_ok =
     and_then (gets (\<lambda>s. map_of (s_runtimes s) name)) (\<lambda>r.
     case r of None \<Rightarrow> ok () | Some rt \<Rightarrow>
       and_then (on_world now) (\<lambda>t.
       let (h, u) = health_step opts probe_ok t (kr_health rt); rt' = rt\<lparr>kr_health := h\<rparr> in
       and_then (modify (s_runtimes_update (al_put name rt'))) (\<lambda>_.
       if tn_notify u then notify updater (change_of name rt') else ok ())))"

subsection \<open>The callbacks of the server (cmd/server/main.go)\<close>

definition ignore_err :: "'a sact \<Rightarrow> unit sact" where
  "ignore_err m = on_result m (\<lambda>_. ok ()) (\<lambda>_. ok ())"

definition StatusUpdater :: "status_change \<Rightarrow> unit sact" where
  "StatusUpdater ch =
     and_then (reg_Put \<lparr>re_name = sc_name ch, re_status = sc_status ch, re_version = sc_version ch,
        re_access_mode = '''', re_transition = sc_transition ch\<rparr>) (\<lambda>_.
     ignore_err (on_world (repo_UpdateClusterStatus (sc_name ch) (sc_status ch) (sc_version ch) (sc_message ch))))"

definition OnConnect :: "string \<Rightarrow> string \<Rightarrow> unit sact" where
  "OnConnect cluster agentVersion = and_then (on_world now) (\<lambda>t.
     and_then (reg_Put \<lparr>re_name = cluster, re_status = ''ready'', re_version = '''', re_access_mode = ''agent'',
        re_transition = t\<rparr>) (\<lambda>_.
     and_then (ignore_err (on_world (repo_UpdateClusterAccessMode cluster ''agent''))) (\<lambda>_.
     ignore_err (on_world (repo_UpdateClusterStatus cluster ''ready'' (''agent '' @ agentVersion) '''')))))"

text \<open>The bytes of the message the callback stores.\<close>

definition agent_reconnecting :: string where
  "agent_reconnecting = ''agent '' @ [CHR 0xE5, CHR 0x8F, CHR 0x8D, CHR 0xE8, CHR 0xBF, CHR 0x9E, CHR 0xE4, CHR 0xB8, CHR 0xAD]"

definition OnDisconnect :: "string \<Rightarrow> unit sact" where
  "OnDisconnect cluster = and_then (on_world now) (\<lambda>t.
     and_then (reg_Put \<lparr>re_name = cluster, re_status = ''degraded'', re_version = '''', re_access_mode = ''agent'',
        re_transition = t\<rparr>) (\<lambda>_.
     ignore_err (on_world (repo_UpdateClusterStatus cluster ''degraded'' '''' agent_reconnecting))))"

subsection \<open>ClusterRegService (service/clusterreg.go)\<close>

record raw_config =
  raw_contexts :: "string list"
  raw_current :: string
  raw_body :: string

record kube_libs =
  kl_load :: "string \<Rightarrow> gerr + raw_config"
  kl_build :: "raw_config \<Rightarrow> string \<Rightarrow> gerr + rest_config"

record reg_service =
  rg_libs :: kube_libs
  rg_gcm :: aes_gcm
  rg_key :: string

record register_request =
  rq_name :: string
  rq_kubeconfig :: string
  rq_context :: string
  rq_description :: string
  rq_access_mode :: string

record cluster_info =
  ci_name :: string
  ci_status :: string
  ci_version :: string
  ci_access_mode :: string
  ci_description :: string
  ci_created :: time
  ci_updated :: time

definition toClusterInfo :: "cluster \<Rightarrow> cluster_info" where
  "toClusterInfo c = \<lparr>ci_name = cl_name c, ci_status = cl_status c, ci_version = cl_version c,
     ci_access_mode = cl_access_mode c, ci_description = cl_description c, ci_created = cl_created c,
     ci_updated = cl_updated c\<rparr>"

definition parseAndValidate :: "kube_libs \<Rightarrow> string \<Rightarrow> string \<Rightarrow> gerr + rest_config" where
  "parseAndValidate k kubeconfig contextName =
     (case kl_load k kubeconfig of
        Inl e \<Rightarrow> Inl (WithCause (New ClusterKubeconfigBad ''invalid kubeconfig'') e)
      | Inr raw \<Rightarrow>
        if length (raw_contexts raw) > 1 \<and> contextName = ''''
        then Inl (New ClusterKubeconfigMultiContext
          ''kubeconfig contains multiple contexts, specify contextName explicitly'')
        else let name = (if contextName = '''' then raw_current raw else contextName) in
          if name = '''' \<or> name \<notin> set (raw_contexts raw)
          then Inl (New ClusterKubeconfigBad ''context not found in kubeconfig'')
          else (case kl_build k raw name of
              Inl e \<Rightarrow> Inl (WithCause (New ClusterKubeconfigBad ''invalid kubeconfig'')
                 (WrapErr (''build rest config from context '' @ name) e))
            | Inr cfg \<Rightarrow> Inr cfg))"

text \<open>\<open>hook_registered\<close> and \<open>hook_unregistered\<close> are the two methods of the \<open>RuntimeHook\<close> interface;
  \<open>probe\<close> is the \<open>/version\<close> request.\<close>

definition Register :: "reg_service \<Rightarrow> (string \<Rightarrow> string \<Rightarrow> rest_config option \<Rightarrow> unit sact) \<Rightarrow>
    (rest_config \<Rightarrow> gerr + string) \<Rightarrow> string option \<Rightarrow> register_request \<Rightarrow> cluster_info sact" where
  "Register rs hook_registered probe rnd req =
     and_then (guard (rq_name req \<noteq> '''') (New ParamInvalid ''cluster name is required'')) (\<lambda>_.
     and_then (guard (rq_kubeconfig req \<noteq> '''') (New ClusterKubeconfigBad ''kubeconfig is required'')) (\<lambda>_.
     let mode = (if rq_access_mode req = '''' then ''direct'' else rq_access_mode req) in
     and_then (guard (mode = ''direct'' \<or> mode = ''agent'') (New ParamInvalid ''accessMode must be direct or agent'')) (\<lambda>_.
     and_then (from_sum (parseAndValidate (rg_libs rs) (rq_kubeconfig req) (rq_context req))) (\<lambda>cfg.
     and_then (if mode = ''direct''
        then (case probe cfg of
            Inl e \<Rightarrow> err (WithCause (New ClusterUnreachable
                 ''cluster apiserver unreachable or credentials invalid'') e)
          | Inr v \<Rightarrow> ok v)
        else ok '''') (\<lambda>version.
     and_then (from_sum (Encrypt (rg_gcm rs) (rg_key rs) rnd (rq_kubeconfig req))) (\<lambda>sealed.
     and_then (on_world now) (\<lambda>t.
     and_then (on_world (repo_UpsertCluster \<lparr>cl_id = 0, cl_name = rq_name req, cl_description = rq_description req,
         cl_kubeconfig = sealed, cl_access_mode = mode,
         cl_status = (if mode = ''agent'' then ''offline'' else ''ready''), cl_version = version,
         cl_message = (if mode = ''agent'' then ''waiting for agent enrollment'' else ''''),
         cl_transition = t, cl_created = 0, cl_updated = 0\<rparr>)) (\<lambda>rec.
     and_then (reg_Put \<lparr>re_name = cl_name rec, re_status = cl_status rec, re_version = cl_version rec,
         re_access_mode = cl_access_mode rec, re_transition = t\<rparr>) (\<lambda>_.
     and_then (errorf (''start cluster runtime '' @ cl_name rec)
         (hook_registered (cl_name rec) version (Some cfg))) (\<lambda>_.
     ok (toClusterInfo rec)))))))))))"

definition mark_offline :: "cluster \<Rightarrow> string \<Rightarrow> unit sact" where
  "mark_offline rec msg = errorf ''mark offline''
     (on_world (repo_UpdateClusterStatus (cl_name rec) ''offline'' (cl_version rec) msg))"

definition restoreOne :: "reg_service \<Rightarrow> (string \<Rightarrow> string \<Rightarrow> rest_config option \<Rightarrow> unit sact) \<Rightarrow> cluster \<Rightarrow> unit sact" where
  "restoreOne rs hook_registered rec =
     (case Decrypt (rg_gcm rs) (rg_key rs) (cl_kubeconfig rec) of
        Inl _ \<Rightarrow> mark_offline rec ''kubeconfig decrypt failed: master key mismatch, rotate kubeconfig to recover''
      | Inr plain \<Rightarrow>
        (case parseAndValidate (rg_libs rs) plain '''' of
           Inl _ \<Rightarrow> mark_offline rec ''stored kubeconfig parse failed, rotate kubeconfig to recover''
         | Inr cfg \<Rightarrow>
           and_then (on_world now) (\<lambda>t.
           and_then (reg_Put \<lparr>re_name = cl_name rec, re_status = ''reconnecting'', re_version = cl_version rec,
               re_access_mode = cl_access_mode rec, re_transition = t\<rparr>) (\<lambda>_.
           errorf (''start cluster runtime '' @ cl_name rec)
             (hook_registered (cl_name rec) (cl_version rec) (Some cfg))))))"

definition RestoreClusters :: "reg_service \<Rightarrow> (string \<Rightarrow> string \<Rightarrow> rest_config option \<Rightarrow> unit sact) \<Rightarrow> unit sact" where
  "RestoreClusters rs hook_registered =
     and_then (errorf ''list clusters for restore'' (on_world repo_ListClusters)) (\<lambda>recs.
     and_then (mapM (\<lambda>rec. ignore_err (restoreOne rs hook_registered rec)) recs) (\<lambda>_. ok ()))"

definition ListClusterInfos :: "cluster_info list sact" where
  "ListClusterInfos = and_then (on_world repo_ListClusters) (\<lambda>recs. ok (map toClusterInfo recs))"

text \<open>\<open>model.ClusterStatus\<close> has the fields of a status change.\<close>

definition ClusterStatus :: "string \<Rightarrow> status_change sact" where
  "ClusterStatus name =
     and_then (on_world (not_found_as ClusterNotFound ''cluster not found'' (repo_GetClusterByName name))) (\<lambda>c.
     ok \<lparr>sc_name = cl_name c, sc_status = cl_status c, sc_version = cl_version c, sc_message = cl_message c,
         sc_transition = cl_transition c\<rparr>)"

definition DeleteClusterReg :: "(string \<Rightarrow> unit sact) \<Rightarrow> string \<Rightarrow> unit sact" where
  "DeleteClusterReg hook_unregistered name =
     and_then (on_world (not_found_as ClusterNotFound ''cluster not found'' (repo_GetClusterByName name))) (\<lambda>_.
     and_then (hook_unregistered name) (\<lambda>_.
     and_then (reg_Remove name) (\<lambda>_.
     on_world (repo_DeleteCluster name))))"

definition describeIfExists :: "string \<Rightarrow> string act" where
  "describeIfExists name = on_result (repo_GetClusterByName name) (\<lambda>_. ok '''') (\<lambda>c. ok (cl_description c))"

definition RotateKubeconfig :: "reg_service \<Rightarrow> (string \<Rightarrow> string \<Rightarrow> rest_config option \<Rightarrow> unit sact) \<Rightarrow>
    (rest_config \<Rightarrow> gerr + string) \<Rightarrow> string option \<Rightarrow> string \<Rightarrow> string \<Rightarrow> string \<Rightarrow> cluster_info sact" where
  "RotateKubeconfig rs hook_registered probe rnd name kubeconfig contextName =
     and_then (on_world (not_found_as ClusterNotFound ''cluster not found'' (repo_GetClusterByName name))) (\<lambda>rec.
     and_then (on_world (describeIfExists name)) (\<lambda>descr.
     Register rs hook_registered probe rnd \<lparr>rq_name = name, rq_kubeconfig = kubeconfig, rq_context = contextName,
       rq_description = descr, rq_access_mode = cl_access_mode rec\<rparr>))"

end
