(* ===== verification/Cluster_Laws.thy ===== *)
theory Cluster_Laws
  imports Clusters
begin

text \<open>
  The contract between the registration service and the cluster runtimes. The locale
  \<open>runtime_hook\<close> states what the service relies on when it starts and stops a runtime; its
  clients are registration, deletion, rotation and restoration. It is interpreted on the
  runtime manager with the server's status updater. Every runtime the manager ever created is
  the current one of some cluster or has been stopped.
\<close>

subsection \<open>What a cluster row keeps when only its status changes\<close>

definition catalog :: "sys \<Rightarrow> cluster list" where
  "catalog s = map (\<lambda>c. c\<lparr>cl_status := '''', cl_version := '''', cl_message := '''', cl_transition := 0, cl_updated := 0\<rparr>)
     (trows (db_clusters (w_db (s_world s))))"

definition in_registry :: "sys \<Rightarrow> string \<Rightarrow> bool" where
  "in_registry s n \<longleftrightarrow> map_of (s_registry s) n \<noteq> None"

definition sys_wf :: "sys \<Rightarrow> bool" where
  "sys_wf s \<longleftrightarrow> db_wf (w_db (s_world s))"

definition live :: "sys \<Rightarrow> string \<Rightarrow> nat option" where
  "live s n = map_option kr_inst (map_of (s_runtimes s) n)"

definition running :: "sys \<Rightarrow> string \<Rightarrow> bool" where
  "running s n \<longleftrightarrow> live s n \<noteq> None"

text \<open>The hook: \<open>start\<close> and \<open>stop\<close>, the clusters it runs, and the configurations it accepts.\<close>

locale runtime_hook =
  fixes start :: "string \<Rightarrow> string \<Rightarrow> rest_config option \<Rightarrow> unit sact"
    and stop :: "string \<Rightarrow> unit sact"
    and runs :: "sys \<Rightarrow> string \<Rightarrow> bool"
    and accepts :: "sys \<Rightarrow> string \<Rightarrow> rest_config \<Rightarrow> bool"
  assumes start_spec: "wp (start n v cfg)
      (\<lambda>_ s'. (\<exists>c. cfg = Some c \<and> accepts s n c) \<and> runs s' = (runs s)(n := True) \<and> catalog s' = catalog s \<and>
         (in_registry s n \<longrightarrow> in_registry s' n) \<and> accepts s' = accepts s \<and> (sys_wf s \<longrightarrow> sys_wf s'))
      (\<lambda>_ s'. s' = s \<and> \<not> (\<exists>c. cfg = Some c \<and> accepts s n c)) s"
    and stop_spec: "wp (stop n)
      (\<lambda>_ s'. runs s' = (runs s)(n := False) \<and> s_world s' = s_world s \<and> s_registry s' = s_registry s)
      (\<lambda>_ _. False) s"
    and frame: "runs (s\<lparr>s_world := w\<rparr>) = runs s" "runs (s_registry_update f s) = runs s"
      "accepts (s\<lparr>s_world := w\<rparr>) = accepts s" "accepts (s_registry_update f s) = accepts s"

subsection \<open>The manager satisfies the contract\<close>

definition startable :: "(rest_config \<Rightarrow> gerr option) \<Rightarrow> sys \<Rightarrow> string \<Rightarrow> rest_config \<Rightarrow> bool" where
  "startable new_clients s n c \<longleftrightarrow> new_clients (applyDialer c (map_of (s_dialers s) n)) = None"

lemmas manager_defs = manager_Register_def register_build_def register_look_def register_publish_def
  newClusterRuntime_def stop_runtime_def notify_def Dialer_def

lemma sys_frame [simp]:
  "live (s\<lparr>s_world := w\<rparr>) = live s" "live (s_registry_update f s) = live s"
  "running (s\<lparr>s_world := w\<rparr>) = running s" "running (s_registry_update f s) = running s"
  "startable nc (s\<lparr>s_world := w\<rparr>) = startable nc s" "startable nc (s_registry_update f s) = startable nc s"
  by (auto simp: live_def running_def startable_def fun_eq_iff)

lemma wp_ignore_err [wp_rules]: "wp (ignore_err m) Q E s = wp m (\<lambda>_. Q ()) (\<lambda>_. Q ()) s"
  by (simp add: ignore_err_def wp_rules)

lemma UpdateClusterStatus_wf: "preserves (on_db db_wf) (repo_UpdateClusterStatus n st v msg)"
  unfolding repo_UpdateClusterStatus_def
  by (intro pres_rules clusters.preserves_update) (simp_all add: cluster_uniq_def)

lemma UpdateClusterAccessMode_wf: "preserves (on_db db_wf) (repo_UpdateClusterAccessMode n m)"
  unfolding repo_UpdateClusterAccessMode_def
  by (intro pres_rules clusters.preserves_update) (simp_all add: cluster_uniq_def)

text \<open>The status updater stores an entry and touches nothing but status columns.\<close>

definition same_runtimes :: "sys \<Rightarrow> sys \<Rightarrow> bool" where
  "same_runtimes s s' \<longleftrightarrow> s_runtimes s' = s_runtimes s \<and> s_stopped s' = s_stopped s \<and>
     s_next_inst s' = s_next_inst s \<and> s_dialers s' = s_dialers s"

lemma wp_status:
  "wp (repo_UpdateClusterStatus n st v msg)
     (\<lambda>_ w. catalog (s\<lparr>s_world := w\<rparr>) = catalog s \<and> (sys_wf s \<longrightarrow> db_wf (w_db w)))
     (\<lambda>_ w. catalog (s\<lparr>s_world := w\<rparr>) = catalog s \<and> (sys_wf s \<longrightarrow> db_wf (w_db w))) (s_world s)"
proof -
  have "wp (repo_UpdateClusterStatus n st v msg) (\<lambda>_ w. catalog (s\<lparr>s_world := w\<rparr>) = catalog s)
     (\<lambda>_ w. catalog (s\<lparr>s_world := w\<rparr>) = catalog s) (s_world s)"
    by (auto simp: repo_UpdateClusterStatus_def wp_rules catalog_def)
  moreover have "sys_wf s \<Longrightarrow> wp (repo_UpdateClusterStatus n st v msg) (\<lambda>_ w. db_wf (w_db w)) (\<lambda>_ w. db_wf (w_db w)) (s_world s)"
    using UpdateClusterStatus_wf [of n st v msg] by (simp add: preserves_wp sys_wf_def)
  ultimately show ?thesis by (auto simp: wp_def split: prod.splits sum.splits)
qed

lemma wp_StatusUpdater:
  "wp (StatusUpdater ch) (\<lambda>_ s'. same_runtimes s s' \<and> in_registry s' (sc_name ch) \<and>
      catalog s' = catalog s \<and> (sys_wf s \<longrightarrow> sys_wf s')) (\<lambda>_ _. False) s"
  unfolding StatusUpdater_def reg_Put_def wp_rules
  using wp_status [of "sc_name ch" "sc_status ch" "sc_version ch" "sc_message ch" s]
  by (simp, elim wp_mono) (simp_all add: same_runtimes_def in_registry_def catalog_def sys_wf_def)

lemma wp_manager_Register:
  "wp (manager_Register opts nc StatusUpdater n v cfg)
     (\<lambda>_ s'. (\<exists>c. cfg = Some c \<and> startable nc s n c) \<and> live s' = (live s)(n \<mapsto> s_next_inst s) \<and>
        set (s_stopped s') = set (s_stopped s) \<union> set_option (live s n) \<and> s_next_inst s' = Suc (s_next_inst s) \<and>
        s_dialers s' = s_dialers s \<and> catalog s' = catalog s \<and> in_registry s' n \<and> (sys_wf s \<longrightarrow> sys_wf s'))
     (\<lambda>_ s'. s' = s \<and> \<not> (\<exists>c. cfg = Some c \<and> startable nc s n c)) s"
proof (cases cfg)
  case None
  then show ?thesis by (simp add: manager_defs wp_rules)
next
  case (Some c)
  show ?thesis
    by (auto simp: Some manager_defs startable_def wp_rules Let_def split: option.splits
        intro!: wp_mono [OF wp_StatusUpdater]
        simp: same_runtimes_def live_def fun_eq_iff catalog_def sys_wf_def in_registry_def)
qed

lemma wp_manager_Unregister:
  "wp (manager_Unregister n)
     (\<lambda>_ s'. live s' = (live s)(n := None) \<and> set (s_stopped s') = set (s_stopped s) \<union> set_option (live s n) \<and>
        s_next_inst s' = s_next_inst s \<and> s_dialers s' = s_dialers s \<and> s_world s' = s_world s \<and> s_registry s' = s_registry s)
     (\<lambda>_ _. False) s"
  by (auto simp: manager_Unregister_def stop_runtime_def wp_rules live_def fun_eq_iff split: option.splits)

interpretation manager_hook: runtime_hook "manager_Register opts nc StatusUpdater" manager_Unregister running "startable nc"
proof
  fix n v cfg s
  show "wp (manager_Register opts nc StatusUpdater n v cfg)
      (\<lambda>_ s'. (\<exists>c. cfg = Some c \<and> startable nc s n c) \<and> running s' = (running s)(n := True) \<and> catalog s' = catalog s \<and>
         (in_registry s n \<longrightarrow> in_registry s' n) \<and> startable nc s' = startable nc s \<and> (sys_wf s \<longrightarrow> sys_wf s'))
      (\<lambda>_ s'. s' = s \<and> \<not> (\<exists>c. cfg = Some c \<and> startable nc s n c)) s"
    by (rule wp_mono [OF wp_manager_Register]) (auto simp: running_def startable_def fun_eq_iff)
  show "wp (manager_Unregister n)
      (\<lambda>_ s'. running s' = (running s)(n := False) \<and> s_world s' = s_world s \<and> s_registry s' = s_registry s)
      (\<lambda>_ _. False) s"
    by (rule wp_mono [OF wp_manager_Unregister]) (auto simp: running_def fun_eq_iff)
qed (rule sys_frame)+

subsection \<open>UpsertCluster\<close>

lemma save_set: "tbl_save rid u r t = Some t' \<Longrightarrow> set (trows t') = insert r {x \<in> set (trows t). rid x \<noteq> rid r}"
  by (auto simp: tbl_save_def list_ex_iff split: if_splits)

definition named :: "string \<Rightarrow> cluster tbl \<Rightarrow> cluster set" where
  "named n t = {c \<in> set (trows t). cl_name c = n}"

definition unnamed :: "string \<Rightarrow> cluster tbl \<Rightarrow> cluster set" where
  "unnamed n t = {c \<in> set (trows t). cl_name c \<noteq> n}"

definition same_spec :: "cluster \<Rightarrow> cluster \<Rightarrow> bool" where
  "same_spec c c' \<longleftrightarrow> cl_name c' = cl_name c \<and> cl_kubeconfig c' = cl_kubeconfig c \<and> cl_access_mode c' = cl_access_mode c"

lemma upsert_new:
  assumes "db_wf d" "tbl_insert (\<lambda>i. cl_id_update (\<lambda>_. i)) cluster_uniq r (db_clusters d) = Some (r', t)"
    and "tbl_save cl_id cluster_uniq (r'\<lparr>cl_updated := x\<rparr>) t = Some t'"
    and "\<forall>y \<in> set (trows (db_clusters d)). cl_name y \<noteq> n" and "cl_name r = n"
  shows "named n t' = {r'\<lparr>cl_updated := x\<rparr>}" and "unnamed n t' = unnamed n (db_clusters d)"
    and "cl_name r' = n" "cl_kubeconfig r' = cl_kubeconfig r" "cl_access_mode r' = cl_access_mode r"
proof -
  note i = clusters.insert_SomeD [OF assms(2)]
  show n: "cl_name r' = n" "cl_kubeconfig r' = cl_kubeconfig r" "cl_access_mode r' = cl_access_mode r"
    using i(1) assms(5) by auto
  have "cl_id y \<noteq> cl_id r'" if "y \<in> set (trows (db_clusters d))" for y
    using clusters.key_le_seq [OF assms(1) that] i(1) i(2) by simp
  then show "named n t' = {r'\<lparr>cl_updated := x\<rparr>}" "unnamed n t' = unnamed n (db_clusters d)"
    using save_set [OF assms(3)] i(3) assms(4) n by (auto simp: named_def unnamed_def)
qed

lemma upsert_old:
  assumes "db_wf d" "y \<in> set (trows (db_clusters d))" "cl_name y = n"
    and "tbl_save cl_id cluster_uniq z (tbl_update (\<lambda>r. cl_id r = cl_id y) f (db_clusters d)) = Some t'"
    and "cl_name z = n" "cl_id z = cl_id y" and f: "\<And>r. cl_id (f r) = cl_id r"
  shows "named n t' = {z}" and "unnamed n t' = unnamed n (db_clusters d)"
proof -
  have "w = y" if "w \<in> set (trows (db_clusters d))" "cl_id w = cl_id y" for w
    using clusters.same_key [OF assms(1) that(1) assms(2) that(2)] .
  moreover have "w = y" if "w \<in> set (trows (db_clusters d))" "cl_name w = n" for w
    using clusters.same_index [OF assms(1) that(1) assms(2)] that(2) assms(3) by (simp add: cluster_uniq_def)
  ultimately show "named n t' = {z}" "unnamed n t' = unnamed n (db_clusters d)"
    unfolding named_def unnamed_def save_set [OF assms(4)] using assms(3,5,6) f
    by (auto simp: tbl_update_def split: if_splits)
qed

lemma unnamed_insert:
  "tbl_insert (\<lambda>i. cl_id_update (\<lambda>_. i)) cluster_uniq r t = Some (r', t') \<Longrightarrow> cl_name r = n \<Longrightarrow> unnamed n t' = unnamed n t"
  using clusters.insert_SomeD(1,3) by (fastforce simp: unnamed_def)

lemma unnamed_update:
  assumes "db_wf d" "y \<in> set (trows (db_clusters d))" "cl_name y = n" and "\<And>r. cl_name r = n \<Longrightarrow> cl_name (f r) = n"
  shows "unnamed n (tbl_update (\<lambda>r. cl_id r = cl_id y) f (db_clusters d)) = unnamed n (db_clusters d)"
proof -
  have "w = y" if "w \<in> set (trows (db_clusters d))" "cl_id w = cl_id y" for w
    using clusters.same_key [OF assms(1) that(1) assms(2) that(2)] .
  then show ?thesis using assms(3,4) by (auto simp: unnamed_def)
qed

definition upsert_first :: "time \<Rightarrow> cluster \<Rightarrow> cluster act" where
  "upsert_first t c = and_then (sql_find db_clusters cl_id
       (\<lambda>x. nz_str (cl_name c) (cl_name x) \<and> nz_int (cl_id c) (cl_id x)))
     (\<lambda>xs. case xs of
        [] \<Rightarrow> sql_create db_clusters db_clusters_update (\<lambda>i. cl_id_update (\<lambda>_. i)) cluster_uniq
            (c\<lparr>cl_access_mode := with_default (cl_access_mode c) ''direct'',
               cl_status := with_default (cl_status c) ''offline'', cl_created := t, cl_updated := t\<rparr>)
      | x # _ \<Rightarrow> and_then (sql_update db_clusters db_clusters_update (\<lambda>y. cl_id y = cl_id x)
            (\<lambda>y. (assign_cluster c y)\<lparr>cl_updated := t\<rparr>))
          (\<lambda>_. ok ((assign_cluster c x)\<lparr>cl_updated := t\<rparr>)))"

lemma found_row: "tbl_find rid p t = y # ys \<Longrightarrow> y \<in> set (trows t) \<and> p y"
  using set_tbl_find [of rid p t] by (auto simp del: set_tbl_find)

lemma found_none: "tbl_find rid p t = [] \<Longrightarrow> y \<in> set (trows t) \<Longrightarrow> \<not> p y"
  using set_tbl_find [of rid p t] by (auto simp del: set_tbl_find)

lemma wp_upsert_first_wf:
  assumes wf: "db_wf (w_db w)"
  shows "wp (upsert_first t c) (\<lambda>c' w'. db_wf (w_db w') \<and> 0 < cl_id c') (\<lambda>_ w'. db_wf (w_db w')) w"
proof (cases "tbl_find cl_id (\<lambda>x. nz_str (cl_name c) (cl_name x) \<and> nz_int (cl_id c) (cl_id x)) (db_clusters (w_db w))")
  case Nil
  then show ?thesis
    using wf clusters.insert_wf [OF clusters.get_wf [OF wf]] clusters.get_wf [OF wf]
    by (auto simp: upsert_first_def wp_rules tbl_wf_iff split: option.splits intro!: clusters.upd_wf
        dest: clusters.insert_SomeD(2))
next
  case (Cons x xs)
  have "tbl_wf cl_id cluster_uniq (tbl_update p (\<lambda>y. (assign_cluster c y)\<lparr>cl_updated := t\<rparr>) (db_clusters (w_db w)))" for p
    by (rule clusters.update_wf [OF clusters.get_wf [OF wf]]) (simp_all add: assign_cluster_def cluster_uniq_def)
  then show ?thesis
    using Cons wf clusters.key_pos [OF wf, of x] found_row [OF Cons]
    by (simp add: upsert_first_def wp_rules clusters.upd_wf) (simp add: assign_cluster_def)
qed

lemma UpsertCluster_unfold: "repo_UpsertCluster c = and_then now (\<lambda>t.
   and_then (errorf (''upsert cluster '' @ cl_name c) (upsert_first t c)) (\<lambda>c'.
   and_then (errorf (''save cluster '' @ cl_name c)
     (sql_save db_clusters db_clusters_update cl_id cluster_uniq (c'\<lparr>cl_updated := t\<rparr>))) (\<lambda>_.
   ok (c'\<lparr>cl_updated := t\<rparr>))))"
  by (simp add: repo_UpsertCluster_def upsert_first_def)

lemma UpsertCluster_wf: "preserves (on_db db_wf) (repo_UpsertCluster c)"
proof -
  have save: "wp (sql_save db_clusters db_clusters_update cl_id cluster_uniq r) (\<lambda>_ w. db_wf (w_db w)) (\<lambda>_ w. db_wf (w_db w)) w"
    if "db_wf (w_db w)" "0 < cl_id r" for r w
    using clusters.preserves_save [OF that(2)] that(1) by (simp add: preserves_wp)
  have "wp (repo_UpsertCluster c) (\<lambda>_ w. db_wf (w_db w)) (\<lambda>_ w. db_wf (w_db w)) w" if "db_wf (w_db w)" for w
    unfolding UpsertCluster_unfold wp_and_then wp_now wp_errorf wp_ok
    by (rule wp_mono [OF wp_upsert_first_wf [OF that]]) (simp_all add: save)
  then show ?thesis by (simp add: preserves_wp)
qed

lemma wp_UpsertCluster:
  assumes wf: "db_wf (w_db w)" and "cl_name c \<noteq> ''''" "cl_id c = 0" "cl_kubeconfig c \<noteq> ''''" "cl_access_mode c \<noteq> ''''"
  shows "wp (repo_UpsertCluster c) (\<lambda>c' w'. same_spec c c' \<and> named (cl_name c) (db_clusters (w_db w')) = {c'} \<and>
      unnamed (cl_name c) (db_clusters (w_db w')) = unnamed (cl_name c) (db_clusters (w_db w)) \<and> db_wf (w_db w'))
    (\<lambda>_ w'. unnamed (cl_name c) (db_clusters (w_db w')) = unnamed (cl_name c) (db_clusters (w_db w)) \<and> db_wf (w_db w')) w"
    (is "wp ?m ?Q _ w")
proof -
  let ?t = "db_clusters (w_db w)"
  let ?P = "\<lambda>x. nz_str (cl_name c) (cl_name x) \<and> nz_int (cl_id c) (cl_id x)"
  let ?R = "\<lambda>c' w'. same_spec c c' \<and> named (cl_name c) (db_clusters (w_db w')) = {c'} \<and>
      unnamed (cl_name c) (db_clusters (w_db w')) = unnamed (cl_name c) ?t"
  have P: "?P x = (cl_name x = cl_name c)" for x using assms by (auto simp: nz_str_def nz_int_def)
  let ?F = "\<lambda>e w'. unnamed (cl_name c) (db_clusters (w_db w')) = unnamed (cl_name c) ?t"
  have "wp ?m ?R ?F w"
  proof (cases "tbl_find cl_id ?P ?t")
    case Nil
    have fresh: "\<forall>y \<in> set (trows ?t). cl_name y \<noteq> cl_name c" using found_none [OF Nil] P by auto
    show ?thesis
      unfolding UpsertCluster_unfold upsert_first_def wp_and_then wp_now wp_errorf wp_ok wp_sql_find
      using Nil assms(5) upsert_new [OF wf _ _ fresh]
      by (simp add: wp_rules same_spec_def with_default_def split: option.splits) (simp add: unnamed_insert)
  next
    case (Cons y ys)
    from found_row [OF this] P [of y] have y: "y \<in> set (trows ?t)" "cl_name y = cl_name c" by simp_all
    have spec: "same_spec c ((assign_cluster c y)\<lparr>cl_updated := t\<rparr>)" "cl_id (assign_cluster c y) = cl_id y" for t
      using assms y by (simp_all add: same_spec_def assign_cluster_def nz_assign_def)
    have idn: "cl_id (assign_cluster c r) = cl_id r" "cl_name (assign_cluster c r) = cl_name r" for r
      by (simp_all add: assign_cluster_def)
    show ?thesis
      unfolding UpsertCluster_unfold upsert_first_def wp_and_then wp_now wp_errorf wp_ok wp_sql_find
      using Cons spec upsert_old [OF wf y, where f = "\<lambda>r. (assign_cluster c r)\<lparr>cl_updated := w_now w\<rparr>"] idn unnamed_update [OF wf y]
      by (simp add: wp_rules same_spec_def split: option.splits)
  qed
  moreover have "wp ?m (\<lambda>_ w. db_wf (w_db w)) (\<lambda>_ w. db_wf (w_db w)) w"
    using UpsertCluster_wf wf by (simp add: preserves_wp)
  ultimately show ?thesis by (auto simp: wp_def split: prod.splits sum.splits)
qed

subsection \<open>The clients of the contract\<close>

text \<open>The abstract state: what is stored under each name, and which names run.\<close>

definition stored :: "sys \<Rightarrow> string \<Rightarrow> (string \<times> string) set" where
  "stored s n = (\<lambda>c. (cl_kubeconfig c, cl_access_mode c)) ` named n (db_clusters (w_db (s_world s)))"

lemma stored_frame [simp]: "stored (s_registry_update f s) = stored s"
  by (simp add: stored_def fun_eq_iff)

lemma stored_same_db: "w_db w = w_db (s_world s) \<Longrightarrow> stored (s\<lparr>s_world := w\<rparr>) = stored s"
  by (simp add: stored_def fun_eq_iff)

lemma stored_catalog: "catalog s' = catalog s \<Longrightarrow> stored s' = stored s"
proof -
  have "stored s n = (\<lambda>c. (cl_kubeconfig c, cl_access_mode c)) ` set (filter (\<lambda>c. cl_name c = n) (catalog s))" for s n
    by (simp add: stored_def named_def catalog_def filter_map image_image comp_def)
  then show "catalog s' = catalog s \<Longrightarrow> stored s' = stored s" by (simp add: fun_eq_iff)
qed

lemma stored_other:
  assumes "unnamed n (db_clusters (w_db w)) = unnamed n (db_clusters (w_db (s_world s)))" and "m \<noteq> n"
  shows "stored (s\<lparr>s_world := w\<rparr>) m = stored s m"
proof -
  have "named m t = {c \<in> unnamed n t. cl_name c = m}" for t using assms(2) by (auto simp: named_def unnamed_def)
  then show ?thesis using assms(1) by (simp add: stored_def)
qed

text \<open>A request that reaches the database: validated, probed and sealed.\<close>

definition mode_of :: "register_request \<Rightarrow> string" where
  "mode_of req = (if rq_access_mode req = '''' then ''direct'' else rq_access_mode req)"

definition admissible :: "reg_service \<Rightarrow> (rest_config \<Rightarrow> gerr + string) \<Rightarrow> string option \<Rightarrow> register_request \<Rightarrow> rest_config \<Rightarrow> string \<Rightarrow> bool" where
  "admissible rs probe rnd req cfg sealed \<longleftrightarrow> rq_name req \<noteq> '''' \<and> rq_kubeconfig req \<noteq> '''' \<and>
     mode_of req \<in> {''direct'', ''agent''} \<and> parseAndValidate (rg_libs rs) (rq_kubeconfig req) (rq_context req) = Inr cfg \<and>
     (mode_of req = ''direct'' \<longrightarrow> (\<exists>v. probe cfg = Inr v)) \<and>
     Encrypt (rg_gcm rs) (rg_key rs) rnd (rq_kubeconfig req) = Inr sealed"

lemma sealed_nonempty: "Encrypt g k rnd p = Inr sealed \<Longrightarrow> sealed \<noteq> ''''"
  by (auto simp: Encrypt_def split: option.splits)

text \<open>What \<open>Register\<close> does with the stored row, and its reduction to that tail.\<close>

definition register_tail :: "(string \<Rightarrow> string \<Rightarrow> rest_config option \<Rightarrow> unit sact) \<Rightarrow> string \<Rightarrow> rest_config \<Rightarrow> time \<Rightarrow> cluster \<Rightarrow>
    cluster_info sact" where
  "register_tail start v cfg t rec =
     and_then (reg_Put \<lparr>re_name = cl_name rec, re_status = cl_status rec, re_version = cl_version rec,
         re_access_mode = cl_access_mode rec, re_transition = t\<rparr>) (\<lambda>_.
     and_then (errorf (''start cluster runtime '' @ cl_name rec) (start (cl_name rec) v (Some cfg))) (\<lambda>_.
     ok (toClusterInfo rec)))"

lemma Register_validated:
  assumes "admissible rs probe rnd req cfg sealed"
  obtains v c where "Register rs start probe rnd req s =
      and_then (on_world (repo_UpsertCluster c)) (register_tail start v cfg (w_now (s_world s))) s"
    and "cl_name c = rq_name req" "cl_id c = 0" "cl_kubeconfig c = sealed" "cl_access_mode c = mode_of req"
proof -
  obtain v where v: "mode_of req = ''direct'' \<Longrightarrow> probe cfg = Inr v" using assms by (auto simp: admissible_def)
  let ?v = "if mode_of req = ''direct'' then v else ''''"
  let ?c = "\<lparr>cl_id = 0, cl_name = rq_name req, cl_description = rq_description req, cl_kubeconfig = sealed,
      cl_access_mode = mode_of req, cl_status = (if mode_of req = ''agent'' then ''offline'' else ''ready''),
      cl_version = ?v, cl_message = (if mode_of req = ''agent'' then ''waiting for agent enrollment'' else ''''),
      cl_transition = w_now (s_world s), cl_created = 0, cl_updated = 0\<rparr>"
  have "Register rs start probe rnd req s =
      and_then (on_world (repo_UpsertCluster ?c)) (register_tail start ?v cfg (w_now (s_world s))) s"
    using assms v by (auto simp: Register_def admissible_def mode_of_def register_tail_def [abs_def] Let_def guard_def
        from_sum_def and_then_def on_result_def ok_def on_world_def now_def)
  then show ?thesis by (rule that) simp_all
qed

lemma Register_invalid:
  "\<nexists>cfg sealed. admissible rs probe rnd req cfg sealed \<Longrightarrow> \<exists>e. Register rs start probe rnd req s = (Inl e, s)"
  by (auto simp: Register_def admissible_def mode_of_def Let_def guard_def
        from_sum_def and_then_def on_result_def ok_def err_def split: sum.splits if_splits)

context runtime_hook
begin

lemma tail_spec:
  assumes "sys_wf s"
  shows "wp (register_tail start v cfg t rec)
     (\<lambda>_ s'. accepts s (cl_name rec) cfg \<and> stored s' = stored s \<and> runs s' = (runs s)(cl_name rec := True) \<and>
        in_registry s' (cl_name rec) \<and> sys_wf s')
     (\<lambda>_ s'. runs s' = runs s \<and> stored s' = stored s \<and> sys_wf s') s"
  unfolding register_tail_def reg_Put_def wp_and_then wp_sys wp_state wp_errorf wp_ok
  by (rule wp_mono [OF start_spec])
    (use assms in \<open>auto simp: frame sys_wf_def in_registry_def dest: stored_catalog\<close>)

lemma Register_spec:
  assumes wf: "sys_wf s"
  shows "wp (Register rs start probe rnd req)
    (\<lambda>_ s'. (\<exists>cfg sealed. admissible rs probe rnd req cfg sealed \<and> accepts s (rq_name req) cfg \<and>
         stored s' = (stored s)(rq_name req := {(sealed, mode_of req)})) \<and>
       runs s' = (runs s)(rq_name req := True) \<and> in_registry s' (rq_name req) \<and> sys_wf s')
    (\<lambda>_ s'. runs s' = runs s \<and> (\<forall>m. m \<noteq> rq_name req \<longrightarrow> stored s' m = stored s m) \<and> sys_wf s' \<and>
       ((\<nexists>cfg sealed. admissible rs probe rnd req cfg sealed) \<longrightarrow> s' = s)) s"
    (is "wp ?m ?Q ?E s")
proof (cases "\<exists>cfg sealed. admissible rs probe rnd req cfg sealed")
  case False
  obtain e where "?m s = (Inl e, s)" using Register_invalid [OF False, of start s] by blast
  then show ?thesis using wf by (simp add: wp_def)
next
  case True
  then obtain cfg sealed where adm: "admissible rs probe rnd req cfg sealed" by blast
  obtain v c where eq: "?m s = and_then (on_world (repo_UpsertCluster c)) (register_tail start v cfg (w_now (s_world s))) s"
    and c: "cl_name c = rq_name req" "cl_id c = 0" "cl_kubeconfig c = sealed" "cl_access_mode c = mode_of req"
    by (rule Register_validated [OF adm])
  have ne: "db_wf (w_db (s_world s))" "cl_name c \<noteq> ''''" "cl_id c = 0" "cl_kubeconfig c \<noteq> ''''" "cl_access_mode c \<noteq> ''''"
    using adm c wf by (auto simp: admissible_def sys_wf_def dest: sealed_nonempty)
  have other: "stored (s\<lparr>s_world := w\<rparr>) m = stored s m"
    if "unnamed (cl_name c) (db_clusters (w_db w)) = unnamed (cl_name c) (db_clusters (w_db (s_world s)))" "m \<noteq> rq_name req" for w :: world and m
    by (rule stored_other [of "cl_name c"]) (use that c(1) in simp_all)
  have "wp (and_then (on_world (repo_UpsertCluster c)) (register_tail start v cfg (w_now (s_world s)))) ?Q ?E s"
    unfolding wp_and_then wp_sys
  proof (rule wp_mono [OF wp_UpsertCluster [OF ne]], elim conjE)
    fix r and w :: world
    assume r: "same_spec c r" "named (cl_name c) (db_clusters (w_db w)) = {r}" "db_wf (w_db w)"
      "unnamed (cl_name c) (db_clusters (w_db w)) = unnamed (cl_name c) (db_clusters (w_db (s_world s)))"
    have "stored (s\<lparr>s_world := w\<rparr>) = (stored s)(rq_name req := {(sealed, mode_of req)})"
      using other [OF r(4)] r(1,2) c by (auto simp: fun_eq_iff stored_def same_spec_def)
    moreover have "cl_name r = rq_name req" "sys_wf (s\<lparr>s_world := w\<rparr>)" using r(1,3) c by (simp_all add: same_spec_def sys_wf_def)
    ultimately show "wp (register_tail start v cfg (w_now (s_world s)) r) ?Q ?E (s\<lparr>s_world := w\<rparr>)"
      using adm by (intro wp_mono [OF tail_spec]) (auto simp: frame)
  qed (use other adm in \<open>auto simp: frame sys_wf_def\<close>)
  then show ?thesis by (simp add: wp_def eq)
qed

lemma lookup_spec:
  "wp (on_world (not_found_as c m (repo_GetClusterByName n))) (\<lambda>_ s'. \<exists>w::world. s' = s\<lparr>s_world := w\<rparr> \<and> w_db w = w_db (s_world s))
     (\<lambda>_ s'. \<exists>w::world. s' = s\<lparr>s_world := w\<rparr> \<and> w_db w = w_db (s_world s)) s"
  by (auto simp: wp_rules wp_not_found_as repo_GetClusterByName_def split: option.splits intro!: exI)

lemma DeleteCluster_wf: "preserves (on_db db_wf) (repo_DeleteCluster n)"
  unfolding repo_DeleteCluster_def by (intro pres_rules)

lemma Delete_spec:
  assumes wf: "sys_wf s"
  shows "wp (DeleteClusterReg stop n)
     (\<lambda>_ s'. stored s' = (stored s)(n := {}) \<and> runs s' = (runs s)(n := False) \<and>
        map_of (s_registry s') = (map_of (s_registry s))(n := None) \<and> sys_wf s')
     (\<lambda>_ s'. stored s' = stored s \<and> (\<forall>m. m \<noteq> n \<longrightarrow> runs s' m = runs s m) \<and> sys_wf s') s"
    (is "wp _ ?Q ?E s")
  unfolding DeleteClusterReg_def wp_and_then
proof (rule wp_mono [OF lookup_spec], elim exE conjE)
  fix x s' and w :: world
  assume s': "s' = s\<lparr>s_world := w\<rparr>" "w_db w = w_db (s_world s)"
  show "wp (stop n) (\<lambda>_. wp (reg_Remove n) (\<lambda>_. wp (on_world (repo_DeleteCluster n)) ?Q ?E) ?E) ?E s'"
  proof (rule wp_mono [OF stop_spec], elim conjE)
    fix y t
    assume t: "runs t = (runs s')(n := False)" "s_world t = s_world s'" "s_registry t = s_registry s'"
    have "db_wf (w_db w)" using wf s' by (simp add: sys_wf_def)
    then show "wp (reg_Remove n) (\<lambda>_. wp (on_world (repo_DeleteCluster n)) ?Q ?E) ?E t"
      using s' t clusters.delete_wf [OF clusters.get_wf]
      by (auto simp: reg_Remove_def repo_DeleteCluster_def wp_rules frame sys_wf_def stored_def named_def fun_eq_iff
          intro!: clusters.upd_wf)
  qed simp
qed (use wf in \<open>auto simp: frame sys_wf_def stored_def named_def fun_eq_iff\<close>)

end

text \<open>The configuration that a restart reads back from a stored kubeconfig.\<close>

definition restored_config :: "reg_service \<Rightarrow> string \<Rightarrow> rest_config option" where
  "restored_config rs sealed = (case Decrypt (rg_gcm rs) (rg_key rs) sealed of Inl _ \<Rightarrow> None
     | Inr plain \<Rightarrow> (case parseAndValidate (rg_libs rs) plain '''' of Inl _ \<Rightarrow> None | Inr cfg \<Rightarrow> Some cfg))"

lemma wp_mark_offline:
  assumes "sys_wf s"
  shows "wp (mark_offline c msg) (\<lambda>_ s'. (\<exists>w. s' = s\<lparr>s_world := w\<rparr>) \<and> catalog s' = catalog s \<and> sys_wf s')
     (\<lambda>_ s'. (\<exists>w. s' = s\<lparr>s_world := w\<rparr>) \<and> catalog s' = catalog s \<and> sys_wf s') s"
  unfolding mark_offline_def wp_errorf wp_sys
  by (rule wp_mono [OF wp_status]) (use assms in \<open>auto simp: sys_wf_def\<close>)

context runtime_hook
begin

definition revives :: "reg_service \<Rightarrow> sys \<Rightarrow> string \<Rightarrow> string \<Rightarrow> bool" where
  "revives rs s n sealed = (case restored_config rs sealed of None \<Rightarrow> False | Some cfg \<Rightarrow> accepts s n cfg)"

lemma revives_cong: "accepts s' = accepts s \<Longrightarrow> revives rs s' = revives rs s"
  by (simp add: revives_def fun_eq_iff split: option.splits)

lemma restoreOne_spec:
  assumes wf: "sys_wf s"
  shows "wp (ignore_err (restoreOne rs start c)) (\<lambda>_ s'. stored s' = stored s \<and> sys_wf s' \<and> accepts s' = accepts s \<and>
       runs s' = (if revives rs s (cl_name c) (cl_kubeconfig c) then (runs s)(cl_name c := True) else runs s)) E s"
proof -
  have off: "wp (mark_offline c msg) (\<lambda>_ s'. stored s' = stored s \<and> sys_wf s' \<and> accepts s' = accepts s \<and> runs s' = runs s)
      (\<lambda>_ s'. stored s' = stored s \<and> sys_wf s' \<and> accepts s' = accepts s \<and> runs s' = runs s) s" for msg
    by (rule wp_mono [OF wp_mark_offline [OF wf]]) (auto simp: frame dest: stored_catalog)
  show ?thesis
  proof (cases "restored_config rs (cl_kubeconfig c)")
    case None
    then have "\<exists>msg. restoreOne rs start c = mark_offline c msg"
      by (auto simp: restored_config_def restoreOne_def split: sum.splits)
    then show ?thesis using off None by (auto simp: wp_rules revives_def)
  next
    case (Some cfg)
    then have eq: "restoreOne rs start c = and_then (on_world now) (\<lambda>t.
       and_then (reg_Put \<lparr>re_name = cl_name c, re_status = ''reconnecting'', re_version = cl_version c,
           re_access_mode = cl_access_mode c, re_transition = t\<rparr>) (\<lambda>_.
       errorf (''start cluster runtime '' @ cl_name c) (start (cl_name c) (cl_version c) (Some cfg))))"
      by (auto simp: restored_config_def restoreOne_def split: sum.splits)
    show ?thesis
      unfolding eq wp_ignore_err wp_and_then wp_sys wp_state wp_errorf reg_Put_def wp_now
      by (rule wp_mono [OF start_spec])
        (use wf Some in \<open>auto simp: frame revives_def sys_wf_def dest: stored_catalog\<close>)
  qed
qed

lemma restore_all:
  "sys_wf s \<Longrightarrow> wp (mapM (\<lambda>c. ignore_err (restoreOne rs start c)) cs) (\<lambda>_ s'. stored s' = stored s \<and> sys_wf s' \<and>
     runs s' = (\<lambda>n. runs s n \<or> (\<exists>c \<in> set cs. cl_name c = n \<and> revives rs s n (cl_kubeconfig c)))) E s"
proof (induction cs arbitrary: s)
  case (Cons c cs)
  show ?case
    unfolding mapM.simps wp_and_then
  proof (rule wp_mono [OF restoreOne_spec [OF Cons.prems, where E = E]], elim conjE)
    fix x s'
    assume s': "stored s' = stored s" "sys_wf s'" "accepts s' = accepts s"
      "runs s' = (if revives rs s (cl_name c) (cl_kubeconfig c) then (runs s)(cl_name c := True) else runs s)"
    show "wp (mapM (\<lambda>c. ignore_err (restoreOne rs start c)) cs) (\<lambda>y. wp (ok (x # y)) (\<lambda>_ s'. stored s' = stored s \<and> sys_wf s' \<and>
       runs s' = (\<lambda>n. runs s n \<or> (\<exists>c \<in> set (c # cs). cl_name c = n \<and> revives rs s n (cl_kubeconfig c)))) E) E s'"
      by (rule wp_mono [OF Cons.IH [OF s'(2)]]) (use s' revives_cong [OF s'(3)] in \<open>auto simp: wp_rules\<close>)
  qed simp
qed (simp add: wp_rules)

lemma Restore_spec:
  assumes wf: "sys_wf s"
  shows "wp (RestoreClusters rs start)
     (\<lambda>_ s'. stored s' = stored s \<and> sys_wf s' \<and>
        runs s' = (\<lambda>n. runs s n \<or> (\<exists>(k, m) \<in> stored s n. revives rs s n k)))
     (\<lambda>_ s'. stored s' = stored s \<and> runs s' = runs s) s"
proof (cases "fault (s_world s)")
  case True
  then show ?thesis by (simp add: RestoreClusters_def repo_ListClusters_def wp_rules frame stored_same_db)
next
  case False
  let ?s = "s\<lparr>s_world := tick (s_world s)\<rparr>"
  have "sys_wf ?s" "stored ?s = stored s" "runs ?s = runs s" "revives rs ?s = revives rs s"
    using wf by (simp_all add: sys_wf_def stored_same_db frame revives_cong [of ?s s])
  note same = this
  let ?rows = "sort_key cl_name (trows (db_clusters (w_db (s_world s))))"
  have ex: "(\<exists>c \<in> set ?rows. cl_name c = n \<and> P (cl_kubeconfig c)) \<longleftrightarrow> (\<exists>(k, m) \<in> stored s n. P k)" for n P
    by (auto simp: stored_def named_def)
  have "wp (RestoreClusters rs start) Q E s =
      wp (mapM (\<lambda>c. ignore_err (restoreOne rs start c)) ?rows) (\<lambda>_. Q ()) E ?s" for Q E
    using False by (simp add: RestoreClusters_def repo_ListClusters_def wp_rules del: set_sort)
  then show ?thesis
    by (simp only:) (rule wp_mono [OF restore_all [OF same(1)]], use same ex in \<open>simp_all add: sys_wf_def\<close>)
qed

end

subsection \<open>No runtime is lost\<close>

text \<open>Every runtime ever created is the current one of exactly one cluster or has been stopped, and
  no current one has been stopped.\<close>

definition no_leak :: "sys \<Rightarrow> bool" where
  "no_leak s \<longleftrightarrow> ran (live s) \<union> set (s_stopped s) = {..<s_next_inst s} \<and>
     ran (live s) \<inter> set (s_stopped s) = {} \<and> inj_on (live s) (dom (live s))"

lemma no_leak_same:
  assumes "\<And>s. live (snd (m s)) = live s \<and> s_stopped (snd (m s)) = s_stopped s \<and> s_next_inst (snd (m s)) = s_next_inst s"
  shows "preserves no_leak m"
  using assms by (simp add: preserves_def no_leak_def)

lemma no_leak_drop:
  assumes "no_leak s" and "live s' = (live s)(n := None)"
    and "set (s_stopped s') = set (s_stopped s) \<union> set_option (live s n)" and "s_next_inst s' = s_next_inst s"
  shows "no_leak s'"
proof -
  have one: "m = n" if "live s m = live s n" "live s n \<noteq> None" for m
    using assms(1) that by (auto simp: no_leak_def dest: inj_onD)
  have "ran ((live s)(n := None)) = ran (live s) - set_option (live s n)"
  proof
    show "ran ((live s)(n := None)) \<subseteq> ran (live s) - set_option (live s n)"
    proof
      fix i assume "i \<in> ran ((live s)(n := None))"
      then obtain m where "live s m = Some i" "m \<noteq> n" by (auto simp: ran_def split: if_splits)
      then show "i \<in> ran (live s) - set_option (live s n)" using one [of m] by (auto simp: ran_def)
    qed
  qed (auto simp: ran_def)
  moreover have "set_option (live s n) \<subseteq> ran (live s)" by (auto simp: ran_def)
  moreover have "inj_on ((live s)(n := None)) (dom ((live s)(n := None)))"
    using assms(1) by (auto simp: no_leak_def inj_on_def)
  ultimately show ?thesis using assms unfolding no_leak_def by auto
qed

lemma no_leak_add:
  assumes "no_leak s" and "live s n = None" and "live s' = (live s)(n \<mapsto> s_next_inst s)"
    and "set (s_stopped s') = set (s_stopped s)" and "s_next_inst s' = Suc (s_next_inst s)"
  shows "no_leak s'"
proof -
  have old: "i < s_next_inst s" if "i \<in> ran (live s) \<union> set (s_stopped s)" for i
    using assms(1) that by (auto simp: no_leak_def)
  have "ran (live s') = insert (s_next_inst s) (ran (live s))"
    using assms(2,3) by (simp add: ran_map_upd)
  moreover have "inj_on (live s') (dom (live s'))"
  proof (rule inj_onI)
    fix m k assume "m \<in> dom (live s')" "k \<in> dom (live s')" and eq: "live s' m = live s' k"
    have "live s j \<noteq> Some (s_next_inst s)" for j using old [of "s_next_inst s"] by (auto simp: ran_def)
    then show "m = k" using assms(1,3) eq \<open>m \<in> dom (live s')\<close>
      by (auto simp: no_leak_def inj_on_def dom_def split: if_splits)
  qed
  ultimately show ?thesis using assms old unfolding no_leak_def by (auto simp: lessThan_Suc)
qed

lemma no_leak_Register: "preserves no_leak (manager_Register opts nc StatusUpdater n v cfg)"
  unfolding preserves_wp
proof (intro allI impI)
  fix s assume I: "no_leak s"
  show "wp (manager_Register opts nc StatusUpdater n v cfg) (\<lambda>_. no_leak) (\<lambda>_. no_leak) s"
  proof (rule wp_mono [OF wp_manager_Register], elim conjE)
    fix x s'
    assume s': "live s' = (live s)(n \<mapsto> s_next_inst s)" "s_next_inst s' = Suc (s_next_inst s)"
      "set (s_stopped s') = set (s_stopped s) \<union> set_option (live s n)"
    let ?d = "snd (manager_Unregister n s)"
    have d: "live ?d = (live s)(n := None)" "set (s_stopped ?d) = set (s_stopped s) \<union> set_option (live s n)"
      "s_next_inst ?d = s_next_inst s"
      using wp_manager_Unregister [of n s] by (auto simp: wp_def split: prod.splits sum.splits)
    show "no_leak s'" by (rule no_leak_add [OF no_leak_drop [OF I d], of n]) (use d s' in auto)
  qed (simp add: I)
qed

lemma no_leak_Unregister: "preserves no_leak (manager_Unregister n)"
  unfolding preserves_wp
  by (intro allI impI wp_mono [OF wp_manager_Unregister]) (auto intro: no_leak_drop)

lemma no_leak_frame [pres_rules]:
  "preserves no_leak (on_world m)" "preserves no_leak (gets g)" "preserves no_leak (reg_Put e)"
  "preserves no_leak (reg_Remove n)" "preserves no_leak (SetDialer n d)"
  by (rule no_leak_same, simp add: on_world_def gets_def reg_Put_def reg_Remove_def SetDialer_def modify_def live_def [abs_def]
      split: prod.splits)+

lemma no_leak_ignore [pres_rules]: "preserves I m \<Longrightarrow> preserves I (ignore_err m)"
  unfolding ignore_err_def by (intro pres_rules)

end
