(* ===== verification/Cluster_Lifecycle.thy ===== *)
theory Cluster_Lifecycle
  imports Cluster_Laws
begin

text \<open>
  The life of registered clusters as the server runs them: any sequence of registrations,
  rotations, deletions, probes, agent connections and restarts; the effect of each operation on
  what is stored and what runs.
\<close>

subsection \<open>Operations in sequence\<close>

record wiring =
  wi_service :: reg_service
  wi_options :: options
  wi_new_clients :: "rest_config \<Rightarrow> gerr option"
  wi_probe :: "rest_config \<Rightarrow> gerr + string"

definition hook_registered :: "wiring \<Rightarrow> string \<Rightarrow> string \<Rightarrow> rest_config option \<Rightarrow> unit sact" where
  "hook_registered v = manager_Register (wi_options v) (wi_new_clients v) StatusUpdater"

definition hook_unregistered :: "string \<Rightarrow> unit sact" where
  "hook_unregistered = manager_Unregister"

datatype cluster_op =
    CRegister "string option" register_request
  | CRotate "string option" string string string
  | CDelete string
  | CRestore
  | CProbe string bool
  | CConnect string string int
  | CDisconnect string
  | CReregister string
  | CClose

text \<open>\<open>CReregister\<close> is the agent hub's: take the runtime's configuration and register it again.\<close>

fun run_cluster :: "wiring \<Rightarrow> cluster_op \<Rightarrow> unit sact" where
  "run_cluster v (CRegister r q) = ignore_err (Register (wi_service v) (hook_registered v) (wi_probe v) r q)"
| "run_cluster v (CRotate r n k c) = ignore_err (RotateKubeconfig (wi_service v) (hook_registered v) (wi_probe v) r n k c)"
| "run_cluster v (CDelete n) = ignore_err (DeleteClusterReg hook_unregistered n)"
| "run_cluster v CRestore = ignore_err (RestoreClusters (wi_service v) (hook_registered v))"
| "run_cluster v (CProbe n b) = manager_probe (wi_options v) StatusUpdater n b"
| "run_cluster v (CConnect n a d) = and_then (OnConnect n a) (\<lambda>_. SetDialer n (Some d))"
| "run_cluster v (CDisconnect n) = OnDisconnect n"
| "run_cluster v (CReregister n) = ignore_err (and_then (manager_Get n) (\<lambda>rt.
     hook_registered v n (kr_version rt) (Some (kr_config rt))))"
| "run_cluster v CClose = manager_Close"

text \<open>Between two operations the clock and the failures of the database are arbitrary.\<close>

inductive cluster_reach :: "wiring \<Rightarrow> sys \<Rightarrow> sys \<Rightarrow> bool" for v s0 where
  init: "cluster_reach v s0 s0"
| step: "cluster_reach v s0 s \<Longrightarrow>
    run_cluster v op (s\<lparr>s_world := (s_world s)\<lparr>w_faults := fs, w_now := t\<rparr>\<rparr>) = (r, s') \<Longrightarrow> cluster_reach v s0 s'"

inductive_cases cluster_reachE: "cluster_reach v s0 s"

subsection \<open>No operation loses a runtime\<close>

lemma no_leak_StatusUpdater [pres_rules]: "preserves no_leak (StatusUpdater ch)"
  unfolding StatusUpdater_def by (intro pres_rules)

lemma no_leak_sent [pres_rules]: "preserves no_leak (modify (\<lambda>s. s\<lparr>s_sent := f s\<rparr>))"
  by (rule no_leak_same) (simp add: modify_def live_def [abs_def])

lemma no_leak_notify [pres_rules]: "preserves no_leak (notify StatusUpdater ch)"
  unfolding notify_def by (intro pres_rules)

lemma no_leak_health:
  assumes "map_of (s_runtimes s) n = Some rt" and "kr_inst rt' = kr_inst rt"
  shows "live (s_runtimes_update (al_put n rt') s) = live s"
  using assms by (simp add: live_def fun_eq_iff)

lemma no_leak_probe [pres_rules]: "preserves no_leak (manager_probe opts StatusUpdater n b)"
proof -
  have "wp (manager_probe opts StatusUpdater n b) (\<lambda>_. no_leak) (\<lambda>_. no_leak) s" if I: "no_leak s" for s
  proof (cases "map_of (s_runtimes s) n")
    case (Some rt)
    let ?h = "fst (health_step opts b (w_now (s_world s)) (kr_health rt))"
    let ?s = "s_runtimes_update (al_put n (rt\<lparr>kr_health := ?h\<rparr>)) s"
    have "no_leak ?s" using I no_leak_health [OF Some] by (simp add: no_leak_def)
    then have "wp (notify StatusUpdater ch) (\<lambda>_. no_leak) (\<lambda>_. no_leak) ?s" "no_leak ?s" for ch
      using no_leak_notify by (simp_all add: preserves_wp)
    then show ?thesis using Some
      by (cases "health_step opts b (w_now (s_world s)) (kr_health rt)") (simp add: manager_probe_def wp_rules Let_def)
  qed (simp add: manager_probe_def wp_rules I)
  then show ?thesis by (simp add: preserves_wp)
qed

lemmas service_defs = Register_def RotateKubeconfig_def DeleteClusterReg_def RestoreClusters_def restoreOne_def
  mark_offline_def OnConnect_def OnDisconnect_def manager_Get_def manager_Close_def hook_registered_def hook_unregistered_def

lemma run_cluster_no_leak: "preserves no_leak (run_cluster v op)"
  by (cases op) (auto simp: service_defs Let_def split: sum.splits option.splits
      intro!: pres_rules no_leak_Register no_leak_Unregister)

subsection \<open>Properties\<close>

text \<open>C19: registering a cluster does all of its work or none that shows. On success the request
  was admissible (a name, a mode, a kubeconfig with a usable context, a server that answered),
  exactly the name's stored kubeconfig and mode are replaced, by the sealed text, and the
  cluster runs; on failure no runtime changes, no other cluster's record changes, and an
  inadmissible request changes nothing at all.\<close>

theorem Register_effect:
  assumes "sys_wf s" and "Register (wi_service v) (hook_registered v) (wi_probe v) rnd req s = (res, s')"
  shows "case res of
      Inr info \<Rightarrow> (\<exists>cfg sealed. admissible (wi_service v) (wi_probe v) rnd req cfg sealed \<and>
          stored s' = (stored s)(rq_name req := {(sealed, mode_of req)})) \<and>
        running s' = (running s)(rq_name req := True) \<and> in_registry s' (rq_name req)
    | Inl e \<Rightarrow> running s' = running s \<and> (\<forall>m. m \<noteq> rq_name req \<longrightarrow> stored s' m = stored s m) \<and>
        ((\<nexists>cfg sealed. admissible (wi_service v) (wi_probe v) rnd req cfg sealed) \<longrightarrow> s' = s)"
  using manager_hook.Register_spec [OF assms(1), of "wi_service v" "wi_options v" "wi_new_clients v" "wi_probe v" rnd req] assms(2)
  by (auto simp: hook_registered_def wp_def split: sum.splits)

text \<open>C20: deleting a cluster leaves nothing of it. On success the record is gone, the runtime is
  stopped and the registry entry removed, and every other cluster is untouched; on failure no
  record is lost.\<close>

theorem Delete_effect:
  assumes "sys_wf s" and "DeleteClusterReg hook_unregistered n s = (res, s')"
  shows "case res of
      Inr x \<Rightarrow> stored s' = (stored s)(n := {}) \<and> running s' = (running s)(n := False) \<and>
        map_of (s_registry s') = (map_of (s_registry s))(n := None)
    | Inl e \<Rightarrow> stored s' = stored s \<and> (\<forall>m. m \<noteq> n \<longrightarrow> running s' m = running s m)"
  using manager_hook.Delete_spec [OF assms(1), of n] assms(2)
  by (auto simp: hook_unregistered_def wp_def split: sum.splits)

text \<open>C21: a restart brings back what can be brought back. \<open>RestoreClusters\<close> changes no record,
  and afterwards a cluster runs exactly if it did before or its stored kubeconfig can be opened,
  has a usable default context, and clients can be built from it.\<close>

theorem Restore_effect:
  assumes "sys_wf s" and "RestoreClusters (wi_service v) (hook_registered v) s = (Inr x, s')"
  shows "stored s' = stored s \<and>
    running s' = (\<lambda>n. running s n \<or> (\<exists>(k, m) \<in> stored s n.
      case restored_config (wi_service v) k of None \<Rightarrow> False | Some cfg \<Rightarrow> startable (wi_new_clients v) s n cfg))"
proof -
  note spec = manager_hook.Restore_spec [OF assms(1), of "wi_service v" "wi_options v" "wi_new_clients v"]
  show ?thesis
    using wp_InrD [OF spec [folded hook_registered_def] assms(2)] by (simp add: manager_hook.revives_def)
qed


text \<open>C23: no runtime leaks. Whatever sequence of operations the server runs, one after the other,
  and whatever statements the database refuses, every runtime that was ever started is the
  current one of exactly one cluster or has been stopped, and no current runtime is stopped.\<close>

theorem runtimes_never_leak:
  assumes "cluster_reach v s0 s" and "no_leak s0"
  shows "no_leak s"
  using assms
proof induction
  case (step s op t fs r s')
  let ?s = "s\<lparr>s_world := (s_world s)\<lparr>w_faults := fs, w_now := t\<rparr>\<rparr>"
  have "no_leak ?s" using step.IH [OF step.prems] by (simp add: no_leak_def)
  from preservesD [OF run_cluster_no_leak this, of v op] step.hyps(2) show ?case by simp
qed

subsection \<open>Examples\<close>

definition demo_kube :: kube_libs where
  "demo_kube = \<lparr>kl_load = (\<lambda>y. if y = ''bad'' then Inl DriverErr else
       Inr \<lparr>raw_contexts = [''dev''], raw_current = ''dev'', raw_body = y\<rparr>),
     kl_build = (\<lambda>raw n. Inr \<lparr>rc_target = raw_body raw, rc_dial = None\<rparr>)\<rparr>"

definition demo_gcm :: aes_gcm where
  "demo_gcm = \<lparr>gcm_seal = (\<lambda>k n p. n @ rev p), gcm_open = (\<lambda>k n c. Some (rev (drop (length n) c)))\<rparr>"

definition demo_wiring :: wiring where
  "demo_wiring = \<lparr>wi_service = \<lparr>rg_libs = demo_kube, rg_gcm = demo_gcm, rg_key = ''key''\<rparr>,
     wi_options = default_options \<lparr>op_interval = 0, op_probe_timeout = 0, op_backoff_start = 0\<rparr>,
     wi_new_clients = (\<lambda>_. None), wi_probe = (\<lambda>_. Inr ''v1.30'')\<rparr>"

definition demo_sys :: sys where
  "demo_sys = \<lparr>s_world = \<lparr>w_db = empty_db, w_faults = [], w_now = 5\<rparr>, s_registry = [], s_runtimes = [], s_dialers = [],
     s_listeners = [], s_next_listener = 0, s_next_inst = 0, s_stopped = [], s_sent = []\<rparr>"

definition demo_request :: register_request where
  "demo_request = \<lparr>rq_name = ''east'', rq_kubeconfig = ''yaml'', rq_context = '''', rq_description = '''', rq_access_mode = ''''\<rparr>"

lemmas demo_defs = demo_wiring_def demo_kube_def demo_gcm_def demo_sys_def demo_request_def

definition registered_demo :: "(gerr + cluster_info) \<times> sys" where
  "registered_demo = Register (wi_service demo_wiring) (hook_registered demo_wiring) (wi_probe demo_wiring) (Some ''n'') demo_request demo_sys"

lemma demo_start: "sys_wf demo_sys" "no_leak demo_sys"
  by (simp_all add: sys_wf_def no_leak_def demo_sys_def db_wf_def empty_db_def tbl_wf_empty live_def [abs_def])

lemma registered_ok: "is_ok (fst registered_demo)"
  by code_simp

lemma registered_run: "\<exists>info s'. registered_demo = (Inr info, s')"
  using is_okE [of "Register (wi_service demo_wiring) (hook_registered demo_wiring) (wi_probe demo_wiring) (Some ''n'') demo_request" demo_sys]
    registered_ok by (simp only: registered_demo_def)

lemma Register_effect_witness:
  "\<exists>info s'. registered_demo = (Inr info, s') \<and> running s' ''east'' \<and> in_registry s' ''east'' \<and> stored s' ''west'' = {}"
proof -
  obtain info s' where r: "registered_demo = (Inr info, s')"
    using registered_run by blast
  have "stored demo_sys ''west'' = {}" by (simp add: stored_def named_def demo_sys_def empty_db_def)
  moreover have n: "rq_name demo_request = ''east''" by (simp add: demo_request_def)
  ultimately have "running s' ''east'' \<and> in_registry s' ''east'' \<and> stored s' ''west'' = {}"
    using Register_effect [OF demo_start(1) r [unfolded registered_demo_def]] by auto
  then show ?thesis using r by blast
qed

lemma registered_state: "sys_wf (snd registered_demo)"
proof -
  obtain info s' where r: "registered_demo = (Inr info, s')"
    using registered_run by blast
  have h: "hook_registered demo_wiring = manager_Register (wi_options demo_wiring) (wi_new_clients demo_wiring) StatusUpdater"
    by (simp add: hook_registered_def)
  show ?thesis
    using wp_InrD [OF manager_hook.Register_spec [OF demo_start(1)] r [unfolded registered_demo_def h]] by (simp only: r snd_conv)
qed

lemma Delete_effect_witness:
  "\<exists>s'. DeleteClusterReg hook_unregistered ''east'' (snd registered_demo) = (Inr (), s') \<and> \<not> running s' ''east'' \<and> stored s' ''east'' = {}"
proof -
  have "is_ok (fst (DeleteClusterReg hook_unregistered ''east'' (snd registered_demo)))" by code_simp
  then obtain s' where r: "DeleteClusterReg hook_unregistered ''east'' (snd registered_demo) = (Inr (), s')"
    by (cases "DeleteClusterReg hook_unregistered ''east'' (snd registered_demo)") (auto simp: is_ok_def split: sum.splits)
  from Delete_effect [OF registered_state r] r show ?thesis by simp
qed

text \<open>The restarted server of the example.\<close>

definition restarted :: "sys \<Rightarrow> sys" where
  "restarted s = s\<lparr>s_registry := [], s_runtimes := [], s_dialers := [], s_stopped := [], s_next_inst := 0\<rparr>"

lemma restarted_ok:
  "is_ok (fst (RestoreClusters (wi_service demo_wiring) (hook_registered demo_wiring) (restarted (snd registered_demo))))"
  by code_simp

lemma restarted_run:
  "\<exists>s3. RestoreClusters (wi_service demo_wiring) (hook_registered demo_wiring) (restarted (snd registered_demo)) = (Inr (), s3)"
  using is_okE [of "RestoreClusters (wi_service demo_wiring) (hook_registered demo_wiring)" "restarted (snd registered_demo)"]
    restarted_ok by simp

lemma Restore_effect_witness:
  "\<exists>s'. RestoreClusters (wi_service demo_wiring) (hook_registered demo_wiring) (restarted (snd registered_demo)) = (Inr (), s') \<and>
     stored s' = stored (restarted (snd registered_demo))"
proof -
  obtain s' where r: "RestoreClusters (wi_service demo_wiring) (hook_registered demo_wiring) (restarted (snd registered_demo)) = (Inr (), s')"
    using restarted_run by blast
  have "sys_wf (restarted (snd registered_demo))" using registered_state by (simp add: sys_wf_def restarted_def)
  from Restore_effect [OF this r] r show ?thesis by blast
qed


lemma runtimes_never_leak_witness: "no_leak (snd (run_cluster demo_wiring (CRegister (Some ''n'') demo_request) demo_sys))"
proof -
  have s: "demo_sys\<lparr>s_world := (s_world demo_sys)\<lparr>w_faults := [], w_now := 5\<rparr>\<rparr> = demo_sys" by (simp add: demo_sys_def)
  obtain r s' where r: "run_cluster demo_wiring (CRegister (Some ''n'') demo_request) demo_sys = (r, s')" by fastforce
  have "cluster_reach demo_wiring demo_sys s'"
    
    by (rule cluster_reach.step [OF cluster_reach.init, where op = "CRegister (Some ''n'') demo_request" and t = 5 and fs = "[]"])
      (simp only: s r)
  from runtimes_never_leak [OF this demo_start(2)] r show ?thesis by simp
qed

subsection \<open>Two registrations of one cluster at the same time\<close>

text \<open>The lock is released while the old runtime is stopped. Two registrations that meet there both
  stop the old runtime and both publish their own; the first one's is lost and runs on.\<close>

definition build_demo :: "k8s_runtime sact" where
  "build_demo = register_build (wi_options demo_wiring) (wi_new_clients demo_wiring) ''east'' ''v1.30'' (Some \<lparr>rc_target = ''yaml'', rc_dial = None\<rparr>)"

definition racing_registers :: "unit sact" where
  "racing_registers =
     and_then (hook_registered demo_wiring ''east'' ''v1.30'' (Some \<lparr>rc_target = ''yaml'', rc_dial = None\<rparr>)) (\<lambda>_.
     and_then build_demo (\<lambda>rt1. and_then (register_look ''east'') (\<lambda>old1.
     and_then build_demo (\<lambda>rt2. and_then (register_look ''east'') (\<lambda>old2.
     and_then (stop_runtime (the old1)) (\<lambda>_. and_then (stop_runtime (the old2)) (\<lambda>_.
     and_then (register_publish StatusUpdater ''east'' rt1) (\<lambda>_.
     register_publish StatusUpdater ''east'' rt2))))))))"

lemma racing_registers_leak:
  "live (snd (racing_registers demo_sys)) ''east'' = Some 2 \<and> s_stopped (snd (racing_registers demo_sys)) = [0] \<and>
   s_next_inst (snd (racing_registers demo_sys)) = 3 \<and> \<not> no_leak (snd (racing_registers demo_sys))"
proof -
  let ?s = "snd (racing_registers demo_sys)"
  have v: "map (\<lambda>(n, rt). (n, kr_inst rt)) (s_runtimes ?s) = [(''east'', 2)]" "s_stopped ?s = [0]" "s_next_inst ?s = 3"
    by code_simp+
  have "live ?s n = map_of (map (\<lambda>(n, rt). (n, kr_inst rt)) (s_runtimes ?s)) n" for n
    by (simp add: live_def map_of_map)
  then have l: "live ?s = [''east'' \<mapsto> 2]" by (auto simp: v(1))
  have "1 \<notin> ran (live ?s) \<union> set (s_stopped ?s)" "1 \<in> {..<s_next_inst ?s}" by (simp_all add: l v ran_def)
  then have "\<not> no_leak ?s" unfolding no_leak_def by blast
  then show ?thesis using l v by simp
qed

end
