(* ===== verification/Resources.thy ===== *)
theory Resources
  imports Clusters
begin

text \<open>
  \<open>ResourceService\<close> (service/resource.go, service/resource_helpers.go) and the resolution of
  resource names (k8s/runtime.go). Kubernetes objects are opaque: \<open>objlib\<close> holds the accessors of
  the apimachinery library the code uses, \<open>api\<close> the answers of the API servers; every request
  that is sent is recorded in the state.
\<close>

subsection \<open>Errors of the API server\<close>

text \<open>The answers to the predicates of package \<open>apierrors\<close>, the message of a \<open>StatusError\<close>, and the error itself.\<close>

record api_error =
  is_NotFound :: bool
  is_AlreadyExists :: bool
  is_Conflict :: bool
  is_Unauthorized :: bool
  is_Forbidden :: bool
  is_ServiceUnavailable :: bool
  is_BadRequest :: bool
  is_MethodNotSupported :: bool
  status_message :: "string option"
  ae_err :: gerr

definition mapK8sError :: "api_error \<Rightarrow> gerr" where
  "mapK8sError e = (case From (ae_err e) of Some _ \<Rightarrow> ae_err e | None \<Rightarrow>
     if is_NotFound e then WithCause (New NotFound ''resource not found'') (ae_err e)
     else if is_AlreadyExists e then WithCause (New ResourceConflict ''resource already exists'') (ae_err e)
     else if is_Conflict e then WithCause (New ResourceConflict ''resource version conflict, reload and retry'') (ae_err e)
     else if is_Unauthorized e \<or> is_Forbidden e
       then WithCause (New UpstreamK8sError ''cluster apiserver rejected the request'') (ae_err e)
     else (case status_message e of
         Some m \<Rightarrow> WithCause (New UpstreamK8sError (if m \<noteq> '''' then m else ''upstream kubernetes error'')) (ae_err e)
       | None \<Rightarrow> WithCause (New UpstreamK8sError ''upstream kubernetes error'') (ae_err e)))"

subsection \<open>Resource names (k8s/runtime.go)\<close>

record gvr =
  gv_group :: string
  gv_version :: string
  gv_resource :: string

record resource_ref =
  rf_gvr :: gvr
  rf_namespaced :: bool

definition v1 :: "string \<Rightarrow> string \<Rightarrow> bool \<Rightarrow> resource_ref" where
  "v1 g r b = \<lparr>rf_gvr = \<lparr>gv_group = g, gv_version = ''v1'', gv_resource = r\<rparr>, rf_namespaced = b\<rparr>"

definition builtinResources :: "(string \<times> resource_ref) list" where
  "builtinResources = [
     (''deployments'', v1 ''apps'' ''deployments'' True),
     (''statefulsets'', v1 ''apps'' ''statefulsets'' True),
     (''daemonsets'', v1 ''apps'' ''daemonsets'' True),
     (''pods'', v1 '''' ''pods'' True),
     (''services'', v1 '''' ''services'' True),
     (''ingresses'', v1 ''networking.k8s.io'' ''ingresses'' True),
     (''configmaps'', v1 '''' ''configmaps'' True),
     (''secrets'', v1 '''' ''secrets'' True),
     (''pvcs'', v1 '''' ''persistentvolumeclaims'' True),
     (''pvs'', v1 '''' ''persistentvolumes'' False),
     (''nodes'', v1 '''' ''nodes'' False),
     (''namespaces'', v1 '''' ''namespaces'' False),
     (''crds'', v1 ''apiextensions.k8s.io'' ''customresourcedefinitions'' False),
     (''events'', v1 '''' ''events'' True),
     (''roles'', v1 ''rbac.authorization.k8s.io'' ''roles'' True),
     (''role-bindings'', v1 ''rbac.authorization.k8s.io'' ''rolebindings'' True)]"

text \<open>Discovery of one cluster: whether its mapper offers it, and what the first call and the call
  after a reset return; \<open>None\<close> is the nil list.\<close>

record resource_list =
  dl_group_version :: string
  dl_resources :: "(string \<times> bool) list"

record discovery =
  dc_supported :: bool
  dc_lists :: "nat \<Rightarrow> resource_list list option \<times> gerr option"
  dc_parse :: "string \<Rightarrow> (string \<times> string) option"

fun find_resource :: "(string \<Rightarrow> (string \<times> string) option) \<Rightarrow> string \<Rightarrow> resource_list list \<Rightarrow> resource_ref option" where
  "find_resource parse name [] = None"
| "find_resource parse name (l # ls) =
     (case parse (dl_group_version l) of None \<Rightarrow> find_resource parse name ls
      | Some (g, v) \<Rightarrow>
        (case filter (\<lambda>(n, b). n = name \<and> CHR ''/'' \<notin> set n) (dl_resources l) of
           [] \<Rightarrow> find_resource parse name ls
         | (n, b) # _ \<Rightarrow> Some \<lparr>rf_gvr = \<lparr>gv_group = g, gv_version = v, gv_resource = name\<rparr>, rf_namespaced = b\<rparr>))"

definition resolveViaDiscovery :: "discovery \<Rightarrow> nat \<Rightarrow> string \<Rightarrow> string \<Rightarrow> gerr + resource_ref" where
  "resolveViaDiscovery d k cluster name =
     (if \<not> dc_supported d then Inl (PlainErr (''mapper of cluster '' @ cluster @ '' does not support discovery''))
      else case dc_lists d k of
        (None, Some e) \<Rightarrow> Inl (WrapErr (''discover resources of cluster '' @ cluster) e)
      | (ls, _) \<Rightarrow>
        (case find_resource (dc_parse d) name (case ls of None \<Rightarrow> [] | Some xs \<Rightarrow> xs) of
           None \<Rightarrow> Inl (PlainErr (''resource '' @ go_quote name @ '' not found in cluster '' @ cluster)) | Some r \<Rightarrow> Inr r))"

definition ResolveResource :: "discovery \<Rightarrow> string \<Rightarrow> string \<Rightarrow> gerr + resource_ref" where
  "ResolveResource d cluster name =
     (case map_of builtinResources name of Some r \<Rightarrow> Inr r
      | None \<Rightarrow> (case resolveViaDiscovery d 0 cluster name of
          Inl e \<Rightarrow> resolveViaDiscovery d 1 cluster name | Inr r \<Rightarrow> Inr r))"

subsection \<open>Objects and requests\<close>

text \<open>Accessors of \<open>unstructured.Unstructured\<close>; missing or ill-typed fields read as the zero value.
  \<open>ob_data\<close> is \<open>NestedMap(obj, "data")\<close>: \<open>None\<close> if it is absent or an error, and values that are no
  strings are \<open>None\<close>; \<open>ob_conditions\<close> lists the type and the printed status of each condition
  that is a map.\<close>

record 'o objlib =
  ob_kind :: "'o \<Rightarrow> string"
  ob_name :: "'o \<Rightarrow> string"
  ob_namespace :: "'o \<Rightarrow> string"
  ob_labels :: "'o \<Rightarrow> (string \<times> string) list"
  ob_created :: "'o \<Rightarrow> time option"
  ob_string :: "'o \<Rightarrow> string list \<Rightarrow> string"
  ob_int :: "'o \<Rightarrow> string list \<Rightarrow> int"
  ob_conditions :: "'o \<Rightarrow> (string option \<times> string) option list option"
  ob_data :: "'o \<Rightarrow> (string \<times> string option) list option"
  set_data :: "(string \<times> string) list \<Rightarrow> 'o \<Rightarrow> 'o"
  set_namespace :: "string \<Rightarrow> 'o \<Rightarrow> 'o"
  yaml_marshal :: "'o \<Rightarrow> gerr + string"
  yaml_unmarshal :: "string \<Rightarrow> gerr + 'o"
  rfc3339 :: "time \<Rightarrow> string"

text \<open>A request to an API server; the namespace is \<open>None\<close> where the code uses no
  \<open>Namespace(...)\<close>.\<close>

datatype 'o request =
    RList gvr "string option" string string
  | RGet gvr "string option" string
  | RCreate gvr "string option" 'o
  | RUpdate gvr "string option" 'o
  | RDelete gvr "string option" string
  | RPatch gvr "string option" string string string string
  | RLogs string string string "int option" "int option" bool
  | REvents string string
  | RNodeMetrics
  | RNodes
  | RPodMetrics string

record event_item =
  ev_name :: string
  ev_namespace :: string
  ev_type :: string
  ev_reason :: string
  ev_message :: string
  ev_count :: int
  ev_involved_kind :: string
  ev_involved_name :: string
  ev_first :: time
  ev_last :: time

text \<open>CPU and memory, as the canonical texts of the two quantities.\<close>

record usage =
  us_cpu :: string
  us_memory :: string

text \<open>The API servers: what each answers, by cluster. \<open>ap_stream\<close> is the bytes of a log stream and
  whether reading ended in an error. \<open>ap_positive\<close> and \<open>ap_percent\<close> are the floating-point side of the
  library's quantities: whether one is above zero, and the percentage text of one in another.\<close>

record 'o api =
  ap_discovery :: "string \<Rightarrow> discovery"
  ap_list :: "string \<Rightarrow> 'o request \<Rightarrow> api_error + 'o list"
  ap_object :: "string \<Rightarrow> 'o request \<Rightarrow> api_error + 'o"
  ap_done :: "string \<Rightarrow> 'o request \<Rightarrow> api_error + unit"
  ap_stream :: "string \<Rightarrow> 'o request \<Rightarrow> api_error + string \<times> gerr option"
  ap_events :: "string \<Rightarrow> 'o request \<Rightarrow> api_error + event_item list"
  ap_node_usage :: "string \<Rightarrow> 'o request \<Rightarrow> api_error + (string \<times> usage) list"
  ap_nodes :: "string \<Rightarrow> 'o request \<Rightarrow> api_error + (string \<times> usage) list"
  ap_pod_usage :: "string \<Rightarrow> 'o request \<Rightarrow> api_error + (string \<times> string \<times> (string \<times> usage) list) list"
  ap_positive :: "string \<Rightarrow> bool"
  ap_percent :: "string \<Rightarrow> string \<Rightarrow> string"

record 'o rstate =
  rs_sys :: sys
  rs_sent :: "(string \<times> 'o request) list"

type_synonym ('o, 'a) ract = "('o rstate, 'a) gm"

definition on_sys :: "'a sact \<Rightarrow> ('o, 'a) ract" where
  "on_sys m = (\<lambda>s. case m (rs_sys s) of (r, t) \<Rightarrow> (r, s\<lparr>rs_sys := t\<rparr>))"

definition send :: "string \<Rightarrow> (string \<Rightarrow> 'o request \<Rightarrow> api_error + 'b) \<Rightarrow> 'o request \<Rightarrow> ('o, 'b) ract" where
  "send cluster answer q = (\<lambda>s. (case answer cluster q of Inl e \<Rightarrow> Inl (mapK8sError e) | Inr x \<Rightarrow> Inr x,
     s\<lparr>rs_sent := rs_sent s @ [(cluster, q)]\<rparr>))"

lemma wp_on_sys [wp_rules]: "wp (on_sys m) Q E s =
  wp m (\<lambda>x t. Q x (s\<lparr>rs_sys := t\<rparr>)) (\<lambda>e t. E e (s\<lparr>rs_sys := t\<rparr>)) (rs_sys s)"
  by (simp add: wp_def on_sys_def split: prod.splits sum.splits)

lemma wp_send [wp_rules]: "wp (send c f q) Q E s =
  (let s' = s\<lparr>rs_sent := rs_sent s @ [(c, q)]\<rparr> in case f c q of Inl e \<Rightarrow> E (mapK8sError e) s' | Inr x \<Rightarrow> Q x s')"
  by (simp add: wp_def send_def Let_def split: sum.splits)

subsection \<open>Summaries, filter and order (resource_helpers.go)\<close>

record resource_item =
  ri_kind :: string
  ri_name :: string
  ri_namespace :: string
  ri_status :: string
  ri_created :: "time option"
  ri_labels :: "(string \<times> string) list"

definition ratio :: "int \<Rightarrow> int \<Rightarrow> string" where
  "ratio a b = itoa a @ ''/'' @ itoa b"

text \<open>The first condition whose type is \<open>Ready\<close>.\<close>

fun ready_status :: "(string option \<times> string) option list \<Rightarrow> string" where
  "ready_status [] = ''''"
| "ready_status (None # cs) = ready_status cs"
| "ready_status (Some (t, st) # cs) = (if t = Some ''Ready'' then st else ready_status cs)"

definition extractStatus :: "'o objlib \<Rightarrow> 'o \<Rightarrow> string" where
  "extractStatus L o' =
     (let k = ob_kind L o' in
      if k = ''Pod'' then ob_string L o' [''status'', ''phase'']
      else if k = ''Deployment'' then ratio (ob_int L o' [''status'', ''readyReplicas'']) (ob_int L o' [''spec'', ''replicas''])
      else if k = ''StatefulSet'' then ratio (ob_int L o' [''status'', ''readyReplicas'']) (ob_int L o' [''spec'', ''replicas''])
      else if k = ''DaemonSet''
        then ratio (ob_int L o' [''status'', ''numberReady'']) (ob_int L o' [''status'', ''desiredNumberScheduled''])
      else if k = ''Node'' then (case ob_conditions L o' of None \<Rightarrow> '''' | Some cs \<Rightarrow> ready_status cs)
      else if k = ''PersistentVolumeClaim'' \<or> k = ''PersistentVolume'' then ob_string L o' [''status'', ''phase'']
      else '''')"

definition toResourceItem :: "'o objlib \<Rightarrow> 'o \<Rightarrow> resource_item" where
  "toResourceItem L o' = \<lparr>ri_kind = ob_kind L o', ri_name = ob_name L o', ri_namespace = ob_namespace L o',
     ri_status = extractStatus L o', ri_created = ob_created L o', ri_labels = ob_labels L o'\<rparr>"

definition contains :: "string \<Rightarrow> string \<Rightarrow> bool" where
  "contains s p \<longleftrightarrow> list_ex (\<lambda>k. has_prefix (drop k s) p) [0..<Suc (length s)]"

definition filterByKeyword :: "string \<Rightarrow> resource_item list \<Rightarrow> resource_item list" where
  "filterByKeyword keyword items = (if keyword = '''' then items
     else filter (\<lambda>i. contains (to_lower (ri_name i)) (to_lower keyword)) items)"

text \<open>\<open>sort.SliceStable\<close>\<close>

fun insert_by :: "('a \<Rightarrow> 'a \<Rightarrow> bool) \<Rightarrow> 'a \<Rightarrow> 'a list \<Rightarrow> 'a list" where
  "insert_by lt x [] = [x]"
| "insert_by lt x (y # ys) = (if lt y x then y # insert_by lt x ys else x # y # ys)"

definition sort_by :: "('a \<Rightarrow> 'a \<Rightarrow> bool) \<Rightarrow> 'a list \<Rightarrow> 'a list" where
  "sort_by lt xs = foldr (insert_by lt) xs []"

text \<open>\<open>time.Time{}\<close>, the first of January of year 1.\<close>

definition zero_time :: time where
  "zero_time = - 62135596800 * seconds"

definition tsOf :: "resource_item \<Rightarrow> time" where
  "tsOf i = (case ri_created i of None \<Rightarrow> zero_time | Some t \<Rightarrow> t)"

definition before :: "bool \<Rightarrow> 'a::linorder \<Rightarrow> 'a \<Rightarrow> bool" where
  "before desc a b = (if desc then a > b else a < b)"

text \<open>The \<open>less\<close> functions of \<open>sortItems\<close>, and the sort itself.\<close>

definition item_less :: "string \<Rightarrow> bool \<Rightarrow> resource_item \<Rightarrow> resource_item \<Rightarrow> bool" where
  "item_less sortBy desc a b =
     (if sortBy = ''name'' then before desc (ri_name a) (ri_name b)
      else if sortBy = ''namespace'' then
        (if ri_namespace a = ri_namespace b then before desc (ri_name a) (ri_name b)
         else before desc (ri_namespace a) (ri_namespace b))
      else before desc (tsOf a) (tsOf b))"

definition sortItems :: "string \<Rightarrow> string \<Rightarrow> resource_item list \<Rightarrow> gerr + resource_item list" where
  "sortItems sortBy0 order items =
     (let sortBy = (if sortBy0 = '''' then ''createdAt'' else sortBy0) in
      if order \<noteq> '''' \<and> order \<noteq> ''desc'' \<and> order \<noteq> ''asc''
      then Inl (New ParamInvalid ''invalid order, expect asc or desc'')
      else if sortBy = ''name'' \<or> sortBy = ''namespace'' \<or> sortBy = ''createdAt''
      then Inr (sort_by (item_less sortBy (order \<noteq> ''asc'')) items)
      else Inl (New ParamInvalid ''invalid sortBy, expect name|namespace|createdAt''))"

subsection \<open>Operations (resource.go)\<close>

record list_query =
  lq_namespace :: string
  lq_label :: string
  lq_field :: string
  lq_sort_by :: string
  lq_order :: string
  lq_keyword :: string
  lq_page :: int
  lq_size :: int

definition runtimeOf :: "string \<Rightarrow> ('o, k8s_runtime) ract" where
  "runtimeOf cluster = on_result (on_sys (manager_Get cluster))
     (\<lambda>e. err (WithCause (New ClusterNotFound ''cluster not found'') e)) ok"

definition resolve :: "'o api \<Rightarrow> string \<Rightarrow> string \<Rightarrow> bool \<Rightarrow> ('o, resource_ref) ract" where
  "resolve A cluster resource namespacedRequired =
     from_sum (case ResolveResource (ap_discovery A cluster) cluster resource of
       Inl e \<Rightarrow> Inl (WithCause (New ParamInvalid (''unknown resource '' @ resource)) e)
     | Inr r \<Rightarrow> if namespacedRequired \<and> \<not> rf_namespaced r
         then Inl (New ParamInvalid (''resource '' @ resource @ '' is cluster-scoped'')) else Inr r)"

text \<open>The namespace of a request: only for a namespaced resource, and for lists only if not empty.\<close>

definition ns_of :: "resource_ref \<Rightarrow> string \<Rightarrow> string option" where
  "ns_of r ns = (if rf_namespaced r then Some ns else None)"

definition dynList :: "'o api \<Rightarrow> string \<Rightarrow> resource_ref \<Rightarrow> string \<Rightarrow> string \<Rightarrow> string \<Rightarrow> ('o, 'o list) ract" where
  "dynList A cluster r ns label field = send cluster (ap_list A)
     (RList (rf_gvr r) (if rf_namespaced r \<and> ns \<noteq> '''' then Some ns else None) label field)"

definition dynGet :: "'o api \<Rightarrow> string \<Rightarrow> resource_ref \<Rightarrow> string \<Rightarrow> string \<Rightarrow> ('o, 'o) ract" where
  "dynGet A cluster r ns name = send cluster (ap_object A) (RGet (rf_gvr r) (ns_of r ns) name)"

text \<open>The slice expression of the page panics out of range; the recovery middleware answers 500.\<close>

definition slice_panic :: gerr where
  "slice_panic = PlainErr ''runtime error: slice bounds out of range''"

definition page_of :: "'a list \<Rightarrow> int \<Rightarrow> int \<Rightarrow> gerr + 'a result_body" where
  "page_of items pg sz = (case page_window items pg sz of None \<Rightarrow> Inl slice_panic
     | Some xs \<Rightarrow> Inr (Result xs (int (length items)) \<lparr>pg_page = pg, pg_size = sz\<rparr>))"

definition List_resources :: "'o objlib \<Rightarrow> 'o api \<Rightarrow> string \<Rightarrow> string \<Rightarrow> list_query \<Rightarrow> ('o, resource_item result_body) ract" where
  "List_resources L A cluster resource q =
     and_then (runtimeOf cluster) (\<lambda>_.
     and_then (resolve A cluster resource False) (\<lambda>r.
     and_then (dynList A cluster r (lq_namespace q) (lq_label q) (lq_field q)) (\<lambda>objs.
     and_then (from_sum (sortItems (lq_sort_by q) (lq_order q) (filterByKeyword (lq_keyword q) (map (toResourceItem L) objs)))) (\<lambda>items.
     from_sum (page_of items (lq_page q) (lq_size q))))))"

definition redactSecret :: "'o objlib \<Rightarrow> 'o \<Rightarrow> 'o" where
  "redactSecret L x = (case ob_data L x of None \<Rightarrow> x | Some d \<Rightarrow> set_data L (map (\<lambda>(k, v). (k, ''***'')) d) x)"

definition Get_resource :: "'o objlib \<Rightarrow> 'o api \<Rightarrow> string \<Rightarrow> string \<Rightarrow> string \<Rightarrow> string \<Rightarrow> bool \<Rightarrow> ('o, 'o) ract" where
  "Get_resource L A cluster resource ns name reveal =
     and_then (runtimeOf cluster) (\<lambda>_.
     and_then (resolve A cluster resource False) (\<lambda>r.
     and_then (dynGet A cluster r ns name) (\<lambda>x.
     ok (if \<not> reveal \<and> gv_resource (rf_gvr r) = ''secrets'' then redactSecret L x else x))))"

definition decode_value :: "string option \<Rightarrow> string" where
  "decode_value v = (let s = (case v of None \<Rightarrow> '''' | Some x \<Rightarrow> x) in
     case DecodeString s of None \<Rightarrow> s | Some raw \<Rightarrow> raw)"

definition SecretData :: "'o objlib \<Rightarrow> 'o api \<Rightarrow> string \<Rightarrow> string \<Rightarrow> string \<Rightarrow> ('o, (string \<times> string) list) ract" where
  "SecretData L A cluster ns name = and_then (Get_resource L A cluster ''secrets'' ns name True) (\<lambda>x.
     ok (case ob_data L x of None \<Rightarrow> [] | Some d \<Rightarrow> map (\<lambda>(k, v). (k, decode_value v)) d))"

definition GetYAML :: "'o objlib \<Rightarrow> 'o api \<Rightarrow> string \<Rightarrow> string \<Rightarrow> string \<Rightarrow> string \<Rightarrow> ('o, string) ract" where
  "GetYAML L A cluster resource ns name = and_then (Get_resource L A cluster resource ns name False) (\<lambda>x.
     errorf (''marshal yaml of '' @ ns @ ''/'' @ name) (from_sum (yaml_marshal L x)))"

text \<open>The code resolves the name twice; the model uses one answer for both.\<close>

definition UpdateYAML :: "'o objlib \<Rightarrow> 'o api \<Rightarrow> string \<Rightarrow> string \<Rightarrow> string \<Rightarrow> string \<Rightarrow> string \<Rightarrow> ('o, 'o) ract" where
  "UpdateYAML L A cluster resource ns name yamlText =
     and_then (runtimeOf cluster) (\<lambda>_.
     and_then (from_sum (case yaml_unmarshal L yamlText of
         Inl e \<Rightarrow> Inl (WithCause (New ParamInvalid ''invalid yaml'') e) | Inr x \<Rightarrow> Inr x)) (\<lambda>x.
     and_then (guard (ob_string L x [''metadata'', ''name''] = name)
         (New ParamInvalid ''yaml metadata.name does not match url'')) (\<lambda>_.
     and_then (resolve A cluster resource False) (\<lambda>r.
     and_then (if rf_namespaced r then
          (let got = ob_string L x [''metadata'', ''namespace''] in
           if got = '''' then ok (set_namespace L ns x)
           else if got \<noteq> ns then err (New ParamInvalid ''yaml metadata.namespace does not match url'')
           else ok x)
        else ok x) (\<lambda>y.
     send cluster (ap_object A) (RUpdate (rf_gvr r) (ns_of r ns) y))))))"

definition Delete_resource :: "'o api \<Rightarrow> string \<Rightarrow> string \<Rightarrow> string \<Rightarrow> string \<Rightarrow> ('o, unit) ract" where
  "Delete_resource A cluster resource ns name =
     and_then (runtimeOf cluster) (\<lambda>_.
     and_then (resolve A cluster resource False) (\<lambda>r.
     send cluster (ap_done A) (RDelete (rf_gvr r) (ns_of r ns) name)))"

definition CreateResource :: "'o objlib \<Rightarrow> 'o api \<Rightarrow> string \<Rightarrow> string \<Rightarrow> string \<Rightarrow> string \<Rightarrow> ('o, 'o) ract" where
  "CreateResource L A cluster resource ns0 body =
     and_then (runtimeOf cluster) (\<lambda>_.
     and_then (from_sum (case yaml_unmarshal L body of
         Inl e \<Rightarrow> Inl (WithCause (New ParamInvalid ''invalid resource manifest'') e) | Inr x \<Rightarrow> Inr x)) (\<lambda>x.
     and_then (guard (ob_name L x \<noteq> '''') (New ParamInvalid ''metadata.name is required'')) (\<lambda>_.
     let ns = (if ob_namespace L x \<noteq> '''' then ob_namespace L x else ns0) in
     and_then (resolve A cluster resource False) (\<lambda>r.
     and_then (if \<not> rf_namespaced r then ok x
        else if ns = '''' then err (New ParamInvalid (''namespace is required for namespaced resource '' @ resource))
        else ok (set_namespace L ns x)) (\<lambda>y.
     send cluster (ap_object A) (RCreate (rf_gvr r) (ns_of r ns) y))))))"

definition RestartPod :: "'o api \<Rightarrow> string \<Rightarrow> string \<Rightarrow> string \<Rightarrow> ('o, unit) ract" where
  "RestartPod A cluster ns name = and_then (runtimeOf cluster) (\<lambda>_.
     send cluster (ap_done A) (RDelete \<lparr>gv_group = '''', gv_version = ''v1'', gv_resource = ''pods''\<rparr> (Some ns) name))"

definition deployments_gvr :: gvr where
  "deployments_gvr = \<lparr>gv_group = ''apps'', gv_version = ''v1'', gv_resource = ''deployments''\<rparr>"

text \<open>A JSON string quote.\<close>

definition dq :: string where "dq = [CHR 0x22]"

definition quoted :: "string \<Rightarrow> string" where "quoted s = dq @ s @ dq"

definition restart_patch :: "string \<Rightarrow> string" where
  "restart_patch stamp = ''{'' @ quoted ''spec'' @ '':{'' @ quoted ''template'' @ '':{'' @ quoted ''metadata'' @ '':{'' @
     quoted ''annotations'' @ '':{'' @ quoted ''kubectl.kubernetes.io/restartedAt'' @ '':'' @ quoted stamp @ ''}}}}}''"

definition RestartDeployment :: "'o objlib \<Rightarrow> 'o api \<Rightarrow> string \<Rightarrow> string \<Rightarrow> string \<Rightarrow> ('o, 'o) ract" where
  "RestartDeployment L A cluster ns name = and_then (runtimeOf cluster) (\<lambda>_.
     and_then (on_sys (on_world now)) (\<lambda>t.
     send cluster (ap_object A) (RPatch deployments_gvr (Some ns) name ''application/strategic-merge-patch+json''
       (restart_patch (rfc3339 L t)) '''')))"

definition scale_patch :: "int \<Rightarrow> string" where
  "scale_patch n = ''{'' @ quoted ''spec'' @ '':{'' @ quoted ''replicas'' @ '':'' @ itoa n @ ''}}''"

definition ScaleDeployment :: "'o api \<Rightarrow> string \<Rightarrow> string \<Rightarrow> string \<Rightarrow> int \<Rightarrow> ('o, 'o) ract" where
  "ScaleDeployment A cluster ns name n = and_then (runtimeOf cluster) (\<lambda>_.
     send cluster (ap_object A) (RPatch deployments_gvr (Some ns) name ''application/merge-patch+json'' (scale_patch n) ''scale''))"

record logs_query =
  gq_container :: string
  gq_tail :: int
  gq_since :: int
  gq_previous :: bool

definition maxLogBytes :: nat where "maxLogBytes = 16 * 1024 * 1024"

text \<open>\<open>readAllLimit\<close>: a read error is returned only if it comes before the limit is passed.\<close>

definition readAllLimit :: "nat \<Rightarrow> string \<times> gerr option \<Rightarrow> gerr + string" where
  "readAllLimit limit stream = (case stream of (bytes, e) \<Rightarrow>
     if length bytes > limit then Inl (PlainErr ''log output exceeds limit'')
     else case e of Some x \<Rightarrow> Inl x | None \<Rightarrow> Inr bytes)"

definition PodLogs :: "'o api \<Rightarrow> string \<Rightarrow> string \<Rightarrow> string \<Rightarrow> logs_query \<Rightarrow> ('o, string \<times> string) ract" where
  "PodLogs A cluster ns name q = and_then (runtimeOf cluster) (\<lambda>_.
     and_then (send cluster (ap_stream A) (RLogs ns name (gq_container q) (if gq_tail q > 0 then Some (gq_tail q) else None)
       (if gq_since q > 0 then Some (gq_since q) else None) (gq_previous q))) (\<lambda>stream.
     (case readAllLimit maxLogBytes stream of
        Inl e \<Rightarrow> err (WithCause (New UpstreamK8sError ''read pod logs failed'') e)
      | Inr data \<Rightarrow> ok (data, gq_container q))))"

definition Events :: "'o api \<Rightarrow> string \<Rightarrow> string \<Rightarrow> string \<Rightarrow> pagination \<Rightarrow> ('o, event_item result_body) ract" where
  "Events A cluster ns field p = and_then (runtimeOf cluster) (\<lambda>_.
     and_then (send cluster (ap_events A) (REvents ns field)) (\<lambda>evs.
     from_sum (page_of (sort_by (\<lambda>a b. ev_last a > ev_last b) evs) (pg_page p) (pg_size p))))"

subsection \<open>Metrics (resource_helpers.go, resource_yaml.go)\<close>

definition isMetricsUnavailable :: "api_error \<Rightarrow> bool" where
  "isMetricsUnavailable e \<longleftrightarrow> is_NotFound e \<or> is_ServiceUnavailable e \<or> is_BadRequest e \<or> is_MethodNotSupported e"

definition metrics_error :: "api_error \<Rightarrow> gerr" where
  "metrics_error e = (if isMetricsUnavailable e then WithCause (New UpstreamK8sError ''metrics-server not available'') (ae_err e)
     else mapK8sError e)"

definition send_raw :: "string \<Rightarrow> (string \<Rightarrow> 'o request \<Rightarrow> api_error + 'b) \<Rightarrow> 'o request \<Rightarrow> ('o, api_error + 'b) ract" where
  "send_raw cluster answer q = (\<lambda>s. (Inr (answer cluster q), s\<lparr>rs_sent := rs_sent s @ [(cluster, q)]\<rparr>))"

record node_metrics =
  nm_name :: string
  nm_cpu :: string
  nm_memory :: string
  nm_cpu_pct :: string
  nm_mem_pct :: string

definition pctOf :: "'o api \<Rightarrow> string \<Rightarrow> string \<Rightarrow> string" where
  "pctOf A used alloc = (if \<not> ap_positive A alloc then '''' else ap_percent A used alloc)"

text \<open>Of nodes with the same name the last one counts; an error leaves the percentages out.\<close>

definition nodeAllocatable :: "'o api \<Rightarrow> string \<Rightarrow> ('o, string \<Rightarrow> usage option) ract" where
  "nodeAllocatable A cluster = and_then (send_raw cluster (ap_nodes A) RNodes) (\<lambda>r.
     ok (case r of Inl _ \<Rightarrow> Map.empty | Inr nodes \<Rightarrow> map_of (rev nodes)))"

definition nodeMetricsList :: "'o api \<Rightarrow> string \<Rightarrow> ('o, node_metrics list) ract" where
  "nodeMetricsList A cluster = and_then (send_raw cluster (ap_node_usage A) RNodeMetrics) (\<lambda>r.
     case r of Inl e \<Rightarrow> err (metrics_error e)
     | Inr items \<Rightarrow> and_then (nodeAllocatable A cluster) (\<lambda>alloc.
         ok (map (\<lambda>(n, u). \<lparr>nm_name = n, nm_cpu = us_cpu u, nm_memory = us_memory u,
           nm_cpu_pct = (case alloc n of None \<Rightarrow> '''' | Some a \<Rightarrow> pctOf A (us_cpu u) (us_cpu a)),
           nm_mem_pct = (case alloc n of None \<Rightarrow> '''' | Some a \<Rightarrow> pctOf A (us_memory u) (us_memory a))\<rparr>) items)))"

record pod_metrics =
  pm_namespace :: string
  pm_name :: string
  pm_containers :: "(string \<times> usage) list"

definition podMetricsList :: "'o api \<Rightarrow> string \<Rightarrow> string \<Rightarrow> ('o, pod_metrics list) ract" where
  "podMetricsList A cluster ns = and_then (send_raw cluster (ap_pod_usage A) (RPodMetrics ns)) (\<lambda>r.
     case r of Inl e \<Rightarrow> err (metrics_error e)
     | Inr items \<Rightarrow> ok (map (\<lambda>(m, n, cs). \<lparr>pm_namespace = m, pm_name = n, pm_containers = cs\<rparr>) items))"

definition NodeMetrics :: "'o api \<Rightarrow> string \<Rightarrow> ('o, node_metrics list) ract" where
  "NodeMetrics A cluster = and_then (runtimeOf cluster) (\<lambda>_. nodeMetricsList A cluster)"

definition PodMetrics :: "'o api \<Rightarrow> string \<Rightarrow> string \<Rightarrow> ('o, pod_metrics list) ract" where
  "PodMetrics A cluster ns = and_then (runtimeOf cluster) (\<lambda>_. podMetricsList A cluster ns)"

end
