(* ===== verification/Listing.thy ===== *)
theory Listing
  imports Resources "HOL-Library.Multiset"
begin

text \<open>
  What a resource listing shows: the stable sort is a permutation, ordered and stable; the pages
  of a listing, put one after the other, are the listing; secrets are masked.
\<close>

subsection \<open>The stable sort\<close>

lemma insert_by_mset: "mset (insert_by lt x ys) = add_mset x (mset ys)"
  by (induction ys) auto

lemma sort_by_mset: "mset (sort_by lt xs) = mset xs"
  by (induction xs) (simp_all add: sort_by_def insert_by_mset)

lemma insert_by_set: "set (insert_by lt x ys) = insert x (set ys)"
  by (induction ys) auto

lemma sort_by_set: "set (sort_by lt xs) = set xs"
  by (metis sort_by_mset set_mset_mset)

lemma sort_by_length: "length (sort_by lt xs) = length xs"
  by (metis sort_by_mset size_mset)

text \<open>The laws of a \<open>less\<close> function: asymmetric, and incomparability does not break order.\<close>

locale weak_order =
  fixes lt :: "'a \<Rightarrow> 'a \<Rightarrow> bool"
  assumes asym: "lt a b \<Longrightarrow> \<not> lt b a"
    and neg_trans: "\<not> lt b a \<Longrightarrow> \<not> lt c b \<Longrightarrow> \<not> lt c a"
begin

lemma insert_sorted:
  "sorted_wrt (\<lambda>a b. \<not> lt b a) ys \<Longrightarrow> sorted_wrt (\<lambda>a b. \<not> lt b a) (insert_by lt x ys)"
proof (induction ys)
  case (Cons y ys)
  show ?case
  proof (cases "lt y x")
    case True
    then show ?thesis using Cons asym by (auto simp: insert_by_set)
  next
    case False
    then show ?thesis using Cons.prems neg_trans by auto
  qed
qed simp

lemma sorted: "sorted_wrt (\<lambda>a b. \<not> lt b a) (sort_by lt xs)"
  by (induction xs) (simp_all add: sort_by_def insert_sorted)

lemma insert_stable:
  "filter (\<lambda>b. \<not> lt a b \<and> \<not> lt b a) (insert_by lt x ys) = filter (\<lambda>b. \<not> lt a b \<and> \<not> lt b a) (x # ys)"
proof (induction ys)
  case (Cons y ys)
  have "\<not> (lt y x \<and> \<not> lt a y \<and> \<not> lt y a \<and> \<not> lt a x \<and> \<not> lt x a)" using neg_trans by blast
  then show ?case using Cons by auto
qed simp

text \<open>Elements that are equal in the order keep their original sequence.\<close>

lemma stable: "filter (\<lambda>b. \<not> lt a b \<and> \<not> lt b a) (sort_by lt xs) = filter (\<lambda>b. \<not> lt a b \<and> \<not> lt b a) xs"
proof (induction xs)
  case (Cons x xs)
  then show ?case using insert_stable [of a x "sort_by lt xs"] by (simp add: sort_by_def)
qed (simp add: sort_by_def)

end

interpretation item_order: weak_order "item_less sortBy desc"
proof
  show "item_less sortBy desc a b \<Longrightarrow> \<not> item_less sortBy desc b a" for a b
    by (auto simp: item_less_def before_def split: if_splits)
  show "\<not> item_less sortBy desc b a \<Longrightarrow> \<not> item_less sortBy desc c b \<Longrightarrow> \<not> item_less sortBy desc c a" for a b c
    by (auto simp: item_less_def before_def not_less split: if_splits)
qed

interpretation event_order: weak_order "\<lambda>a b. ev_last a > ev_last b"
  by unfold_locales auto

subsection \<open>Pages\<close>

lemma pages_tile:
  "concat (map (\<lambda>p. take n (drop ((p - 1) * n) xs)) [1..<Suc k]) = take (k * n) xs"
proof (induction k)
  case (Suc k)
  have "concat (map (\<lambda>p. take n (drop ((p - 1) * n) xs)) [1..<Suc (Suc k)]) =
      take (k * n) xs @ take n (drop (k * n) xs)"
    using Suc by simp
  also have "\<dots> = take (k * n + n) xs" by (simp add: take_add)
  finally show ?case by (simp add: add.commute)
qed simp

lemma page_of_exact:
  assumes "1 \<le> p" "1 \<le> sz" "sz \<le> 200" "int k * sz < 2 ^ 62" "p \<le> k" "int (length xs) < 2 ^ 62"
  shows "page_of xs (int p) sz = Inr (Result (take (nat sz) (drop ((p - 1) * nat sz) xs)) (int (length xs))
    \<lparr>pg_page = int p, pg_size = sz\<rparr>)"
proof -
  have "(int p - 1) * sz \<le> int k * sz" using assms by (intro mult_right_mono) auto
  then have b: "(int p - 1) * sz < 2 ^ 62" using assms(4) by simp
  have "nat ((int p - 1) * sz) = (p - 1) * nat sz"
    using assms(1,2) by (simp add: nat_mult_distrib of_nat_diff nat_diff_distrib)
  then show ?thesis using page_window_exact [of "int p" sz xs] assms b by (simp add: page_of_def)
qed

lemma filterByKeyword_length: "length (filterByKeyword kw items) \<le> length items"
  by (simp add: filterByKeyword_def)

definition sort_column :: "list_query \<Rightarrow> string" where
  "sort_column q = (if lq_sort_by q = '''' then ''createdAt'' else lq_sort_by q)"

text \<open>C24: a listing is complete, ordered and paged without loss. For a registered cluster, the items
  behind any listing are exactly the objects of the API server that match the keyword, in the
  requested order, equal ones in the server's order; every page reports their number; and the
  first \<open>k\<close> pages put together are the first \<open>k * size\<close> items, none lost and none repeated.\<close>

theorem List_pages_tile:
  assumes "manager_Get cluster (rs_sys s) = (Inr rt, rs_sys s)"
    and "ResolveResource (ap_discovery A cluster) cluster resource = Inr r"
    and "ap_list A cluster (RList (rf_gvr r) (if rf_namespaced r \<and> lq_namespace q \<noteq> '''' then Some (lq_namespace q) else None)
        (lq_label q) (lq_field q)) = Inr objs"
    and items: "sortItems (lq_sort_by q) (lq_order q) (filterByKeyword (lq_keyword q) (map (toResourceItem L) objs)) = Inr items"
    and "1 \<le> sz" "sz \<le> 200" "int (length objs) < 2 ^ 62" "int k * sz < 2 ^ 62"
  shows "mset items = mset (filterByKeyword (lq_keyword q) (map (toResourceItem L) objs)) \<and>
    sorted_wrt (\<lambda>a b. \<not> item_less (sort_column q) (lq_order q \<noteq> ''asc'') b a) items \<and>
    (\<exists>bodies. list_all2 (\<lambda>p b. fst (List_resources L A cluster resource (q\<lparr>lq_page := int p, lq_size := sz\<rparr>) s) = Inr b \<and>
         rb_total b = int (length items)) [1..<Suc k] bodies \<and>
       concat (map rb_items bodies) = take (k * nat sz) items)"
proof (intro conjI)
  from items have it: "items = sort_by (item_less (sort_column q) (lq_order q \<noteq> ''asc''))
      (filterByKeyword (lq_keyword q) (map (toResourceItem L) objs))"
    by (auto simp: sortItems_def sort_column_def Let_def split: if_splits)
  show "mset items = mset (filterByKeyword (lq_keyword q) (map (toResourceItem L) objs))"
    by (simp add: it sort_by_mset)
  show "sorted_wrt (\<lambda>a b. \<not> item_less (sort_column q) (lq_order q \<noteq> ''asc'') b a) items"
    by (simp add: it item_order.sorted)
  have len: "int (length items) < 2 ^ 62"
    using filterByKeyword_length [of "lq_keyword q" "map (toResourceItem L) objs"] assms(7) by (simp add: it sort_by_length)
  let ?body = "\<lambda>p. Result (take (nat sz) (drop ((p - 1) * nat sz) items)) (int (length items)) \<lparr>pg_page = int p, pg_size = sz\<rparr>"
  have page: "fst (List_resources L A cluster resource (q\<lparr>lq_page := int p, lq_size := sz\<rparr>) s) = Inr (?body p)"
    if "1 \<le> p" "p \<le> k" for p
    using assms(1-3) items page_of_exact [OF that(1) assms(5,6,8) that(2) len]
    by (simp add: List_resources_def runtimeOf_def resolve_def dynList_def send_def on_sys_def and_then_def on_result_def
        from_sum_def ok_def)
  show "\<exists>bodies. list_all2 (\<lambda>p b. fst (List_resources L A cluster resource (q\<lparr>lq_page := int p, lq_size := sz\<rparr>) s) = Inr b \<and>
         rb_total b = int (length items)) [1..<Suc k] bodies \<and>
       concat (map rb_items bodies) = take (k * nat sz) items"
    using page pages_tile [of "nat sz" items k]
    by (intro exI [of _ "map ?body [1..<Suc k]"])
      (auto simp: list_all2_map2 list_all2_same Result_def comp_def simp del: upt_Suc)
qed
subsection \<open>Secrets\<close>

definition masked :: "'o objlib \<Rightarrow> 'o \<Rightarrow> bool" where
  "masked L x \<longleftrightarrow> (case ob_data L x of None \<Rightarrow> True | Some d \<Rightarrow> list_all (\<lambda>(k, v). v = Some ''***'') d)"

lemma redactSecret_masked:
  assumes "\<And>m x. ob_data L (set_data L m x) = Some (map (\<lambda>(k, v). (k, Some v)) m)"
  shows "masked L (redactSecret L x)"
  by (auto simp: masked_def redactSecret_def assms list_all_iff split: option.splits)

lemma wp_runtimeOf:
  "wp (runtimeOf c) (\<lambda>_ s'. s' = s) (\<lambda>e s'. s' = s \<and> From e = Some (ClusterNotFound, ''cluster not found'')) s"
  by (simp add: runtimeOf_def manager_Get_def wp_rules split: option.splits)

lemma wp_resolve:
  "wp (resolve A c resource b) (\<lambda>r s'. s' = s \<and> ResolveResource (ap_discovery A c) c resource = Inr r) (\<lambda>e s'. s' = s) s"
  by (auto simp: resolve_def wp_rules split: sum.splits)

text \<open>C25: a secret is shown masked unless it is revealed. When the resource name resolves to
  secrets, the object that \<open>Get\<close> returns without \<open>reveal\<close>, and the object behind the YAML text,
  hold no data value but \<open>***\<close>; all their keys are still there. The hypothesis is the library's law
  that \<open>SetNestedMap\<close> is read back by \<open>NestedMap\<close>.\<close>

theorem secrets_masked:
  assumes law: "\<And>m x. ob_data L (set_data L m x) = Some (map (\<lambda>(k, v). (k, Some v)) m)"
    and "ResolveResource (ap_discovery A cluster) cluster resource = Inr r" and "gv_resource (rf_gvr r) = ''secrets''"
  shows "(case Get_resource L A cluster resource ns name False s of (Inl e, s') \<Rightarrow> True
      | (Inr x, s') \<Rightarrow> masked L x \<and> (\<exists>y. ap_object A cluster (RGet (rf_gvr r) (ns_of r ns) name) = Inr y \<and>
           map_option (map fst) (ob_data L x) = map_option (map fst) (ob_data L y))) \<and>
    (case GetYAML L A cluster resource ns name s of (Inl e, s') \<Rightarrow> True
      | (Inr text, s') \<Rightarrow> \<exists>x. masked L x \<and> yaml_marshal L x = Inr text)"
proof -
  have get: "wp (Get_resource L A cluster resource ns name False)
     (\<lambda>x s'. masked L x \<and> (\<exists>y. ap_object A cluster (RGet (rf_gvr r) (ns_of r ns) name) = Inr y \<and>
           map_option (map fst) (ob_data L x) = map_option (map fst) (ob_data L y))) (\<lambda>_ _. True) s"
    unfolding Get_resource_def wp_and_then
    by (rule wp_mono [OF wp_runtimeOf], rule wp_mono [OF wp_resolve])
      (auto simp: assms(2,3) dynGet_def wp_rules Let_def redactSecret_masked [OF law] split: sum.splits
        intro: exI, auto simp: redactSecret_def law comp_def split_def split: option.splits)
  moreover have "wp (GetYAML L A cluster resource ns name) (\<lambda>text _. \<exists>x. masked L x \<and> yaml_marshal L x = Inr text) (\<lambda>_ _. True) s"
    unfolding GetYAML_def wp_and_then
    by (rule wp_mono [OF get]) (auto simp: wp_rules split: sum.splits)
  ultimately show ?thesis by (simp add: wp_def split: prod.splits sum.splits)
qed

subsection \<open>Examples\<close>

text \<open>Objects of the examples: name, namespace, creation time and data.\<close>

record thing =
  th_name :: string
  th_ns :: string
  th_created :: time
  th_data :: "(string \<times> string option) list option"

definition thing_lib :: "thing objlib" where
  "thing_lib = \<lparr>ob_kind = (\<lambda>_. ''Secret''), ob_name = th_name, ob_namespace = th_ns, ob_labels = (\<lambda>_. []),
     ob_created = (\<lambda>x. Some (th_created x)),
     ob_string = (\<lambda>x path. if path = [''metadata'', ''name''] then th_name x else if path = [''metadata'', ''namespace''] then th_ns x else ''''),
     ob_int = (\<lambda>_ _. 0), ob_conditions = (\<lambda>_. None), ob_data = th_data,
     set_data = (\<lambda>m x. x\<lparr>th_data := Some (map (\<lambda>(k, v). (k, Some v)) m)\<rparr>), set_namespace = (\<lambda>n x. x\<lparr>th_ns := n\<rparr>),
     yaml_marshal = (\<lambda>x. Inr (case th_data x of Some ((k, Some v) # _) \<Rightarrow> v | _ \<Rightarrow> '''')),
     yaml_unmarshal = (\<lambda>t. Inr \<lparr>th_name = ''db'', th_ns = '''', th_created = 1, th_data = Some [(''password'', Some t)]\<rparr>),
     rfc3339 = itoa\<rparr>"

definition thing :: "string \<Rightarrow> time \<Rightarrow> thing" where
  "thing n t = \<lparr>th_name = n, th_ns = ''team'', th_created = t, th_data = Some [(''password'', Some ''aHVudGVy'')]\<rparr>"

definition thing_api :: "thing api" where
  "thing_api = \<lparr>ap_discovery = (\<lambda>_. \<lparr>dc_supported = False, dc_lists = (\<lambda>_. (None, None)), dc_parse = (\<lambda>_. None)\<rparr>),
     ap_list = (\<lambda>_ _. Inr [thing ''a'' 1, thing ''b'' 3, thing ''c'' 2]),
     ap_object = (\<lambda>_ q. case q of RUpdate _ _ x \<Rightarrow> Inr x | RCreate _ _ x \<Rightarrow> Inr x | _ \<Rightarrow> Inr (thing ''db'' 1)),
     ap_done = (\<lambda>_ _. Inr ()), ap_stream = (\<lambda>_ _. Inr ('''', None)), ap_events = (\<lambda>_ _. Inr []),
     ap_node_usage = (\<lambda>_ _. Inr [(''n1'', \<lparr>us_cpu = ''1'', us_memory = ''2Gi''\<rparr>)]), ap_nodes = (\<lambda>_ _. Inr []),
     ap_pod_usage = (\<lambda>_ _. Inr []), ap_positive = (\<lambda>_. True), ap_percent = (\<lambda>_ _. ''50.0%'')\<rparr>"

definition east_runtime :: k8s_runtime where
  "east_runtime = \<lparr>kr_inst = 0, kr_version = ''v1.30'', kr_config = \<lparr>rc_target = ''yaml'', rc_dial = None\<rparr>,
     kr_health = health_init (default_options \<lparr>op_interval = 0, op_probe_timeout = 0, op_backoff_start = 0\<rparr>)
       \<lparr>st_status = ''ready'', st_message = '''', st_transition = 5\<rparr>\<rparr>"

definition thing_state :: "thing rstate" where
  "thing_state = \<lparr>rs_sys = \<lparr>s_world = \<lparr>w_db = empty_db, w_faults = [], w_now = 5\<rparr>, s_registry = [],
     s_runtimes = [(''east'', east_runtime)], s_dialers = [], s_listeners = [], s_next_listener = 0, s_next_inst = 1,
     s_stopped = [], s_sent = []\<rparr>, rs_sent = []\<rparr>"

definition newest_first :: list_query where
  "newest_first = \<lparr>lq_namespace = ''team'', lq_label = '''', lq_field = '''', lq_sort_by = '''', lq_order = '''', lq_keyword = '''',
     lq_page = 1, lq_size = 2\<rparr>"

lemma List_pages_tile_witness:
  "\<exists>bodies. list_all2 (\<lambda>p b. fst (List_resources thing_lib thing_api ''east'' ''secrets'' (newest_first\<lparr>lq_page := int p, lq_size := 2\<rparr>) thing_state) = Inr b \<and>
         rb_total b = 3) [1..<Suc 2] bodies \<and>
     map ri_name (concat (map rb_items bodies)) = [''b'', ''c'', ''a'']"
proof -
  let ?objs = "[thing ''a'' 1, thing ''b'' 3, thing ''c'' 2]"
  let ?items = "map (toResourceItem thing_lib) [thing ''b'' 3, thing ''c'' 2, thing ''a'' 1]"
  have r: "ResolveResource (ap_discovery thing_api ''east'') ''east'' ''secrets'' = Inr (v1 '''' ''secrets'' True)" by code_simp
  have m: "manager_Get ''east'' (rs_sys thing_state) = (Inr east_runtime, rs_sys thing_state)"
    by (simp add: manager_Get_def thing_state_def and_then_def on_result_def gets_def ok_def)
  have i: "sortItems (lq_sort_by newest_first) (lq_order newest_first)
      (filterByKeyword (lq_keyword newest_first) (map (toResourceItem thing_lib) ?objs)) = Inr ?items" by code_simp
  have l: "ap_list thing_api ''east'' q = Inr ?objs" for q by (simp add: thing_api_def)
  note t = List_pages_tile [OF m r l i, of 2 2]
  have n: "map ri_name (take (2 * nat 2) ?items) = [''b'', ''c'', ''a'']" by code_simp
  have len: "int (length ?items) = 3" by simp
  from t obtain bodies where
    "list_all2 (\<lambda>p b. fst (List_resources thing_lib thing_api ''east'' ''secrets'' (newest_first\<lparr>lq_page := int p, lq_size := 2\<rparr>) thing_state) = Inr b \<and>
         rb_total b = int (length ?items)) [1..<Suc 2] bodies" "concat (map rb_items bodies) = take (2 * nat 2) ?items" by auto
  then show ?thesis unfolding len using n by (metis (no_types, lifting))
qed

lemma secrets_masked_witness:
  "\<exists>x s'. Get_resource thing_lib thing_api ''east'' ''secrets'' ''team'' ''db'' False thing_state = (Inr x, s') \<and> masked thing_lib x"
proof -
  have law: "ob_data thing_lib (set_data thing_lib m x) = Some (map (\<lambda>(k, v). (k, Some v)) m)" for m x
    by (simp add: thing_lib_def)
  have r: "ResolveResource (ap_discovery thing_api ''east'') ''east'' ''secrets'' = Inr (v1 '''' ''secrets'' True)"
    "gv_resource (rf_gvr (v1 '''' ''secrets'' True)) = ''secrets''" by code_simp+
  have "is_ok (fst (Get_resource thing_lib thing_api ''east'' ''secrets'' ''team'' ''db'' False thing_state))" by code_simp
  then obtain x s' where g: "Get_resource thing_lib thing_api ''east'' ''secrets'' ''team'' ''db'' False thing_state = (Inr x, s')"
    using is_okE [of "Get_resource thing_lib thing_api ''east'' ''secrets'' ''team'' ''db'' False" thing_state] by blast
  from secrets_masked [where L = thing_lib and A = thing_api and ns = "''team''" and name = "''db''" and s = thing_state, OF law r] g
  have "masked thing_lib x" by simp
  with g show ?thesis by blast
qed

text \<open>The masked text written back: what \<open>GetYAML\<close> shows, \<open>UpdateYAML\<close> sends as the new data of the
  secret.\<close>

lemma masked_write_back:
  "fst (GetYAML thing_lib thing_api ''east'' ''secrets'' ''team'' ''db'' thing_state) = Inr ''***'' \<and>
   rs_sent (snd (UpdateYAML thing_lib thing_api ''east'' ''secrets'' ''team'' ''db'' ''***'' thing_state)) =
     [(''east'', RUpdate \<lparr>gv_group = '''', gv_version = ''v1'', gv_resource = ''secrets''\<rparr> (Some ''team'')
        \<lparr>th_name = ''db'', th_ns = ''team'', th_created = 1, th_data = Some [(''password'', Some ''***'')]\<rparr>)]"
  by code_simp

text \<open>A page number the parser accepts and the slice does not: \<open>(page - 1) * size\<close> wraps to the
  smallest 64-bit number and the listing panics; with another size it wraps to zero and shows the
  first page.\<close>

definition page_query :: "string \<Rightarrow> string \<Rightarrow> string" where
  "page_query sz k = (if k = ''page'' then ''4611686018427387905'' else if k = ''size'' then sz else '''')"

lemma page_overflow:
  "Parse (page_query ''2'') = Inr \<lparr>pg_page = 4611686018427387905, pg_size = 2\<rparr>"
  "page_of xs 4611686018427387905 2 = Inl slice_panic"
  "Parse (page_query ''4'') = Inr \<lparr>pg_page = 4611686018427387905, pg_size = 4\<rparr>"
  "map_sum id rb_items (page_of [1::nat, 2, 3, 4, 5, 6] 4611686018427387905 4) = Inr [1, 2, 3, 4]"
  subgoal by code_simp
  subgoal by (simp add: page_of_def page_window_def go_slice_def wrap64_def Let_def)
  subgoal by code_simp
  subgoal by code_simp
  done

end
