(* ===== verification/Auditing.thy ===== *)
theory Auditing
  imports Listing Auth_Sessions Rbac_Authz Kubeissue
begin

text \<open>
  The audit trail: \<open>AuditService\<close> (service/audit.go) with its broadcast to watchers, the audit
  middleware (middleware/audit.go) and the adapter between them (handler/router.go).
\<close>

subsection \<open>The state of the server and its requests\<close>

text \<open>The system with what is asked of API servers, the subscribers of the audit stream, and the
  download codes of the kubeconfig service.\<close>

record 'o astate =
  as_res :: "'o rstate"
  as_subs :: "(int \<times> audit_log list) list"
  as_next_sub :: int
  as_codes :: "string \<Rightarrow> download_entry option"

type_synonym ('o, 'a) hact = "('o astate, 'a) gm"

definition on_res :: "('o, 'a) ract \<Rightarrow> ('o, 'a) hact" where
  "on_res m = (\<lambda>s. case m (as_res s) of (r, t) \<Rightarrow> (r, s\<lparr>as_res := t\<rparr>))"

definition on_store :: "'a act \<Rightarrow> ('o, 'a) hact" where
  "on_store m = on_res (on_sys (on_world m))"

lemma wp_on_res [wp_rules]: "wp (on_res m) Q E s =
  wp m (\<lambda>x t. Q x (s\<lparr>as_res := t\<rparr>)) (\<lambda>e t. E e (s\<lparr>as_res := t\<rparr>)) (as_res s)"
  by (simp add: wp_def on_res_def split: prod.splits sum.splits)

definition on_kube :: "'a kact \<Rightarrow> ('o, 'a) hact" where
  "on_kube m = (\<lambda>s. case m \<lparr>kw_world = s_world (rs_sys (as_res s)), kw_codes = as_codes s\<rparr> of
     (r, k) \<Rightarrow> (r, s\<lparr>as_res := (as_res s)\<lparr>rs_sys := (rs_sys (as_res s))\<lparr>s_world := kw_world k\<rparr>\<rparr>, as_codes := kw_codes k\<rparr>))"

lemma wp_on_kube [wp_rules]: "wp (on_kube m) Q E s =
  wp m (\<lambda>x k. Q x (s\<lparr>as_res := (as_res s)\<lparr>rs_sys := (rs_sys (as_res s))\<lparr>s_world := kw_world k\<rparr>\<rparr>, as_codes := kw_codes k\<rparr>))
    (\<lambda>e k. E e (s\<lparr>as_res := (as_res s)\<lparr>rs_sys := (rs_sys (as_res s))\<lparr>s_world := kw_world k\<rparr>\<rparr>, as_codes := kw_codes k\<rparr>))
    \<lparr>kw_world = s_world (rs_sys (as_res s)), kw_codes = as_codes s\<rparr>"
  by (simp add: wp_def on_kube_def split: prod.splits sum.splits)

text \<open>\<open>hr_path\<close> is the route template; \<open>hr_login\<close> the user name in a JSON login body, empty if there is
  none.\<close>

record http_request =
  hr_method :: string
  hr_path :: string
  hr_param :: "string \<Rightarrow> string"
  hr_query :: "string \<Rightarrow> string"
  hr_authorization :: string
  hr_body :: string
  hr_login :: string
  hr_ip :: string
  hr_user_agent :: string
  hr_request_id :: string

text \<open>What a handler leaves: the status, the body, the access token in its data if there is one, the
  identity it ran as, and the name and namespace of a created resource.\<close>

record reply =
  rp_status :: int
  rp_body :: body
  rp_access_token :: string
  rp_identity :: "identity option"
  rp_created :: "string \<times> string"

subsection \<open>AuditService (service/audit.go)\<close>

definition SubscribeStream :: "('o, int) hact" where
  "SubscribeStream = (\<lambda>s. (Inr (as_next_sub s),
     s\<lparr>as_next_sub := wrap64 (as_next_sub s + 1), as_subs := al_put (as_next_sub s) [] (as_subs s)\<rparr>))"

definition Unsubscribe :: "int \<Rightarrow> ('o, unit) hact" where
  "Unsubscribe i = (\<lambda>s. (Inr (), s\<lparr>as_subs := al_del i (as_subs s)\<rparr>))"

text \<open>A send on a full channel is dropped.\<close>

definition broadcast :: "audit_log \<Rightarrow> ('o, unit) hact" where
  "broadcast e = (\<lambda>s. (Inr (), s\<lparr>as_subs := map (\<lambda>(i, ch). (i, if length ch < 64 then ch @ [e] else ch)) (as_subs s)\<rparr>))"

lemma wp_broadcast [wp_rules]: "wp (broadcast e) Q E s =
  Q () (s\<lparr>as_subs := map (\<lambda>(i, ch). (i, if length ch < 64 then ch @ [e] else ch)) (as_subs s)\<rparr>)"
  by (simp add: wp_def broadcast_def)

record audit_entry =
  ae_request_id :: string
  ae_user_id :: int
  ae_username :: string
  ae_action :: string
  ae_resource :: string
  ae_resource_type :: string
  ae_cluster :: string
  ae_namespace :: string
  ae_name :: string
  ae_source_ip :: string
  ae_user_agent :: string
  ae_result :: string

definition audit_row :: "audit_entry \<Rightarrow> audit_log" where
  "audit_row e = \<lparr>al_id = 0, al_request_id = ae_request_id e, al_user_id = ae_user_id e, al_username = ae_username e,
     al_action = ae_action e, al_resource = ae_resource e, al_resource_type = ae_resource_type e,
     al_cluster = ae_cluster e, al_namespace = ae_namespace e, al_name = ae_name e, al_source_ip = ae_source_ip e,
     al_user_agent = ae_user_agent e, al_result = ae_result e, al_created = 0\<rparr>"

definition Record :: "audit_entry \<Rightarrow> ('o, unit) hact" where
  "Record e = and_then (on_store (repo_CreateAuditLog (audit_row e))) (\<lambda>stored. broadcast (stored\<lparr>al_id := 0\<rparr>))"

definition ListAudit :: "audit_filter \<Rightarrow> pagination \<Rightarrow> ('o, audit_log result_body) hact" where
  "ListAudit q p = and_then (on_store (repo_ListAuditLogs q (Offset p) (pg_size p))) (\<lambda>(ls, n). ok (Result ls n p))"

subsection \<open>The middleware (middleware/audit.go)\<close>

definition authLoginPath :: string where "authLoginPath = ''/api/v1/auth/login''"
definition authRefresh :: string where "authRefresh = ''/api/v1/auth/refresh''"
definition authLogoutPath :: string where "authLogoutPath = ''/api/v1/auth/logout''"
definition clusterResourceCollectionPath :: string where
  "clusterResourceCollectionPath = ''/api/v1/clusters/:cluster/:resource''"

definition resourceTypeMap :: "(string \<times> string) list" where
  "resourceTypeMap = [
     (authLoginPath, ''auth''), (authRefresh, ''auth''), (authLogoutPath, ''auth''),
     (''/api/v1/users'', ''user''), (''/api/v1/users/:username'', ''user''), (''/api/v1/users/me'', ''user''),
     (''/api/v1/users/me/password'', ''user''), (''/api/v1/users/me/permissions'', ''user''),
     (''/api/v1/users/:username/status'', ''user''), (''/api/v1/users/:username/reset-password'', ''user''),
     (''/api/v1/roles'', ''role''), (''/api/v1/roles/:id'', ''role''),
     (''/api/v1/role-groups'', ''role-group''), (''/api/v1/role-groups/:id'', ''role-group''),
     (''/api/v1/role-groups/:id/roles'', ''role-group''), (''/api/v1/role-groups/:id/roles/:roleId'', ''role-group''),
     (''/api/v1/grants'', ''grant''), (''/api/v1/grants/:id'', ''grant''),
     (''/api/v1/user-groups'', ''user-group''), (''/api/v1/user-groups/:id'', ''user-group''),
     (''/api/v1/user-groups/:id/members'', ''user-group''), (''/api/v1/user-groups/:id/members/:userId'', ''user-group''),
     (''/api/v1/audit-logs'', ''audit-log''),
     (''/api/v1/enroll-tokens'', ''enroll-token''), (''/api/v1/enroll-tokens/:id'', ''enroll-token''),
     (''/api/v1/kubeconfigs'', ''kubeconfig''), (''/api/v1/kubeconfigs/:id'', ''kubeconfig''),
     (''/api/v1/clusters'', ''cluster''), (''/api/v1/clusters/:cluster'', ''cluster''),
     (''/api/v1/clusters/:cluster/status'', ''cluster''), (''/api/v1/clusters/:cluster/kubeconfig'', ''kubeconfig''),
     (''/api/v1/clusters/:cluster/kubeconfigs'', ''kubeconfig''),
     (''/api/v1/clusters/:cluster/kubeconfigs/download'', ''kubeconfig'')]"

definition pluralResourceMap :: "(string \<times> string) list" where
  "pluralResourceMap = [
     (''deployments'', ''deployment''), (''statefulsets'', ''statefulset''), (''daemonsets'', ''daemonset''),
     (''pods'', ''pod''), (''services'', ''service''), (''ingresses'', ''ingress''), (''configmaps'', ''configmap''),
     (''secrets'', ''secret''), (''pvcs'', ''persistent-volume-claim''), (''pvs'', ''persistent-volume''),
     (''nodes'', ''node''), (''namespaces'', ''namespace''), (''crds'', ''crd''), (''events'', ''event'')]"

definition ResourceTypeOf :: "string \<Rightarrow> string \<Rightarrow> string" where
  "ResourceTypeOf path resourceParam =
     (case map_of resourceTypeMap path of Some v \<Rightarrow> v
      | None \<Rightarrow> (case cut_prefix path ''/api/v1/clusters/:cluster/'' of None \<Rightarrow> path
        | Some rest \<Rightarrow>
          let seg = takeWhile (\<lambda>c. c \<noteq> CHR ''/'') rest;
              seg' = (if seg = '':resource'' then resourceParam else seg) in
          (case map_of pluralResourceMap seg' of Some v \<Rightarrow> v | None \<Rightarrow> path)))"

definition ActionOf :: "string \<Rightarrow> string \<Rightarrow> string" where
  "ActionOf method path =
     (if path = authLoginPath then ''login''
      else if path = authRefresh then ''refresh''
      else if path = authLogoutPath then ''logout''
      else if has_suffix path ''/restart'' then ''restart''
      else if has_suffix path ''/scale'' then ''scale''
      else if path = clusterResourceCollectionPath then ''create''
      else if method = ''DELETE'' then ''delete'' else ''write'')"

text \<open>The middle part of a token; \<open>payload\<close> decodes it (base64 and JSON) to its user name.\<close>

definition usernameFromAccessTokenJWT :: "(string \<Rightarrow> string) \<Rightarrow> string \<Rightarrow> string" where
  "usernameFromAccessTokenJWT payload token = (case split_on (CHR ''.'') token of [_, p, _] \<Rightarrow> payload p | _ \<Rightarrow> '''')"

definition audit_username :: "(string \<Rightarrow> string) \<Rightarrow> http_request \<Rightarrow> reply \<Rightarrow> string" where
  "audit_username payload req rp =
     (let login = (if hr_path req = authLoginPath then hr_login req else '''');
          name = (if login = '''' then (case rp_identity rp of None \<Rightarrow> '''' | Some i \<Rightarrow> id_username i) else login) in
      if hr_path req = authRefresh \<and> rp_status rp < 400
      then usernameFromAccessTokenJWT payload (rp_access_token rp) else name)"

definition audit_place :: "http_request \<Rightarrow> reply \<Rightarrow> string \<times> string" where
  "audit_place req rp =
     (let (n, ns) = (if hr_path req = clusterResourceCollectionPath then rp_created rp else ('''', '''')) in
      (if n \<noteq> '''' then n else hr_param req ''name'', if ns \<noteq> '''' then ns else hr_query req ''namespace''))"

text \<open>\<open>auditRecorder.Record\<close> (router.go) fills in the identity only if the middleware found no name.\<close>

definition recorder_entry :: "(string \<Rightarrow> string) \<Rightarrow> http_request \<Rightarrow> reply \<Rightarrow> audit_entry" where
  "recorder_entry payload req rp =
     (let name = audit_username payload req rp;
          (uid, who) = (if name = '''' then (case rp_identity rp of None \<Rightarrow> (0, '''') | Some i \<Rightarrow> (id_user i, id_username i))
                        else (0, name)) in
      \<lparr>ae_request_id = hr_request_id req, ae_user_id = uid, ae_username = who,
       ae_action = ActionOf (hr_method req) (hr_path req), ae_resource = hr_path req,
       ae_resource_type = ResourceTypeOf (hr_path req) (hr_param req ''resource''),
       ae_cluster = hr_param req ''cluster'', ae_namespace = snd (audit_place req rp), ae_name = fst (audit_place req rp),
       ae_source_ip = hr_ip req, ae_user_agent = hr_user_agent req,
       ae_result = (if rp_status rp \<ge> 400 then ''deny'' else ''allow'')\<rparr>)"

definition writes :: "http_request \<Rightarrow> bool" where
  "writes req \<longleftrightarrow> hr_method req \<in> {''POST'', ''PUT'', ''DELETE'', ''PATCH''}"

definition drop_err :: "('s, 'a) gm \<Rightarrow> ('s, unit) gm" where
  "drop_err m = on_result m (\<lambda>_. ok ()) (\<lambda>_. ok ())"

definition Audit :: "(string \<Rightarrow> string) \<Rightarrow> http_request \<Rightarrow> ('o, reply) hact \<Rightarrow> ('o, reply) hact" where
  "Audit payload req next_handler = and_then next_handler (\<lambda>rp.
     if writes req then and_then (drop_err (Record (recorder_entry payload req rp))) (\<lambda>_. ok rp) else ok rp)"

subsection \<open>Properties\<close>

definition audit_rows :: "'o astate \<Rightarrow> audit_log list" where
  "audit_rows s = trows (db_audit_logs (w_db (s_world (rs_sys (as_res s)))))"

lemma wp_drop_err [wp_rules]: "wp (drop_err m) Q E s = wp m (\<lambda>_. Q ()) (\<lambda>_. Q ()) s"
  by (simp add: drop_err_def wp_rules)

lemma wp_Record:
  "wp (Record e) (\<lambda>_ s'. \<exists>i t. audit_rows s' = audit_rows s @ [(audit_row e)\<lparr>al_id := i, al_created := t\<rparr>])
     (\<lambda>_ s'. audit_rows s' = audit_rows s \<and> w_faults (s_world (rs_sys (as_res s))) \<noteq> []) s"
  by (auto simp: Record_def on_store_def repo_CreateAuditLog_def wp_rules audit_rows_def audit_row_def tbl_insert_def
      audit_log_uniq_def fault_def Let_def list_ex_iff split: option.splits if_splits)

end
