(* ===== verification/Http_Access.thy ===== *)
theory Http_Access
  imports Auditing
begin

text \<open>
  Access control of the resource API: the authentication and permission middlewares
  (middleware/auth.go), the resource handlers (handler/resource.go) and the routes that put them
  together (handler/router.go). What is proved: which requests may reach an API server, for whom.
\<close>

subsection \<open>Middlewares (middleware/auth.go)\<close>

text \<open>With \<open>PermissionsFor\<close> injected, as \<open>main\<close> does.\<close>

definition HasPerm :: "identity \<Rightarrow> string \<Rightarrow> bool" where
  "HasPerm ident perm \<longleftrightarrow> list_ex (\<lambda>p. p = ''*'' \<or> p = perm) (PermissionsFor (id_role ident))"

text \<open>With \<open>RoleService.Authorize\<close> injected.\<close>

definition HasPermScope :: "identity \<Rightarrow> string \<Rightarrow> string \<Rightarrow> string \<Rightarrow> ('o, bool) hact" where
  "HasPermScope ident perm cluster ns = on_store (Authorize (id_user ident) (id_role ident) perm cluster ns)"

definition RequirePerm :: "identity \<Rightarrow> string \<Rightarrow> ('o, unit) hact" where
  "RequirePerm ident perm = guard (HasPerm ident perm) (New Forbidden (''insufficient privilege: '' @ perm))"

definition RequirePermScope :: "http_request \<Rightarrow> identity \<Rightarrow> string \<Rightarrow> ('o, unit) hact" where
  "RequirePermScope req ident perm =
     and_then (HasPermScope ident perm (hr_param req ''cluster'') (hr_query req ''namespace'')) (\<lambda>b.
     guard b (New Forbidden (''insufficient privilege: '' @ perm)))"

definition AdminOnly :: "identity \<Rightarrow> ('o, unit) hact" where
  "AdminOnly ident = guard (id_role ident = ''admin'') (New Forbidden ''admin privilege required'')"

definition Auth :: "libs \<Rightarrow> string \<Rightarrow> http_request \<Rightarrow> ('o, identity) hact" where
  "Auth l secret req =
     (case cut_prefix (hr_authorization req) ''Bearer '' of
        None \<Rightarrow> err (New Unauthorized ''missing bearer token'')
      | Some token \<Rightarrow> if token = '''' then err (New Unauthorized ''missing bearer token'')
          else on_result (on_store (VerifyAccessToken l secret token))
            (\<lambda>_. err (New Unauthorized ''invalid or expired token'')) ok)"

subsection \<open>Resource handlers (handler/resource.go)\<close>

definition nsOf :: "http_request \<Rightarrow> string" where
  "nsOf req = hr_query req ''namespace''"

abbreviation cluster_of :: "http_request \<Rightarrow> string" where
  "cluster_of req \<equiv> hr_param req ''cluster''"

abbreviation resource_of :: "http_request \<Rightarrow> string" where
  "resource_of req \<equiv> hr_param req ''resource''"

abbreviation name_of :: "http_request \<Rightarrow> string" where
  "name_of req \<equiv> hr_param req ''name''"

definition listResources :: "'o objlib \<Rightarrow> 'o api \<Rightarrow> http_request \<Rightarrow> ('o, resource_item result_body) hact" where
  "listResources L A req =
     (case Parse (hr_query req) of
        Inl e \<Rightarrow> err (WithCause (New ParamInvalid ''invalid pagination'') e)
      | Inr p \<Rightarrow> on_res (List_resources L A (cluster_of req) (resource_of req)
          \<lparr>lq_namespace = hr_query req ''namespace'', lq_label = hr_query req ''labelSelector'',
           lq_field = hr_query req ''fieldSelector'', lq_sort_by = hr_query req ''sortBy'', lq_order = hr_query req ''order'',
           lq_keyword = hr_query req ''keyword'', lq_page = pg_page p, lq_size = pg_size p\<rparr>))"

definition operatorOrAbove :: "identity \<Rightarrow> bool" where
  "operatorOrAbove ident \<longleftrightarrow> id_role ident = ''admin'' \<or> id_role ident = ''operator''"

definition recordSecretRevealAudit :: "http_request \<Rightarrow> identity \<Rightarrow> ('o, unit) hact" where
  "recordSecretRevealAudit req ident = drop_err (Record
     \<lparr>ae_request_id = hr_request_id req, ae_user_id = id_user ident, ae_username = id_username ident,
      ae_action = ''reveal-secret'', ae_resource = ''secrets'', ae_resource_type = ''secret'',
      ae_cluster = cluster_of req, ae_namespace = nsOf req, ae_name = name_of req,
      ae_source_ip = hr_ip req, ae_user_agent = hr_user_agent req, ae_result = ''allow''\<rparr>)"

text \<open>The answer of the detail handler: decoded secret data, or the object.\<close>

datatype 'o detail = Decoded "(string \<times> string) list" | Object 'o

definition getResource :: "'o objlib \<Rightarrow> 'o api \<Rightarrow> http_request \<Rightarrow> identity \<Rightarrow> ('o, 'o detail) hact" where
  "getResource L A req ident =
     (let reveal = (hr_query req ''reveal'' = ''true'') in
      and_then (if reveal then
           and_then (guard (operatorOrAbove ident) (New Forbidden ''secret reveal requires operator privilege'')) (\<lambda>_.
           recordSecretRevealAudit req ident)
         else ok ()) (\<lambda>_.
      if hr_query req ''decode'' = ''true'' then
        and_then (guard reveal (New ParamInvalid ''decode requires reveal=true'')) (\<lambda>_.
        and_then (on_res (SecretData L A (cluster_of req) (nsOf req) (name_of req))) (\<lambda>d. ok (Decoded d)))
      else and_then (on_res (Get_resource L A (cluster_of req) (resource_of req) (nsOf req) (name_of req) reveal)) (\<lambda>x.
        ok (Object x))))"

definition getResourceYAML :: "'o objlib \<Rightarrow> 'o api \<Rightarrow> http_request \<Rightarrow> ('o, string) hact" where
  "getResourceYAML L A req = on_res (GetYAML L A (cluster_of req) (resource_of req) (nsOf req) (name_of req))"

text \<open>\<open>yaml\<close> and \<open>replicas\<close> are the bound fields of the JSON body; \<open>None\<close> is a failed binding.\<close>

definition putResourceYAML :: "'o objlib \<Rightarrow> 'o api \<Rightarrow> http_request \<Rightarrow> string option \<Rightarrow> ('o, 'o) hact" where
  "putResourceYAML L A req yaml = (case yaml of None \<Rightarrow> err (New ParamInvalid ''yaml is required'')
     | Some t \<Rightarrow> on_res (UpdateYAML L A (cluster_of req) (resource_of req) (nsOf req) (name_of req) t))"

definition createResource :: "'o objlib \<Rightarrow> 'o api \<Rightarrow> http_request \<Rightarrow> ('o, 'o) hact" where
  "createResource L A req = on_res (CreateResource L A (cluster_of req) (resource_of req) (nsOf req) (hr_body req))"

definition deleteResource :: "'o api \<Rightarrow> http_request \<Rightarrow> ('o, unit) hact" where
  "deleteResource A req = on_res (Delete_resource A (cluster_of req) (resource_of req) (nsOf req) (name_of req))"

definition restartPod :: "'o api \<Rightarrow> http_request \<Rightarrow> ('o, unit) hact" where
  "restartPod A req = on_res (RestartPod A (cluster_of req) (nsOf req) (name_of req))"

definition restartDeployment :: "'o objlib \<Rightarrow> 'o api \<Rightarrow> http_request \<Rightarrow> ('o, 'o) hact" where
  "restartDeployment L A req = on_res (RestartDeployment L A (cluster_of req) (nsOf req) (name_of req))"

definition scaleDeployment :: "'o api \<Rightarrow> http_request \<Rightarrow> int option \<Rightarrow> ('o, 'o) hact" where
  "scaleDeployment A req replicas = (case replicas of None \<Rightarrow> err (New ParamInvalid ''replicas is required'')
     | Some n \<Rightarrow> on_res (ScaleDeployment A (cluster_of req) (nsOf req) (name_of req) n))"

text \<open>An optional non-negative number of the query.\<close>

definition query_count :: "http_request \<Rightarrow> string \<Rightarrow> gerr + int" where
  "query_count req k = (if hr_query req k = '''' then Inr 0
     else case atoi (hr_query req k) of None \<Rightarrow> Inl (New ParamInvalid (''invalid '' @ k))
       | Some n \<Rightarrow> if n < 0 then Inl (New ParamInvalid (''invalid '' @ k)) else Inr n)"

definition podLogs :: "'o api \<Rightarrow> http_request \<Rightarrow> ('o, string \<times> string) hact" where
  "podLogs A req =
     and_then (from_sum (query_count req ''tailLines'')) (\<lambda>tail.
     and_then (from_sum (query_count req ''sinceSeconds'')) (\<lambda>since.
     on_res (PodLogs A (cluster_of req) (nsOf req) (name_of req)
       \<lparr>gq_container = hr_query req ''container'', gq_tail = tail, gq_since = since,
        gq_previous = (hr_query req ''previous'' = ''true'')\<rparr>)))"

definition listEvents :: "'o api \<Rightarrow> http_request \<Rightarrow> ('o, event_item result_body) hact" where
  "listEvents A req =
     (case Parse (hr_query req) of
        Inl e \<Rightarrow> err (WithCause (New ParamInvalid ''invalid pagination'') e)
      | Inr p \<Rightarrow> on_res (Events A (cluster_of req) (nsOf req) (hr_query req ''fieldSelector'') p))"

definition nodeMetrics :: "'o api \<Rightarrow> http_request \<Rightarrow> ('o, node_metrics list) hact" where
  "nodeMetrics A req = on_res (NodeMetrics A (cluster_of req))"

definition podMetrics :: "'o api \<Rightarrow> http_request \<Rightarrow> ('o, pod_metrics list) hact" where
  "podMetrics A req = on_res (PodMetrics A (cluster_of req) (nsOf req))"

subsection \<open>Routes (handler/router.go)\<close>

datatype route =
    ListResources | CreateResourceR | GetResource | GetYAMLR | PutYAML "string option" | DeleteResource
  | RestartPodR | RestartDeploymentR | ScaleDeploymentR "int option" | PodLogsR | ListEvents
  | NodeMetricsR | PodMetricsR

fun route_perm :: "route \<Rightarrow> string" where
  "route_perm ListResources = ''resources:read''"
| "route_perm CreateResourceR = ''resources:write''"
| "route_perm GetResource = ''resources:read''"
| "route_perm GetYAMLR = ''resources:read''"
| "route_perm (PutYAML _) = ''resources:write''"
| "route_perm DeleteResource = ''resources:write''"
| "route_perm RestartPodR = ''resources:write''"
| "route_perm RestartDeploymentR = ''resources:write''"
| "route_perm (ScaleDeploymentR _) = ''resources:write''"
| "route_perm PodLogsR = ''resources:read''"
| "route_perm ListEvents = ''events:read''"
| "route_perm NodeMetricsR = ''metrics:read''"
| "route_perm PodMetricsR = ''metrics:read''"

definition finish :: "('o, 'a) hact \<Rightarrow> ('a \<Rightarrow> string \<times> string) \<Rightarrow> ('o, string \<times> string) hact" where
  "finish m created = and_then m (\<lambda>x. ok (created x))"

fun route_handler :: "'o objlib \<Rightarrow> 'o api \<Rightarrow> http_request \<Rightarrow> identity \<Rightarrow> route \<Rightarrow> ('o, string \<times> string) hact" where
  "route_handler L A req ident ListResources = finish (listResources L A req) (\<lambda>_. ('''', ''''))"
| "route_handler L A req ident CreateResourceR = finish (createResource L A req) (\<lambda>x. (ob_name L x, ob_namespace L x))"
| "route_handler L A req ident GetResource = finish (getResource L A req ident) (\<lambda>_. ('''', ''''))"
| "route_handler L A req ident GetYAMLR = finish (getResourceYAML L A req) (\<lambda>_. ('''', ''''))"
| "route_handler L A req ident (PutYAML y) = finish (putResourceYAML L A req y) (\<lambda>_. ('''', ''''))"
| "route_handler L A req ident DeleteResource = finish (deleteResource A req) (\<lambda>_. ('''', ''''))"
| "route_handler L A req ident RestartPodR = finish (restartPod A req) (\<lambda>_. ('''', ''''))"
| "route_handler L A req ident RestartDeploymentR = finish (restartDeployment L A req) (\<lambda>_. ('''', ''''))"
| "route_handler L A req ident (ScaleDeploymentR n) = finish (scaleDeployment A req n) (\<lambda>_. ('''', ''''))"
| "route_handler L A req ident PodLogsR = finish (podLogs A req) (\<lambda>_. ('''', ''''))"
| "route_handler L A req ident ListEvents = finish (listEvents A req) (\<lambda>_. ('''', ''''))"
| "route_handler L A req ident NodeMetricsR = finish (nodeMetrics A req) (\<lambda>_. ('''', ''''))"
| "route_handler L A req ident PodMetricsR = finish (podMetrics A req) (\<lambda>_. ('''', ''''))"

text \<open>One request: \<open>Audit\<close>, \<open>Auth\<close>, \<open>RequirePermScope\<close> and the handler, in the order the router
  mounts them.\<close>

record 'o server =
  sv_libs :: libs
  sv_secret :: string
  sv_payload :: "string \<Rightarrow> string"
  sv_objects :: "'o objlib"
  sv_api :: "'o api"

definition fail_reply :: "identity option \<Rightarrow> gerr \<Rightarrow> reply" where
  "fail_reply ident e = \<lparr>rp_status = fst (Fail e), rp_body = snd (Fail e), rp_access_token = '''', rp_identity = ident,
     rp_created = ('''', '''')\<rparr>"

definition ok_reply :: "identity \<Rightarrow> string \<times> string \<Rightarrow> reply" where
  "ok_reply ident c = \<lparr>rp_status = 200, rp_body = \<lparr>b_code = 0, b_message = ''ok''\<rparr>, rp_access_token = '''',
     rp_identity = Some ident, rp_created = c\<rparr>"

definition serve :: "'o server \<Rightarrow> http_request \<Rightarrow> route \<Rightarrow> ('o, reply) hact" where
  "serve sv req rt = Audit (sv_payload sv) req
     (on_result (Auth (sv_libs sv) (sv_secret sv) req) (\<lambda>e. ok (fail_reply None e)) (\<lambda>ident.
      on_result (and_then (RequirePermScope req ident (route_perm rt)) (\<lambda>_.
           route_handler (sv_objects sv) (sv_api sv) req ident rt))
        (\<lambda>e. ok (fail_reply (Some ident) e)) (\<lambda>c. ok (ok_reply ident c))))"
subsection \<open>Which requests leave the server\<close>

fun request_ns :: "'o request \<Rightarrow> string option" where
  "request_ns (RList _ ns _ _) = ns"
| "request_ns (RGet _ ns _) = ns"
| "request_ns (RCreate _ ns _) = ns"
| "request_ns (RUpdate _ ns _) = ns"
| "request_ns (RDelete _ ns _) = ns"
| "request_ns (RPatch _ ns _ _ _ _) = ns"
| "request_ns (RLogs ns _ _ _ _ _) = Some ns"
| "request_ns (REvents ns _) = Some ns"
| "request_ns RNodeMetrics = None"
| "request_ns RNodes = None"
| "request_ns (RPodMetrics ns) = Some ns"

fun is_create :: "'o request \<Rightarrow> bool" where
  "is_create (RCreate _ _ _) = True"
| "is_create _ = False"

text \<open>A request of a route: to the cluster of the path, and cluster-wide or in the namespace of the
  query, which are the place the permission was checked for. Only the creation of an object goes
  where the object says.\<close>

definition in_place :: "http_request \<Rightarrow> route \<Rightarrow> string \<times> 'o request \<Rightarrow> bool" where
  "in_place req rt p \<longleftrightarrow> fst p = hr_param req ''cluster'' \<and>
     (request_ns (snd p) \<in> {None, Some (hr_query req ''namespace'')} \<or> rt = CreateResourceR \<and> is_create (snd p))"

definition sentR :: "(string \<times> 'o request) list \<Rightarrow> (string \<times> 'o request \<Rightarrow> bool) \<Rightarrow> 'o rstate \<Rightarrow> bool" where
  "sentR old P s \<longleftrightarrow> (\<exists>ext. rs_sent s = old @ ext \<and> list_all P ext)"

lemma sentR_send [pres_rules]: "P (c, q) \<Longrightarrow> preserves (sentR old P) (send c f q)"
  by (force simp: preserves_def sentR_def send_def)

lemma sentR_send_raw [pres_rules]: "P (c, q) \<Longrightarrow> preserves (sentR old P) (send_raw c f q)"
  by (force simp: preserves_def sentR_def send_raw_def)

lemma sentR_on_sys [pres_rules]: "preserves (sentR old P) (on_sys m)"
  by (auto simp: preserves_def sentR_def on_sys_def split: prod.splits)

lemma sentR_on_res [pres_rules]: "preserves I m \<Longrightarrow> preserves (\<lambda>s. I (as_res s)) (on_res m)"
  by (auto simp: preserves_def on_res_def split: prod.splits)

lemma sentR_hact [pres_rules]:
  "preserves (\<lambda>s. sentR old P (as_res s)) (on_store m)" "preserves (\<lambda>s. sentR old P (as_res s)) (broadcast e)"
  unfolding on_store_def by (intro pres_rules) (simp add: preserves_def broadcast_def)

lemma preserves_drop_err [pres_rules]: "preserves I m \<Longrightarrow> preserves I (drop_err m)"
  unfolding drop_err_def by (intro pres_rules)

lemmas resource_ops = List_resources_def Get_resource_def SecretData_def GetYAML_def UpdateYAML_def Delete_resource_def
  CreateResource_def RestartPod_def RestartDeployment_def ScaleDeployment_def PodLogs_def Events_def runtimeOf_def
  resolve_def dynList_def dynGet_def ns_of_def NodeMetrics_def PodMetrics_def nodeMetricsList_def podMetricsList_def
  nodeAllocatable_def

lemmas handler_defs = listResources_def getResource_def getResourceYAML_def putResourceYAML_def createResource_def
  deleteResource_def restartPod_def restartDeployment_def scaleDeployment_def podLogs_def listEvents_def
  nodeMetrics_def podMetrics_def
  recordSecretRevealAudit_def Record_def finish_def nsOf_def

lemma ops_in_place:
  assumes "rt \<noteq> CreateResourceR"
  shows "preserves (sentR old (in_place req rt)) (List_resources L A (hr_param req ''cluster'') r (q\<lparr>lq_namespace := hr_query req ''namespace''\<rparr>))"
    and "preserves (sentR old (in_place req rt)) (Get_resource L A (hr_param req ''cluster'') r (hr_query req ''namespace'') n b)"
    and "preserves (sentR old (in_place req rt)) (UpdateYAML L A (hr_param req ''cluster'') r (hr_query req ''namespace'') n y)"
    and "preserves (sentR old (in_place req rt)) (Delete_resource A (hr_param req ''cluster'') r (hr_query req ''namespace'') n)"
    and "preserves (sentR old (in_place req rt)) (RestartPod A (hr_param req ''cluster'') (hr_query req ''namespace'') n)"
    and "preserves (sentR old (in_place req rt)) (RestartDeployment L A (hr_param req ''cluster'') (hr_query req ''namespace'') n)"
    and "preserves (sentR old (in_place req rt)) (ScaleDeployment A (hr_param req ''cluster'') (hr_query req ''namespace'') n k)"
    and "preserves (sentR old (in_place req rt)) (PodLogs A (hr_param req ''cluster'') (hr_query req ''namespace'') n g)"
    and "preserves (sentR old (in_place req rt)) (Events A (hr_param req ''cluster'') (hr_query req ''namespace'') f p)"
    and "preserves (sentR old (in_place req rt)) (NodeMetrics A (hr_param req ''cluster''))"
    and "preserves (sentR old (in_place req rt)) (PodMetrics A (hr_param req ''cluster'') (hr_query req ''namespace''))"
  unfolding resource_ops Let_def
  by (intro pres_rules; simp add: in_place_def pres_rules split: if_splits sum.splits)+

lemma create_in_place:
  "preserves (sentR old (in_place req CreateResourceR)) (CreateResource L A (hr_param req ''cluster'') r ns b)"
  unfolding resource_ops Let_def
  by (intro pres_rules; simp add: in_place_def pres_rules split: if_splits sum.splits)

lemma list_in_place:
  assumes "rt \<noteq> CreateResourceR"
  shows "preserves (sentR old (in_place req rt)) (List_resources L A (hr_param req ''cluster'') r
      \<lparr>lq_namespace = hr_query req ''namespace'', lq_label = l, lq_field = f, lq_sort_by = sb, lq_order = od, lq_keyword = k,
       lq_page = pg, lq_size = sz\<rparr>)"
  using ops_in_place(1) [OF assms, of old req L A r "\<lparr>lq_namespace = '''', lq_label = l, lq_field = f, lq_sort_by = sb,
       lq_order = od, lq_keyword = k, lq_page = pg, lq_size = sz\<rparr>"] by simp

lemma handler_in_place:
  "preserves (\<lambda>s. sentR old (in_place req rt) (as_res s)) (route_handler L A req ident rt)"
  by (cases rt) (auto simp: handler_defs Let_def SecretData_def GetYAML_def split: sum.splits option.splits
      intro!: pres_rules ops_in_place list_in_place create_in_place)

definition database_of :: "'o astate \<Rightarrow> database" where
  "database_of s = w_db (s_world (rs_sys (as_res s)))"

definition sent_of :: "'o astate \<Rightarrow> (string \<times> 'o request) list" where
  "sent_of s = rs_sent (as_res s)"

definition bearer :: "http_request \<Rightarrow> string" where
  "bearer req = (case cut_prefix (hr_authorization req) ''Bearer '' of None \<Rightarrow> '''' | Some t \<Rightarrow> t)"

text \<open>The identity a token proves at a time: none, if the library rejects it.\<close>

definition proves :: "libs \<Rightarrow> string \<Rightarrow> time \<Rightarrow> string \<Rightarrow> identity \<Rightarrow> bool" where
  "proves l k t tok ident \<longleftrightarrow> tok \<noteq> '''' \<and> (\<exists>c. jwt_parse l (keyfunc k) t tok = Inr c \<and>
     ident = \<lparr>id_user = c_uid c, id_username = c_username c, id_role = c_role c\<rparr>)"

lemma wp_Auth:
  "wp (Auth l k req) (\<lambda>ident s'. s' = s \<and> proves l k (w_now (s_world (rs_sys (as_res s)))) (bearer req) ident)
     (\<lambda>_ s'. s' = s) s"
  by (auto simp: Auth_def VerifyAccessToken_def on_store_def wp_rules bearer_def proves_def split: option.splits sum.splits)

lemma wp_RequirePermScope:
  assumes "db_wf (database_of s)"
  shows "wp (RequirePermScope req ident perm) (\<lambda>_ s'. sent_of s' = sent_of s \<and> database_of s' = database_of s \<and>
       authorized (database_of s) (id_user ident) (id_role ident) perm (hr_param req ''cluster'') (hr_query req ''namespace''))
     (\<lambda>_ s'. sent_of s' = sent_of s) s"
  using assms unfolding RequirePermScope_def HasPermScope_def on_store_def wp_rules
  by (intro wp_mono [OF wp_Authorize]) (auto simp: database_of_def sent_of_def)

lemma Record_sent: "wp (Record e) (\<lambda>_ s'. sent_of s' = sent_of s) (\<lambda>_ s'. sent_of s' = sent_of s) s"
proof -
  have "wp (on_store m) (\<lambda>_ s'. sent_of s' = sent_of s) (\<lambda>_ s'. sent_of s' = sent_of s) s" for m :: "audit_log act"
    by (auto simp: wp_def on_store_def on_res_def on_sys_def on_world_def sent_of_def split: prod.splits sum.splits)
  then show ?thesis
    unfolding Record_def wp_and_then by (rule wp_mono) (simp_all add: wp_rules sent_of_def)
qed

lemma Audit_sent:
  assumes "wp m (\<lambda>_ s'. G (sent_of s')) (\<lambda>_ _. False) s"
  shows "wp (Audit p req m) (\<lambda>_ s'. G (sent_of s')) (\<lambda>_ _. False) s"
  unfolding Audit_def wp_and_then
proof (rule wp_mono [OF assms])
  fix rp s' assume G: "G (sent_of s')"
  show "wp (if writes req then and_then (drop_err (Record (recorder_entry p req rp))) (\<lambda>_. ok rp) else ok rp)
     (\<lambda>_ s'. G (sent_of s')) (\<lambda>_ _. False) s'"
    using G by (auto simp: wp_rules intro!: wp_mono [OF Record_sent])
qed

lemma handler_sent:
  "wp (route_handler L A req ident rt) (\<lambda>_ s'. \<exists>ext. sent_of s' = sent_of s @ ext \<and> (\<forall>x \<in> set ext. in_place req rt x))
     (\<lambda>_ s'. \<exists>ext. sent_of s' = sent_of s @ ext \<and> (\<forall>x \<in> set ext. in_place req rt x)) s"
  using handler_in_place [of "rs_sent (as_res s)" req rt L A ident]
  unfolding preserves_wp sentR_def sent_of_def list_all_iff by (auto dest!: spec [of _ s])


subsection \<open>Examples\<close>

text \<open>User 7 of the example database, whose grant gives \<open>resources:write\<close> in namespace \<open>ns1\<close> of
  cluster \<open>c1\<close> only.\<close>

definition demo_server :: "thing server" where
  "demo_server = \<lparr>sv_libs = demo_libs, sv_secret = ''key'', sv_payload = (\<lambda>p. p), sv_objects = thing_lib, sv_api = thing_api\<rparr>"

definition demo_astate :: "thing astate" where
  "demo_astate = \<lparr>as_res = \<lparr>rs_sys = \<lparr>s_world = demo [], s_registry = [], s_runtimes = [(''c1'', east_runtime)], s_dialers = [],
     s_listeners = [], s_next_listener = 0, s_next_inst = 1, s_stopped = [], s_sent = []\<rparr>, rs_sent = []\<rparr>,
     as_subs = [], as_next_sub = 0, as_codes = Map.empty\<rparr>"

definition demo_http :: "string \<Rightarrow> string \<Rightarrow> string \<Rightarrow> string \<Rightarrow> http_request" where
  "demo_http method resource name ns = \<lparr>hr_method = method, hr_path = ''/api/v1/clusters/:cluster/:resource/:name'',
     hr_param = (\<lambda>k. if k = ''cluster'' then ''c1'' else if k = ''resource'' then resource else if k = ''name'' then name else ''''),
     hr_query = (\<lambda>k. if k = ''namespace'' then ns else ''''), hr_authorization = ''Bearer jwt'', hr_body = ''{}'',
     hr_login = '''', hr_ip = '''', hr_user_agent = '''', hr_request_id = ''r''\<rparr>"

definition eve :: identity where
  "eve = \<lparr>id_user = 7, id_username = ''eve'', id_role = ''viewer''\<rparr>"

definition delete_p :: http_request where
  "delete_p = demo_http ''DELETE'' ''pods'' ''p'' ''ns1''"

definition delete_p_request :: "string \<times> thing request" where
  "delete_p_request = (''c1'', RDelete \<lparr>gv_group = '''', gv_version = ''v1'', gv_resource = ''pods''\<rparr> (Some ''ns1'') ''p'')"

lemma demo_steps:
  "fst (Auth demo_libs ''key'' delete_p demo_astate) = Inr eve"
  "map_prod id as_res (RequirePermScope delete_p eve ''resources:write'' demo_astate) = (Inr (), as_res demo_astate)"
  "fst (route_handler thing_lib thing_api delete_p eve DeleteResource demo_astate) = Inr ('''', '''')"
  "sent_of (snd (route_handler thing_lib thing_api delete_p eve DeleteResource demo_astate)) = [delete_p_request]"
  by code_simp+

lemma RequirePermScope_frame: "\<exists>t. snd (RequirePermScope req ident perm s) = s\<lparr>as_res := t\<rparr>"
  by (auto simp: RequirePermScope_def HasPermScope_def on_store_def on_res_def and_then_def on_result_def guard_def ok_def err_def
    split: prod.split sum.split)

lemma demo_admitted:
  "Auth demo_libs ''key'' delete_p demo_astate = (Inr eve, demo_astate)"
  "RequirePermScope delete_p eve ''resources:write'' demo_astate = (Inr (), demo_astate)"
proof -
  show "Auth demo_libs ''key'' delete_p demo_astate = (Inr eve, demo_astate)"
    using demo_steps(1) wp_Auth [of demo_libs "''key''" delete_p demo_astate]
    by (cases "Auth demo_libs ''key'' delete_p demo_astate") (simp add: wp_def)
  obtain t where "snd (RequirePermScope delete_p eve ''resources:write'' demo_astate) = demo_astate\<lparr>as_res := t\<rparr>"
    using RequirePermScope_frame by blast
  then show "RequirePermScope delete_p eve ''resources:write'' demo_astate = (Inr (), demo_astate)"
    using demo_steps(2) by (cases "RequirePermScope delete_p eve ''resources:write'' demo_astate") simp
qed

lemma demo_serves: "\<exists>rp s'. serve demo_server delete_p DeleteResource demo_astate = (Inr rp, s') \<and> sent_of s' = [delete_p_request]"
proof -
  obtain s1 where h: "route_handler thing_lib thing_api delete_p eve DeleteResource demo_astate = (Inr ('''', ''''), s1)"
    "sent_of s1 = [delete_p_request]" using demo_steps(3,4) by (metis prod.collapse)
  have "wp (serve demo_server delete_p DeleteResource) (\<lambda>_ s'. sent_of s' = [delete_p_request]) (\<lambda>_ _. False) demo_astate"
    unfolding serve_def
    by (rule Audit_sent) (simp add: wp_def on_result_def and_then_def demo_server_def demo_admitted h ok_def del: route_handler.simps)
  then show ?thesis by (auto simp: wp_def split: prod.splits sum.splits)
qed



subsection \<open>Where the namespace of the check is not the namespace of the request\<close>

text \<open>With \<open>resources:write\<close> in \<open>ns1\<close> only: an object whose manifest names another namespace is created
  there; a cluster-scoped object is deleted, because its namespace query is ignored; and with no
  namespace query at all every namespace is listed, because an empty namespace matches any scope.\<close>

definition kube_system_lib :: "thing objlib" where
  "kube_system_lib = thing_lib\<lparr>yaml_unmarshal := (\<lambda>_. Inr \<lparr>th_name = ''x'', th_ns = ''kube-system'', th_created = 1, th_data = None\<rparr>)\<rparr>"

lemma namespace_scope_bypass:
  "fst (Authorize 7 ''viewer'' ''resources:write'' ''c1'' ''kube-system'' (demo [])) = Inr False"
  "fst (RequirePermScope (demo_http ''POST'' ''pods'' '''' ''ns1'') eve ''resources:write'' demo_astate) = Inr ()"
  "sent_of (snd (route_handler kube_system_lib thing_api (demo_http ''POST'' ''pods'' '''' ''ns1'') eve CreateResourceR demo_astate)) =
     [(''c1'', RCreate \<lparr>gv_group = '''', gv_version = ''v1'', gv_resource = ''pods''\<rparr> (Some ''kube-system'')
        \<lparr>th_name = ''x'', th_ns = ''kube-system'', th_created = 1, th_data = None\<rparr>)]"
  "sent_of (snd (route_handler thing_lib thing_api (demo_http ''DELETE'' ''nodes'' ''n1'' ''ns1'') eve DeleteResource demo_astate)) =
     [(''c1'', RDelete \<lparr>gv_group = '''', gv_version = ''v1'', gv_resource = ''nodes''\<rparr> None ''n1'')]"
  "fst (RequirePermScope (demo_http ''GET'' ''pods'' '''' '''') eve ''resources:write'' demo_astate) = Inr ()"
  by code_simp+

text \<open>The middleware always finds a name for an authenticated request, so the recorder never fills in
  the user's key: the row has user id 0.\<close>

lemma audit_user_id_lost:
  "id_username i \<noteq> '''' \<Longrightarrow> rp_identity rp = Some i \<Longrightarrow> hr_path req \<noteq> authRefresh \<Longrightarrow>
     ae_user_id (recorder_entry payload req rp) = 0"
  by (auto simp: recorder_entry_def audit_username_def Let_def split: prod.splits)

end
