(* ===== verification/Wsx.thy ===== *)
theory Wsx
  imports Errcode
begin

text \<open>
  The frames of the WebSocket endpoints (pkg/wsx/protocol.go), the payloads of the agent channel
  (agent/tunnel.go), and the part of \<open>encoding/json\<close> that reads them: \<open>json.Unmarshal\<close> of a
  decoded JSON value into a struct. Keys match without regard to case, the last of several
  occurrences wins, \<open>null\<close> leaves a field alone, and a value of the wrong type is an error. The
  step from text to JSON values is \<open>encoding/json\<close>'s own.
\<close>

datatype json = JNull | JBool bool | JNum int | JStr string | JArr "json list" | JObj "(string \<times> json) list"

subsection \<open>Unmarshal\<close>

text \<open>Reading one field: the pair of its value and of whether some occurrence had the wrong type.\<close>

definition same_key :: "string \<Rightarrow> string \<Rightarrow> bool" where
  "same_key a b \<longleftrightarrow> to_lower a = to_lower b"

fun read_string :: "string \<Rightarrow> (string \<times> json) list \<Rightarrow> string \<times> bool \<Rightarrow> string \<times> bool" where
  "read_string k [] acc = acc"
| "read_string k ((j, v) # kvs) acc = read_string k kvs
     (if same_key j k then (case v of JStr s \<Rightarrow> (s, snd acc) | JNull \<Rightarrow> acc | _ \<Rightarrow> (fst acc, True)) else acc)"

fun elems_strings :: "json list \<Rightarrow> string list \<times> bool" where
  "elems_strings [] = ([], False)"
| "elems_strings (v # vs) = (case elems_strings vs of (xs, bad) \<Rightarrow>
     (case v of JStr s \<Rightarrow> (s # xs, bad) | JNull \<Rightarrow> ('''' # xs, bad) | _ \<Rightarrow> ('''' # xs, True)))"

fun read_strings :: "string \<Rightarrow> (string \<times> json) list \<Rightarrow> string list \<times> bool \<Rightarrow> string list \<times> bool" where
  "read_strings k [] acc = acc"
| "read_strings k ((j, v) # kvs) acc = read_strings k kvs
     (if same_key j k then (case v of JArr vs \<Rightarrow> (fst (elems_strings vs), snd acc \<or> snd (elems_strings vs))
        | JNull \<Rightarrow> ([], snd acc) | _ \<Rightarrow> (fst acc, True)) else acc)"

fun read_int :: "string \<Rightarrow> (string \<times> json) list \<Rightarrow> int \<times> bool \<Rightarrow> int \<times> bool" where
  "read_int k [] acc = acc"
| "read_int k ((j, v) # kvs) acc = read_int k kvs
     (if same_key j k then (case v of JNum n \<Rightarrow> if int64 n then (n, snd acc) else (fst acc, True)
        | JNull \<Rightarrow> acc | _ \<Rightarrow> (fst acc, True)) else acc)"

text \<open>A \<open>json.RawMessage\<close> field takes any value as it is, \<open>null\<close> included.\<close>

fun read_raw :: "string \<Rightarrow> (string \<times> json) list \<Rightarrow> json option \<Rightarrow> json option" where
  "read_raw k [] acc = acc"
| "read_raw k ((j, v) # kvs) acc = read_raw k kvs (if same_key j k then Some v else acc)"

definition str_field :: "(string \<times> json) list \<Rightarrow> string \<Rightarrow> string \<times> bool" where
  "str_field kvs k = read_string k kvs ('''', False)"

text \<open>A missing payload is empty text, which is no JSON; \<open>null\<close> is read as the empty object.\<close>

definition object_of :: "json option \<Rightarrow> (string \<times> json) list option" where
  "object_of raw = (case raw of None \<Rightarrow> None | Some JNull \<Rightarrow> Some [] | Some (JObj kvs) \<Rightarrow> Some kvs | Some _ \<Rightarrow> None)"

subsection \<open>Frames (pkg/wsx/protocol.go)\<close>

record envelope =
  en_type :: string
  en_request :: string
  en_payload :: "json option"

record subscribe_payload =
  sp_cluster :: string
  sp_namespace :: string
  sp_resource :: string
  sp_name :: string
  sp_container :: string

record event_payload =
  ep_resource :: string
  ep_cluster :: string
  ep_namespace :: string
  ep_name :: string
  ep_action :: string
  ep_object :: json

record error_payload =
  xp_code :: int
  xp_message :: string

definition marshal_subscribe :: "subscribe_payload \<Rightarrow> json" where
  "marshal_subscribe p = JObj ([(''cluster'', JStr (sp_cluster p))]
     @ (if sp_namespace p = '''' then [] else [(''namespace'', JStr (sp_namespace p))])
     @ [(''resource'', JStr (sp_resource p))]
     @ (if sp_name p = '''' then [] else [(''name'', JStr (sp_name p))])
     @ (if sp_container p = '''' then [] else [(''container'', JStr (sp_container p))]))"

definition unmarshal_subscribe :: "json option \<Rightarrow> subscribe_payload option" where
  "unmarshal_subscribe raw = (case object_of raw of None \<Rightarrow> None | Some kvs \<Rightarrow>
     if list_ex (\<lambda>k. snd (str_field kvs k)) [''cluster'', ''namespace'', ''resource'', ''name'', ''container''] then None
     else Some \<lparr>sp_cluster = fst (str_field kvs ''cluster''), sp_namespace = fst (str_field kvs ''namespace''),
       sp_resource = fst (str_field kvs ''resource''), sp_name = fst (str_field kvs ''name''),
       sp_container = fst (str_field kvs ''container'')\<rparr>)"

definition marshal_event :: "event_payload \<Rightarrow> json" where
  "marshal_event p = JObj [(''resource'', JStr (ep_resource p)), (''cluster'', JStr (ep_cluster p)),
     (''namespace'', JStr (ep_namespace p)), (''name'', JStr (ep_name p)), (''action'', JStr (ep_action p)),
     (''object'', ep_object p)]"

definition marshal_error :: "error_payload \<Rightarrow> json" where
  "marshal_error p = JObj [(''code'', JNum (xp_code p)), (''message'', JStr (xp_message p))]"

definition unmarshal_error :: "json option \<Rightarrow> error_payload option" where
  "unmarshal_error raw = (case object_of raw of None \<Rightarrow> None | Some kvs \<Rightarrow>
     if snd (read_int ''code'' kvs (0, False)) \<or> snd (str_field kvs ''message'') then None
     else Some \<lparr>xp_code = fst (read_int ''code'' kvs (0, False)), xp_message = fst (str_field kvs ''message'')\<rparr>)"

text \<open>The envelope itself; an empty request id and an absent payload are omitted.\<close>

definition marshal_envelope :: "envelope \<Rightarrow> json" where
  "marshal_envelope e = JObj ([(''type'', JStr (en_type e))]
     @ (if en_request e = '''' then [] else [(''requestId'', JStr (en_request e))])
     @ (case en_payload e of None \<Rightarrow> [] | Some v \<Rightarrow> [(''payload'', v)]))"

definition unmarshal_envelope :: "json \<Rightarrow> envelope option" where
  "unmarshal_envelope v = (case object_of (Some v) of None \<Rightarrow> None | Some kvs \<Rightarrow>
     if snd (str_field kvs ''type'') \<or> snd (str_field kvs ''requestId'') then None
     else Some \<lparr>en_type = fst (str_field kvs ''type''), en_request = fst (str_field kvs ''requestId''),
       en_payload = read_raw ''payload'' kvs None\<rparr>)"

text \<open>\<open>NewEnvelope\<close>: \<open>None\<close> is a payload that \<open>json.Marshal\<close> refuses; a nil payload is \<open>null\<close>.\<close>

definition NewEnvelope :: "string \<Rightarrow> string \<Rightarrow> json option \<Rightarrow> envelope" where
  "NewEnvelope typ requestID payload = (case payload of
     None \<Rightarrow> \<lparr>en_type = ''error'', en_request = '''',
       en_payload = Some (marshal_error \<lparr>xp_code = 50000, xp_message = ''internal error''\<rparr>)\<rparr>
   | Some v \<Rightarrow> \<lparr>en_type = typ, en_request = requestID, en_payload = Some v\<rparr>)"

subsection \<open>Payloads of the agent channel (agent/tunnel.go)\<close>

record register_payload =
  gp_token :: string
  gp_version :: string
  gp_caps :: "string list"

record registered_payload =
  dp_cluster :: string
  dp_key :: string

record dial_payload =
  di_conn :: string
  di_addr :: string

definition marshal_register :: "register_payload \<Rightarrow> json" where
  "marshal_register p = JObj ([(''token'', JStr (gp_token p))]
     @ (if gp_version p = '''' then [] else [(''agentVersion'', JStr (gp_version p))])
     @ (if gp_caps p = [] then [] else [(''capabilities'', JArr (map JStr (gp_caps p)))]))"

definition unmarshal_register :: "json option \<Rightarrow> register_payload option" where
  "unmarshal_register raw = (case object_of raw of None \<Rightarrow> None | Some kvs \<Rightarrow>
     if snd (str_field kvs ''token'') \<or> snd (str_field kvs ''agentVersion'') \<or>
        snd (read_strings ''capabilities'' kvs ([], False)) then None
     else Some \<lparr>gp_token = fst (str_field kvs ''token''), gp_version = fst (str_field kvs ''agentVersion''),
       gp_caps = fst (read_strings ''capabilities'' kvs ([], False))\<rparr>)"

definition marshal_registered :: "registered_payload \<Rightarrow> json" where
  "marshal_registered p = JObj [(''cluster'', JStr (dp_cluster p)), (''sessionKey'', JStr (dp_key p))]"

definition unmarshal_registered :: "json option \<Rightarrow> registered_payload option" where
  "unmarshal_registered raw = (case object_of raw of None \<Rightarrow> None | Some kvs \<Rightarrow>
     if snd (str_field kvs ''cluster'') \<or> snd (str_field kvs ''sessionKey'') then None
     else Some \<lparr>dp_cluster = fst (str_field kvs ''cluster''), dp_key = fst (str_field kvs ''sessionKey'')\<rparr>)"

definition marshal_dial :: "dial_payload \<Rightarrow> json" where
  "marshal_dial p = JObj [(''connId'', JStr (di_conn p)), (''addr'', JStr (di_addr p))]"

definition unmarshal_dial :: "json option \<Rightarrow> dial_payload option" where
  "unmarshal_dial raw = (case object_of raw of None \<Rightarrow> None | Some kvs \<Rightarrow>
     if snd (str_field kvs ''connId'') \<or> snd (str_field kvs ''addr'') then None
     else Some \<lparr>di_conn = fst (str_field kvs ''connId''), di_addr = fst (str_field kvs ''addr'')\<rparr>)"

text \<open>What one side writes the other side reads.\<close>

named_theorems frame_rules \<open>reading back written frames\<close>

lemma elems_strings_map [simp]: "elems_strings (map JStr xs) = (xs, False)"
  by (induction xs) auto

lemma keys_apart [simp]: "same_key k k"
  by (simp add: same_key_def)

lemmas key_eval = same_key_def to_lower_def lower_char_def Let_def

lemma frames_read_back [frame_rules]:
  "unmarshal_subscribe (Some (marshal_subscribe sp)) = Some sp"
  "unmarshal_error (Some (marshal_error xp)) = (if int64 (xp_code xp) then Some xp else None)"
  "unmarshal_register (Some (marshal_register gp)) = Some gp"
  "unmarshal_registered (Some (marshal_registered dp)) = Some dp"
  "unmarshal_dial (Some (marshal_dial di)) = Some di"
  by (simp_all add: unmarshal_subscribe_def marshal_subscribe_def unmarshal_error_def marshal_error_def
      unmarshal_register_def marshal_register_def unmarshal_registered_def marshal_registered_def
      unmarshal_dial_def marshal_dial_def object_of_def str_field_def key_eval)

lemma envelope_read_back [frame_rules]: "unmarshal_envelope (marshal_envelope e) = Some e"
  by (cases "en_payload e") (simp_all add: unmarshal_envelope_def marshal_envelope_def object_of_def str_field_def key_eval)

end
