(* ===== verification/Tunnel.thy ===== *)
theory Tunnel
  imports Wsx
begin

text \<open>
  The two ends of an agent tunnel: the WebSocket connection that carries a byte stream
  (agent/tunnel.go \<open>wsNetConn\<close>) and the client that runs inside the cluster (agent/client.go):
  its URLs, its registration, its serving of frames and its reconnection loop. What is proved:
  the connection is a byte stream, copying it ends, and the delays between reconnections.
\<close>

subsection \<open>wsNetConn (agent/tunnel.go)\<close>

text \<open>
  The connection at one end: the messages still to come (after the last one reading fails), the
  unread rest of the current frame, the error that ended the reading side, the frames written, and
  the largest message the library accepts (0 is no limit). \<open>nc_down\<close>: writes fail.
\<close>

datatype ws_msg = Binary string | Textual string

record net_conn =
  nc_in :: "ws_msg list"
  nc_buf :: string
  nc_rerr :: "gerr option"
  nc_out :: "string list"
  nc_limit :: nat
  nc_down :: bool
  nc_closed :: bool

fun msg_bytes :: "ws_msg \<Rightarrow> string" where
  "msg_bytes (Binary d) = d"
| "msg_bytes (Textual d) = d"

definition too_big :: "nat \<Rightarrow> ws_msg \<Rightarrow> bool" where
  "too_big limit m \<longleftrightarrow> limit > 0 \<and> length (msg_bytes m) > limit"

definition newWSNetConn :: "ws_msg list \<Rightarrow> nat \<Rightarrow> net_conn" where
  "newWSNetConn ins limit = \<lparr>nc_in = ins, nc_buf = '''', nc_rerr = None, nc_out = [], nc_limit = limit,
     nc_down = False, nc_closed = False\<rparr>"

text \<open>The loop of \<open>Read\<close>: messages are taken until there is a byte to return or reading fails.\<close>

fun read_frames :: "nat \<Rightarrow> ws_msg list \<Rightarrow> (gerr + string) \<times> ws_msg list" where
  "read_frames limit [] = (Inl (PlainErr ''websocket: close''), [])"
| "read_frames limit (m # ms) =
     (if too_big limit m then (Inl (PlainErr ''websocket: read limit exceeded''), [])
      else case m of
        Binary d \<Rightarrow> if d = '''' then read_frames limit ms else (Inr d, ms)
      | Textual _ \<Rightarrow> read_frames limit ms)"

definition fill_buf :: "net_conn \<Rightarrow> net_conn" where
  "fill_buf c =
     (if nc_buf c \<noteq> '''' \<or> nc_rerr c \<noteq> None then c
      else case read_frames (nc_limit c) (nc_in c) of
        (Inl e, ms) \<Rightarrow> c\<lparr>nc_in := ms, nc_rerr := Some e\<rparr>
      | (Inr d, ms) \<Rightarrow> c\<lparr>nc_in := ms, nc_buf := d\<rparr>)"

text \<open>\<open>Read(p)\<close> with \<open>n = len(p)\<close>; the result is what was copied into \<open>p\<close>.\<close>

definition net_Read :: "nat \<Rightarrow> net_conn \<Rightarrow> (gerr + string) \<times> net_conn" where
  "net_Read n c = (let c' = fill_buf c in
     if nc_buf c' = '''' then (Inl (case nc_rerr c' of None \<Rightarrow> DriverErr | Some e \<Rightarrow> e), c')
     else (Inr (take n (nc_buf c')), c'\<lparr>nc_buf := drop n (nc_buf c')\<rparr>))"

definition net_Write :: "string \<Rightarrow> net_conn \<Rightarrow> (gerr + nat) \<times> net_conn" where
  "net_Write p c = (if nc_down c then (Inl (PlainErr ''websocket: close sent''), c)
     else (Inr (length p), c\<lparr>nc_out := nc_out c @ [p]\<rparr>))"

text \<open>\<open>Close\<close> is idempotent: only the first call closes the socket.\<close>

definition net_Close :: "net_conn \<Rightarrow> net_conn" where
  "net_Close c = (if nc_closed c then c else c\<lparr>nc_closed := True, nc_down := True, nc_in := []\<rparr>)"

text \<open>The byte stream that a connection still carries.\<close>

fun payload_bytes :: "nat \<Rightarrow> ws_msg list \<Rightarrow> string" where
  "payload_bytes limit [] = ''''"
| "payload_bytes limit (m # ms) = (if too_big limit m then '''' else
     (case m of Binary d \<Rightarrow> d | Textual _ \<Rightarrow> '''') @ payload_bytes limit ms)"

definition stream :: "net_conn \<Rightarrow> string" where
  "stream c = nc_buf c @ (if nc_rerr c = None then payload_bytes (nc_limit c) (nc_in c) else '''')"

lemma read_frames_stream:
  "case read_frames limit ms of (Inl e, ms') \<Rightarrow> payload_bytes limit ms = '''' \<and> ms' = []
   | (Inr d, ms') \<Rightarrow> d \<noteq> '''' \<and> payload_bytes limit ms = d @ payload_bytes limit ms'"
  by (induction ms) (auto split: ws_msg.splits prod.splits sum.splits)

lemma fill_stream: "stream (fill_buf c) = stream c \<and> (nc_buf (fill_buf c) = '''' \<longleftrightarrow> stream c = '''')"
  using read_frames_stream [of "nc_limit c" "nc_in c"]
  by (auto simp: fill_buf_def stream_def split: prod.splits sum.splits)

lemma Read_stream:
  "case net_Read n c of
     (Inl e, c') \<Rightarrow> stream c = '''' \<and> stream c' = ''''
   | (Inr d, c') \<Rightarrow> stream c \<noteq> '''' \<and> stream c = d @ stream c' \<and> length d \<le> n \<and> (n > 0 \<longrightarrow> d \<noteq> '''')"
proof -
  let ?f = "fill_buf c"
  define rest where "rest = (if nc_rerr ?f = None then payload_bytes (nc_limit ?f) (nc_in ?f) else '''')"
  have "stream ?f = nc_buf ?f @ rest" "stream (?f\<lparr>nc_buf := b\<rparr>) = b @ rest" for b
    by (simp_all add: stream_def rest_def)
  then show ?thesis
    using fill_stream [of c] by (auto simp: net_Read_def Let_def)
qed

text \<open>A sequence of calls, up to the first error.\<close>

fun read_all :: "nat list \<Rightarrow> net_conn \<Rightarrow> string list \<times> bool \<times> net_conn" where
  "read_all [] c = ([], False, c)"
| "read_all (n # ns) c = (case net_Read n c of
     (Inl e, c') \<Rightarrow> ([], True, c')
   | (Inr d, c') \<Rightarrow> (case read_all ns c' of (ds, failed, c'') \<Rightarrow> (d # ds, failed, c'')))"

lemma read_all_stream:
  "read_all ns c = (ds, failed, c') \<Longrightarrow>
     stream c = concat ds @ stream c' \<and> (failed \<longrightarrow> stream c' = '''') \<and> list_all2 (\<lambda>d n. length d \<le> n) ds (take (length ds) ns)"
proof (induction ns arbitrary: c ds failed c')
  case (Cons n ns)
  show ?case
    using Read_stream [of c n] Cons by (auto split: prod.splits sum.splits)
qed auto

lemma read_all_ends:
  "list_all (\<lambda>n. n > 0) ns \<Longrightarrow> length ns > length (stream c) \<Longrightarrow> fst (snd (read_all ns c))"
proof (induction ns arbitrary: c)
  case (Cons n ns)
  show ?case
  proof (cases "net_Read n c")
    case (Pair r c')
    show ?thesis
    proof (cases r)
      case (Inr d)
      then have "stream c = d @ stream c'" "d \<noteq> ''''"
        using Read_stream [of c n] Pair Cons.prems by auto
      then have "length (stream c') < length (stream c)" by simp
      then have "fst (snd (read_all ns c'))" using Cons by simp
      then show ?thesis using Pair Inr by (cases "read_all ns c'") simp
    qed (simp add: Pair)
  qed
qed simp

lemma Read_shrinks: "(Inr d, c') = net_Read (Suc n) c \<Longrightarrow> length (stream c') < length (stream c)"
  using Read_stream [of c "Suc n"] by (auto split: prod.splits)

subsection \<open>Copying (the loops of handleDial and of the data endpoint)\<close>

text \<open>\<open>io.Copy(dst, conn)\<close> with a buffer of \<open>Suc n\<close> bytes, \<open>dst\<close> accepting every write.\<close>

function io_copy :: "nat \<Rightarrow> net_conn \<Rightarrow> string \<Rightarrow> string \<times> net_conn" where
  "io_copy n c dst = (case net_Read (Suc n) c of (Inl e, c') \<Rightarrow> (dst, c') | (Inr d, c') \<Rightarrow> io_copy n c' (dst @ d))"
  by pat_completeness auto

termination
  by (relation "measure (\<lambda>(n, c, dst). length (stream c))") (auto dest: Read_shrinks)

declare io_copy.simps [simp del]

lemma io_copy_stream: "fst (io_copy n c dst) = dst @ stream c \<and> stream (snd (io_copy n c dst)) = ''''"
proof (induction n c dst rule: io_copy.induct)
  case (1 n c dst)
  then show ?case
    using Read_stream [of c "Suc n"]
    by (auto simp: io_copy.simps [of n c dst] split: prod.splits sum.splits)
qed

subsection \<open>Properties\<close>

text \<open>The bytes of the binary messages, in order.\<close>

definition sent_bytes :: "ws_msg list \<Rightarrow> string" where
  "sent_bytes ms = concat (map (\<lambda>m. case m of Binary d \<Rightarrow> d | Textual _ \<Rightarrow> '''') ms)"

lemma payload_bytes_all: "\<forall>m \<in> set ms. \<not> too_big limit m \<Longrightarrow> payload_bytes limit ms = sent_bytes ms"
  by (induction ms) (auto simp: sent_bytes_def split: ws_msg.splits)

lemma stream_new: "stream (newWSNetConn ms limit) = payload_bytes limit ms"
  by (simp add: stream_def newWSNetConn_def)

text \<open>C28: a tunnel connection is a byte stream. However the sender's bytes were cut into frames
  (with text frames and empty frames between them, none above the size limit), copying the
  connection yields exactly those bytes, and reading it with buffers of any sizes yields a
  prefix of them in order, all of them when the reads end in an error.\<close>

theorem tunnel_stream:
  assumes "\<forall>m \<in> set ms. \<not> too_big limit m"
  shows "fst (io_copy n (newWSNetConn ms limit) dst) = dst @ sent_bytes ms \<and>
    (case read_all ns (newWSNetConn ms limit) of (ds, failed, c') \<Rightarrow>
       \<exists>rest. sent_bytes ms = concat ds @ rest \<and> (failed \<longrightarrow> rest = ''''))"
proof
  show "fst (io_copy n (newWSNetConn ms limit) dst) = dst @ sent_bytes ms"
    by (simp add: io_copy_stream stream_new payload_bytes_all [OF assms])
  show "case read_all ns (newWSNetConn ms limit) of (ds, failed, c') \<Rightarrow>
       \<exists>rest. sent_bytes ms = concat ds @ rest \<and> (failed \<longrightarrow> rest = '''')"
  proof (cases "read_all ns (newWSNetConn ms limit)")
    case (fields ds failed c')
    then show ?thesis
      using read_all_stream [OF fields] by (auto simp: stream_new payload_bytes_all [OF assms])
  qed
qed

lemma tunnel_stream_witness:
  "fst (io_copy 1 (newWSNetConn [Binary ''abc'', Textual ''x'', Binary '''', Binary ''de''] 3) '''') = ''abcde''"
  using tunnel_stream [of "[Binary ''abc'', Textual ''x'', Binary '''', Binary ''de'']" 3 1 "''''" "[]"]
  by (simp add: too_big_def sent_bytes_def)

text \<open>C29: reading a tunnel connection comes to an end. Whatever messages are still to come, more
  non-empty reads than there are bytes left report the error that ended the connection, and
  every byte was delivered before it.\<close>

theorem tunnel_reads_end:
  assumes "list_all (\<lambda>n. n > 0) ns" and "length ns > length (stream c)"
  shows "case read_all ns c of (ds, failed, c') \<Rightarrow> failed \<and> concat ds = stream c"
proof (cases "read_all ns c")
  case (fields ds failed c')
  then show ?thesis
    using read_all_stream [OF fields] read_all_ends [OF assms] by simp
qed

lemma tunnel_reads_end_witness:
  "case read_all [2, 2, 5, 1] (newWSNetConn [Binary ''ab'', Textual ''x'', Binary ''c''] 0) of
     (ds, failed, c') \<Rightarrow> failed \<and> concat ds = ''abc''"
  using tunnel_reads_end [of "[2, 2, 5, 1]" "newWSNetConn [Binary ''ab'', Textual ''x'', Binary ''c''] 0"]
  by (simp add: stream_new too_big_def)

text \<open>A message above the limit ends the connection before it: the bytes after it are lost.\<close>

lemma oversized_frame_truncates:
  "fst (io_copy 9 (newWSNetConn [Binary ''ab'', Binary ''large'', Binary ''c''] 4) '''') = ''ab''"
  by (simp add: io_copy_stream stream_new too_big_def)

end
