(* ===== verification/Agent_Client.thy ===== *)
theory Agent_Client
  imports Tunnel Auth_Service
begin

text \<open>
  The agent that connects a cluster from the inside (agent/client.go): configuration, URLs (with
  \<open>url.QueryEscape\<close> and the server's \<open>URL.Query().Get\<close>), registration, serving of dial frames,
  relaying, and the reconnection loop. Byte strings throughout.
\<close>

subsection \<open>Configuration and URLs\<close>

record client_config =
  cc_server :: string
  cc_token :: string
  cc_version :: string
  cc_heartbeat :: time
  cc_dial_timeout :: time
  cc_insecure :: bool

definition ReconnectBackoffStart :: time where "ReconnectBackoffStart = seconds"
definition ReconnectBackoffMax :: time where "ReconnectBackoffMax = 60 * seconds"
definition DefaultHeartbeatInterval :: time where "DefaultHeartbeatInterval = 25 * seconds"

definition NewClient :: "client_config \<Rightarrow> client_config" where
  "NewClient cfg = cfg\<lparr>cc_heartbeat := (if cc_heartbeat cfg \<le> 0 then DefaultHeartbeatInterval else cc_heartbeat cfg),
     cc_dial_timeout := (if cc_dial_timeout cfg \<le> 0 then 10 * seconds else cc_dial_timeout cfg)\<rparr>"

text \<open>\<open>strings.TrimSuffix\<close> and \<open>strings.Replace(s, old, new, 1)\<close>.\<close>

definition trim_suffix :: "string \<Rightarrow> string \<Rightarrow> string" where
  "trim_suffix s p = (if has_suffix s p then take (length s - length p) s else s)"

fun replace_first :: "string \<Rightarrow> string \<Rightarrow> string \<Rightarrow> string" where
  "replace_first a b [] = (if a = [] then b else [])"
| "replace_first a b (c # s) = (if has_prefix (c # s) a then b @ drop (length a) (c # s) else c # replace_first a b s)"

text \<open>\<open>url.QueryEscape\<close>.\<close>

definition unreserved :: "char \<Rightarrow> bool" where
  "unreserved c \<longleftrightarrow> (let n = (of_char c :: nat) in (97 \<le> n \<and> n \<le> 122) \<or> (65 \<le> n \<and> n \<le> 90) \<or> (48 \<le> n \<and> n \<le> 57) \<or>
     c \<in> set ''-_.~'')"

definition url_hex :: "nat \<Rightarrow> char" where
  "url_hex n = (if n < 10 then char_of (48 + n) else char_of (55 + n))"

definition escape_char :: "char \<Rightarrow> string" where
  "escape_char c = (if unreserved c then [c] else if c = CHR '' '' then ''+''
     else [CHR ''%'', url_hex (of_char c div 16), url_hex (of_char c mod 16)])"

definition QueryEscape :: "string \<Rightarrow> string" where
  "QueryEscape s = concat (map escape_char s)"

definition ws_base :: "client_config \<Rightarrow> string" where
  "ws_base cfg = replace_first ''http://'' ''ws://'' (trim_suffix (cc_server cfg) ''/'')"

definition signalingURL :: "client_config \<Rightarrow> string" where
  "signalingURL cfg = ws_base cfg @ ''/api/v1/agent/connect''"

definition data_query :: "string \<Rightarrow> string \<Rightarrow> string" where
  "data_query connID sessionKey = ''connId='' @ QueryEscape connID @ ''&sessionKey='' @ QueryEscape sessionKey"

definition dataURL :: "client_config \<Rightarrow> string \<Rightarrow> string \<Rightarrow> string" where
  "dataURL cfg connID sessionKey = ws_base cfg @ ''/api/v1/agent/tunnel?'' @ data_query connID sessionKey"

text \<open>\<open>url.ParseQuery\<close> and \<open>Values.Get\<close> on the server's side: pairs split at \<open>&\<close>, a pair with a
  semicolon or a bad escape is dropped, the first value of the key counts.\<close>

definition unhex :: "char \<Rightarrow> nat option" where
  "unhex c = (let n = (of_char c :: nat) in if 48 \<le> n \<and> n \<le> 57 then Some (n - 48)
     else if 65 \<le> n \<and> n \<le> 70 then Some (n - 55) else if 97 \<le> n \<and> n \<le> 102 then Some (n - 87) else None)"

fun QueryUnescape :: "string \<Rightarrow> string option" where
  "QueryUnescape [] = Some []"
| "QueryUnescape (c # s) =
     (if c = CHR ''%'' then (case s of
          a # b # r \<Rightarrow> (case (unhex a, unhex b) of
              (Some x, Some y) \<Rightarrow> map_option ((#) (char_of (16 * x + y))) (QueryUnescape r)
            | _ \<Rightarrow> None)
        | _ \<Rightarrow> None)
      else map_option ((#) (if c = CHR ''+'' then CHR '' '' else c)) (QueryUnescape s))"

fun split_at :: "char \<Rightarrow> string \<Rightarrow> string list" where
  "split_at d [] = [[]]"
| "split_at d (c # s) = (if c = d then [] # split_at d s
     else case split_at d s of [] \<Rightarrow> [[c]] | x # xs \<Rightarrow> (c # x) # xs)"

definition parse_pair :: "string \<Rightarrow> (string \<times> string) option" where
  "parse_pair p = (if p = '''' \<or> CHR '';'' \<in> set p then None
     else case (QueryUnescape (takeWhile (\<lambda>c. c \<noteq> CHR ''='') p), QueryUnescape (drop 1 (dropWhile (\<lambda>c. c \<noteq> CHR ''='') p))) of
       (Some k, Some v) \<Rightarrow> Some (k, v) | _ \<Rightarrow> None)"

definition query_get :: "string \<Rightarrow> string \<Rightarrow> string" where
  "query_get q k = (case map_of (List.map_filter parse_pair (split_at (CHR ''&'') q)) k of None \<Rightarrow> '''' | Some v \<Rightarrow> v)"

subsection \<open>A signaling session\<close>

text \<open>Unmarshalling into the error payload when the error is ignored: what could be read is kept.\<close>

definition lenient_error :: "json option \<Rightarrow> error_payload" where
  "lenient_error raw = (case object_of raw of None \<Rightarrow> \<lparr>xp_code = 0, xp_message = ''''\<rparr>
     | Some kvs \<Rightarrow> \<lparr>xp_code = fst (read_int ''code'' kvs (0, False)), xp_message = fst (str_field kvs ''message'')\<rparr>)"

definition register_frame :: "client_config \<Rightarrow> envelope" where
  "register_frame cfg = NewEnvelope ''register'' '''' (Some (marshal_register
     \<lparr>gp_token = cc_token cfg, gp_version = cc_version cfg, gp_caps = [''tunnel'']\<rparr>))"

text \<open>\<open>register\<close>: \<open>sent\<close> is the outcome of writing the register frame, \<open>reply\<close> of reading the answer.\<close>

definition agent_register :: "gerr option \<Rightarrow> gerr + envelope \<Rightarrow> gerr + string" where
  "agent_register sent reply =
     (case sent of Some e \<Rightarrow> Inl (WrapErr ''send register frame'' e) | None \<Rightarrow>
      case reply of Inl e \<Rightarrow> Inl (WrapErr ''await registered frame'' e) | Inr env \<Rightarrow>
      if en_type env = ''error'' then (let p = lenient_error (en_payload env) in
        Inl (PlainErr (''register rejected: code='' @ itoa (xp_code p) @ '' message='' @ xp_message p)))
      else if en_type env \<noteq> ''registered'' then Inl (PlainErr (''unexpected frame '' @ go_quote (en_type env) @ '' while registering''))
      else case unmarshal_registered (en_payload env) of
        None \<Rightarrow> Inl (PlainErr ''invalid registered payload'')
      | Some p \<Rightarrow> if dp_key p = '''' then Inl (PlainErr ''invalid registered payload: %!w(<nil>)'') else Inr (dp_key p))"

text \<open>\<open>serve\<close>: the dials that the frames received before the channel closed give rise to.\<close>

definition serve_frame :: "envelope \<Rightarrow> dial_payload option" where
  "serve_frame env = (if en_type env = ''dial'' then
       (case unmarshal_dial (en_payload env) of
          Some p \<Rightarrow> if di_conn p = '''' \<or> di_addr p = '''' then None else Some p
        | None \<Rightarrow> None)
     else None)"

definition agent_serve :: "envelope list \<Rightarrow> dial_payload list" where
  "agent_serve frames = List.map_filter serve_frame frames"

text \<open>\<open>heartbeat\<close>: the frames of its ticks, each with whether it could be written; a failed write ends it.\<close>

fun heartbeat :: "bool list \<Rightarrow> envelope list" where
  "heartbeat [] = []"
| "heartbeat (written # ticks) = NewEnvelope ''ping'' '''' (Some JNull) # (if written then heartbeat ticks else [])"

text \<open>\<open>handleDial\<close>: the target is dialled first, then the data channel; the two copies that follow
  pass the bytes on. The result is what reaches the target and what the target's bytes become.\<close>

definition handleDial :: "client_config \<Rightarrow> string \<Rightarrow> (string \<Rightarrow> gerr + string list) \<Rightarrow> (string \<Rightarrow> gerr + ws_msg list) \<Rightarrow>
    dial_payload \<Rightarrow> (string \<times> ws_msg list) option" where
  "handleDial cfg key dial_target open_channel p =
     (case dial_target (di_addr p) of Inl _ \<Rightarrow> None | Inr chunks \<Rightarrow>
      case open_channel (dataURL cfg (di_conn p) key) of Inl _ \<Rightarrow> None | Inr ins \<Rightarrow>
        Some (fst (io_copy (32 * 1024 - 1) (newWSNetConn ins 0) ''''), map Binary chunks))"

text \<open>\<open>runOnce\<close>: whether the session was registered, and the error it ended with.\<close>

definition runOnce :: "gerr option \<Rightarrow> gerr option \<Rightarrow> gerr + envelope \<Rightarrow> gerr \<Rightarrow> bool \<times> gerr" where
  "runOnce connect sent reply ended =
     (case connect of Some e \<Rightarrow> (False, WrapErr ''dial signaling channel'' e) | None \<Rightarrow>
      case agent_register sent reply of Inl e \<Rightarrow> (False, e) | Inr key \<Rightarrow> (True, WrapErr ''signaling read'' ended))"

text \<open>\<open>Run\<close>: the delays of the loop, given for each session whether it had been registered; the
  loop ends when its context is cancelled.\<close>

fun Run :: "bool list \<Rightarrow> time \<Rightarrow> time list" where
  "Run [] backoff = []"
| "Run (connected # rest) backoff =
     (let b = (if connected then ReconnectBackoffStart else backoff); d = wrap64 (b * 2)
      in b # Run rest (if d > ReconnectBackoffMax then ReconnectBackoffMax else d))"

subsection \<open>The query survives the URL\<close>

lemma unhex_hex [simp]: "n < 16 \<Longrightarrow> unhex (url_hex n) = Some n"
  by (simp add: unhex_def url_hex_def)

lemma url_hex_code: "n < 16 \<Longrightarrow> (of_char (url_hex n) :: nat) = (if n < 10 then 48 + n else 55 + n)"
  by (simp add: url_hex_def)

lemma url_hex_clean: "n < 16 \<Longrightarrow> url_hex n \<notin> set ''&=;''"
proof
  assume n: "n < 16" and "url_hex n \<in> set ''&=;''"
  then have "(of_char (url_hex n) :: nat) \<in> of_char ` set ''&=;''" by blast
  then show False using n by (auto simp: url_hex_code split: if_splits)
qed

lemma unreserved_clean: "unreserved c \<Longrightarrow> c \<notin> set ''&=;+%''"
  by (auto simp: unreserved_def)

lemma nibbles: "(of_char c :: nat) div 16 < 16" "(of_char c :: nat) mod 16 < 16" "char_of (16 * ((of_char c :: nat) div 16) + of_char c mod 16) = c"
proof -
  have "(of_char c :: nat) < 256" by simp
  then show "(of_char c :: nat) div 16 < 16" by linarith
qed simp_all

lemma unescape_char: "QueryUnescape (escape_char c @ s) = map_option ((#) c) (QueryUnescape s)"
  using unreserved_clean [of c] nibbles [of c] by (simp add: escape_char_def)

lemma QueryUnescape_QueryEscape: "QueryUnescape (QueryEscape s) = Some s"
  by (induction s) (simp_all add: QueryEscape_def unescape_char)

lemma escape_char_clean: "set (escape_char c) \<inter> set ''&=;'' = {}"
  using unreserved_clean [of c] url_hex_clean [OF nibbles(1) [of c]] url_hex_clean [OF nibbles(2) [of c]]
  by (auto simp: escape_char_def)

lemma escape_clean: "set (QueryEscape s) \<inter> set ''&=;'' = {}"
  using escape_char_clean by (induction s) (auto simp: QueryEscape_def)

lemma split_none: "d \<notin> set s \<Longrightarrow> split_at d s = [s]"
  by (induction s) auto

lemma split_one: "d \<notin> set s \<Longrightarrow> split_at d (s @ d # t) = s # split_at d t"
  by (induction s) auto

lemma parse_escaped: "\<lbrakk>set k \<inter> set ''&=;+%'' = {}; k \<noteq> ''''\<rbrakk> \<Longrightarrow> QueryUnescape k = Some k \<Longrightarrow>
    parse_pair (k @ ''='' @ QueryEscape v) = Some (k, v)"
  using escape_clean [of v] by (auto simp: parse_pair_def takeWhile_append dropWhile_append QueryUnescape_QueryEscape)

lemma query_round_trip:
  "query_get (data_query connID sessionKey) ''connId'' = connID"
  "query_get (data_query connID sessionKey) ''sessionKey'' = sessionKey"
proof -
  have s: "split_at (CHR ''&'') (data_query connID sessionKey) =
      [''connId='' @ QueryEscape connID, ''sessionKey='' @ QueryEscape sessionKey]"
    using escape_clean [of connID] escape_clean [of sessionKey]
      split_one [of "CHR ''&''" "''connId='' @ QueryEscape connID" "''sessionKey='' @ QueryEscape sessionKey"]
      split_none [of "CHR ''&''" "''sessionKey='' @ QueryEscape sessionKey"]
    by (simp add: data_query_def)
  have p: "parse_pair (''connId='' @ QueryEscape connID) = Some (''connId'', connID)"
    "parse_pair (''sessionKey='' @ QueryEscape sessionKey) = Some (''sessionKey'', sessionKey)"
    using parse_escaped [of "''connId''" connID] parse_escaped [of "''sessionKey''" sessionKey] by simp_all
  show "query_get (data_query connID sessionKey) ''connId'' = connID"
    "query_get (data_query connID sessionKey) ''sessionKey'' = sessionKey"
    using p by (simp_all add: query_get_def s map_filter_simps)
qed

text \<open>An address that already is https is left as it is: the URL has no WebSocket scheme.\<close>

lemma https_kept: "signalingURL (c\<lparr>cc_server := ''https://host''\<rparr>) = ''https://host/api/v1/agent/connect''"
  by (simp add: signalingURL_def ws_base_def trim_suffix_def has_suffix_def)


subsection \<open>Reconnection delays\<close>

text \<open>What the loop computes: the delay doubles with each session that was not registered since the
  start or the last registered one.\<close>

definition doublings :: "bool list \<Rightarrow> nat" where
  "doublings hs = (let n = length (takeWhile Not (rev hs)) in if True \<in> set hs then n else n - 1)"

fun run_backoff :: "bool list \<Rightarrow> time \<Rightarrow> time" where
  "run_backoff [] b = b"
| "run_backoff (c # hs) b = (let b' = (if c then ReconnectBackoffStart else b); d = wrap64 (b' * 2)
     in run_backoff hs (if d > ReconnectBackoffMax then ReconnectBackoffMax else d))"

lemma Run_snoc: "Run (hs @ [c]) b = Run hs b @ [if c then ReconnectBackoffStart else run_backoff hs b]"
  by (induction hs arbitrary: b) (simp_all add: Let_def)

lemma run_backoff_snoc: "run_backoff (hs @ [c]) b =
    (let b' = (if c then ReconnectBackoffStart else run_backoff hs b); d = wrap64 (b' * 2)
     in if d > ReconnectBackoffMax then ReconnectBackoffMax else d)"
  by (induction hs arbitrary: b) (simp_all add: Let_def)

lemmas backoff_consts = ReconnectBackoffStart_def ReconnectBackoffMax_def seconds_def

lemma double_capped:
  "wrap64 (min (seconds * 2 ^ k) ReconnectBackoffMax * 2) = min (seconds * 2 ^ k) ReconnectBackoffMax * 2"
  by (rule wrap64_id, rule int64_leI) (simp_all add: backoff_consts)

lemma doubled: "(let d = wrap64 (min (seconds * 2 ^ k) ReconnectBackoffMax * 2)
    in if d > ReconnectBackoffMax then ReconnectBackoffMax else d) = min (seconds * 2 ^ Suc k) ReconnectBackoffMax"
proof -
  have "(1::int) \<le> 2 ^ k" by simp
  then show ?thesis unfolding double_capped by (auto simp: Let_def min_def backoff_consts)
qed

lemma no_success: "True \<notin> set hs \<Longrightarrow> takeWhile Not (rev hs) = rev hs"
  by (simp add: takeWhile_eq_all_conv) (metis (full_types))

lemma doublings_snoc: "doublings (hs @ [c]) = (if c \<or> hs = [] then 0 else Suc (doublings hs))"
proof (cases "True \<in> set hs")
  case True
  then show ?thesis by (cases hs) (auto simp: doublings_def Let_def)
next
  case False
  then have "length (takeWhile Not (rev hs)) = length hs"
    using no_success [of hs] by (metis length_rev)
  then show ?thesis using False by (cases hs; cases c) (simp_all add: doublings_def Let_def)
qed

lemma run_backoff_spec:
  "run_backoff hs ReconnectBackoffStart = min (seconds * 2 ^ (if hs = [] then 0 else Suc (doublings hs))) ReconnectBackoffMax"
proof (induction hs rule: rev_induct)
  case (snoc c hs)
  show ?case
  proof (cases c)
    case True
    then show ?thesis by (simp add: run_backoff_snoc doublings_snoc [of hs True] Let_def backoff_consts wrap64_def)
  next
    case False
    define k where "k = (if hs = [] then 0 else Suc (doublings hs))"
    have "Suc (doublings (hs @ [c])) = Suc k" using False by (simp add: doublings_snoc k_def)
    moreover have "run_backoff hs ReconnectBackoffStart = min (seconds * 2 ^ k) ReconnectBackoffMax"
      using snoc by (simp add: k_def)
    ultimately show ?thesis
      using False doubled [of k] by (simp only: run_backoff_snoc Let_def if_False) simp
  qed
qed (simp add: backoff_consts)


text \<open>The delays between reconnections. After any history of sessions the agent waits one
  second times two to the number of sessions since the last registered one (since the second,
  when none was), and never more than a minute; so every delay is between a second and a minute.\<close>

theorem reconnect_backoff:
  "last (Run (hs @ [c]) ReconnectBackoffStart) = min (seconds * 2 ^ doublings (hs @ [c])) ReconnectBackoffMax \<and>
   (\<forall>d. d \<in> set (Run hs ReconnectBackoffStart) \<longrightarrow> ReconnectBackoffStart \<le> d \<and> d \<le> ReconnectBackoffMax)"
proof
  have last: "(if c then ReconnectBackoffStart else run_backoff hs ReconnectBackoffStart) =
      min (seconds * 2 ^ doublings (hs @ [c])) ReconnectBackoffMax" for hs c
  proof (cases "c \<or> hs = []")
    case True
    then show ?thesis by (auto simp: doublings_snoc backoff_consts)
  next
    case False
    then show ?thesis by (simp add: doublings_snoc run_backoff_spec)
  qed
  then show "last (Run (hs @ [c]) ReconnectBackoffStart) = min (seconds * 2 ^ doublings (hs @ [c])) ReconnectBackoffMax"
    by (simp add: Run_snoc)
  have b: "ReconnectBackoffStart \<le> min (seconds * 2 ^ k) ReconnectBackoffMax" for k :: nat
    by (simp add: backoff_consts)
  show "\<forall>d. d \<in> set (Run hs ReconnectBackoffStart) \<longrightarrow> ReconnectBackoffStart \<le> d \<and> d \<le> ReconnectBackoffMax"
  proof (induction hs rule: rev_induct)
    case (snoc c hs)
    then show ?case using last [where hs = hs and c = c] b by (auto simp: Run_snoc simp del: min_less_iff_conj)
  qed simp
qed

lemma reconnect_backoff_witness:
  "Run [False, False, True, False] ReconnectBackoffStart = [seconds, 2 * seconds, seconds, 2 * seconds] \<and>
   2 * seconds \<le> ReconnectBackoffMax"
  using reconnect_backoff [of "[False, False, True, False]" False]
  by (simp add: Let_def backoff_consts wrap64_def)

end
