(* ===== verification/Agent_Hub.thy ===== *)
theory Agent_Hub
  imports Cluster_Lifecycle Enroll Agent_Client
begin

text \<open>
  The platform's side of the agent channel (agent/hub.go and the hub's half of agent/tunnel.go):
  registration of an agent, the signaling loop, the data endpoint and the dialer that asks an
  agent for a connection. Each operation is divided into the sections its locks divide it into,
  and then composed; \<open>Agent_Steps\<close> interleaves the sections.
\<close>

subsection \<open>State\<close>

text \<open>A session is compared by identity in the code: here by its connection, which is its own.\<close>

record agent_session =
  as_ws :: nat
  as_cluster :: string
  as_version :: string
  as_key :: string
  as_caps :: "string list"

text \<open>A dial that waits for its data channel; the channel has capacity one.\<close>

record pipe =
  pp_cluster :: string
  pp_key :: string
  pp_chan :: "nat option"

text \<open>
  The hub with the system around it: the sessions by cluster, the waiting pipes by connection id
  (a reference into the heap \<open>hb_cells\<close>), the WebSockets that are closed at either end, and
  everything written to WebSockets, oldest first.
\<close>

record hub =
  hb_sys :: sys
  hb_sessions :: "(string \<times> agent_session) list"
  hb_pipes :: "(string \<times> nat) list"
  hb_cells :: "(nat \<times> pipe) list"
  hb_next :: nat
  hb_down :: "nat list"
  hb_out :: "(nat \<times> envelope) list"

type_synonym 'a tact = "(hub, 'a) gm"

definition in_sys :: "'a sact \<Rightarrow> 'a tact" where
  "in_sys m = (\<lambda>h. case m (hb_sys h) of (r, s) \<Rightarrow> (r, h\<lparr>hb_sys := s\<rparr>))"

lemma wp_in_sys [wp_rules]:
  "wp (in_sys m) Q E h = wp m (\<lambda>x s. Q x (h\<lparr>hb_sys := s\<rparr>)) (\<lambda>e s. E e (h\<lparr>hb_sys := s\<rparr>)) (hb_sys h)"
  by (simp add: wp_def in_sys_def split: prod.splits sum.splits)

text \<open>\<open>Options\<close>: the callbacks that may be nil are options; \<open>ho_reregister\<close> is the manager's \<open>Register\<close>,
  absent with the manager.\<close>

record hub_options =
  ho_validate :: "(string \<Rightarrow> string sact) option"
  ho_confirm :: "(string \<Rightarrow> unit sact) option"
  ho_connect :: "(string \<Rightarrow> string \<Rightarrow> unit sact) option"
  ho_disconnect :: "(string \<Rightarrow> unit sact) option"
  ho_reregister :: "(string \<Rightarrow> string \<Rightarrow> rest_config option \<Rightarrow> unit sact) option"
  ho_heartbeat :: time
  ho_dial_wait :: time
  ho_register_timeout :: time
  ho_max_frame :: int

definition heartbeatTimeout :: "hub_options \<Rightarrow> time" where
  "heartbeatTimeout opt = (if ho_heartbeat opt > 0 then ho_heartbeat opt else 30 * seconds)"

definition dialWait :: "hub_options \<Rightarrow> time" where
  "dialWait opt = (if ho_dial_wait opt > 0 then ho_dial_wait opt else 30 * seconds)"

definition registerTimeout :: "hub_options \<Rightarrow> time" where
  "registerTimeout opt = (if ho_register_timeout opt > 0 then ho_register_timeout opt else 10 * seconds)"

definition maxFrameSize :: "hub_options \<Rightarrow> int" where
  "maxFrameSize opt = (if ho_max_frame opt > 0 then ho_max_frame opt else 512 * 1024)"

lemma al_fun: "map_of (al_put k v m) = (map_of m)(k \<mapsto> v)" "map_of (al_del k m) = (map_of m)(k := None)"
  by (auto simp: fun_eq_iff)

subsection \<open>Sockets\<close>

definition ws_send :: "nat \<Rightarrow> envelope \<Rightarrow> unit tact" where
  "ws_send ws env = (\<lambda>h. if ws \<in> set (hb_down h) then (Inl (PlainErr ''websocket: close sent''), h)
     else (Inr (), h\<lparr>hb_out := hb_out h @ [(ws, env)]\<rparr>))"

lemma wp_ws_send [wp_rules]: "wp (ws_send ws env) Q E h =
    (if ws \<in> set (hb_down h) then E (PlainErr ''websocket: close sent'') h else Q () (h\<lparr>hb_out := hb_out h @ [(ws, env)]\<rparr>))"
  by (simp add: wp_def ws_send_def)

definition ws_close :: "nat \<Rightarrow> unit tact" where
  "ws_close ws = modify (hb_down_update (\<lambda>d. if ws \<in> set d then d else ws # d))"

definition no_err :: "('s, unit) gm \<Rightarrow> ('s, unit) gm" where
  "no_err m = on_result m (\<lambda>_. ok ()) ok"

definition reject :: "nat \<Rightarrow> gerr \<Rightarrow> unit tact" where
  "reject ws e =
     (let (code, msg) = (case From e of None \<Rightarrow> (InternalError, err_text e) | Some (c, m) \<Rightarrow> (c, m)) in
      and_then (no_err (ws_send ws (NewEnvelope ''error'' '''' (Some (marshal_error \<lparr>xp_code = code, xp_message = msg\<rparr>))))) (\<lambda>_.
      ws_close ws))"

subsection \<open>Sessions\<close>

definition SessionCount :: "nat tact" where
  "SessionCount = gets (\<lambda>h. length (hb_sessions h))"

definition SessionOf :: "string \<Rightarrow> agent_session option tact" where
  "SessionOf cluster = gets (\<lambda>h. map_of (hb_sessions h) cluster)"

definition hub_Close :: "unit tact" where
  "hub_Close = and_then (gets (\<lambda>h. map (as_ws \<circ> snd) (hb_sessions h))) (\<lambda>ss.
     and_then (modify (hb_sessions_update (\<lambda>_. []))) (\<lambda>_.
     and_then (mapM ws_close ss) (\<lambda>_. ok ())))"

text \<open>\<open>register\<close>, section by section. \<open>key\<close> is the fresh secret.\<close>

definition register_check :: "hub_options \<Rightarrow> nat \<Rightarrow> json option \<Rightarrow> string \<Rightarrow> (agent_session \<times> string) tact" where
  "register_check opt ws payloadRaw key =
     (case ho_validate opt of None \<Rightarrow> err (New InternalError ''agent enrollment is not configured'')
      | Some validate \<Rightarrow>
       (case unmarshal_register payloadRaw of None \<Rightarrow> err (New ParamInvalid ''invalid register payload'')
        | Some p \<Rightarrow>
          if gp_token p = '''' then err (New ParamInvalid ''invalid register payload'')
          else and_then (in_sys (validate (gp_token p))) (\<lambda>cluster.
            ok (\<lparr>as_ws = ws, as_cluster = cluster, as_version = gp_version p, as_key = key, as_caps = gp_caps p\<rparr>, gp_token p))))"

definition register_old :: "agent_session \<Rightarrow> nat option tact" where
  "register_old sess = gets (\<lambda>h. case map_of (hb_sessions h) (as_cluster sess) of
     Some old \<Rightarrow> if as_ws old \<noteq> as_ws sess then Some (as_ws old) else None | None \<Rightarrow> None)"

definition register_put :: "agent_session \<Rightarrow> unit tact" where
  "register_put sess = modify (hb_sessions_update (al_put (as_cluster sess) sess))"

definition register_ack :: "agent_session \<Rightarrow> unit tact" where
  "register_ack sess = on_result (ws_send (as_ws sess) (NewEnvelope ''registered'' ''''
       (Some (marshal_registered \<lparr>dp_cluster = as_cluster sess, dp_key = as_key sess\<rparr>))))
     (\<lambda>e. and_then (ws_close (as_ws sess)) (\<lambda>_. err (WrapErr ''send registered frame'' e))) ok"

definition register_confirm :: "hub_options \<Rightarrow> agent_session \<Rightarrow> string \<Rightarrow> unit tact" where
  "register_confirm opt sess token =
     (case ho_confirm opt of None \<Rightarrow> ok ()
      | Some confirm \<Rightarrow> on_result (in_sys (confirm token))
          (\<lambda>e. and_then (ws_close (as_ws sess)) (\<lambda>_. err (WrapErr ''confirm enrollment token'' e))) ok)"

text \<open>The hub's dialer for a cluster carries nothing but the cluster: one identity will do.\<close>

definition tunnel_dialer :: int where
  "tunnel_dialer = 0"

definition attachDialer :: "hub_options \<Rightarrow> string \<Rightarrow> unit sact" where
  "attachDialer opt cluster =
     (case ho_reregister opt of None \<Rightarrow> ok ()
      | Some reregister \<Rightarrow> and_then (SetDialer cluster (Some tunnel_dialer)) (\<lambda>_.
          on_result (manager_Get cluster) (\<lambda>_. ok ()) (\<lambda>rt.
          ignore_err (reregister cluster (kr_version rt) (Some (kr_config rt))))))"

definition register_attach :: "hub_options \<Rightarrow> agent_session \<Rightarrow> unit tact" where
  "register_attach opt sess = in_sys (and_then (case ho_connect opt of None \<Rightarrow> ok ()
       | Some connect \<Rightarrow> connect (as_cluster sess) (as_version sess)) (\<lambda>_. attachDialer opt (as_cluster sess)))"

definition register_finish :: "hub_options \<Rightarrow> agent_session \<Rightarrow> string \<Rightarrow> agent_session tact" where
  "register_finish opt sess token =
     and_then (register_ack sess) (\<lambda>_.
     and_then (register_confirm opt sess token) (\<lambda>_.
     and_then (register_attach opt sess) (\<lambda>_. ok sess)))"

definition hub_register :: "hub_options \<Rightarrow> nat \<Rightarrow> json option \<Rightarrow> string \<Rightarrow> agent_session tact" where
  "hub_register opt ws payloadRaw key =
     and_then (register_check opt ws payloadRaw key) (\<lambda>(sess, token).
     and_then (register_old sess) (\<lambda>old.
     and_then (case old of None \<Rightarrow> ok () | Some w \<Rightarrow> ws_close w) (\<lambda>_.
     and_then (register_put sess) (\<lambda>_. register_finish opt sess token))))"

subsection \<open>The signaling endpoint\<close>

text \<open>A message read: binary, or text that may be JSON.\<close>

datatype signal_msg = SBinary | SText "json option"

definition run_frame :: "agent_session \<Rightarrow> signal_msg \<Rightarrow> unit tact" where
  "run_frame sess m = (case m of SBinary \<Rightarrow> ok () | SText None \<Rightarrow> ok () | SText (Some v) \<Rightarrow>
     (case unmarshal_envelope v of None \<Rightarrow> ok () | Some env \<Rightarrow>
        if en_type env = ''ping'' then no_err (ws_send (as_ws sess) (NewEnvelope ''pong'' (en_request env) (Some JNull)))
        else if en_type env \<in> {''pong'', ''registered'', ''error''} then ok ()
        else no_err (ws_send (as_ws sess) (NewEnvelope ''error'' (en_request env)
          (Some (marshal_error \<lparr>xp_code = ParamInvalid, xp_message = ''unknown frame type '' @ en_type env\<rparr>))))))"

definition onExit :: "hub_options \<Rightarrow> agent_session \<Rightarrow> unit tact" where
  "onExit opt sess =
     and_then (ws_close (as_ws sess)) (\<lambda>_.
     and_then (modify (hb_sessions_update (\<lambda>ss. case map_of ss (as_cluster sess) of
         Some cur \<Rightarrow> if as_ws cur = as_ws sess then al_del (as_cluster sess) ss else ss | None \<Rightarrow> ss))) (\<lambda>_.
     case ho_disconnect opt of None \<Rightarrow> ok () | Some disconnect \<Rightarrow> in_sys (disconnect (as_cluster sess))))"

text \<open>\<open>run\<close>, for the messages that arrive before reading fails.\<close>

definition hub_run :: "hub_options \<Rightarrow> agent_session \<Rightarrow> signal_msg list \<Rightarrow> unit tact" where
  "hub_run opt sess msgs = and_then (mapM (run_frame sess) msgs) (\<lambda>_. onExit opt sess)"

text \<open>\<open>first\<close> is the first message, \<open>None\<close> when reading it failed; the answer is the session served.\<close>

definition handleSignaling :: "hub_options \<Rightarrow> nat \<Rightarrow> signal_msg option \<Rightarrow> string \<Rightarrow> signal_msg list \<Rightarrow> agent_session option tact" where
  "handleSignaling opt ws first key msgs =
     (case first of None \<Rightarrow> and_then (ws_close ws) (\<lambda>_. ok None)
      | Some SBinary \<Rightarrow> and_then (reject ws (New ParamInvalid ''first frame must be a register text frame'')) (\<lambda>_. ok None)
      | Some (SText t) \<Rightarrow>
        (case Option.bind t unmarshal_envelope of
           None \<Rightarrow> and_then (reject ws (New ParamInvalid ''first frame must be a register frame'')) (\<lambda>_. ok None)
         | Some env \<Rightarrow>
           if en_type env \<noteq> ''register''
           then and_then (reject ws (New ParamInvalid ''first frame must be a register frame'')) (\<lambda>_. ok None)
           else on_result (hub_register opt ws (en_payload env) key)
             (\<lambda>e. and_then (reject ws e) (\<lambda>_. ok None))
             (\<lambda>sess. and_then (hub_run opt sess msgs) (\<lambda>_. ok (Some sess)))))"

subsection \<open>The data endpoint and the dialer (agent/tunnel.go)\<close>

definition tunnel_gone :: gerr where
  "tunnel_gone = New AgentTunnelUnavailable ''agent tunnel is not connected''"

text \<open>\<open>takePipe\<close>; \<open>conn_id\<close> is the fresh secret.\<close>

definition takePipe :: "string \<Rightarrow> string \<Rightarrow> string \<Rightarrow> nat tact" where
  "takePipe cluster sessionKey conn_id =
     and_then (SessionOf cluster) (\<lambda>sess.
     and_then (guard (sess \<noteq> None) tunnel_gone) (\<lambda>_.
     and_then (gets (\<lambda>h. case map_of (hb_sessions h) cluster of None \<Rightarrow> False | Some cur \<Rightarrow> as_key cur = sessionKey)) (\<lambda>same.
     and_then (guard same tunnel_gone) (\<lambda>_.
     and_then (gets hb_next) (\<lambda>p.
     and_then (modify (\<lambda>h. h\<lparr>hb_next := Suc p,
         hb_cells := al_put p \<lparr>pp_cluster = cluster, pp_key = sessionKey, pp_chan = None\<rparr> (hb_cells h),
         hb_pipes := al_put conn_id p (hb_pipes h)\<rparr>)) (\<lambda>_. ok p))))))"

definition dropPipe :: "string \<Rightarrow> unit tact" where
  "dropPipe conn_id = modify (hb_pipes_update (al_del conn_id))"

text \<open>The two sections of \<open>ServeData\<close>: claiming the pipe, and handing over the connection.\<close>

definition data_claim :: "string \<Rightarrow> string \<Rightarrow> nat option tact" where
  "data_claim connID sessionKey = (\<lambda>h.
     case map_of (hb_pipes h) connID of None \<Rightarrow> (Inr None, h)
     | Some p \<Rightarrow> (case map_of (hb_cells h) p of None \<Rightarrow> (Inr None, h)
       | Some c \<Rightarrow> if pp_key c \<noteq> sessionKey then (Inr None, h) else (Inr (Some p), h\<lparr>hb_pipes := al_del connID (hb_pipes h)\<rparr>)))"

definition data_deliver :: "nat \<Rightarrow> nat \<Rightarrow> bool tact" where
  "data_deliver p conn = (\<lambda>h. case map_of (hb_cells h) p of None \<Rightarrow> (Inr False, h)
     | Some c \<Rightarrow> (case pp_chan c of Some _ \<Rightarrow> (Inr False, h)
       | None \<Rightarrow> (Inr True, h\<lparr>hb_cells := al_put p (c\<lparr>pp_chan := Some conn\<rparr>) (hb_cells h)\<rparr>)))"

text \<open>The answer of the data endpoint: an HTTP status, or what became of the upgraded connection.\<close>

datatype data_result = DStatus int | DNoUpgrade | DDuplicate | DAttached nat

definition ServeData :: "(string \<Rightarrow> string) \<Rightarrow> bool \<Rightarrow> nat \<Rightarrow> data_result tact" where
  "ServeData query upgrade conn =
     (let connID = query ''connId''; sessionKey = query ''sessionKey'' in
      if connID = '''' \<or> sessionKey = '''' then ok (DStatus 400)
      else and_then (data_claim connID sessionKey) (\<lambda>r.
        case r of None \<Rightarrow> ok (DStatus 404)
        | Some p \<Rightarrow> if \<not> upgrade then ok DNoUpgrade
            else and_then (data_deliver p conn) (\<lambda>b. ok (if b then DAttached p else DDuplicate))))"

text \<open>The sections of \<open>DialContext\<close>: asking, waiting, clearing up. \<open>expired\<close>: the wait's context has
  ended; with both a connection and an ended context the runtime picks, here \<open>lucky\<close>.\<close>

definition dial_ask :: "string \<Rightarrow> string \<Rightarrow> string \<Rightarrow> (agent_session \<times> nat) tact" where
  "dial_ask cluster network conn_id =
     and_then (guard (network \<in> {''tcp'', ''tcp4'', ''tcp6''}) (PlainErr (''agent tunnel: unsupported network '' @ go_quote network))) (\<lambda>_.
     and_then (SessionOf cluster) (\<lambda>r.
     case r of None \<Rightarrow> err tunnel_gone
     | Some sess \<Rightarrow> and_then (takePipe cluster (as_key sess) conn_id) (\<lambda>p. ok (sess, p))))"

definition dial_send :: "agent_session \<Rightarrow> string \<Rightarrow> string \<Rightarrow> unit tact" where
  "dial_send sess conn_id addr =
     on_result (ws_send (as_ws sess) (NewEnvelope ''dial'' '''' (Some (marshal_dial \<lparr>di_conn = conn_id, di_addr = addr\<rparr>))))
       (\<lambda>e. err (WithCause (New AgentTunnelUnavailable ''agent signaling write failed'') e)) ok"

definition dial_wait :: "nat \<Rightarrow> bool \<Rightarrow> bool \<Rightarrow> nat option tact" where
  "dial_wait p expired lucky = (\<lambda>h.
     case Option.bind (map_of (hb_cells h) p) pp_chan of
       Some conn \<Rightarrow> if expired \<and> \<not> lucky
         then (Inl (WithCause (New AgentTunnelUnavailable ''agent did not open data channel in time'') (PlainErr ''context'')), h)
         else (Inr (Some conn), h\<lparr>hb_cells := (case map_of (hb_cells h) p of None \<Rightarrow> hb_cells h
           | Some c \<Rightarrow> al_put p (c\<lparr>pp_chan := None\<rparr>) (hb_cells h))\<rparr>)
     | None \<Rightarrow> if expired
         then (Inl (WithCause (New AgentTunnelUnavailable ''agent did not open data channel in time'') (PlainErr ''context'')), h)
         else (Inr None, h))"

text \<open>\<open>DialContext\<close>: \<open>meanwhile\<close> is all that others do before the connection arrives or the wait, which
  has a deadline, ends.\<close>

definition deferred :: "('s, unit) gm \<Rightarrow> ('s, 'a) gm \<Rightarrow> ('s, 'a) gm" where
  "deferred f m = on_result m (\<lambda>e. and_then f (\<lambda>_. err e)) (\<lambda>x. and_then f (\<lambda>_. ok x))"

definition DialContext :: "unit tact \<Rightarrow> bool \<Rightarrow> string \<Rightarrow> string \<Rightarrow> string \<Rightarrow> string \<Rightarrow> nat tact" where
  "DialContext meanwhile lucky cluster network addr conn_id =
     and_then (dial_ask cluster network conn_id) (\<lambda>(sess, p).
     deferred (dropPipe conn_id)
       (and_then (dial_send sess conn_id addr) (\<lambda>_.
        and_then meanwhile (\<lambda>_.
        and_then (dial_wait p False True) (\<lambda>r. case r of Some conn \<Rightarrow> ok conn
          | None \<Rightarrow> and_then (dial_wait p True lucky) (\<lambda>r'. case r' of Some conn \<Rightarrow> ok conn | None \<Rightarrow> err tunnel_gone))))))"

end
