(* ===== verification/Agent_Steps.thy ===== *)
theory Agent_Steps
  imports Agent_Hub
begin

text \<open>
  The hub under concurrency: every section of a registration, of a dial and of a data request is
  one step, and steps of different connections interleave freely, with the rest of the system
  changing between them. What is proved: a dialer only ever gets a connection that was opened
  with the key of a session whose token was valid for the dialer's cluster, and a waiting dial is
  answered at most once.
\<close>

subsection \<open>The steps\<close>

text \<open>How far the handler of a signaling connection has come.\<close>

datatype phase =
    PChecked agent_session string
  | PLooked agent_session string nat
  | PClosed agent_session string
  | PPut agent_session string
  | PAcked agent_session string
  | PConfirmed agent_session
  | PServing agent_session

fun session_of :: "phase \<Rightarrow> agent_session" where
  "session_of (PChecked s t) = s"
| "session_of (PLooked s t v) = s"
| "session_of (PClosed s t) = s"
| "session_of (PPut s t) = s"
| "session_of (PAcked s t) = s"
| "session_of (PConfirmed s) = s"
| "session_of (PServing s) = s"

text \<open>
  The hub and its handlers: registrations by socket, waiting dials by pipe (cluster, connection id,
  session asked) and data requests by connection (pipe claimed). The last two components record
  what happened, for the statements: the sessions granted with the token and the state in which
  it was checked, and the keys shown by data connections.
\<close>

record tunnel_world =
  tw_hub :: hub
  tw_regs :: "nat \<rightharpoonup> phase"
  tw_dials :: "nat \<rightharpoonup> string \<times> string \<times> agent_session"
  tw_claims :: "nat \<rightharpoonup> nat"
  tw_granted :: "(agent_session \<times> string \<times> sys) list"
  tw_shown :: "(nat \<times> string) list"

datatype tunnel_event = Silent | Received string nat

inductive tunnel_step :: "hub_options \<Rightarrow> tunnel_world \<Rightarrow> tunnel_event \<Rightarrow> tunnel_world \<Rightarrow> bool" for opt where
  check: "tw_regs w ws = None \<Longrightarrow> register_check opt ws payload key (tw_hub w) = (Inr (s, token), h) \<Longrightarrow>
    tunnel_step opt w Silent (w\<lparr>tw_hub := h, tw_regs := (tw_regs w)(ws \<mapsto> PChecked s token),
      tw_granted := (s, token, hb_sys (tw_hub w)) # tw_granted w\<rparr>)"
| refused: "register_check opt ws payload key (tw_hub w) = (Inl e, h) \<Longrightarrow>
    tunnel_step opt w Silent (w\<lparr>tw_hub := snd (reject ws e h)\<rparr>)"
| put_free: "tw_regs w ws = Some (PChecked s token) \<Longrightarrow> register_old s (tw_hub w) = (Inr None, h) \<Longrightarrow>
    tunnel_step opt w Silent (w\<lparr>tw_hub := snd (register_put s h), tw_regs := (tw_regs w)(ws \<mapsto> PPut s token)\<rparr>)"
| look: "tw_regs w ws = Some (PChecked s token) \<Longrightarrow> register_old s (tw_hub w) = (Inr (Some v), h) \<Longrightarrow>
    tunnel_step opt w Silent (w\<lparr>tw_hub := h, tw_regs := (tw_regs w)(ws \<mapsto> PLooked s token v)\<rparr>)"
| close_old: "tw_regs w ws = Some (PLooked s token v) \<Longrightarrow>
    tunnel_step opt w Silent (w\<lparr>tw_hub := snd (ws_close v (tw_hub w)), tw_regs := (tw_regs w)(ws \<mapsto> PClosed s token)\<rparr>)"
| put: "tw_regs w ws = Some (PClosed s token) \<Longrightarrow>
    tunnel_step opt w Silent (w\<lparr>tw_hub := snd (register_put s (tw_hub w)), tw_regs := (tw_regs w)(ws \<mapsto> PPut s token)\<rparr>)"
| ack: "tw_regs w ws = Some (PPut s token) \<Longrightarrow> register_ack s (tw_hub w) = (Inr (), h) \<Longrightarrow>
    tunnel_step opt w Silent (w\<lparr>tw_hub := h, tw_regs := (tw_regs w)(ws \<mapsto> PAcked s token)\<rparr>)"
| ack_fails: "tw_regs w ws = Some (PPut s token) \<Longrightarrow> register_ack s (tw_hub w) = (Inl e, h) \<Longrightarrow>
    tunnel_step opt w Silent (w\<lparr>tw_hub := snd (reject ws e h), tw_regs := (tw_regs w)(ws := None)\<rparr>)"
| confirm: "tw_regs w ws = Some (PAcked s token) \<Longrightarrow> register_confirm opt s token (tw_hub w) = (Inr (), h) \<Longrightarrow>
    tunnel_step opt w Silent (w\<lparr>tw_hub := h, tw_regs := (tw_regs w)(ws \<mapsto> PConfirmed s)\<rparr>)"
| confirm_fails: "tw_regs w ws = Some (PAcked s token) \<Longrightarrow> register_confirm opt s token (tw_hub w) = (Inl e, h) \<Longrightarrow>
    tunnel_step opt w Silent (w\<lparr>tw_hub := snd (reject ws e h), tw_regs := (tw_regs w)(ws := None)\<rparr>)"
| attach: "tw_regs w ws = Some (PConfirmed s) \<Longrightarrow>
    tunnel_step opt w Silent (w\<lparr>tw_hub := snd (register_attach opt s (tw_hub w)), tw_regs := (tw_regs w)(ws \<mapsto> PServing s)\<rparr>)"
| frame: "tw_regs w ws = Some (PServing s) \<Longrightarrow>
    tunnel_step opt w Silent (w\<lparr>tw_hub := snd (run_frame s m (tw_hub w))\<rparr>)"
| exits: "tw_regs w ws = Some (PServing s) \<Longrightarrow>
    tunnel_step opt w Silent (w\<lparr>tw_hub := snd (onExit opt s (tw_hub w)), tw_regs := (tw_regs w)(ws := None)\<rparr>)"
| lost: "tunnel_step opt w Silent (w\<lparr>tw_hub := snd (ws_close ws (tw_hub w))\<rparr>)"
| outside: "tunnel_step opt w Silent (w\<lparr>tw_hub := (tw_hub w)\<lparr>hb_sys := s'\<rparr>\<rparr>)"
| shutdown: "tunnel_step opt w Silent (w\<lparr>tw_hub := snd (hub_Close (tw_hub w))\<rparr>)"
| ask: "dial_ask cluster network conn_id (tw_hub w) = (Inr (s, p), h) \<Longrightarrow>
    tunnel_step opt w Silent (w\<lparr>tw_hub := h, tw_dials := (tw_dials w)(p \<mapsto> (cluster, conn_id, s))\<rparr>)"
| signal: "tw_dials w p = Some (cluster, conn_id, s) \<Longrightarrow> dial_send s conn_id addr (tw_hub w) = (Inr (), h) \<Longrightarrow>
    tunnel_step opt w Silent (w\<lparr>tw_hub := h\<rparr>)"
| signal_fails: "tw_dials w p = Some (cluster, conn_id, s) \<Longrightarrow> dial_send s conn_id addr (tw_hub w) = (Inl e, h) \<Longrightarrow>
    tunnel_step opt w Silent (w\<lparr>tw_hub := snd (dropPipe conn_id h), tw_dials := (tw_dials w)(p := None)\<rparr>)"
| got: "tw_dials w p = Some (cluster, conn_id, s) \<Longrightarrow> dial_wait p expired lucky (tw_hub w) = (Inr (Some conn), h) \<Longrightarrow>
    tunnel_step opt w (Received cluster conn) (w\<lparr>tw_hub := snd (dropPipe conn_id h), tw_dials := (tw_dials w)(p := None)\<rparr>)"
| expires: "tw_dials w p = Some (cluster, conn_id, s) \<Longrightarrow> dial_wait p expired lucky (tw_hub w) = (Inl e, h) \<Longrightarrow>
    tunnel_step opt w Silent (w\<lparr>tw_hub := snd (dropPipe conn_id h), tw_dials := (tw_dials w)(p := None)\<rparr>)"
| claim: "tw_claims w conn = None \<Longrightarrow> data_claim conn_id key (tw_hub w) = (Inr (Some p), h) \<Longrightarrow>
    tunnel_step opt w Silent (w\<lparr>tw_hub := h, tw_claims := (tw_claims w)(conn \<mapsto> p), tw_shown := (conn, key) # tw_shown w\<rparr>)"
| no_upgrade: "tw_claims w conn = Some p \<Longrightarrow>
    tunnel_step opt w Silent (w\<lparr>tw_claims := (tw_claims w)(conn := None)\<rparr>)"
| deliver: "tw_claims w conn = Some p \<Longrightarrow>
    tunnel_step opt w Silent (w\<lparr>tw_hub := snd (data_deliver p conn (tw_hub w)), tw_claims := (tw_claims w)(conn := None)\<rparr>)"

definition fresh_hub :: "sys \<Rightarrow> hub" where
  "fresh_hub s = \<lparr>hb_sys = s, hb_sessions = [], hb_pipes = [], hb_cells = [], hb_next = 0, hb_down = [], hb_out = []\<rparr>"

definition fresh_world :: "sys \<Rightarrow> tunnel_world" where
  "fresh_world s = \<lparr>tw_hub = fresh_hub s, tw_regs = Map.empty, tw_dials = Map.empty, tw_claims = Map.empty,
     tw_granted = [], tw_shown = []\<rparr>"

inductive tunnel_reach :: "hub_options \<Rightarrow> tunnel_world \<Rightarrow> bool" for opt where
  start: "tunnel_reach opt (fresh_world s)"
| step: "tunnel_reach opt w \<Longrightarrow> tunnel_step opt w ev w' \<Longrightarrow> tunnel_reach opt w'"

inductive_cases received_cases: "tunnel_step opt w (Received cluster conn) w'"

subsection \<open>What the sections leave alone\<close>

text \<open>The tables of the hub: sockets, frames and the system around it change freely.\<close>

definition tables :: "hub \<Rightarrow> (string \<times> agent_session) list \<times> (string \<times> nat) list \<times> (nat \<times> pipe) list \<times> nat" where
  "tables h = (hb_sessions h, hb_pipes h, hb_cells h, hb_next h)"

lemma tables_simps [simp]:
  "tables (h\<lparr>hb_sys := s\<rparr>) = tables h" "tables (h\<lparr>hb_out := fs\<rparr>) = tables h" "tables (hb_down_update f h) = tables h"
  by (simp_all add: tables_def)

lemma tables_prims [pres_rules]:
  "preserves (\<lambda>h. tables h = T) (in_sys m)" "preserves (\<lambda>h. tables h = T) (ws_send ws env)"
  "preserves (\<lambda>h. tables h = T) (ws_close ws)" "preserves (\<lambda>h. tables h = T) (gets f)"
  by (auto simp: preserves_def in_sys_def ws_send_def ws_close_def modify_def gets_def split: prod.splits)

lemma tables_no_err [pres_rules]: "preserves I m \<Longrightarrow> preserves I (no_err m)"
  unfolding no_err_def by (intro pres_rules)

lemma preserves_let [pres_rules]: "preserves I (f x) \<Longrightarrow> preserves I (Let x f)"
  by simp

lemma tables_kept:
  "preserves (\<lambda>h. tables h = T) (reject ws e)"
  "preserves (\<lambda>h. tables h = T) (register_check opt ws payload key)"
  "preserves (\<lambda>h. tables h = T) (register_old s)"
  "preserves (\<lambda>h. tables h = T) (register_ack s)"
  "preserves (\<lambda>h. tables h = T) (register_confirm opt s token)"
  "preserves (\<lambda>h. tables h = T) (register_attach opt s)"
  "preserves (\<lambda>h. tables h = T) (run_frame s m)"
  "preserves (\<lambda>h. tables h = T) (dial_send s conn_id addr)"
  unfolding reject_def register_check_def register_old_def register_ack_def register_confirm_def register_attach_def
    run_frame_def dial_send_def
  by (auto intro!: pres_rules split: option.split prod.split signal_msg.split)

lemmas tables_keep = tables_kept [THEN preservesD, OF refl] tables_prims(3) [THEN preservesD, OF refl]

subsection \<open>The invariant\<close>

text \<open>Sessions in use were granted; a pipe belongs to the cluster and carries the key of a granted
  session; a connection waiting in a pipe, or about to be put there, showed its key; the pipes in
  the table and those claimed are empty and are held once.\<close>

definition regs_ok :: "(nat \<rightharpoonup> phase) \<Rightarrow> agent_session set \<Rightarrow> bool" where
  "regs_ok R G \<longleftrightarrow> (\<forall>ws ph. R ws = Some ph \<longrightarrow> session_of ph \<in> G)"

definition sessions_ok :: "(string \<rightharpoonup> agent_session) \<Rightarrow> agent_session set \<Rightarrow> bool" where
  "sessions_ok S G \<longleftrightarrow> (\<forall>c s. S c = Some s \<longrightarrow> s \<in> G \<and> as_cluster s = c)"

definition cell_ok :: "agent_session set \<Rightarrow> (nat \<times> string) set \<Rightarrow> pipe \<Rightarrow> bool" where
  "cell_ok G V x \<longleftrightarrow> (\<exists>s \<in> G. as_cluster s = pp_cluster x \<and> as_key s = pp_key x) \<and>
     (\<forall>conn. pp_chan x = Some conn \<longrightarrow> (conn, pp_key x) \<in> V)"

definition cells_ok :: "(nat \<rightharpoonup> pipe) \<Rightarrow> nat \<Rightarrow> agent_session set \<Rightarrow> (nat \<times> string) set \<Rightarrow> bool" where
  "cells_ok C n G V \<longleftrightarrow> (\<forall>p x. C p = Some x \<longrightarrow> p < n \<and> cell_ok G V x)"

definition dials_ok :: "(nat \<rightharpoonup> string \<times> string \<times> agent_session) \<Rightarrow> (nat \<rightharpoonup> pipe) \<Rightarrow> bool" where
  "dials_ok D C \<longleftrightarrow> (\<forall>p d. D p = Some d \<longrightarrow> map_option pp_cluster (C p) = Some (fst d))"

definition empty_pipe :: "(nat \<rightharpoonup> pipe) \<Rightarrow> nat \<Rightarrow> bool" where
  "empty_pipe C p \<longleftrightarrow> map_option pp_chan (C p) = Some None"

definition pipes_ok :: "(string \<rightharpoonup> nat) \<Rightarrow> (nat \<rightharpoonup> nat) \<Rightarrow> (nat \<rightharpoonup> pipe) \<Rightarrow> bool" where
  "pipes_ok P K C \<longleftrightarrow> (\<forall>i p. P i = Some p \<longrightarrow> empty_pipe C p) \<and> (\<forall>a p. K a = Some p \<longrightarrow> empty_pipe C p) \<and>
     (\<forall>i j p. P i = Some p \<longrightarrow> P j = Some p \<longrightarrow> i = j) \<and> (\<forall>a b p. K a = Some p \<longrightarrow> K b = Some p \<longrightarrow> a = b) \<and>
     (\<forall>i a p. P i = Some p \<longrightarrow> K a \<noteq> Some p)"

definition claims_ok :: "(nat \<rightharpoonup> nat) \<Rightarrow> (nat \<rightharpoonup> pipe) \<Rightarrow> (nat \<times> string) set \<Rightarrow> bool" where
  "claims_ok K C V \<longleftrightarrow> (\<forall>a p. K a = Some p \<longrightarrow> (\<exists>x. C p = Some x \<and> (a, pp_key x) \<in> V))"

definition tunnel_inv :: "(string \<rightharpoonup> agent_session) \<Rightarrow> (string \<rightharpoonup> nat) \<Rightarrow> (nat \<rightharpoonup> pipe) \<Rightarrow> nat \<Rightarrow> (nat \<rightharpoonup> phase) \<Rightarrow>
    (nat \<rightharpoonup> string \<times> string \<times> agent_session) \<Rightarrow> (nat \<rightharpoonup> nat) \<Rightarrow> agent_session set \<Rightarrow> (nat \<times> string) set \<Rightarrow> bool" where
  "tunnel_inv S P C n R D K G V \<longleftrightarrow> regs_ok R G \<and> sessions_ok S G \<and> cells_ok C n G V \<and> dials_ok D C \<and>
     pipes_ok P K C \<and> claims_ok K C V"

lemma cell_ok_mono: "cell_ok G V x \<Longrightarrow> G \<subseteq> G' \<Longrightarrow> V \<subseteq> V' \<Longrightarrow> cell_ok G' V' x"
  unfolding cell_ok_def by blast

lemma inv_grant: "tunnel_inv S P C n R D K G V \<Longrightarrow> session_of ph = s \<Longrightarrow>
    tunnel_inv S P C n (R(ws \<mapsto> ph)) D K (insert s G) V"
  using cell_ok_mono [OF _ subset_insertI order_refl, of G V _ s]
  by (auto simp: tunnel_inv_def regs_ok_def sessions_ok_def cells_ok_def)

lemma inv_phase: "tunnel_inv S P C n R D K G V \<Longrightarrow> R ws = Some ph \<Longrightarrow> session_of ph' = session_of ph \<Longrightarrow>
    tunnel_inv S P C n (R(ws \<mapsto> ph')) D K G V"
  by (simp add: tunnel_inv_def regs_ok_def)

lemma inv_done: "tunnel_inv S P C n R D K G V \<Longrightarrow> tunnel_inv S P C n (R(ws := None)) D K G V"
  by (simp add: tunnel_inv_def regs_ok_def)

lemma inv_session: "tunnel_inv S P C n R D K G V \<Longrightarrow> s \<in> G \<Longrightarrow> tunnel_inv (S(as_cluster s \<mapsto> s)) P C n R D K G V"
  by (simp add: tunnel_inv_def sessions_ok_def)

lemma inv_sessions_less: "tunnel_inv S P C n R D K G V \<Longrightarrow> S' \<subseteq>\<^sub>m S \<Longrightarrow> tunnel_inv S' P C n R D K G V"
  unfolding tunnel_inv_def sessions_ok_def by (metis domIff map_le_def option.distinct(1))

lemma inv_ask:
  assumes I: "tunnel_inv S P C n R D K G V" and s: "S c = Some s"
  shows "tunnel_inv S (P(i \<mapsto> n)) (C(n \<mapsto> \<lparr>pp_cluster = c, pp_key = as_key s, pp_chan = None\<rparr>)) (Suc n) R (D(n \<mapsto> (c, i, s'))) K G V"
proof -
  let ?x = "\<lparr>pp_cluster = c, pp_key = as_key s, pp_chan = None\<rparr>"
  have n: "C n = None" using I by (cases "C n") (auto simp: tunnel_inv_def cells_ok_def)
  have "s \<in> G" "as_cluster s = c" using I s by (auto simp: tunnel_inv_def sessions_ok_def)
  then have "cells_ok (C(n \<mapsto> ?x)) (Suc n) G V"
    using I by (auto simp: tunnel_inv_def cells_ok_def cell_ok_def less_Suc_eq)
  moreover have "dials_ok (D(n \<mapsto> (c, i, s'))) (C(n \<mapsto> ?x))"
    using I n by (auto simp: tunnel_inv_def dials_ok_def)
  moreover have "pipes_ok (P(i \<mapsto> n)) K (C(n \<mapsto> ?x))"
  proof -
    have "\<not> empty_pipe C n" using n by (simp add: empty_pipe_def)
    then have "P j \<noteq> Some n" "K a \<noteq> Some n" for j a
      using I unfolding tunnel_inv_def pipes_ok_def by blast+
    then show ?thesis using I by (auto simp: tunnel_inv_def pipes_ok_def empty_pipe_def)
  qed
  moreover have "claims_ok K (C(n \<mapsto> ?x)) V"
    using I n by (fastforce simp: tunnel_inv_def claims_ok_def)
  ultimately show ?thesis using I by (simp add: tunnel_inv_def)
qed

lemma inv_drop: "tunnel_inv S P C n R D K G V \<Longrightarrow> tunnel_inv S (P(i := None)) C n R (D(p := None)) K G V"
  by (simp add: tunnel_inv_def dials_ok_def pipes_ok_def)

lemma inv_cell:
  assumes "C p = Some x" and "pp_cluster y = pp_cluster x" and "pp_key y = pp_key x"
  shows "cells_ok C n G V \<Longrightarrow> (\<And>conn. pp_chan y = Some conn \<Longrightarrow> (conn, pp_key x) \<in> V) \<Longrightarrow> cells_ok (C(p \<mapsto> y)) n G V"
    and "dials_ok D C \<Longrightarrow> dials_ok D (C(p \<mapsto> y))"
    and "claims_ok K C V \<Longrightarrow> claims_ok K (C(p \<mapsto> y)) V"
  using assms by (auto simp: cells_ok_def cell_ok_def) (fastforce simp: dials_ok_def claims_ok_def)+

lemma inv_receive: "tunnel_inv S P C n R D K G V \<Longrightarrow> C p = Some x \<Longrightarrow> tunnel_inv S P (C(p \<mapsto> x\<lparr>pp_chan := None\<rparr>)) n R D K G V"
  by (auto simp: tunnel_inv_def pipes_ok_def empty_pipe_def intro!: inv_cell)

lemma inv_claim:
  assumes I: "tunnel_inv S P C n R D K G V" and "P i = Some p" and "C p = Some x" and "K conn = None"
  shows "tunnel_inv S (P(i := None)) C n R D (K(conn \<mapsto> p)) G (insert (conn, pp_key x) V)"
proof -
  have "cells_ok C n G (insert (conn, pp_key x) V)"
    using I cell_ok_mono [of G V _ G "insert (conn, pp_key x) V"] by (auto simp: tunnel_inv_def cells_ok_def)
  moreover have "claims_ok (K(conn \<mapsto> p)) C (insert (conn, pp_key x) V)"
    using I assms(3) by (auto simp: tunnel_inv_def claims_ok_def)
  moreover have "pipes_ok (P(i := None)) (K(conn \<mapsto> p)) C"
  proof -
    have "P j = Some p \<Longrightarrow> j = i" "K a \<noteq> Some p" for j a
      using I assms(2) unfolding tunnel_inv_def pipes_ok_def by blast+
    then show ?thesis using I assms(2) by (auto simp: tunnel_inv_def pipes_ok_def)
  qed
  ultimately show ?thesis using I by (simp add: tunnel_inv_def)
qed

lemma inv_unclaim: "tunnel_inv S P C n R D K G V \<Longrightarrow> tunnel_inv S P C n R D (K(conn := None)) G V"
  by (simp add: tunnel_inv_def pipes_ok_def claims_ok_def)

lemma inv_deliver:
  assumes I: "tunnel_inv S P C n R D K G V" and "K conn = Some p" and "C p = Some x"
  shows "tunnel_inv S P (C(p \<mapsto> x\<lparr>pp_chan := Some conn\<rparr>)) n R D (K(conn := None)) G V"
proof -
  have "(conn, pp_key x) \<in> V" using I assms(2,3) by (fastforce simp: tunnel_inv_def claims_ok_def)
  moreover have "pipes_ok P (K(conn := None)) (C(p \<mapsto> x\<lparr>pp_chan := Some conn\<rparr>))"
  proof -
    have "P j \<noteq> Some p" "K a = Some p \<Longrightarrow> a = conn" for j a
      using I assms(2) unfolding tunnel_inv_def pipes_ok_def by blast+
    then show ?thesis using I by (auto simp: tunnel_inv_def pipes_ok_def empty_pipe_def)
  qed
  moreover have "claims_ok (K(conn := None)) (C(p \<mapsto> x\<lparr>pp_chan := Some conn\<rparr>)) V"
    using I assms(3) by (intro inv_cell(3)) (auto simp: tunnel_inv_def claims_ok_def)
  ultimately show ?thesis using I assms(3) by (auto simp: tunnel_inv_def intro!: inv_cell)
qed


subsection \<open>Every step keeps it\<close>

definition granted :: "tunnel_world \<Rightarrow> agent_session set" where
  "granted w = fst ` set (tw_granted w)"

definition tunnel_ok :: "tunnel_world \<Rightarrow> bool" where
  "tunnel_ok w \<longleftrightarrow> tunnel_inv (map_of (hb_sessions (tw_hub w))) (map_of (hb_pipes (tw_hub w))) (map_of (hb_cells (tw_hub w)))
     (hb_next (tw_hub w)) (tw_regs w) (tw_dials w) (tw_claims w) (granted w) (set (tw_shown w))"

text \<open>Steps that change neither the tables nor the handlers of dials and data requests.\<close>

lemma tunnel_ok_tables:
  assumes "tunnel_ok w" and "tables h = tables (tw_hub w)"
  shows "tunnel_ok (w\<lparr>tw_hub := h\<rparr>)" and "tunnel_ok (w\<lparr>tw_hub := h, tw_regs := (tw_regs w)(ws := None)\<rparr>)"
    and "tw_regs w ws = Some ph \<Longrightarrow> session_of ph' = session_of ph \<Longrightarrow>
      tunnel_ok (w\<lparr>tw_hub := h, tw_regs := (tw_regs w)(ws \<mapsto> ph')\<rparr>)"
    and "tunnel_ok (w\<lparr>tw_hub := h, tw_regs := (tw_regs w)(ws \<mapsto> PChecked s token), tw_granted := (s, token, \<sigma>) # tw_granted w\<rparr>)"
  using assms inv_grant [of _ _ _ _ _ _ _ _ _ "PChecked s token" s ws] inv_phase inv_done
  by (auto simp: tunnel_ok_def tables_def granted_def)

lemma tables_run:
  assumes "preserves (\<lambda>h'. tables h' = tables h) m" and "m h = (r, h')"
  shows "tables h' = tables h"
  using preservesD [OF assms(1), of h] assms(2) by simp

lemmas tables_runs = tables_kept [THEN tables_run]

lemma put_ok:
  assumes I: "tunnel_ok w" and ws: "tw_regs w ws = Some ph" "session_of ph = s" "session_of ph' = s"
    and h: "tables h = tables (tw_hub w)"
  shows "tunnel_ok (w\<lparr>tw_hub := snd (register_put s h), tw_regs := (tw_regs w)(ws \<mapsto> ph')\<rparr>)"
proof -
  have "s \<in> granted w" using I ws by (auto simp: tunnel_ok_def tunnel_inv_def regs_ok_def)
  moreover have "map_of (hb_sessions (snd (register_put s h))) = (map_of (hb_sessions h))(as_cluster s \<mapsto> s)"
    by (auto simp: register_put_def modify_def fun_eq_iff)
  moreover have "hb_pipes (snd (register_put s h)) = hb_pipes h" "hb_cells (snd (register_put s h)) = hb_cells h"
      "hb_next (snd (register_put s h)) = hb_next h" by (simp_all add: register_put_def modify_def)
  ultimately show ?thesis
    using I h ws inv_session inv_phase [where R = "tw_regs w" and ws = ws and ph = ph and ph' = ph']
    by (simp add: tunnel_ok_def tables_def granted_def)
qed

lemma sessions_less_ok:
  assumes "tunnel_ok w" and "map_of (hb_sessions h) \<subseteq>\<^sub>m map_of (hb_sessions (tw_hub w))"
    and "hb_pipes h = hb_pipes (tw_hub w)" "hb_cells h = hb_cells (tw_hub w)" "hb_next h = hb_next (tw_hub w)"
  shows "tunnel_ok (w\<lparr>tw_hub := h\<rparr>)"
  using assms inv_sessions_less by (simp add: tunnel_ok_def granted_def)

lemma onExit_tables:
  "map_of (hb_sessions (snd (onExit opt s h))) \<subseteq>\<^sub>m map_of (hb_sessions h)" (is ?A)
  "hb_pipes (snd (onExit opt s h)) = hb_pipes h" (is ?B) "hb_cells (snd (onExit opt s h)) = hb_cells h" (is ?C)
  "hb_next (snd (onExit opt s h)) = hb_next h" (is ?D)
proof -
  have "wp (onExit opt s) (\<lambda>_ h'. map_of (hb_sessions h') \<subseteq>\<^sub>m map_of (hb_sessions h) \<and> hb_pipes h' = hb_pipes h \<and>
        hb_cells h' = hb_cells h \<and> hb_next h' = hb_next h)
      (\<lambda>_ h'. map_of (hb_sessions h') \<subseteq>\<^sub>m map_of (hb_sessions h) \<and> hb_pipes h' = hb_pipes h \<and>
        hb_cells h' = hb_cells h \<and> hb_next h' = hb_next h) h"
    by (auto simp: onExit_def ws_close_def wp_rules map_le_def split: option.split)
      (auto simp: wp_def split: prod.split sum.split)
  then show ?A ?B ?C ?D by (auto simp: wp_def split: prod.splits sum.splits)
qed

lemma hub_Close_tables:
  "hb_sessions (snd (hub_Close h)) = []" "hb_pipes (snd (hub_Close h)) = hb_pipes h"
  "hb_cells (snd (hub_Close h)) = hb_cells h" "hb_next (snd (hub_Close h)) = hb_next h"
proof -
  have "preserves (\<lambda>h. tables h = T) (and_then (mapM ws_close ss) (\<lambda>_. ok ()))" for T ss
    by (intro pres_rules)
  then have "tables (snd (and_then (mapM ws_close ss) (\<lambda>_. ok ()) h')) = tables h'" for ss h'
    by (auto simp: preserves_def)
  then have "tables (snd (hub_Close h)) = ([], hb_pipes h, hb_cells h, hb_next h)"
    by (simp add: hub_Close_def and_then_def on_result_def gets_def modify_def tables_def)
  then show "hb_sessions (snd (hub_Close h)) = []" "hb_pipes (snd (hub_Close h)) = hb_pipes h"
    "hb_cells (snd (hub_Close h)) = hb_cells h" "hb_next (snd (hub_Close h)) = hb_next h" by (simp_all add: tables_def)
qed


lemma dial_ask_result:
  assumes "dial_ask cluster network conn_id h = (Inr (s, p), h')"
  shows "map_of (hb_sessions h) cluster = Some s \<and> p = hb_next h \<and>
    h' = h\<lparr>hb_next := Suc p, hb_cells := al_put p \<lparr>pp_cluster = cluster, pp_key = as_key s, pp_chan = None\<rparr> (hb_cells h),
      hb_pipes := al_put conn_id p (hb_pipes h)\<rparr>"
proof -
  have "wp (dial_ask cluster network conn_id) (\<lambda>(s, p) h'. map_of (hb_sessions h) cluster = Some s \<and> p = hb_next h \<and>
    h' = h\<lparr>hb_next := Suc p, hb_cells := al_put p \<lparr>pp_cluster = cluster, pp_key = as_key s, pp_chan = None\<rparr> (hb_cells h),
      hb_pipes := al_put conn_id p (hb_pipes h)\<rparr>) (\<lambda>_ _. True) h"
    by (simp add: dial_ask_def takePipe_def SessionOf_def wp_rules split: option.split)
  from wp_InrD [OF this assms] show ?thesis by simp
qed

lemma dial_wait_result:
  "dial_wait p expired lucky h = (Inr (Some conn), h') \<Longrightarrow> \<exists>x. map_of (hb_cells h) p = Some x \<and> pp_chan x = Some conn \<and>
     h' = h\<lparr>hb_cells := al_put p (x\<lparr>pp_chan := None\<rparr>) (hb_cells h)\<rparr>"
  "dial_wait p expired lucky h = (Inl e, h') \<Longrightarrow> h' = h"
  by (auto simp: dial_wait_def split: option.splits if_splits bind_splits)

lemma data_claim_result:
  "data_claim conn_id key h = (Inr (Some p), h') \<Longrightarrow> map_of (hb_pipes h) conn_id = Some p \<and>
     (\<exists>x. map_of (hb_cells h) p = Some x \<and> pp_key x = key) \<and> h' = h\<lparr>hb_pipes := al_del conn_id (hb_pipes h)\<rparr>"
  by (auto simp: data_claim_def split: option.splits if_splits)



lemma drop_ok:
  assumes "tunnel_ok w" and "tables h = tables (tw_hub w)"
  shows "tunnel_ok (w\<lparr>tw_hub := snd (dropPipe conn_id h), tw_dials := (tw_dials w)(p := None)\<rparr>)"
  using assms inv_drop by (simp add: tunnel_ok_def granted_def tables_def dropPipe_def modify_def al_fun)

lemma step_ok:
  assumes "tunnel_step opt w ev w'" and I: "tunnel_ok w"
  shows "tunnel_ok w'"
  using assms(1)
proof cases
  case (check ws payload key s token h)
  have "tables h = tables (tw_hub w)" using check(4) by (rule tables_runs)
  then show ?thesis unfolding check(2) by (intro tunnel_ok_tables(4) [OF I])
next
  case (refused ws payload key e h)
  have "tables h = tables (tw_hub w)" using refused(3) by (rule tables_runs)
  then show ?thesis unfolding refused(2) by (intro tunnel_ok_tables(1) [OF I]) (simp add: tables_keep)
next
  case (put_free ws s token h)
  have "tables h = tables (tw_hub w)" using put_free(4) by (rule tables_runs)
  then show ?thesis unfolding put_free(2) by (intro put_ok [OF I put_free(3)]) simp_all
next
  case (look ws s token v h)
  have "tables h = tables (tw_hub w)" using look(4) by (rule tables_runs)
  then show ?thesis unfolding look(2) by (intro tunnel_ok_tables(3) [OF I _ look(3)]) simp_all
next
  case (close_old ws s token v)
  show ?thesis unfolding close_old(2) by (intro tunnel_ok_tables(3) [OF I _ close_old(3)] tables_keep) simp_all
next
  case (put ws s token)
  then show ?thesis unfolding put(2) by (intro put_ok [OF I put(3)]) simp_all
next
  case (ack ws s token h)
  have "tables h = tables (tw_hub w)" using ack(4) by (rule tables_runs)
  then show ?thesis unfolding ack(2) by (intro tunnel_ok_tables(3) [OF I _ ack(3)]) simp_all
next
  case (ack_fails ws s token e h)
  have "tables h = tables (tw_hub w)" using ack_fails(4) by (rule tables_runs)
  then show ?thesis unfolding ack_fails(2) by (intro tunnel_ok_tables(2) [OF I]) (simp add: tables_keep)
next
  case (confirm ws s token h)
  have "tables h = tables (tw_hub w)" using confirm(4) by (rule tables_runs)
  then show ?thesis unfolding confirm(2) by (intro tunnel_ok_tables(3) [OF I _ confirm(3)]) simp_all
next
  case (confirm_fails ws s token e h)
  have "tables h = tables (tw_hub w)" using confirm_fails(4) by (rule tables_runs)
  then show ?thesis unfolding confirm_fails(2) by (intro tunnel_ok_tables(2) [OF I]) (simp add: tables_keep)
next
  case (attach ws s)
  show ?thesis unfolding attach(2) by (intro tunnel_ok_tables(3) [OF I _ attach(3)] tables_keep) simp_all
next
  case (frame ws s m)
  show ?thesis unfolding frame(2) by (intro tunnel_ok_tables(1) [OF I] tables_keep)
next
  case (exits ws s)
  have "tunnel_ok (w\<lparr>tw_hub := snd (onExit opt s (tw_hub w))\<rparr>)"
    by (intro sessions_less_ok [OF I] onExit_tables)
  then show ?thesis unfolding exits(2) by (drule_tac tunnel_ok_tables(2) [OF _ refl]) simp
next
  case (lost ws)
  show ?thesis unfolding lost(2) by (intro tunnel_ok_tables(1) [OF I] tables_keep)
next
  case (outside s')
  show ?thesis unfolding outside(2) by (intro tunnel_ok_tables(1) [OF I]) simp
next
  case shutdown
  show ?thesis unfolding shutdown(2) by (intro sessions_less_ok [OF I]) (simp_all add: hub_Close_tables)
next
  case (ask cluster network conn_id s p h)
  from dial_ask_result [OF ask(3)] show ?thesis unfolding ask(2)
    using I inv_ask by (simp add: tunnel_ok_def granted_def al_fun)
next
  case (signal p cluster conn_id s addr h)
  have "tables h = tables (tw_hub w)" using signal(4) by (rule tables_runs)
  then show ?thesis unfolding signal(2) by (rule tunnel_ok_tables(1) [OF I])
next
  case (signal_fails p cluster conn_id s addr e h)
  have "tables h = tables (tw_hub w)" using signal_fails(4) by (rule tables_runs)
  then show ?thesis unfolding signal_fails(2) by (rule drop_ok [OF I])
next
  case (got p cluster conn_id s expired lucky conn h)
  from dial_wait_result(1) [OF got(4)] obtain x where x: "map_of (hb_cells (tw_hub w)) p = Some x"
    "h = (tw_hub w)\<lparr>hb_cells := al_put p (x\<lparr>pp_chan := None\<rparr>) (hb_cells (tw_hub w))\<rparr>" by blast
  have "tunnel_ok (w\<lparr>tw_hub := h\<rparr>)" using I x(1) inv_receive [where C = "map_of (hb_cells (tw_hub w))" and p = p and x = x] by (simp add: x(2) tunnel_ok_def granted_def al_fun)
  from drop_ok [OF this, of h] show ?thesis unfolding got(2) by simp
next
  case (expires p cluster conn_id s expired lucky e h)
  show ?thesis unfolding expires(2) dial_wait_result(2) [OF expires(4)] by (rule drop_ok [OF I refl])
next
  case (claim conn conn_id key p h)
  from data_claim_result [OF claim(4)] obtain x where x: "map_of (hb_pipes (tw_hub w)) conn_id = Some p"
    "map_of (hb_cells (tw_hub w)) p = Some x" "pp_key x = key" "h = (tw_hub w)\<lparr>hb_pipes := al_del conn_id (hb_pipes (tw_hub w))\<rparr>"
    by blast
  note I' = I [unfolded tunnel_ok_def]
  note inv_claim [OF I', where i = conn_id and p = p and x = x and conn = conn, OF x(1,2) claim(3)]
  then show ?thesis unfolding claim(2) x(3,4) by (simp add: tunnel_ok_def granted_def al_fun)
next
  case (no_upgrade conn p)
  show ?thesis unfolding no_upgrade(2) using I inv_unclaim by (simp add: tunnel_ok_def granted_def)
next
  case (deliver conn p)
  have "empty_pipe (map_of (hb_cells (tw_hub w))) p"
    using I deliver(3) unfolding tunnel_ok_def tunnel_inv_def pipes_ok_def by blast
  then obtain x where x: "map_of (hb_cells (tw_hub w)) p = Some x" "pp_chan x = None"
    by (auto simp: empty_pipe_def)
  show ?thesis unfolding deliver(2)
    using I x(1) deliver(3) inv_deliver [where C = "map_of (hb_cells (tw_hub w))" and p = p and x = x and K = "tw_claims w" and conn = conn]
    by (simp add: data_deliver_def x tunnel_ok_def granted_def al_fun)
qed


lemma reach_ok: "tunnel_reach opt w \<Longrightarrow> tunnel_ok w"
proof (induction rule: tunnel_reach.induct)
  case (start s)
  show ?case by (simp add: tunnel_ok_def tunnel_inv_def fresh_world_def fresh_hub_def regs_ok_def sessions_ok_def
        cells_ok_def dials_ok_def pipes_ok_def claims_ok_def)
qed (rule step_ok)

subsection \<open>Tokens of granted sessions\<close>

definition vouched :: "hub_options \<Rightarrow> agent_session \<times> string \<times> sys \<Rightarrow> bool" where
  "vouched opt g = (case g of (s, token, \<sigma>) \<Rightarrow> \<exists>validate \<sigma>'. ho_validate opt = Some validate \<and> validate token \<sigma> = (Inr (as_cluster s), \<sigma>'))"

lemma register_check_vouched:
  assumes "register_check opt ws payload key h = (Inr (s, token), h')"
  shows "vouched opt (s, token, hb_sys h) \<and> as_key s = key \<and> as_ws s = ws"
proof (cases "ho_validate opt")
  case None
  then show ?thesis using assms by (simp add: register_check_def err_def)
next
  case (Some v)
  then show ?thesis using assms
    by (cases "v token (hb_sys h)") (auto simp: register_check_def err_def ok_def and_then_def on_result_def in_sys_def
        vouched_def split: option.splits if_splits sum.splits prod.splits)
qed

lemma reach_vouched: "tunnel_reach opt w \<Longrightarrow> g \<in> set (tw_granted w) \<Longrightarrow> vouched opt g"
proof (induction arbitrary: g rule: tunnel_reach.induct)
  case (step w ev w')
  from step.hyps(2) show ?case
  proof cases
    case (check ws payload key s token h)
    then have "g = (s, token, hb_sys (tw_hub w)) \<or> g \<in> set (tw_granted w)" using step.prems by simp
    then show ?thesis using step.IH register_check_vouched [OF check(4)] by blast
  qed (use step.prems step.IH in simp_all)
qed (simp add: fresh_world_def)

text \<open>C31: a tunnel leads to the right cluster. However registrations, dials, data requests, lost
  connections and everything else interleave, a dialer for a cluster only ever receives a
  connection that showed the session key of a session of that same cluster, and that session was
  granted to a token which the enrollment check had accepted for that cluster.\<close>

theorem tunnel_authentic:
  assumes "tunnel_reach opt w" and "tunnel_step opt w (Received cluster conn) w'"
  shows "\<exists>s token \<sigma>. (s, token, \<sigma>) \<in> set (tw_granted w) \<and> as_cluster s = cluster \<and> (conn, as_key s) \<in> set (tw_shown w) \<and>
    vouched opt (s, token, \<sigma>)"
proof -
  from assms(2) obtain p i s0 expired lucky h where d: "tw_dials w p = Some (cluster, i, s0)"
    and got: "dial_wait p expired lucky (tw_hub w) = (Inr (Some conn), h)" by (rule received_cases) blast
  from dial_wait_result(1) [OF got] obtain x where x: "map_of (hb_cells (tw_hub w)) p = Some x" "pp_chan x = Some conn" by blast
  note I = reach_ok [OF assms(1), unfolded tunnel_ok_def tunnel_inv_def]
  have "pp_cluster x = cluster" using I d x(1) by (fastforce simp: dials_ok_def)
  moreover have "cell_ok (granted w) (set (tw_shown w)) x" using I x(1) by (auto simp: cells_ok_def)
  ultimately obtain s where s: "s \<in> granted w" "as_cluster s = cluster" "(conn, as_key s) \<in> set (tw_shown w)"
    using x(2) by (auto simp: cell_ok_def)
  then show ?thesis using reach_vouched [OF assms(1)] unfolding granted_def by fastforce
qed

text \<open>C32: a dial is answered once. Under the same interleavings, a data request that has claimed a
  waiting dial always finds its channel free (the connection is never dropped as a duplicate),
  and no other data request can claim the same dial.\<close>

theorem dial_answered_once:
  assumes "tunnel_reach opt w" and "tw_claims w conn = Some p"
  shows "fst (data_deliver p conn (tw_hub w)) = Inr True \<and>
    (\<forall>conn_id key h. data_claim conn_id key (tw_hub w) \<noteq> (Inr (Some p), h)) \<and>
    (\<forall>conn'. tw_claims w conn' = Some p \<longrightarrow> conn' = conn)"
proof -
  note I = reach_ok [OF assms(1), unfolded tunnel_ok_def tunnel_inv_def]
  have "empty_pipe (map_of (hb_cells (tw_hub w))) p" using I assms(2) by (auto simp: pipes_ok_def)
  then have "fst (data_deliver p conn (tw_hub w)) = Inr True"
    by (auto simp: empty_pipe_def data_deliver_def)
  moreover have "data_claim i key (tw_hub w) \<noteq> (Inr (Some p), h)" for i key h
    using I assms(2) data_claim_result unfolding pipes_ok_def by metis
  moreover have "tw_claims w conn' = Some p \<longrightarrow> conn' = conn" for conn'
    using I assms(2) unfolding pipes_ok_def by metis
  ultimately show ?thesis by blast
qed


subsection \<open>Example: a dial of the cluster east answered by its agent\<close>

definition demo_opt :: hub_options where
  "demo_opt = \<lparr>ho_validate = Some (\<lambda>t. if t = ''tok'' then ok ''east'' else err DriverErr), ho_confirm = None,
     ho_connect = None, ho_disconnect = None, ho_reregister = None, ho_heartbeat = 0, ho_dial_wait = 0,
     ho_register_timeout = 0, ho_max_frame = 0\<rparr>"

definition demo_session :: agent_session where
  "demo_session = \<lparr>as_ws = 1, as_cluster = ''east'', as_version = '''', as_key = ''k'', as_caps = []\<rparr>"

text \<open>The hub after the registration, with the dial open, and when the connection was delivered.\<close>

definition demo_hub :: "sys \<Rightarrow> nat \<Rightarrow> hub" where
  "demo_hub \<sigma> i = (fresh_hub \<sigma>)\<lparr>hb_sessions := [(''east'', demo_session)], hb_next := (if i = 0 then 0 else 1),
     hb_pipes := (if i = 1 then [(''c'', 0)] else []),
     hb_cells := (if i = 0 then [] else [(0, \<lparr>pp_cluster = ''east'', pp_key = ''k'', pp_chan = if i = 3 then Some 7 else None\<rparr>)])\<rparr>"

definition demo_tunnel :: "sys \<Rightarrow> nat \<Rightarrow> tunnel_world" where
  "demo_tunnel \<sigma> i = \<lparr>tw_hub = demo_hub \<sigma> i, tw_regs = [1 \<mapsto> PPut demo_session ''tok''],
     tw_dials = (if i = 0 then Map.empty else [0 \<mapsto> (''east'', ''c'', demo_session)]),
     tw_claims = (if i = 2 then [7 \<mapsto> 0] else Map.empty), tw_granted = [(demo_session, ''tok'', \<sigma>)],
     tw_shown = (if i < 2 then [] else [(7, ''k'')])\<rparr>"

lemmas demo_tunnel_defs = demo_tunnel_def demo_hub_def demo_session_def demo_opt_def fresh_world_def fresh_hub_def

lemma demo_registered: "tunnel_reach demo_opt (demo_tunnel \<sigma> 0)"
proof -
  let ?w = "(fresh_world \<sigma>)\<lparr>tw_regs := [1 \<mapsto> PChecked demo_session ''tok''], tw_granted := [(demo_session, ''tok'', \<sigma>)]\<rparr>"
  have "register_check demo_opt 1 (Some (marshal_register \<lparr>gp_token = ''tok'', gp_version = '''', gp_caps = []\<rparr>)) ''k''
      (tw_hub (fresh_world \<sigma>)) = (Inr (demo_session, ''tok''), fresh_hub \<sigma>)"
    by (simp add: register_check_def frame_rules demo_tunnel_defs and_then_def on_result_def in_sys_def ok_def)
  from tunnel_step.check [OF _ this]
  have "tunnel_step demo_opt (fresh_world \<sigma>) Silent ?w"
    by (simp add: fresh_world_def fresh_hub_def)
  then have "tunnel_reach demo_opt ?w" by (rule tunnel_reach.step [OF tunnel_reach.start])
  moreover have "tunnel_step demo_opt ?w Silent (?w\<lparr>tw_hub := snd (register_put demo_session (fresh_hub \<sigma>)),
      tw_regs := (tw_regs ?w)(1 \<mapsto> PPut demo_session ''tok'')\<rparr>)"
    by (rule tunnel_step.put_free [of ?w 1 demo_session "''tok''" "fresh_hub \<sigma>"])
      (simp_all add: register_old_def gets_def demo_tunnel_defs)
  moreover have "?w\<lparr>tw_hub := snd (register_put demo_session (fresh_hub \<sigma>)),
      tw_regs := (tw_regs ?w)(1 \<mapsto> PPut demo_session ''tok'')\<rparr> = demo_tunnel \<sigma> 0"
    by (simp add: register_put_def modify_def demo_tunnel_defs al_put_def)
  ultimately show ?thesis by (metis tunnel_reach.step)
qed

lemma demo_asked: "tunnel_reach demo_opt (demo_tunnel \<sigma> 1)"
proof -
  have "dial_ask ''east'' ''tcp'' ''c'' (tw_hub (demo_tunnel \<sigma> 0)) = (Inr (demo_session, 0), tw_hub (demo_tunnel \<sigma> 1))"
    by (simp add: dial_ask_def takePipe_def SessionOf_def demo_tunnel_defs guard_def and_then_def on_result_def gets_def ok_def
        modify_def al_put_def)
  from tunnel_step.ask [OF this] have "tunnel_step demo_opt (demo_tunnel \<sigma> 0) Silent (demo_tunnel \<sigma> 1)"
    by (simp add: demo_tunnel_defs)
  then show ?thesis by (rule tunnel_reach.step [OF demo_registered])
qed

lemma demo_claimed: "tunnel_reach demo_opt (demo_tunnel \<sigma> 2)"
proof -
  have "data_claim ''c'' ''k'' (tw_hub (demo_tunnel \<sigma> 1)) = (Inr (Some 0), tw_hub (demo_tunnel \<sigma> 2))"
    by (simp add: data_claim_def demo_tunnel_defs al_del_def)
  from tunnel_step.claim [OF _ this, of 7] have "tunnel_step demo_opt (demo_tunnel \<sigma> 1) Silent (demo_tunnel \<sigma> 2)"
    by (simp add: demo_tunnel_defs)
  then show ?thesis by (rule tunnel_reach.step [OF demo_asked])
qed

lemma demo_delivered: "tunnel_reach demo_opt (demo_tunnel \<sigma> 3)"
proof -
  have "tunnel_step demo_opt (demo_tunnel \<sigma> 2) Silent (demo_tunnel \<sigma> 3)"
    using tunnel_step.deliver [of "demo_tunnel \<sigma> 2" 7 0] by (simp add: demo_tunnel_defs data_deliver_def al_put_def)
  then show ?thesis by (rule tunnel_reach.step [OF demo_claimed])
qed

lemma tunnel_authentic_witness:
  "\<exists>s token \<sigma>'. (s, token, \<sigma>') \<in> set (tw_granted (demo_tunnel demo_sys 3)) \<and> as_cluster s = ''east'' \<and>
     (7, as_key s) \<in> set (tw_shown (demo_tunnel demo_sys 3)) \<and> vouched demo_opt (s, token, \<sigma>')"
proof -
  have "dial_wait 0 False True (tw_hub (demo_tunnel demo_sys 3)) = (Inr (Some 7), snd (dial_wait 0 False True (tw_hub (demo_tunnel demo_sys 3))))"
    by (simp add: dial_wait_def demo_tunnel_defs)
  from tunnel_step.got [OF _ this] tunnel_authentic [OF demo_delivered] show ?thesis
    by (simp add: demo_tunnel_defs) blast
qed

lemma dial_answered_once_witness:
  "fst (data_deliver 0 7 (tw_hub (demo_tunnel demo_sys 2))) = Inr True"
  using dial_answered_once [OF demo_claimed, of demo_sys 7 0] by (simp add: demo_tunnel_def)

end
