(* ===== verification/Agent_Laws.thy ===== *)
theory Agent_Laws
  imports Agent_Hub
begin

text \<open>
  What one registration and one dial achieve. The locale \<open>hub_hooks\<close> states what the hub relies on
  in the callbacks the server gives it (agent/hub.go \<open>Options\<close>); it extends the contract of the
  runtime manager and is interpreted on the server's wiring (cmd/server/main.go). The lemmas at
  the end record what the code does when registrations overlap or fail half-way.
\<close>

subsection \<open>The callbacks\<close>

definition keeps :: "(sys \<Rightarrow> string \<Rightarrow> bool) \<Rightarrow> sys \<Rightarrow> sys \<Rightarrow> bool" where
  "keeps runs s s' \<longleftrightarrow> runs s' = runs s \<and> s_dialers s' = s_dialers s"

text \<open>The frame that tells an agent its key.\<close>

definition told :: "agent_session \<Rightarrow> nat \<times> envelope" where
  "told s = (as_ws s, NewEnvelope ''registered'' '''' (Some (marshal_registered \<lparr>dp_cluster = as_cluster s, dp_key = as_key s\<rparr>)))"

text \<open>A registration that succeeds: the session is the cluster's, the agent was told the key, the
  session it replaces is closed, the dialer is mounted, and the clusters that ran still run.\<close>

definition session_started :: "(sys \<Rightarrow> string \<Rightarrow> bool) \<Rightarrow> hub \<Rightarrow> agent_session \<Rightarrow> hub \<Rightarrow> bool" where
  "session_started runs h s h' \<longleftrightarrow>
     map_of (hb_sessions h') = (map_of (hb_sessions h))(as_cluster s \<mapsto> s) \<and> hb_pipes h' = hb_pipes h \<and> hb_cells h' = hb_cells h \<and>
     (\<forall>old. map_of (hb_sessions h) (as_cluster s) = Some old \<longrightarrow> as_ws old \<noteq> as_ws s \<longrightarrow> as_ws old \<in> set (hb_down h')) \<and>
     hb_out h' = hb_out h @ [told s] \<and>
     runs (hb_sys h') = runs (hb_sys h) \<and> map_of (s_dialers (hb_sys h')) (as_cluster s) = Some tunnel_dialer"

text \<open>One that fails: no cluster started or stopped, no dial is affected, at most one session changed.\<close>

definition session_failed :: "(sys \<Rightarrow> string \<Rightarrow> bool) \<Rightarrow> hub \<Rightarrow> hub \<Rightarrow> bool" where
  "session_failed runs h h' \<longleftrightarrow> keeps runs (hb_sys h) (hb_sys h') \<and> hb_pipes h' = hb_pipes h \<and> hb_cells h' = hb_cells h \<and>
     (\<exists>c. \<forall>c'. c' \<noteq> c \<longrightarrow> map_of (hb_sessions h') c' = map_of (hb_sessions h) c')"

text \<open>What the hub relies on in its callbacks.\<close>

locale hub_hooks = runtime_hook start stop runs accepts
  for start :: "string \<Rightarrow> string \<Rightarrow> rest_config option \<Rightarrow> unit sact"
    and stop :: "string \<Rightarrow> unit sact"
    and runs :: "sys \<Rightarrow> string \<Rightarrow> bool"
    and accepts :: "sys \<Rightarrow> string \<Rightarrow> rest_config \<Rightarrow> bool" +
  fixes opt :: hub_options
    and validate :: "string \<Rightarrow> string sact"
    and confirm :: "string \<Rightarrow> unit sact"
    and connect :: "string \<Rightarrow> string \<Rightarrow> unit sact"
    and disconnect :: "string \<Rightarrow> unit sact"
  assumes given: "ho_validate opt = Some validate" "ho_confirm opt = Some confirm" "ho_connect opt = Some connect"
      "ho_disconnect opt = Some disconnect" "ho_reregister opt = Some start"
    and validate_keeps: "wp (validate t) (\<lambda>_. keeps runs s) (\<lambda>_. keeps runs s) s"
    and confirm_keeps: "wp (confirm t) (\<lambda>_. keeps runs s) (\<lambda>_. keeps runs s) s"
    and connect_keeps: "wp (connect c v) (\<lambda>_. keeps runs s) (\<lambda>_ _. False) s"
    and disconnect_keeps: "wp (disconnect c) (\<lambda>_. keeps runs s) (\<lambda>_ _. False) s"
    and start_dialers: "wp (start n v cfg) (\<lambda>_ s'. s_dialers s' = s_dialers s) (\<lambda>_ s'. s_dialers s' = s_dialers s) s"
    and runs_dialers: "runs (s_dialers_update f s) = runs s"
    and runs_known: "(map_of (s_runtimes s) n \<noteq> None) = runs s n"
begin

lemma start_keeps:
  "runs s n \<Longrightarrow> wp (start n v cfg) (\<lambda>_. keeps runs s) (\<lambda>_. keeps runs s) s"
  using start_spec [of n v cfg s] start_dialers [of n v cfg s]
  by (auto simp: wp_def keeps_def fun_eq_iff split: prod.splits sum.splits)

lemma attachDialer_spec:
  "wp (attachDialer opt c) (\<lambda>_ s'. runs s' = runs s \<and> s_dialers s' = al_put c tunnel_dialer (s_dialers s)) (\<lambda>_ _. False) s"
proof -
  let ?s = "s_dialers_update (al_put c tunnel_dialer) s"
  have "wp (start c v cfg) (\<lambda>_ s'. runs s' = runs s \<and> s_dialers s' = al_put c tunnel_dialer (s_dialers s))
      (\<lambda>_ s'. runs s' = runs s \<and> s_dialers s' = al_put c tunnel_dialer (s_dialers s)) ?s"
    if "map_of (s_runtimes s) c = Some rt" for v cfg rt
  proof -
    have "runs ?s c" using runs_known [of ?s c] that by simp
    from start_keeps [OF this] show ?thesis by (rule wp_mono) (simp_all add: keeps_def runs_dialers)
  qed
  then show ?thesis
    by (auto simp: attachDialer_def given SetDialer_def manager_Get_def wp_rules runs_dialers split: option.split)
qed

lemma register_check_spec:
  "wp (register_check opt ws raw key)
     (\<lambda>(s, t) h'. \<exists>\<sigma>. h' = h\<lparr>hb_sys := \<sigma>\<rparr> \<and> keeps runs (hb_sys h) \<sigma> \<and> as_ws s = ws \<and> as_key s = key \<and>
        validate t (hb_sys h) = (Inr (as_cluster s), \<sigma>))
     (\<lambda>_ h'. \<exists>\<sigma>. h' = h\<lparr>hb_sys := \<sigma>\<rparr> \<and> keeps runs (hb_sys h) \<sigma>) h"
proof -
  have v: "wp (validate t) (\<lambda>c \<sigma>. keeps runs (hb_sys h) \<sigma> \<and> validate t (hb_sys h) = (Inr c, \<sigma>)) (\<lambda>_. keeps runs (hb_sys h)) (hb_sys h)" for t
    using validate_keeps [of t "hb_sys h"] by (auto simp: wp_def split: prod.splits sum.splits)
  have "\<exists>\<sigma>. h = h\<lparr>hb_sys := \<sigma>\<rparr> \<and> keeps runs (hb_sys h) \<sigma>" by (rule exI [of _ "hb_sys h"]) (simp add: keeps_def)
  then show ?thesis
    by (auto simp: register_check_def given wp_rules split: option.split intro!: wp_mono [OF v])
qed

lemma register_attach_spec:
  "wp (register_attach opt s)
     (\<lambda>_ h'. \<exists>\<sigma>. h' = h\<lparr>hb_sys := \<sigma>\<rparr> \<and> runs \<sigma> = runs (hb_sys h) \<and> map_of (s_dialers \<sigma>) (as_cluster s) = Some tunnel_dialer)
     (\<lambda>_ _. False) h"
proof -
  have "wp (connect c v) (\<lambda>_ s'. wp (attachDialer opt c) (\<lambda>_ \<sigma>. runs \<sigma> = runs s \<and> map_of (s_dialers \<sigma>) c = Some tunnel_dialer)
      (\<lambda>_ _. False) s') (\<lambda>_ _. False) s" for c v s
    by (rule wp_mono [OF connect_keeps]) (auto simp: keeps_def intro: wp_mono [OF attachDialer_spec])
  then show ?thesis
    unfolding register_attach_def given option.case wp_rules by (rule wp_mono) (auto elim!: wp_mono)
qed

lemma register_finish_spec:
  "wp (register_finish opt s t)
    (\<lambda>r h'. r = s \<and> hb_sessions h' = hb_sessions h \<and> hb_pipes h' = hb_pipes h \<and> hb_cells h' = hb_cells h \<and>
       hb_down h' = hb_down h \<and> hb_out h' = hb_out h @ [told s] \<and>
       runs (hb_sys h') = runs (hb_sys h) \<and> map_of (s_dialers (hb_sys h')) (as_cluster s) = Some tunnel_dialer)
    (\<lambda>_ h'. hb_sessions h' = hb_sessions h \<and> hb_pipes h' = hb_pipes h \<and> hb_cells h' = hb_cells h \<and>
       keeps runs (hb_sys h) (hb_sys h')) h"
  unfolding register_finish_def register_ack_def register_confirm_def given option.case ws_close_def wp_rules told_def [symmetric]
  by (auto simp: keeps_def intro!: wp_mono [OF confirm_keeps] wp_mono [OF register_attach_spec])

lemma hub_register_spec:
  "wp (hub_register opt ws raw key)
     (\<lambda>s h'. as_ws s = ws \<and> as_key s = key \<and> session_started runs h s h' \<and>
        (\<exists>token \<sigma>. validate token (hb_sys h) = (Inr (as_cluster s), \<sigma>)))
     (\<lambda>_ h'. session_failed runs h h') h"
proof -
  have main: "wp (and_then (register_old s) (\<lambda>old. and_then (case old of None \<Rightarrow> ok () | Some w \<Rightarrow> ws_close w) (\<lambda>_.
        and_then (register_put s) (\<lambda>_. register_finish opt s t))))
      (\<lambda>r h'. r = s \<and> session_started runs h s h') (\<lambda>_ h'. session_failed runs h h') (h\<lparr>hb_sys := \<sigma>\<rparr>)"
    if k: "keeps runs (hb_sys h) \<sigma>" for s t \<sigma>
    using k unfolding register_old_def register_put_def
    by (auto simp: wp_and_then wp_state wp_ok ws_close_def session_started_def session_failed_def keeps_def al_fun
        split: option.split intro!: wp_mono [OF register_finish_spec])
  show ?thesis
    unfolding hub_register_def wp_and_then [of "register_check opt ws raw key"]
  proof (rule wp_mono [OF register_check_spec], goal_cases)
    case (1 x h1)
    then show ?case by (clarsimp, intro wp_mono [OF main]) auto
  qed (auto simp: session_failed_def)
qed

end

subsection \<open>The server's wiring\<close>

definition server_hub :: "wiring \<Rightarrow> libs \<Rightarrow> hub_options" where
  "server_hub v l = \<lparr>ho_validate = Some (\<lambda>t. on_world (Enroll_Validate l t)), ho_confirm = Some (\<lambda>t. on_world (Enroll_Confirm l t)),
     ho_connect = Some OnConnect, ho_disconnect = Some OnDisconnect, ho_reregister = Some (hook_registered v),
     ho_heartbeat = 0, ho_dial_wait = 0, ho_register_timeout = 0, ho_max_frame = 0\<rparr>"

lemma keeps_world: "keeps running s (s\<lparr>s_world := w\<rparr>)" "keeps running s (s_registry_update f s)"
  by (simp_all add: keeps_def)

lemma keeps_trans: "keeps r s t \<Longrightarrow> keeps r t u \<Longrightarrow> keeps r s u"
  by (simp add: keeps_def)

lemma keeps_prims [pres_rules]:
  "preserves (keeps running s) (on_world m)" "preserves (keeps running s) (reg_Put e)"
  by (auto simp: preserves_def on_world_def reg_Put_def modify_def split: prod.split intro: keeps_trans keeps_world)

lemma keeps_hooks:
  "preserves (keeps running s) (OnConnect c v)" "preserves (keeps running s) (OnDisconnect c)"
  unfolding OnConnect_def OnDisconnect_def ignore_err_def by (intro pres_rules)+

lemma hooks_succeed: "wp (OnConnect c v) (\<lambda>_ _. True) (\<lambda>_ _. False) s" "wp (OnDisconnect c) (\<lambda>_ _. True) (\<lambda>_ _. False) s"
proof -
  have t: "wp m (\<lambda>_ _. True) (\<lambda>_ _. True) w" for m :: "('x, 'y) gm" and w
    by (simp add: wp_def split: prod.split sum.split)
  show "wp (OnConnect c v) (\<lambda>_ _. True) (\<lambda>_ _. False) s" "wp (OnDisconnect c) (\<lambda>_ _. True) (\<lambda>_ _. False) s"
    by (simp_all add: OnConnect_def OnDisconnect_def reg_Put_def wp_rules t wp_mono [OF t])
qed

lemma preserves_keeps_wp: "preserves (keeps running s) m \<Longrightarrow> wp m (\<lambda>_. keeps running s) (\<lambda>_. keeps running s) s"
  by (simp add: preserves_wp) (simp add: keeps_def)

lemma wp_conj_ok: "wp m (\<lambda>_ _. True) (\<lambda>_ _. False) s \<Longrightarrow> wp m (\<lambda>_. Q) (\<lambda>_. Q) s \<Longrightarrow> wp m (\<lambda>_. Q) (\<lambda>_ _. False) s"
  by (auto simp: wp_def split: prod.splits sum.splits)

interpretation server_hub: hub_hooks "hook_registered v" hook_unregistered running "startable (wi_new_clients v)"
  "server_hub v l" "\<lambda>t. on_world (Enroll_Validate l t)" "\<lambda>t. on_world (Enroll_Confirm l t)" OnConnect OnDisconnect
proof (intro hub_hooks.intro hub_hooks_axioms.intro)
  show "runtime_hook (hook_registered v) hook_unregistered running (startable (wi_new_clients v))"
    unfolding hook_registered_def hook_unregistered_def by (rule manager_hook.runtime_hook_axioms)
  show "wp (OnConnect c a) (\<lambda>_. keeps running s) (\<lambda>_ _. False) s" "wp (OnDisconnect c) (\<lambda>_. keeps running s) (\<lambda>_ _. False) s" for c a s
    by (rule wp_conj_ok [OF hooks_succeed(1) preserves_keeps_wp [OF keeps_hooks(1)]],
        rule wp_conj_ok [OF hooks_succeed(2) preserves_keeps_wp [OF keeps_hooks(2)]])
  show "wp (hook_registered v n a cfg) (\<lambda>_ s'. s_dialers s' = s_dialers s) (\<lambda>_ s'. s_dialers s' = s_dialers s) s" for n a cfg s
    unfolding hook_registered_def by (rule wp_mono [OF wp_manager_Register]) simp_all
  show "wp (on_world (Enroll_Validate l t)) (\<lambda>_. keeps running s) (\<lambda>_. keeps running s) s" for t s
    by (intro preserves_keeps_wp pres_rules)
  show "wp (on_world (Enroll_Confirm l t)) (\<lambda>_. keeps running s) (\<lambda>_. keeps running s) s" for t s
    by (intro preserves_keeps_wp pres_rules)
qed (simp_all add: server_hub_def running_def live_def fun_eq_iff)


subsection \<open>Properties of registration\<close>

text \<open>C33: what the registration of an agent achieves. When it succeeds, the enrollment check had
  accepted a token for the session's cluster, the session is now that cluster's only one (the
  one it replaces is closed), the agent has been told exactly the key that its data connections
  must show, the tunnel dialer is mounted for the cluster, and no cluster started or stopped.
  When it fails, no dialer is mounted, no dial is affected and no cluster started or stopped.\<close>

theorem agent_registration:
  assumes "hub_register (server_hub v l) ws raw key h = (res, h')"
  shows "case res of
      Inr s \<Rightarrow> as_ws s = ws \<and> as_key s = key \<and> session_started running h s h' \<and>
        (\<exists>token w. Enroll_Validate l token (s_world (hb_sys h)) = (Inr (as_cluster s), w))
    | Inl e \<Rightarrow> session_failed running h h'"
proof -
  have "(\<exists>w. Enroll_Validate l t (s_world s) = (Inr c, w))" if "on_world (Enroll_Validate l t) s = (Inr c, s')" for t s c s'
    using that by (auto simp: on_world_def split: prod.splits)
  then show ?thesis
    using server_hub.hub_register_spec [of v l ws raw key h] assms by (fastforce simp: wp_def split: sum.splits)
qed

subsection \<open>Properties of dialing\<close>

text \<open>The agent's part in a dial: it takes the last dial frame it was sent and opens the data channel
  with the connection id of the frame and the key of its session; \<open>conn\<close> is the new connection.\<close>

definition agent_answers :: "agent_session \<Rightarrow> nat \<Rightarrow> unit tact" where
  "agent_answers s conn =
     and_then (gets (\<lambda>h. agent_serve (map snd (filter (\<lambda>f. fst f = as_ws s) (hb_out h))))) (\<lambda>ps.
     if ps = [] then ok ()
     else and_then (ServeData (query_get (data_query (di_conn (last ps)) (as_key s))) True conn) (\<lambda>_. ok ()))"

definition tcp :: "string \<Rightarrow> bool" where
  "tcp network \<longleftrightarrow> network \<in> {''tcp'', ''tcp4'', ''tcp6''}"

text \<open>The hub while a dial waits.\<close>

definition dialing :: "hub \<Rightarrow> agent_session \<Rightarrow> string \<Rightarrow> string \<Rightarrow> hub" where
  "dialing h s addr conn_id = h\<lparr>hb_next := Suc (hb_next h),
     hb_cells := al_put (hb_next h) \<lparr>pp_cluster = as_cluster s, pp_key = as_key s, pp_chan = None\<rparr> (hb_cells h),
     hb_pipes := al_put conn_id (hb_next h) (hb_pipes h),
     hb_out := hb_out h @ [(as_ws s, NewEnvelope ''dial'' '''' (Some (marshal_dial \<lparr>di_conn = conn_id, di_addr = addr\<rparr>)))]\<rparr>"

lemma wp_val: "m h = (Inr x, h') \<Longrightarrow> wp m Q E h = Q x h'"
  by (simp add: wp_def)

lemma agent_serve_snoc: "agent_serve (fs @ [f]) = agent_serve fs @ (case serve_frame f of None \<Rightarrow> [] | Some p \<Rightarrow> [p])"
  by (auto simp: agent_serve_def map_filter_def)

lemma wp_answer:
  assumes "conn_id \<noteq> ''''" "addr \<noteq> ''''" "as_key s \<noteq> ''''"
  shows "wp (agent_answers s conn)
     (\<lambda>_ h'. h' = (dialing h s addr conn_id)\<lparr>hb_pipes := al_del conn_id (hb_pipes (dialing h s addr conn_id)),
        hb_cells := al_put (hb_next h) \<lparr>pp_cluster = as_cluster s, pp_key = as_key s, pp_chan = Some conn\<rparr>
          (hb_cells (dialing h s addr conn_id))\<rparr>) (\<lambda>_ _. False) (dialing h s addr conn_id)"
proof -
  let ?f = "NewEnvelope ''dial'' '''' (Some (marshal_dial \<lparr>di_conn = conn_id, di_addr = addr\<rparr>))"
  have "serve_frame ?f = Some \<lparr>di_conn = conn_id, di_addr = addr\<rparr>"
    using assms(1,2) by (simp add: serve_frame_def NewEnvelope_def frame_rules)
  then have l: "agent_serve (map snd (filter (\<lambda>f. fst f = as_ws s) (hb_out (dialing h s addr conn_id)))) =
      agent_serve (map snd (filter (\<lambda>f. fst f = as_ws s) (hb_out h))) @ [\<lparr>di_conn = conn_id, di_addr = addr\<rparr>]"
    by (simp add: dialing_def agent_serve_snoc)
  have c: "data_claim conn_id (as_key s) (dialing h s addr conn_id) =
      (Inr (Some (hb_next h)), (dialing h s addr conn_id)\<lparr>hb_pipes := al_del conn_id (hb_pipes (dialing h s addr conn_id))\<rparr>)"
    by (simp add: data_claim_def dialing_def)
  let ?x = "\<lparr>pp_cluster = as_cluster s, pp_key = as_key s, pp_chan = None\<rparr>"
  have d: "data_deliver (hb_next h) conn (h1\<lparr>hb_pipes := ps\<rparr>) =
      (Inr True, h1\<lparr>hb_pipes := ps, hb_cells := al_put (hb_next h) (?x\<lparr>pp_chan := Some conn\<rparr>) (hb_cells h1)\<rparr>)"
    if "map_of (hb_cells h1) (hb_next h) = Some ?x" for h1 ps
    using that by (simp add: data_deliver_def)
  have "map_of (hb_cells (dialing h s addr conn_id)) (hb_next h) = Some ?x" by (simp add: dialing_def)
  note d = d [OF this]
  show ?thesis
    using assms(1,3)
    by (simp add: agent_answers_def wp_rules l ServeData_def query_round_trip
        wp_val [where m = "data_claim conn_id (as_key s)", OF c] wp_val [where m = "data_deliver (hb_next h) conn", OF d])
qed


lemma dial_wait_eval:
  "map_of (hb_cells h) p = Some x \<Longrightarrow> pp_chan x = Some conn \<Longrightarrow>
     wp (dial_wait p False lucky) Q E h = Q (Some conn) (h\<lparr>hb_cells := al_put p (x\<lparr>pp_chan := None\<rparr>) (hb_cells h)\<rparr>)"
  by (simp add: wp_def dial_wait_def)

text \<open>\<open>DialContext\<close> up to the wait, on a session that can be written to.\<close>

lemma wp_DialContext:
  assumes "tcp network" and "map_of (hb_sessions h) (as_cluster s) = Some s" and "as_ws s \<notin> set (hb_down h)"
  shows "wp (DialContext meanwhile lucky (as_cluster s) network addr conn_id) Q E h =
    wp (deferred (dropPipe conn_id) (and_then meanwhile (\<lambda>_. and_then (dial_wait (hb_next h) False True) (\<lambda>r.
      case r of Some conn \<Rightarrow> ok conn
      | None \<Rightarrow> and_then (dial_wait (hb_next h) True lucky) (\<lambda>r'. case r' of Some conn \<Rightarrow> ok conn | None \<Rightarrow> err tunnel_gone)))))
      Q E (dialing h s addr conn_id)"
  using assms by (simp add: DialContext_def dial_ask_def takePipe_def SessionOf_def dial_send_def deferred_def tcp_def wp_rules dialing_def)

text \<open>C34: a dial that the agent answers succeeds. When the cluster's session can be written to and
  the agent, on receiving the dial frame, opens the data channel it asks for, \<open>DialContext\<close>
  returns that very connection, and leaves no pipe behind.\<close>

theorem answered_dial_succeeds:
  assumes "tcp network" and "map_of (hb_sessions h) (as_cluster s) = Some s" and "as_ws s \<notin> set (hb_down h)"
    and "conn_id \<noteq> ''''" and "addr \<noteq> ''''" and "as_key s \<noteq> ''''" and "map_of (hb_pipes h) conn_id = None"
  shows "\<exists>h'. DialContext (agent_answers s conn) lucky (as_cluster s) network addr conn_id h = (Inr conn, h') \<and>
    map_of (hb_pipes h') = map_of (hb_pipes h)"
proof -
  have "wp (DialContext (agent_answers s conn) lucky (as_cluster s) network addr conn_id)
      (\<lambda>r h'. r = conn \<and> map_of (hb_pipes h') = map_of (hb_pipes h)) (\<lambda>_ _. False) h"
    unfolding wp_DialContext [OF assms(1-3)] deferred_def wp_on_result wp_and_then
    by (rule wp_mono [OF wp_answer [OF assms(4-6)]])
      (use assms(7) in \<open>auto simp: dial_wait_eval wp_rules dropPipe_def al_fun fun_eq_iff dialing_def\<close>)
  then show ?thesis by (auto simp: wp_def split: prod.splits sum.splits)
qed

text \<open>C35: the failures of a dial are of one kind and leave nothing behind. Whatever happens while it
  waits, \<open>DialContext\<close> on a TCP network returns a connection or a tunnel-unavailable error (50200),
  and afterwards no data channel can be attached under its connection id.\<close>

theorem dial_failures:
  assumes "tcp network" and "DialContext meanwhile lucky cluster network addr conn_id h = (res, h')"
    and "\<And>h. wp meanwhile (\<lambda>_ _. True) (\<lambda>_ _. False) h" and "map_of (hb_pipes h) conn_id = None"
  shows "map_of (hb_pipes h') conn_id = None \<and>
    (case res of Inr conn \<Rightarrow> True | Inl e \<Rightarrow> \<exists>m. From e = Some (AgentTunnelUnavailable, m))"
proof -
  have w: "wp (dial_wait p expired lucky) (\<lambda>_ _. True) (\<lambda>e _. \<exists>m. From e = Some (AgentTunnelUnavailable, m)) h" for p expired lucky h
    by (auto simp: wp_def dial_wait_def New_def split: option.split)
  have "wp (DialContext meanwhile lucky cluster network addr conn_id)
      (\<lambda>_ h'. map_of (hb_pipes h') conn_id = None)
      (\<lambda>e h'. map_of (hb_pipes h') conn_id = None \<and> (\<exists>m. From e = Some (AgentTunnelUnavailable, m))) h"
    using assms(1,4)
    by (auto simp: DialContext_def dial_ask_def takePipe_def SessionOf_def dial_send_def deferred_def tcp_def wp_rules
        dropPipe_def tunnel_gone_def New_def intro!: wp_mono [OF assms(3)] wp_mono [OF w] split: option.split)
  then show ?thesis using assms(2) by (auto simp: wp_def split: sum.splits)
qed


subsection \<open>Examples\<close>

definition east_session :: "nat \<Rightarrow> agent_session" where
  "east_session ws = \<lparr>as_ws = ws, as_cluster = ''east'', as_version = ''1.0'', as_key = ''key'', as_caps = [''tunnel'']\<rparr>"

definition east_hub :: hub where
  "east_hub = \<lparr>hb_sys = demo_sys, hb_sessions = [(''east'', east_session 1)], hb_pipes = [], hb_cells = [],
     hb_next = 0, hb_down = [], hb_out = []\<rparr>"

lemmas east_defs = east_hub_def east_session_def

lemma answered_dial_succeeds_witness:
  "\<exists>h'. DialContext (agent_answers (east_session 1) 7) True ''east'' ''tcp'' ''10.0.0.1:443'' ''c1'' east_hub = (Inr 7, h') \<and>
     map_of (hb_pipes h') = Map.empty"
  using answered_dial_succeeds [of "''tcp''" east_hub "east_session 1" "''c1''" "''10.0.0.1:443''" 7 True]
  by (simp add: east_defs tcp_def)

lemma dial_failures_witness:
  "\<exists>h' e m. DialContext (ok ()) True ''east'' ''tcp'' ''10.0.0.1:443'' ''c1'' east_hub = (Inl e, h') \<and>
     From e = Some (AgentTunnelUnavailable, m) \<and> map_of (hb_pipes h') ''c1'' = None"
proof -
  have "\<not> is_ok (fst (DialContext (ok ()) True ''east'' ''tcp'' ''10.0.0.1:443'' ''c1'' east_hub))" by code_simp
  then obtain e h' where r: "DialContext (ok ()) True ''east'' ''tcp'' ''10.0.0.1:443'' ''c1'' east_hub = (Inl e, h')"
    by (cases "DialContext (ok ()) True ''east'' ''tcp'' ''10.0.0.1:443'' ''c1'' east_hub")
      (auto simp: is_ok_def split: sum.splits)
  from dial_failures [OF _ r] show ?thesis using r by (auto simp: tcp_def wp_rules east_hub_def)
qed

text \<open>The server, the cluster's enrollment token and an agent that registers with it.\<close>

definition enrolled_world :: world where
  "enrolled_world = snd (Enroll_Create demo_libs (Some ''abc'') ''c1'' ''2h'' (enroll_world 100))"

definition enrolled_token :: string where
  "enrolled_token = (case fst (Enroll_Create demo_libs (Some ''abc'') ''c1'' ''2h'' (enroll_world 100)) of
     Inr (_, t) \<Rightarrow> t | Inl _ \<Rightarrow> '''')"

definition registered_hub :: "(gerr + agent_session) \<times> hub" where
  "registered_hub = hub_register (server_hub demo_wiring demo_libs) 4
     (Some (marshal_register \<lparr>gp_token = enrolled_token, gp_version = ''1.0'', gp_caps = [''tunnel'']\<rparr>)) ''key''
     (east_hub\<lparr>hb_sys := demo_sys\<lparr>s_world := enrolled_world\<rparr>\<rparr>)"

lemma agent_registration_witness:
  "\<exists>s h'. registered_hub = (Inr s, h') \<and> as_cluster s = ''c1'' \<and>
     session_started running (east_hub\<lparr>hb_sys := demo_sys\<lparr>s_world := enrolled_world\<rparr>\<rparr>) s h'"
proof -
  have "is_ok (fst registered_hub)" by code_simp
  then obtain s where "fst registered_hub = Inr s"
    by (auto simp: is_ok_def split: sum.splits)
  then obtain h' where r: "registered_hub = (Inr s, h')" by (metis prod.collapse)
  have "(case fst registered_hub of Inr s \<Rightarrow> as_cluster s | Inl _ \<Rightarrow> '''') = ''c1''" by code_simp
  then have "as_cluster s = ''c1''" by (simp only: r fst_conv sum.case)
  then show ?thesis using agent_registration [OF r [unfolded registered_hub_def]] r by auto
qed

subsection \<open>What the sections allow\<close>

text \<open>Two agents of one cluster that both find the same old session: the first to be published is
  overwritten by the second and never closed; its handler keeps serving a session that no dial
  can reach.\<close>

definition overlapping_takeover :: "(gerr + unit) \<times> hub" where
  "overlapping_takeover =
     and_then (register_old (east_session 2)) (\<lambda>old2.
     and_then (register_old (east_session 3)) (\<lambda>old3.
     and_then (case old2 of None \<Rightarrow> ok () | Some w \<Rightarrow> ws_close w) (\<lambda>_.
     and_then (register_put (east_session 2)) (\<lambda>_.
     and_then (case old3 of None \<Rightarrow> ok () | Some w \<Rightarrow> ws_close w) (\<lambda>_.
     register_put (east_session 3)))))) east_hub"

lemma overlapping_takeover_leaves_two:
  "map_of (hb_sessions (snd overlapping_takeover)) ''east'' = Some (east_session 3) \<and> hb_down (snd overlapping_takeover) = [1]"
  by (simp add: overlapping_takeover_def register_old_def register_put_def ws_close_def east_defs and_then_def on_result_def
      gets_def modify_def ok_def)

text \<open>A dial between the publication of a session and its acknowledgement reaches the agent first, and
  the agent takes it for a protocol error.\<close>

definition early_dial :: "(gerr + unit) \<times> hub" where
  "early_dial =
     and_then (register_put (east_session 2)) (\<lambda>_.
     and_then (dial_ask ''east'' ''tcp'' ''c1'') (\<lambda>(s, p).
     and_then (dial_send s ''c1'' ''10.0.0.1:443'') (\<lambda>_. register_ack (east_session 2)))) east_hub"

lemma early_dial_breaks_registration:
  "map (en_type \<circ> snd) (hb_out (snd early_dial)) = [''dial'', ''registered''] \<and>
   agent_register None (Inr (snd (hd (hb_out (snd early_dial))))) = Inl (PlainErr (''unexpected frame '' @ go_quote ''dial'' @ '' while registering''))"
  by (simp add: early_dial_def register_put_def dial_ask_def takePipe_def SessionOf_def dial_send_def register_ack_def
      ws_send_def east_defs and_then_def on_result_def gets_def modify_def ok_def guard_def NewEnvelope_def agent_register_def)

text \<open>An acknowledgement that cannot be written closes the session but leaves it the cluster's.\<close>

lemma dead_session_stays:
  assumes "as_ws s \<in> set (hb_down h)"
  shows "map_of (hb_sessions (snd (and_then (register_put s) (\<lambda>_. register_ack s) h))) (as_cluster s) = Some s"
  using assms by (simp add: register_put_def register_ack_def ws_send_def ws_close_def and_then_def on_result_def modify_def err_def)

text \<open>When a new session has taken over, the end of the old one still marks the cluster degraded.\<close>

lemma takeover_marks_degraded:
  "map_of (hb_sessions (snd (onExit (server_hub v l) (east_session 0) east_hub))) ''east'' = Some (east_session 1) \<and>
   map_option re_status (map_of (s_registry (hb_sys (snd (onExit (server_hub v l) (east_session 0) east_hub)))) ''east'') = Some ''degraded''"
proof -
  have "map_of (hb_sessions (snd (onExit opt (east_session 0) east_hub))) ''east'' = Some (east_session 1)" for opt
    by (simp add: onExit_def ws_close_def and_then_def on_result_def modify_def east_defs in_sys_def ok_def split: option.split prod.split sum.split)
  moreover have "wp (OnDisconnect ''east'') (\<lambda>_ s'. map_option re_status (map_of (s_registry s') ''east'') = Some ''degraded'')
      (\<lambda>_ s'. map_option re_status (map_of (s_registry s') ''east'') = Some ''degraded'') s" for s
    by (auto simp: OnDisconnect_def reg_Put_def ignore_err_def wp_rules) (auto simp: wp_def split: prod.split sum.split)
  then have "wp (onExit (server_hub v l) (east_session 0))
      (\<lambda>_ h. map_option re_status (map_of (s_registry (hb_sys h)) ''east'') = Some ''degraded'')
      (\<lambda>_ h. map_option re_status (map_of (s_registry (hb_sys h)) ''east'') = Some ''degraded'') east_hub"
    by (simp add: onExit_def ws_close_def server_hub_def wp_rules east_session_def)
  ultimately show ?thesis by (auto simp: wp_def split: prod.splits sum.splits)
qed

end
