(* ===== verification/Informers.thy ===== *)
theory Informers
  imports Resources "HOL-Library.Multiset"
begin

text \<open>
  The informer pool of a cluster runtime (k8s/informer.go): informers started by the first
  subscription to a resource and namespace, handlers by subscription id, reclaiming of idle
  informers, and the dispatch of events. The watching itself is client-go's; an informer is an
  identity with its stop channel, a handler any value. An entry key, in the code a string built
  from the resource and the namespace, is the pair of them.
\<close>

subsection \<open>The pool\<close>

record 'h informer_entry =
  ie_inst :: nat
  ie_handlers :: "(string \<times> 'h) list"
  ie_resident :: bool
  ie_access :: time

text \<open>\<open>pl_stops\<close>: the stop channels closed so far, one element per \<open>close\<close>.\<close>

record 'h pool =
  pl_entries :: "((gvr \<times> string) \<times> 'h informer_entry) list"
  pl_closed :: bool
  pl_next :: nat
  pl_stops :: "nat list"

definition informerIdleTTL :: time where "informerIdleTTL = 5 * 60 * seconds"

definition newInformerPool :: "'h pool" where
  "newInformerPool = \<lparr>pl_entries = [], pl_closed = False, pl_next = 0, pl_stops = []\<rparr>"

definition errPoolClosed :: gerr where
  "errPoolClosed = PlainErr ''informer pool closed''"

text \<open>Starting an informer: a new identity, put under its key.\<close>

definition start_informer :: "time \<Rightarrow> gvr \<times> string \<Rightarrow> bool \<Rightarrow> 'h pool \<Rightarrow> 'h pool" where
  "start_informer t key resident p = p\<lparr>pl_next := Suc (pl_next p),
     pl_entries := al_put key \<lparr>ie_inst = pl_next p, ie_handlers = [], ie_resident = resident, ie_access = t\<rparr> (pl_entries p)\<rparr>"

definition add_handler :: "time \<Rightarrow> gvr \<times> string \<Rightarrow> string \<Rightarrow> 'h \<Rightarrow> 'h pool \<Rightarrow> 'h pool" where
  "add_handler t key wid f p = (case map_of (pl_entries p) key of None \<Rightarrow> p
     | Some e \<Rightarrow> p\<lparr>pl_entries := al_put key (e\<lparr>ie_handlers := al_put wid f (ie_handlers e), ie_access := t\<rparr>) (pl_entries p)\<rparr>)"

definition pool_Watch :: "time \<Rightarrow> gvr \<Rightarrow> string \<Rightarrow> string \<Rightarrow> 'h \<Rightarrow> ('h pool, unit) gm" where
  "pool_Watch t g ns wid f = (\<lambda>p.
     if pl_closed p then (Inl errPoolClosed, p)
     else (Inr (), add_handler t (g, ns) wid f
       (if map_of (pl_entries p) (g, ns) = None then start_informer t (g, ns) False p else p)))"

definition pool_Unwatch :: "time \<Rightarrow> gvr \<Rightarrow> string \<Rightarrow> string \<Rightarrow> 'h pool \<Rightarrow> 'h pool" where
  "pool_Unwatch t g ns wid p = (case map_of (pl_entries p) (g, ns) of None \<Rightarrow> p
     | Some e \<Rightarrow>
       let e' = e\<lparr>ie_handlers := al_del wid (ie_handlers e)\<rparr> in
       p\<lparr>pl_entries := al_put (g, ns) (if \<not> ie_resident e' \<and> ie_handlers e' = [] then e'\<lparr>ie_access := t\<rparr> else e') (pl_entries p)\<rparr>)"

definition EnsureEventInformer :: "time \<Rightarrow> ('h pool, unit) gm" where
  "EnsureEventInformer t = (\<lambda>p.
     if pl_closed p then (Inl errPoolClosed, p)
     else let key = (rf_gvr (v1 '''' ''events'' True), '''') in
       case map_of (pl_entries p) key of
         Some e \<Rightarrow> (Inr (), p\<lparr>pl_entries := al_put key (e\<lparr>ie_resident := True\<rparr>) (pl_entries p)\<rparr>)
       | None \<Rightarrow> (Inr (), start_informer t key True p))"

definition pool_Stop :: "'h pool \<Rightarrow> 'h pool" where
  "pool_Stop p = (if pl_closed p then p
     else p\<lparr>pl_closed := True, pl_stops := pl_stops p @ map (ie_inst \<circ> snd) (pl_entries p), pl_entries := []\<rparr>)"

text \<open>One tick of \<open>reapLoop\<close>; the order in which a map is visited does not matter.\<close>

definition idle :: "time \<Rightarrow> 'h informer_entry \<Rightarrow> bool" where
  "idle t e \<longleftrightarrow> \<not> (ie_resident e \<or> ie_handlers e \<noteq> []) \<and> t - ie_access e \<ge> informerIdleTTL"

definition reap :: "time \<Rightarrow> 'h pool \<Rightarrow> 'h pool" where
  "reap t p = (if pl_closed p then p
     else p\<lparr>pl_stops := pl_stops p @ map (ie_inst \<circ> snd) (filter (\<lambda>x. idle t (snd x)) (pl_entries p)),
        pl_entries := filter (\<lambda>x. \<not> idle t (snd x)) (pl_entries p)\<rparr>)"

text \<open>\<open>dispatch\<close>: the handlers an event of an informer is given to.\<close>

definition dispatch :: "gvr \<times> string \<Rightarrow> 'h pool \<Rightarrow> 'h list" where
  "dispatch key p = (case map_of (pl_entries p) key of None \<Rightarrow> [] | Some e \<Rightarrow> map snd (ie_handlers e))"

subsection \<open>Every informer is accounted for\<close>

definition running_informers :: "'h pool \<Rightarrow> nat list" where
  "running_informers p = map (ie_inst \<circ> snd) (pl_entries p)"

text \<open>Keys and handler ids are unique, and the informers ever started are those running and those
  stopped, each once.\<close>

definition pool_wf :: "'h pool \<Rightarrow> bool" where
  "pool_wf p \<longleftrightarrow> distinct (map fst (pl_entries p)) \<and> (\<forall>(k, e) \<in> set (pl_entries p). distinct (map fst (ie_handlers e))) \<and>
     distinct (running_informers p @ pl_stops p) \<and> set (running_informers p @ pl_stops p) = {..<pl_next p} \<and>
     (pl_closed p \<longrightarrow> pl_entries p = [])"

lemma distinct_al [simp]: "distinct (map fst m) \<Longrightarrow> distinct (map fst (al_put k v m))"
    "distinct (map fst m) \<Longrightarrow> distinct (map fst (al_del k m))"
  by (auto simp: al_put_def al_del_def distinct_map_filter)

text \<open>Changing what is stored under an existing key, but not its informer.\<close>

lemma replaced:
  assumes "distinct (map fst m)" and "map_of m k = Some e"
  shows "\<exists>xs ys. m = xs @ (k, e) # ys \<and> al_put k e' m = (k, e') # xs @ ys"
proof -
  obtain xs ys where m: "m = xs @ (k, e) # ys" using assms(2) by (meson map_of_SomeD split_list)
  then have "filter (\<lambda>p. fst p \<noteq> k) xs = xs" "filter (\<lambda>p. fst p \<noteq> k) ys = ys"
    using assms(1) by (auto simp: filter_id_conv)
  then show ?thesis using m by (simp add: al_put_def) blast
qed

lemma wf_replace:
  assumes "pool_wf p" and k: "map_of (pl_entries p) k = Some e" and "ie_inst e' = ie_inst e" and "distinct (map fst (ie_handlers e'))"
    and "\<not> pl_closed p"
  shows "pool_wf (p\<lparr>pl_entries := al_put k e' (pl_entries p)\<rparr>)"
proof -
  have "distinct (map fst (pl_entries p))" using assms(1) by (simp add: pool_wf_def)
  from replaced [OF this k, of e'] obtain xs ys where "pl_entries p = xs @ (k, e) # ys"
    "al_put k e' (pl_entries p) = (k, e') # xs @ ys" by blast
  then show ?thesis using assms by (auto simp: pool_wf_def running_informers_def)
qed

lemma wf_start:
  assumes "pool_wf p" and "map_of (pl_entries p) k = None" and "\<not> pl_closed p"
  shows "pool_wf (start_informer t k r p)"
proof -
  have "filter (\<lambda>x. fst x \<noteq> k) (pl_entries p) = pl_entries p"
    using assms(2) by (auto simp: filter_id_conv map_of_eq_None_iff image_iff)
  moreover have "k \<notin> fst ` set (pl_entries p)" using assms(2) by (simp add: map_of_eq_None_iff)
  ultimately show ?thesis
    using assms(1,3) by (auto simp: pool_wf_def start_informer_def al_put_def running_informers_def lessThan_Suc)
qed

lemma handlers_distinct: "pool_wf p \<Longrightarrow> map_of (pl_entries p) k = Some e \<Longrightarrow> distinct (map fst (ie_handlers e))"
  by (auto simp: pool_wf_def dest!: map_of_SomeD)

lemma wf_add: "pool_wf p \<Longrightarrow> \<not> pl_closed p \<Longrightarrow> pool_wf (add_handler t k wid f p)"
  using handlers_distinct [of p k] by (auto simp: add_handler_def intro!: wf_replace split: option.split)

lemma mset_partition: "image_mset f (mset xs) = image_mset f (mset (filter P xs)) + image_mset f (mset (filter (\<lambda>x. \<not> P x) xs))"
  by (induction xs) auto

lemma pool_wf_ops:
  assumes "pool_wf p"
  shows "pool_wf (snd (pool_Watch t g ns wid f p))" and "pool_wf (pool_Unwatch t g ns wid p)"
    and "pool_wf (snd (EnsureEventInformer t p))" and "pool_wf (pool_Stop p)" and "pool_wf (reap t p)"
proof -
  show "pool_wf (snd (pool_Watch t g ns wid f p))"
    using assms wf_start [OF assms, of "(g, ns)" t False] by (auto simp: pool_Watch_def start_informer_def intro!: wf_add)
  show "pool_wf (pool_Unwatch t g ns wid p)"
  proof (cases "map_of (pl_entries p) (g, ns)")
    case (Some e)
    then have "\<not> pl_closed p" using assms by (auto simp: pool_wf_def)
    then show ?thesis using Some handlers_distinct [OF assms Some] assms
      by (auto simp: pool_Unwatch_def Let_def intro!: wf_replace)
  qed (simp add: pool_Unwatch_def assms)
  show "pool_wf (snd (EnsureEventInformer t p))"
    using assms handlers_distinct [OF assms] by (auto simp: EnsureEventInformer_def Let_def intro!: wf_replace wf_start split: option.split)
  show "pool_wf (pool_Stop p)"
    using assms by (auto simp: pool_wf_def pool_Stop_def running_informers_def)
  show "pool_wf (reap t p)"
  proof -
    have "mset (running_informers (reap t p) @ pl_stops (reap t p)) = mset (running_informers p @ pl_stops p)"
      using mset_partition [of "ie_inst \<circ> snd" "pl_entries p" "\<lambda>x. idle t (snd x)"] by (auto simp: reap_def running_informers_def)
    from mset_eq_imp_distinct_iff [OF this] mset_eq_setD [OF this] show ?thesis
      using assms by (auto simp: pool_wf_def reap_def distinct_map_filter split: if_splits)
  qed
qed


subsection \<open>The pool as a table of subscriptions\<close>

datatype 'h pool_op =
    WatchOp gvr string string 'h
  | UnwatchOp gvr string string
  | EnsureOp
  | ReapOp
  | StopOp

text \<open>A run of operations, each at its time.\<close>

fun run_pool :: "(time \<times> 'h pool_op) list \<Rightarrow> 'h pool \<Rightarrow> 'h pool" where
  "run_pool [] p = p"
| "run_pool ((t, WatchOp g ns wid f) # ops) p = run_pool ops (snd (pool_Watch t g ns wid f p))"
| "run_pool ((t, UnwatchOp g ns wid) # ops) p = run_pool ops (pool_Unwatch t g ns wid p)"
| "run_pool ((t, EnsureOp) # ops) p = run_pool ops (snd (EnsureEventInformer t p))"
| "run_pool ((t, ReapOp) # ops) p = run_pool ops (reap t p)"
| "run_pool ((t, StopOp) # ops) p = run_pool ops (pool_Stop p)"

text \<open>The specification: subscriptions come with \<open>Watch\<close> and go with \<open>Unwatch\<close>, until the pool stops.\<close>

record 'h watch_spec =
  sp_table :: "gvr \<times> string \<Rightarrow> string \<rightharpoonup> 'h"
  sp_closed :: bool

fun spec_step :: "'h pool_op \<Rightarrow> 'h watch_spec \<Rightarrow> 'h watch_spec" where
  "spec_step (WatchOp g ns wid f) s = (if sp_closed s then s
     else s\<lparr>sp_table := (sp_table s)((g, ns) := (sp_table s (g, ns))(wid \<mapsto> f))\<rparr>)"
| "spec_step (UnwatchOp g ns wid) s = s\<lparr>sp_table := (sp_table s)((g, ns) := (sp_table s (g, ns))(wid := None))\<rparr>"
| "spec_step EnsureOp s = s"
| "spec_step ReapOp s = s"
| "spec_step StopOp s = \<lparr>sp_table = (\<lambda>_. Map.empty), sp_closed = True\<rparr>"

definition watchers :: "'h pool \<Rightarrow> gvr \<times> string \<Rightarrow> string \<rightharpoonup> 'h" where
  "watchers p k = (case map_of (pl_entries p) k of None \<Rightarrow> Map.empty | Some e \<Rightarrow> map_of (ie_handlers e))"

definition pool_spec :: "'h pool \<Rightarrow> 'h watch_spec" where
  "pool_spec p = \<lparr>sp_table = watchers p, sp_closed = pl_closed p\<rparr>"



lemma watchers_put: "watchers (p\<lparr>pl_entries := al_put k e (pl_entries p)\<rparr>) = (watchers p)(k := map_of (ie_handlers e))"
  by (simp add: watchers_def fun_eq_iff)

lemma reap_keeps: "distinct (map fst m) \<Longrightarrow> map_of (filter (\<lambda>x. \<not> idle t (snd x)) m) k =
    (case map_of m k of None \<Rightarrow> None | Some e \<Rightarrow> if idle t e then None else Some e)"
proof (induction m)
  case (Cons x m)
  have "map_of m k = None" if "k = fst x" using Cons.prems that by (simp add: map_of_eq_None_iff)
  then show ?case using Cons by (cases x) (auto split: option.split)
qed simp

lemma watchers_Watch: "watchers (snd (pool_Watch t g ns wid f p)) =
    (if pl_closed p then watchers p else (watchers p)((g, ns) := (watchers p (g, ns))(wid \<mapsto> f)))"
proof (cases "map_of (pl_entries p) (g, ns)")
  case None
  then show ?thesis by (auto simp: pool_Watch_def add_handler_def start_informer_def watchers_def fun_eq_iff)
next
  case (Some e)
  then show ?thesis by (auto simp: pool_Watch_def add_handler_def watchers_def fun_eq_iff)
qed

lemma spec_ops:
  assumes "pool_wf p"
  shows "pool_spec (snd (pool_Watch t g ns wid f p)) = spec_step (WatchOp g ns wid f) (pool_spec p)"
    and "pool_spec (pool_Unwatch t g ns wid p) = spec_step (UnwatchOp g ns wid) (pool_spec p)"
    and "pool_spec (snd (EnsureEventInformer t p)) = pool_spec p"
    and "pool_spec (reap t p) = pool_spec p"
    and "pool_spec (pool_Stop p) = \<lparr>sp_table = (\<lambda>_. Map.empty), sp_closed = True\<rparr>"
proof -
  show "pool_spec (snd (pool_Watch t g ns wid f p)) = spec_step (WatchOp g ns wid f) (pool_spec p)"
    by (simp add: pool_spec_def watchers_Watch) (simp add: pool_Watch_def add_handler_def start_informer_def split: option.split)
  show "pool_spec (pool_Unwatch t g ns wid p) = spec_step (UnwatchOp g ns wid) (pool_spec p)"
  proof (cases "map_of (pl_entries p) (g, ns)")
    case (Some e)
    have "ie_handlers (if b then e'\<lparr>ie_access := t\<rparr> else e') = ie_handlers e'" for b and e' :: "'a informer_entry"
      by simp
    moreover have "watchers p (g, ns) = map_of (ie_handlers e)" using Some by (simp add: watchers_def)
    moreover have "map_of (al_del wid m) = (map_of m)(wid := None)" for m :: "(string \<times> 'a) list"
      by (simp add: fun_eq_iff)
    ultimately show ?thesis by (simp add: pool_spec_def pool_Unwatch_def Let_def Some watchers_put)
  qed (auto simp: pool_spec_def pool_Unwatch_def watchers_def fun_eq_iff)
  show "pool_spec (snd (EnsureEventInformer t p)) = pool_spec p"
    by (auto simp: pool_spec_def EnsureEventInformer_def start_informer_def Let_def watchers_def fun_eq_iff split: option.split)
  show "pool_spec (reap t p) = pool_spec p"
  proof -
    have d: "distinct (map fst (pl_entries p))" using assms by (simp add: pool_wf_def)
    have i: "idle t e \<Longrightarrow> ie_handlers e = []" for e :: "'a informer_entry" by (simp add: idle_def)
    have "watchers (reap t p) = watchers p"
      by (rule ext) (auto simp: reap_def watchers_def reap_keeps [OF d] i split: option.split)
    then show ?thesis by (simp add: pool_spec_def reap_def)
  qed
  show "pool_spec (pool_Stop p) = \<lparr>sp_table = (\<lambda>_. Map.empty), sp_closed = True\<rparr>"
    using assms by (auto simp: pool_spec_def pool_Stop_def pool_wf_def watchers_def fun_eq_iff)
qed

lemma dispatch_watchers: "pool_wf p \<Longrightarrow> set (dispatch k p) = ran (watchers p k)"
  by (cases "map_of (pl_entries p) k") (auto simp: dispatch_def watchers_def handlers_distinct ran_distinct)

text \<open>C36: the pool is a table of subscriptions with lazily run informers. After any operations,
  starting, reclaiming and the resident event informer show nowhere: the handlers registered are
  those watched and not unwatched since (none once the pool has stopped), and an event is
  dispatched to exactly the handlers of its resource and namespace; and every informer that was
  ever started is running or was stopped, and none was stopped twice.\<close>

theorem pool_refines_table:
  "pool_spec (run_pool ops newInformerPool) = fold spec_step (map snd ops) \<lparr>sp_table = (\<lambda>_. Map.empty), sp_closed = False\<rparr> \<and>
   set (dispatch k (run_pool ops newInformerPool)) =
     ran (sp_table (fold spec_step (map snd ops) \<lparr>sp_table = (\<lambda>_. Map.empty), sp_closed = False\<rparr>) k) \<and>
   pool_wf (run_pool ops newInformerPool)"
proof -
  have run: "pool_wf p \<Longrightarrow> pool_wf (run_pool ops p) \<and> pool_spec (run_pool ops p) = fold spec_step (map snd ops) (pool_spec p)" for p
    by (induction ops p rule: run_pool.induct) (simp_all add: pool_wf_ops spec_ops)
  have "pool_wf (newInformerPool :: 'a pool)" by (simp add: pool_wf_def newInformerPool_def running_informers_def)
  moreover have "pool_spec newInformerPool = \<lparr>sp_table = (\<lambda>_. Map.empty), sp_closed = False\<rparr>"
    by (simp add: pool_spec_def newInformerPool_def watchers_def fun_eq_iff)
  ultimately show ?thesis
    using run [of newInformerPool] dispatch_watchers [of "run_pool ops newInformerPool" k]
    by (metis pool_spec_def watch_spec.select_convs(1))
qed

end
