(* ===== verification/Watching.thy ===== *)
theory Watching
  imports Informers Wsx Auditing
begin

text \<open>
  The event stream of the API: \<open>WatchHub\<close> (service/watchhub.go) between the informer pools, the
  cluster status and audit notifications on one side and WebSocket connections on the other, and
  the endpoint that serves a connection (api/handler/watch.go). Connections are identities with
  their bounded send queues. \<open>Subscribe\<close> is divided into the sections of its lock.
\<close>

subsection \<open>Connections (handler/watch.go)\<close>

record watch_conn =
  wc_queue :: "envelope list"
  wc_written :: "envelope list"
  wc_closed :: bool

definition wsSendBuffer :: nat where "wsSendBuffer = 64"

definition newWatchConn :: watch_conn where
  "newWatchConn = \<lparr>wc_queue = [], wc_written = [], wc_closed = False\<rparr>"

text \<open>\<open>Send\<close>: never blocks; a full queue or a closed connection drops the frame.\<close>

definition conn_Send :: "envelope \<Rightarrow> watch_conn \<Rightarrow> watch_conn" where
  "conn_Send env c = (if wc_closed c \<or> length (wc_queue c) \<ge> wsSendBuffer then c else c\<lparr>wc_queue := wc_queue c @ [env]\<rparr>)"

definition conn_close :: "watch_conn \<Rightarrow> watch_conn" where
  "conn_close c = c\<lparr>wc_closed := True\<rparr>"

text \<open>One turn of \<open>runWriter\<close>; \<open>written\<close> says whether the frame could be written.\<close>

definition runWriter :: "bool \<Rightarrow> watch_conn \<Rightarrow> watch_conn" where
  "runWriter written c = (if wc_closed c then c else case wc_queue c of [] \<Rightarrow> c
     | env # rest \<Rightarrow> if written then c\<lparr>wc_queue := rest, wc_written := wc_written c @ [env]\<rparr> else conn_close (c\<lparr>wc_queue := rest\<rparr>))"

subsection \<open>State of the hub (service/watchhub.go)\<close>

definition watchResources :: "string list" where
  "watchResources = [''pods'', ''deployments'', ''statefulsets'', ''daemonsets'', ''services'', ''ingresses'', ''configmaps'',
     ''secrets'', ''events'', ''nodes'', ''crds'', ''clusters'', ''audit'', ''podlogs'']"

record sub_key =
  sk_cluster :: string
  sk_resource :: string
  sk_namespace :: string
  sk_name :: string

text \<open>\<open>ss_stop\<close> is the follower a pod log subscription started.\<close>

record sub_state =
  ss_conns :: "(nat \<times> subscribe_payload) list"
  ss_gvr :: "gvr option"
  ss_stop :: "nat option"

text \<open>
  The hub with what surrounds it: the system, the informer pools of runtimes (by runtime identity;
  one that has none is new), the connections, and the followers started and cancelled.
\<close>

record whub =
  wh_sys :: sys
  wh_pools :: "(nat \<times> sub_key pool) list"
  wh_subs :: "(sub_key \<times> sub_state) list"
  wh_conns :: "(nat \<times> sub_key list) list"
  wh_cluster_subs :: "(nat \<times> string) list"
  wh_audit_subs :: "nat list"
  wh_boxes :: "(nat \<times> watch_conn) list"
  wh_follows :: nat
  wh_cancelled :: "nat list"
  wh_stopped :: bool

type_synonym 'a wact = "(whub, 'a) gm"

definition wh_call :: "'a sact \<Rightarrow> 'a wact" where
  "wh_call m = (\<lambda>w. case m (wh_sys w) of (r, s) \<Rightarrow> (r, w\<lparr>wh_sys := s\<rparr>))"

lemma wp_wh_call [wp_rules]:
  "wp (wh_call m) Q E w = wp m (\<lambda>x s. Q x (w\<lparr>wh_sys := s\<rparr>)) (\<lambda>e s. E e (w\<lparr>wh_sys := s\<rparr>)) (wh_sys w)"
  by (simp add: wp_def wh_call_def split: prod.splits sum.splits)

definition pool_of :: "whub \<Rightarrow> nat \<Rightarrow> sub_key pool" where
  "pool_of w i = (case map_of (wh_pools w) i of None \<Rightarrow> newInformerPool | Some p \<Rightarrow> p)"

definition set_pool :: "nat \<Rightarrow> sub_key pool \<Rightarrow> whub \<Rightarrow> whub" where
  "set_pool i p w = w\<lparr>wh_pools := al_put i p (wh_pools w)\<rparr>"

definition box_of :: "whub \<Rightarrow> nat \<Rightarrow> watch_conn" where
  "box_of w c = (case map_of (wh_boxes w) c of None \<Rightarrow> conn_close newWatchConn | Some b \<Rightarrow> b)"

definition send_to :: "nat \<Rightarrow> envelope \<Rightarrow> whub \<Rightarrow> whub" where
  "send_to c env w = w\<lparr>wh_boxes := al_put c (conn_Send env (box_of w c)) (wh_boxes w)\<rparr>"

definition send_all :: "nat list \<Rightarrow> envelope \<Rightarrow> whub \<Rightarrow> whub" where
  "send_all cs env w = fold (\<lambda>c. send_to c env) cs w"

definition watchID :: "sub_key \<Rightarrow> string" where
  "watchID k = sk_cluster k @ ''|'' @ sk_resource k @ ''|'' @ sk_namespace k @ ''|'' @ sk_name k"

definition conn_keys :: "whub \<Rightarrow> nat \<Rightarrow> sub_key list" where
  "conn_keys w c = (case map_of (wh_conns w) c of None \<Rightarrow> [] | Some ks \<Rightarrow> ks)"

definition addConnSub :: "nat \<Rightarrow> sub_key \<Rightarrow> whub \<Rightarrow> whub" where
  "addConnSub c k w = w\<lparr>wh_conns := al_put c (if k \<in> set (conn_keys w c) then conn_keys w c else k # conn_keys w c) (wh_conns w)\<rparr>"

definition removeConnSub :: "nat \<Rightarrow> sub_key \<Rightarrow> whub \<Rightarrow> whub" where
  "removeConnSub c k w = (case map_of (wh_conns w) c of None \<Rightarrow> w
     | Some ks \<Rightarrow> w\<lparr>wh_conns := al_put c (filter (\<lambda>j. j \<noteq> k) ks) (wh_conns w)\<rparr>)"

subsection \<open>Events out\<close>

definition event_frame :: "string \<Rightarrow> string \<Rightarrow> string \<Rightarrow> string \<Rightarrow> string \<Rightarrow> json \<Rightarrow> envelope" where
  "event_frame resource cluster ns name action obj = NewEnvelope ''event'' '''' (Some (marshal_event
     \<lparr>ep_resource = resource, ep_cluster = cluster, ep_namespace = ns, ep_name = name, ep_action = action, ep_object = obj\<rparr>))"

definition deliver :: "sub_key \<Rightarrow> string \<Rightarrow> string \<Rightarrow> string \<Rightarrow> json \<Rightarrow> whub \<Rightarrow> whub" where
  "deliver k action ns name obj w = (case map_of (wh_subs w) k of None \<Rightarrow> w
     | Some st \<Rightarrow> send_all (map fst (ss_conns st)) (event_frame (sk_resource k) (sk_cluster k) ns name action obj) w)"

text \<open>What \<open>json.Marshal\<close> makes of a status change and of an audit row.\<close>

record encoders =
  js_status :: "status_change \<Rightarrow> json"
  js_audit :: "audit_log \<Rightarrow> json"

definition publishClusterStatus :: "encoders \<Rightarrow> status_change \<Rightarrow> whub \<Rightarrow> whub" where
  "publishClusterStatus J ch w = send_all (map fst (filter (\<lambda>(c, f). f = '''' \<or> f = sc_name ch) (wh_cluster_subs w)))
     (event_frame ''clusters'' (sc_name ch) '''' (sc_name ch) ''modified'' (js_status J ch)) w"

definition pushClusterSnapshot :: "encoders \<Rightarrow> nat \<Rightarrow> string \<Rightarrow> unit wact" where
  "pushClusterSnapshot J c cluster =
     and_then (if cluster \<noteq> '''' then ok [cluster] else wh_call manager_Names) (\<lambda>names.
     and_then (mapM (\<lambda>n. and_then (wh_call (manager_Snapshot n)) (\<lambda>r. case r of None \<Rightarrow> ok ()
       | Some ch \<Rightarrow> modify (send_to c (event_frame ''clusters'' n '''' n ''modified'' (js_status J ch))))) names) (\<lambda>_. ok ()))"

text \<open>\<open>pumpAudit\<close> for one event.\<close>

definition pumpAudit :: "encoders \<Rightarrow> audit_log \<Rightarrow> whub \<Rightarrow> whub" where
  "pumpAudit J ev w = (if wh_stopped w then w else
     send_all (wh_audit_subs w) (event_frame ''audit'' '''' '''' (al_username ev) ''added'' (js_audit J ev)) w)"

subsection \<open>Subscriptions\<close>

definition key_of :: "subscribe_payload \<Rightarrow> sub_key" where
  "key_of p = \<lparr>sk_cluster = sp_cluster p, sk_resource = sp_resource p, sk_namespace = sp_namespace p, sk_name = sp_name p\<rparr>"

text \<open>The critical section of an ordinary subscription: the answer is whether it is the first.\<close>

definition subscribe_add :: "nat \<Rightarrow> subscribe_payload \<Rightarrow> gvr \<Rightarrow> bool wact" where
  "subscribe_add c p g = (\<lambda>w.
     let k = key_of p;
         st = (case map_of (wh_subs w) k of Some st \<Rightarrow> st | None \<Rightarrow> \<lparr>ss_conns = [], ss_gvr = Some g, ss_stop = None\<rparr>);
         st' = st\<lparr>ss_conns := al_put c p (ss_conns st)\<rparr> in
     (Inr (length (ss_conns st') = 1), addConnSub c k (w\<lparr>wh_subs := al_put k st' (wh_subs w)\<rparr>)))"

definition subscribe_watch :: "time \<Rightarrow> nat \<Rightarrow> sub_key \<Rightarrow> gvr \<Rightarrow> unit wact" where
  "subscribe_watch t i k g = (\<lambda>w. case pool_Watch t g (sk_namespace k) (watchID k) k (pool_of w i) of
     (r, p) \<Rightarrow> (r, set_pool i p w))"

text \<open>Taking a connection out of the state of a key. (The roll-back of the code works on the state it
  added the connection to, which is the one of the key as long as the key was not dropped and
  added again meanwhile.)\<close>

definition drop_conn :: "nat \<Rightarrow> sub_key \<Rightarrow> whub \<Rightarrow> whub" where
  "drop_conn c k w = (case map_of (wh_subs w) k of None \<Rightarrow> w
     | Some st \<Rightarrow> let st' = st\<lparr>ss_conns := al_del c (ss_conns st)\<rparr> in
         if ss_conns st' = [] then w\<lparr>wh_subs := al_del k (wh_subs w)\<rparr> else w\<lparr>wh_subs := al_put k st' (wh_subs w)\<rparr>)"

definition subscribe_rollback :: "nat \<Rightarrow> sub_key \<Rightarrow> whub \<Rightarrow> whub" where
  "subscribe_rollback c k w = drop_conn c k (removeConnSub c k w)"

definition subscribePodLogs :: "nat \<Rightarrow> sub_key \<Rightarrow> unit wact" where
  "subscribePodLogs c k = (\<lambda>w.
     if map_of (wh_subs w) k \<noteq> None then (Inl (New ParamInvalid ''podlogs subscription already active''), w)
     else (Inr (), addConnSub c k (w\<lparr>wh_follows := Suc (wh_follows w), wh_subs := al_put k
       \<lparr>ss_conns = [(c, \<lparr>sp_cluster = '''', sp_namespace = '''', sp_resource = '''', sp_name = '''', sp_container = ''''\<rparr>)],
        ss_gvr = None, ss_stop = Some (wh_follows w)\<rparr> (wh_subs w)\<rparr>)))"

definition watch_runtime :: "string \<Rightarrow> k8s_runtime wact" where
  "watch_runtime cluster = on_result (wh_call (manager_Get cluster))
     (\<lambda>e. err (WithCause (New ClusterNotFound ''cluster not found'') e)) ok"

definition Subscribe :: "encoders \<Rightarrow> (string \<Rightarrow> discovery) \<Rightarrow> time \<Rightarrow> nat \<Rightarrow> subscribe_payload \<Rightarrow> unit wact" where
  "Subscribe J D t c p =
     and_then (guard (sp_resource p \<in> set watchResources) (New ParamInvalid (''unsupported resource '' @ sp_resource p))) (\<lambda>_.
     and_then (guard (sp_cluster p \<noteq> '''') (New ParamInvalid ''cluster is required'')) (\<lambda>_.
     if sp_resource p = ''clusters'' then
       and_then (modify (\<lambda>w. w\<lparr>wh_cluster_subs := al_put c (sp_cluster p) (wh_cluster_subs w)\<rparr>)) (\<lambda>_.
       pushClusterSnapshot J c (sp_cluster p))
     else if sp_resource p = ''audit'' then
       modify (\<lambda>w. addConnSub c (key_of p) (w\<lparr>wh_audit_subs := (if c \<in> set (wh_audit_subs w) then wh_audit_subs w
         else c # wh_audit_subs w)\<rparr>))
     else and_then (watch_runtime (sp_cluster p)) (\<lambda>rt.
       if sp_resource p = ''podlogs'' then
         and_then (guard (sp_name p \<noteq> '''') (New ParamInvalid ''podlogs subscription requires name'')) (\<lambda>_.
         subscribePodLogs c (key_of p))
       else and_then (from_sum (case ResolveResource (D (sp_cluster p)) (sp_cluster p) (sp_resource p) of
           Inl e \<Rightarrow> Inl (WithCause (New ParamInvalid (''unsupported resource '' @ sp_resource p)) e) | Inr r \<Rightarrow> Inr r)) (\<lambda>ref.
         and_then (subscribe_add c p (rf_gvr ref)) (\<lambda>first.
         if \<not> first then ok ()
         else on_result (subscribe_watch t (kr_inst rt) (key_of p) (rf_gvr ref))
           (\<lambda>e. and_then (modify (subscribe_rollback c (key_of p))) (\<lambda>_.
             err (WithCause (New UpstreamK8sError ''start watch failed'') e))) ok)))))"

text \<open>The release of a key whose last connection has gone.\<close>

definition unwatch :: "(string \<Rightarrow> discovery) \<Rightarrow> time \<Rightarrow> sub_key \<Rightarrow> whub \<Rightarrow> whub" where
  "unwatch D t k w = (case map_of (s_runtimes (wh_sys w)) (sk_cluster k) of None \<Rightarrow> w
     | Some rt \<Rightarrow> (case ResolveResource (D (sk_cluster k)) (sk_cluster k) (sk_resource k) of Inl _ \<Rightarrow> w
       | Inr ref \<Rightarrow> set_pool (kr_inst rt) (pool_Unwatch t (rf_gvr ref) (sk_namespace k) (watchID k) (pool_of w (kr_inst rt))) w))"

definition cancel :: "nat option \<Rightarrow> whub \<Rightarrow> whub" where
  "cancel stop w = (case stop of None \<Rightarrow> w | Some f \<Rightarrow> w\<lparr>wh_cancelled := f # wh_cancelled w\<rparr>)"

text \<open>One connection leaves one key.\<close>

definition leave :: "nat \<Rightarrow> sub_key \<Rightarrow> whub \<Rightarrow> whub \<times> bool" where
  "leave c k w = (case map_of (wh_subs w) k of None \<Rightarrow> (w, False)
     | Some st \<Rightarrow> let last = (al_del c (ss_conns st) = []) in
         (if last then cancel (ss_stop st) (drop_conn c k w) else drop_conn c k w, last))"

definition Unsubscribe_watch :: "(string \<Rightarrow> discovery) \<Rightarrow> time \<Rightarrow> nat \<Rightarrow> sub_key \<Rightarrow> whub \<Rightarrow> whub" where
  "Unsubscribe_watch D t c k w =
     (let w1 = (if sk_resource k = ''clusters'' then w\<lparr>wh_cluster_subs := al_del c (wh_cluster_subs w)\<rparr> else w);
          w2 = (if sk_resource k = ''audit'' then w1\<lparr>wh_audit_subs := filter (\<lambda>d. d \<noteq> c) (wh_audit_subs w1)\<rparr> else w1);
          (w3, last) = leave c k (removeConnSub c k w2) in
      if last \<and> sk_resource k \<noteq> ''podlogs'' then unwatch D t k w3 else w3)"

text \<open>\<open>RemoveConn\<close>: every key of the connection is left, then the pools are released.\<close>

fun leave_all :: "nat \<Rightarrow> sub_key list \<Rightarrow> whub \<Rightarrow> whub \<times> sub_key list" where
  "leave_all c [] w = (w, [])"
| "leave_all c (k # ks) w = (let (w1, last) = leave c k w; (w2, need) = leave_all c ks w1 in
     (w2, if last \<and> sk_resource k \<noteq> ''clusters'' \<and> sk_resource k \<noteq> ''audit'' then k # need else need))"

definition RemoveConn :: "(string \<Rightarrow> discovery) \<Rightarrow> time \<Rightarrow> nat \<Rightarrow> whub \<Rightarrow> whub" where
  "RemoveConn D t c w =
     (let ks = conn_keys w c;
          w1 = w\<lparr>wh_conns := al_del c (wh_conns w), wh_cluster_subs := al_del c (wh_cluster_subs w),
            wh_audit_subs := filter (\<lambda>d. d \<noteq> c) (wh_audit_subs w)\<rparr>;
          (w2, need) = leave_all c ks w1 in
      fold (unwatch D t) need w2)"

definition watch_Stop :: "int \<Rightarrow> whub \<Rightarrow> whub" where
  "watch_Stop listener w =
     (let stops = List.map_filter (\<lambda>x. ss_stop (snd x)) (wh_subs w) in
      w\<lparr>wh_stopped := True, wh_subs := [], wh_cancelled := stops @ wh_cancelled w,
        wh_sys := s_listeners_update (filter (\<lambda>j. j \<noteq> listener)) (wh_sys w)\<rparr>)"

text \<open>\<open>followPodLogs\<close> for a key and its connection: opening the stream, then its chunks as they come.\<close>

definition followPodLogs :: "(string \<Rightarrow> discovery) \<Rightarrow> time \<Rightarrow> sub_key \<Rightarrow> nat \<Rightarrow> gerr + string list \<Rightarrow> whub \<Rightarrow> whub" where
  "followPodLogs D t k c opened w = (case opened of
     Inl e \<Rightarrow> Unsubscribe_watch D t c k (send_to c (NewEnvelope ''error'' '''' (Some (marshal_error
         \<lparr>xp_code = (case From e of None \<Rightarrow> InternalError | Some (code, _) \<Rightarrow> code), xp_message = err_text e\<rparr>))) w)
   | Inr chunks \<Rightarrow> fold (\<lambda>text. deliver k ''added'' (sk_namespace k) (sk_name k) (JObj [(''text'', JStr text)])) chunks w)"

subsection \<open>The endpoint (handler/watch.go)\<close>

definition cutBearer :: "string \<Rightarrow> string option" where
  "cutBearer h = (if length h > length ''Bearer '' \<and> take (length ''Bearer '') h = ''Bearer ''
     then Some (drop (length ''Bearer '') h) else None)"

definition wsTokenOf :: "http_request \<Rightarrow> string" where
  "wsTokenOf req = (if hr_query req ''token'' \<noteq> '''' then hr_query req ''token''
     else case cutBearer (hr_authorization req) of Some t \<Rightarrow> t | None \<Rightarrow> '''')"

definition errorEnvelope :: "string \<Rightarrow> int \<Rightarrow> string \<Rightarrow> envelope" where
  "errorEnvelope requestID code message = NewEnvelope ''error'' requestID (Some (marshal_error \<lparr>xp_code = code, xp_message = message\<rparr>))"

definition wsIdentity :: "libs \<Rightarrow> string \<Rightarrow> http_request \<Rightarrow> identity option act" where
  "wsIdentity l secret req = (if wsTokenOf req = '''' then ok None
     else on_result (VerifyAccessToken l secret (wsTokenOf req)) (\<lambda>_. ok None) (\<lambda>ident. ok (Some ident)))"

text \<open>\<open>dispatch\<close> of an informer of runtime \<open>i\<close> to the callbacks that \<open>Subscribe\<close> registered.\<close>

definition pool_event :: "nat \<Rightarrow> gvr \<times> string \<Rightarrow> string \<Rightarrow> string \<Rightarrow> string \<Rightarrow> json \<Rightarrow> whub \<Rightarrow> whub" where
  "pool_event i key action ns name obj w = fold (\<lambda>k. deliver k action ns name obj) (dispatch key (pool_of w i)) w"

text \<open>What an informer hands to \<open>OnAdd\<close>, \<open>OnUpdate\<close> and \<open>OnDelete\<close>: an object with its namespace and name,
  or the tombstone (\<open>DeletedFinalStateUnknown\<close>) of one whose deletion it missed, which has none.\<close>

datatype informer_object = Object string string json | Tombstone string json

definition forward :: "nat \<Rightarrow> gvr \<times> string \<Rightarrow> string \<Rightarrow> informer_object \<Rightarrow> whub \<Rightarrow> whub" where
  "forward i key action x w = (case x of Object ns name obj \<Rightarrow> pool_event i key action ns name obj w | Tombstone _ _ \<Rightarrow> w)"

text \<open>One frame received on a connection.\<close>

definition watch_frame :: "encoders \<Rightarrow> (string \<Rightarrow> discovery) \<Rightarrow> time \<Rightarrow> nat \<Rightarrow> envelope \<Rightarrow> whub \<Rightarrow> whub" where
  "watch_frame J D t c env w =
     (if en_type env = ''ping'' then send_to c (NewEnvelope ''pong'' (en_request env) (Some JNull)) w
      else if en_type env = ''subscribe'' then
        (case unmarshal_subscribe (en_payload env) of
           None \<Rightarrow> send_to c (errorEnvelope (en_request env) ParamInvalid ''invalid subscribe payload'') w
         | Some p \<Rightarrow> (case Subscribe J D t c p w of
             (Inr _, w') \<Rightarrow> w'
           | (Inl e, w') \<Rightarrow> send_to c (errorEnvelope (en_request env)
               (case From e of None \<Rightarrow> InternalError | Some (code, _) \<Rightarrow> code) (err_text e)) w'))
      else if en_type env = ''unsubscribe'' then
        (case unmarshal_subscribe (en_payload env) of
           None \<Rightarrow> send_to c (errorEnvelope (en_request env) ParamInvalid ''invalid unsubscribe payload'') w
         | Some p \<Rightarrow> Unsubscribe_watch D t c (key_of p) w)
      else send_to c (errorEnvelope (en_request env) ParamInvalid (''unknown frame type '' @ en_type env)) w)"

text \<open>A connection from its upgrade to its end; \<open>None\<close> is the 401 answer.\<close>

definition watch_open :: "nat \<Rightarrow> whub \<Rightarrow> whub" where
  "watch_open c w = w\<lparr>wh_boxes := al_put c newWatchConn (wh_boxes w)\<rparr>"

definition watch_close :: "(string \<Rightarrow> discovery) \<Rightarrow> time \<Rightarrow> nat \<Rightarrow> whub \<Rightarrow> whub" where
  "watch_close D t c w = (let w1 = RemoveConn D t c w in w1\<lparr>wh_boxes := al_put c (conn_close (box_of w1 c)) (wh_boxes w1)\<rparr>)"

definition watchEndpoint :: "libs \<Rightarrow> string \<Rightarrow> encoders \<Rightarrow> (string \<Rightarrow> discovery) \<Rightarrow> http_request \<Rightarrow> nat \<Rightarrow> (time \<times> envelope) list \<Rightarrow>
    time \<Rightarrow> bool wact" where
  "watchEndpoint l secret J D req c frames t_end =
     and_then (wh_call (on_world (wsIdentity l secret req))) (\<lambda>r. case r of None \<Rightarrow> ok False
       | Some _ \<Rightarrow> and_then (modify (watch_open c)) (\<lambda>_.
           and_then (modify (fold (\<lambda>(t, env). watch_frame J D t c env) frames)) (\<lambda>_.
           and_then (modify (watch_close D t_end c)) (\<lambda>_. ok True))))"

end
