(* ===== verification/Watch_Laws.thy ===== *)
theory Watch_Laws
  imports Watching Cluster_Laws
begin

text \<open>
  The watch hub as a relation between connections and subscriptions: what each operation does to
  it, that the hub's two tables always agree, and that the informer pools feed exactly the keys
  with subscribers, so that an event reaches exactly the connections subscribed to it.
\<close>

subsection \<open>The relation\<close>

definition subscribed :: "whub \<Rightarrow> (nat \<times> sub_key) set" where
  "subscribed w = {(c, k). \<exists>st. map_of (wh_subs w) k = Some st \<and> c \<in> fst ` set (ss_conns st)}"

definition subs_ok :: "whub \<Rightarrow> bool" where
  "subs_ok w \<longleftrightarrow> (\<forall>k st. map_of (wh_subs w) k = Some st \<longrightarrow> ss_conns st \<noteq> [] \<and> distinct (map fst (ss_conns st)))"

definition tables_agree :: "whub \<Rightarrow> bool" where
  "tables_agree w \<longleftrightarrow> (\<forall>c k. (c, k) \<in> subscribed w \<longleftrightarrow> k \<in> set (conn_keys w c) \<and> sk_resource k \<noteq> ''audit'')"

definition watch_ok :: "whub \<Rightarrow> bool" where
  "watch_ok w \<longleftrightarrow> subs_ok w \<and> tables_agree w"

text \<open>Everything but the two tables.\<close>

definition same_tables :: "whub \<Rightarrow> whub \<Rightarrow> bool" where
  "same_tables w w' \<longleftrightarrow> wh_subs w' = wh_subs w \<and> wh_conns w' = wh_conns w"

lemma same_tables_ok: "same_tables w w' \<Longrightarrow> watch_ok w' = watch_ok w \<and> subscribed w' = subscribed w \<and> conn_keys w' c = conn_keys w c"
  by (simp add: same_tables_def watch_ok_def subs_ok_def tables_agree_def subscribed_def conn_keys_def)

lemma same_tables_refl [simp]: "same_tables w w"
  by (simp add: same_tables_def)

lemma same_tables_trans: "same_tables u v \<Longrightarrow> same_tables v w \<Longrightarrow> same_tables u w"
  by (simp add: same_tables_def)

lemma same_tables_simps [simp]:
  "same_tables w (send_to c env w)" "same_tables w (set_pool i p w)" "same_tables w (cancel stop w)" "same_tables w (unwatch D t k w)"
  "same_tables w (w\<lparr>wh_sys := s\<rparr>)" "same_tables w (w\<lparr>wh_cluster_subs := x\<rparr>)" "same_tables w (w\<lparr>wh_audit_subs := y\<rparr>)"
  "same_tables w (w\<lparr>wh_boxes := b\<rparr>)"
  by (simp_all add: same_tables_def send_to_def set_pool_def cancel_def unwatch_def split: option.split sum.split)

lemma same_tables_fold: "(\<And>x v. same_tables v (f x v)) \<Longrightarrow> same_tables w (fold f xs w)"
  by (induction xs arbitrary: w) (auto intro: same_tables_trans)

lemma same_tables_send_all [simp]: "same_tables w (send_all cs env w)"
  by (simp add: send_all_def same_tables_fold)

lemma same_tables_deliver [simp]: "same_tables w (deliver k a ns n obj w)"
  by (simp add: deliver_def split: option.split)

lemma same_tables_events [simp]:
  "same_tables w (publishClusterStatus J ch w)" "same_tables w (pumpAudit J ev w)" "same_tables w (pool_event i key a ns n obj w)"
  by (simp_all add: publishClusterStatus_def pumpAudit_def pool_event_def same_tables_fold)

subsection \<open>Joining and leaving\<close>

lemma conn_keys_add: "set (conn_keys (addConnSub c k w) d) = (if d = c then insert k (set (conn_keys w c)) else set (conn_keys w d))"
  by (auto simp: conn_keys_def addConnSub_def split: option.splits)

lemma conn_keys_remove: "set (conn_keys (removeConnSub c k w) d) = (if d = c then set (conn_keys w c) - {k} else set (conn_keys w d))"
  by (auto simp: conn_keys_def removeConnSub_def split: option.splits)

lemma subs_frames [simp]:
  "wh_subs (addConnSub c k w) = wh_subs w" "wh_subs (removeConnSub c k w) = wh_subs w"
  "wh_conns (drop_conn c k w) = wh_conns w" "wh_subs (cancel stop w) = wh_subs w" "wh_conns (cancel stop w) = wh_conns w"
  by (simp_all add: addConnSub_def removeConnSub_def drop_conn_def cancel_def Let_def split: option.split)

lemma map_fst_al_del: "fst ` set (al_del c m) = fst ` set m - {c}" "fst ` set (al_put c v m) = insert c (fst ` set m)"
  by (auto simp: al_del_def al_put_def)

lemma distinct_del: "distinct (map fst m) \<Longrightarrow> distinct (map fst (al_del c m))"
  by simp

definition conns_of :: "whub \<Rightarrow> sub_key \<Rightarrow> nat set" where
  "conns_of w k = (case map_of (wh_subs w) k of None \<Rightarrow> {} | Some st \<Rightarrow> fst ` set (ss_conns st))"

lemma subscribed_conns: "subscribed w = {(c, k). c \<in> conns_of w k}"
  by (auto simp: subscribed_def conns_of_def split: option.splits)

lemma conns_of_drop: "conns_of (drop_conn c k w) j = (if j = k then conns_of w k - {c} else conns_of w j)"
proof (cases "map_of (wh_subs w) k")
  case (Some st)
  have e: "fst ` set (al_del c (ss_conns st)) = fst ` set (ss_conns st) - {c}" by (rule map_fst_al_del)
  show ?thesis
  proof (cases "al_del c (ss_conns st) = []")
    case True
    then have "fst ` set (ss_conns st) - {c} = {}" using e by simp
    then show ?thesis using Some True by (simp add: conns_of_def drop_conn_def)
  next
    case False
    then show ?thesis using Some e by (simp add: conns_of_def drop_conn_def)
  qed
qed (simp add: conns_of_def drop_conn_def)

lemma drop_conn_spec:
  assumes "subs_ok w"
  shows "subs_ok (drop_conn c k w)" and "subscribed (drop_conn c k w) = subscribed w - {(c, k)}"
proof -
  show "subs_ok (drop_conn c k w)"
    using assms by (auto simp: subs_ok_def drop_conn_def Let_def distinct_del split: option.split if_splits)
  show "subscribed (drop_conn c k w) = subscribed w - {(c, k)}"
    by (auto simp: subscribed_conns conns_of_drop split: if_splits)
qed

lemma leave_tables: "wh_subs (fst (leave c k w)) = wh_subs (drop_conn c k w)" "wh_conns (fst (leave c k w)) = wh_conns w"
  by (simp_all add: leave_def Let_def drop_conn_def split: option.split)

lemma leave_spec:
  assumes "subs_ok w"
  shows "subs_ok (fst (leave c k w))" and "subscribed (fst (leave c k w)) = subscribed w - {(c, k)}"
  using drop_conn_spec [OF assms, of c k] by (simp_all add: subs_ok_def subscribed_def leave_tables)

lemma leave_all_spec:
  "subs_ok w \<Longrightarrow> subs_ok (fst (leave_all c ks w)) \<and> wh_conns (fst (leave_all c ks w)) = wh_conns w \<and>
     subscribed (fst (leave_all c ks w)) = subscribed w - {c} \<times> set ks"
proof (induction ks arbitrary: w)
  case (Cons k ks)
  note l = leave_spec [OF Cons.prems, of c k]
  obtain w1 b where w1: "leave c k w = (w1, b)" by fastforce
  obtain w2 need where w2: "leave_all c ks w1 = (w2, need)" by fastforce
  show ?case using Cons.IH [of w1] l leave_tables(2) [of c k w] by (auto simp: w1 w2)
qed simp

lemma fold_unwatch [simp]: "same_tables w (fold (unwatch D t) ks w)"
  by (simp add: same_tables_fold)

lemma RemoveConn_spec:
  assumes "watch_ok w"
  shows "watch_ok (RemoveConn D t c w)" and "subscribed (RemoveConn D t c w) = {x \<in> subscribed w. fst x \<noteq> c}"
proof -
  define w1 where "w1 = w\<lparr>wh_conns := al_del c (wh_conns w), wh_cluster_subs := al_del c (wh_cluster_subs w),
    wh_audit_subs := filter (\<lambda>d. d \<noteq> c) (wh_audit_subs w)\<rparr>"
  obtain w2 need where l: "leave_all c (conn_keys w c) w1 = (w2, need)" by fastforce
  have r: "RemoveConn D t c w = fold (unwatch D t) need w2" by (simp add: RemoveConn_def Let_def w1_def [symmetric] l)
  have s1: "subs_ok w1" "subscribed w1 = subscribed w" "\<And>d. conn_keys w1 d = (if d = c then [] else conn_keys w d)"
    using assms by (auto simp: w1_def watch_ok_def subs_ok_def subscribed_def conn_keys_def)
  have s2: "subs_ok w2" "wh_conns w2 = wh_conns w1" "subscribed w2 = subscribed w - {c} \<times> set (conn_keys w c)"
    using leave_all_spec [OF s1(1), of c "conn_keys w c"] by (simp_all add: l s1(2))
  have s3: "subscribed w2 = {x \<in> subscribed w. fst x \<noteq> c}"
    using assms by (auto simp: s2(3) watch_ok_def tables_agree_def)
  have "conn_keys w2 d = (if d = c then [] else conn_keys w d)" for d
    using s1(3) [of d] s2(2) by (simp add: conn_keys_def)
  then have "watch_ok w2"
    using assms s2(1) by (auto simp: watch_ok_def tables_agree_def s3)
  then show "watch_ok (RemoveConn D t c w)" "subscribed (RemoveConn D t c w) = {x \<in> subscribed w. fst x \<noteq> c}"
    using same_tables_ok [OF fold_unwatch [of w2 D t need]] s3 by (simp_all add: r)
qed


lemma removed_ok:
  assumes "watch_ok w"
  shows "subs_ok (removeConnSub c k w)" and "subscribed (removeConnSub c k w) = subscribed w"
    and "\<And>d. set (conn_keys (removeConnSub c k w) d) = (if d = c then set (conn_keys w c) - {k} else set (conn_keys w d))"
  using assms conn_keys_remove by (simp_all add: watch_ok_def subs_ok_def subscribed_def)

lemma leaves_ok:
  assumes "watch_ok w" and "wh_conns w' = wh_conns (removeConnSub c k w)" and "subs_ok w'" and "subscribed w' = subscribed w - {(c, k)}"
  shows "watch_ok w'"
proof -
  have "set (conn_keys w' d) = (if d = c then set (conn_keys w c) - {k} else set (conn_keys w d))" for d
    using removed_ok(3) [OF assms(1), of c k d] assms(2) by (simp add: conn_keys_def)
  then show ?thesis using assms(1,3) by (auto simp: watch_ok_def tables_agree_def assms(4))
qed

lemma Unsubscribe_spec:
  assumes "watch_ok w"
  shows "watch_ok (Unsubscribe_watch D t c k w)" and "subscribed (Unsubscribe_watch D t c k w) = subscribed w - {(c, k)}"
proof -
  define w1 where "w1 = (if sk_resource k = ''clusters'' then w\<lparr>wh_cluster_subs := al_del c (wh_cluster_subs w)\<rparr> else w)"
  define w2 where "w2 = (if sk_resource k = ''audit'' then w1\<lparr>wh_audit_subs := filter (\<lambda>d. d \<noteq> c) (wh_audit_subs w1)\<rparr> else w1)"
  obtain w3 b where w3: "leave c k (removeConnSub c k w2) = (w3, b)" by fastforce
  have s: "same_tables w w2" by (simp add: w1_def w2_def same_tables_def)
  then have ok: "watch_ok w2" "subscribed w2 = subscribed w" using assms same_tables_ok by blast+
  note r = removed_ok [OF ok(1), of c k]
  have l: "subs_ok w3" "subscribed w3 = subscribed w - {(c, k)}" "wh_conns w3 = wh_conns (removeConnSub c k w2)"
    using leave_spec [OF r(1), of c k] leave_tables(2) [of c k "removeConnSub c k w2"] by (simp_all add: w3 r(2) ok(2))
  have "watch_ok w3" using leaves_ok [OF ok(1) l(3,1)] l(2) ok(2) by simp
  moreover have "Unsubscribe_watch D t c k w = (if b \<and> sk_resource k \<noteq> ''podlogs'' then unwatch D t k w3 else w3)"
    by (simp add: Unsubscribe_watch_def Let_def w1_def [symmetric] w2_def [symmetric] w3)
  ultimately show "watch_ok (Unsubscribe_watch D t c k w)" "subscribed (Unsubscribe_watch D t c k w) = subscribed w - {(c, k)}"
    using same_tables_ok [OF same_tables_simps(4)] l(2) by auto
qed

text \<open>Joining a key that may or may not have subscribers.\<close>

lemma joins_ok:
  assumes ok: "watch_ok w" and "sk_resource k \<noteq> ''audit''" and c: "c \<in> fst ` set (ss_conns st)" "distinct (map fst (ss_conns st))"
    and st: "fst ` set (ss_conns st) = insert c (conns_of w k)"
  shows "watch_ok (addConnSub c k (w\<lparr>wh_subs := al_put k st (wh_subs w)\<rparr>))" (is "watch_ok ?w")
    and "subscribed (addConnSub c k (w\<lparr>wh_subs := al_put k st (wh_subs w)\<rparr>)) = insert (c, k) (subscribed w)"
proof -
  have "conns_of ?w j = (if j = k then insert c (conns_of w k) else conns_of w j)" for j
    using st by (simp add: conns_of_def)
  then show s: "subscribed ?w = insert (c, k) (subscribed w)" by (auto simp: subscribed_conns split: if_splits)
  have "conn_keys (w\<lparr>wh_subs := x\<rparr>) d = conn_keys w d" for x d by (simp add: conn_keys_def)
  then have "set (conn_keys ?w d) = (if d = c then insert k (set (conn_keys w c)) else set (conn_keys w d))" for d
    by (simp add: conn_keys_add)
  then have "tables_agree ?w" using ok assms(2) by (auto simp: watch_ok_def tables_agree_def s)
  moreover have "subs_ok ?w" using ok c by (auto simp: watch_ok_def subs_ok_def split: if_splits)
  ultimately show "watch_ok ?w" by (simp add: watch_ok_def)
qed

lemma only_one:
  assumes "distinct xs" and "c \<in> set xs"
  shows "length xs = 1 \<longleftrightarrow> set xs = {c}"
proof
  assume "length xs = 1"
  then obtain x where "xs = [x]" by (cases xs) auto
  then show "set xs = {c}" using assms(2) by simp
next
  assume "set xs = {c}"
  then show "length xs = 1" using distinct_card [OF assms(1)] by simp
qed

lemma subscribe_add_spec:
  assumes "watch_ok w" and "sp_resource p \<noteq> ''audit''"
  shows "wp (subscribe_add c p g) (\<lambda>first w'. watch_ok w' \<and> subscribed w' = insert (c, key_of p) (subscribed w) \<and>
     (first \<longleftrightarrow> conns_of w' (key_of p) = {c}) \<and> wh_sys w' = wh_sys w \<and> wh_pools w' = wh_pools w) (\<lambda>_ _. False) w"
proof -
  let ?k = "key_of p"
  define st where "st = (case map_of (wh_subs w) ?k of Some st \<Rightarrow> st | None \<Rightarrow> \<lparr>ss_conns = [], ss_gvr = Some g, ss_stop = None\<rparr>)"
  let ?st = "st\<lparr>ss_conns := al_put c p (ss_conns st)\<rparr>"
  have d: "distinct (map fst (ss_conns st))"
    using assms(1) by (auto simp: watch_ok_def subs_ok_def st_def split: option.split)
  have e: "fst ` set (ss_conns ?st) = insert c (conns_of w ?k)"
    by (simp add: map_fst_al_del) (simp add: st_def conns_of_def split: option.split)
  have m: "c \<in> fst ` set (ss_conns ?st)" unfolding e by simp
  have dd: "distinct (map fst (ss_conns ?st))" using d by simp
  have f: "length (ss_conns ?st) = 1 \<longleftrightarrow> fst ` set (ss_conns ?st) = {c}"
    using only_one [OF dd, of c] m by simp
  have k: "sk_resource ?k \<noteq> ''audit''" using assms(2) by (simp add: key_of_def)
  note j = joins_ok [OF assms(1) k m dd e]
  define w' where "w' = addConnSub c ?k (w\<lparr>wh_subs := al_put ?k ?st (wh_subs w)\<rparr>)"
  have "subscribe_add c p g w = (Inr (length (ss_conns ?st) = 1), w')"
    by (simp add: subscribe_add_def Let_def st_def [symmetric] w'_def)
  moreover have "wh_sys w' = wh_sys w" "wh_pools w' = wh_pools w" "conns_of w' ?k = fst ` set (ss_conns ?st)"
    by (simp_all add: w'_def conns_of_def) (simp_all add: addConnSub_def)
  ultimately show ?thesis using j [folded w'_def] f by (simp only: wp_def prod.case sum.case)
qed

end
