(* ===== verification/Watch_Feed.thy ===== *)
theory Watch_Feed
  imports Watch_Laws
begin

text \<open>
  From the cluster's informers to the subscribed connections: as long as the runtimes of the
  clusters are not replaced, every subscribed key has its handler in the pool of its cluster, and
  an event of an informer is queued, once per subscription, for exactly the connections
  subscribed to its resource and namespace.
\<close>

subsection \<open>The invariant\<close>

definition wlive :: "whub \<Rightarrow> string \<Rightarrow> nat option" where
  "wlive w = live (wh_sys w)"

definition gvr_of :: "(string \<Rightarrow> discovery) \<Rightarrow> sub_key \<Rightarrow> gvr option" where
  "gvr_of D k = (case ResolveResource (D (sk_cluster k)) (sk_cluster k) (sk_resource k) of Inr r \<Rightarrow> Some (rf_gvr r) | Inl _ \<Rightarrow> None)"

text \<open>A handler sits under the id of its key, in the entry of its resource and namespace, in the
  pool of its cluster's runtime.\<close>

definition handler_ok :: "(string \<Rightarrow> discovery) \<Rightarrow> whub \<Rightarrow> nat \<Rightarrow> gvr \<times> string \<Rightarrow> string \<Rightarrow> sub_key \<Rightarrow> bool" where
  "handler_ok D w i e wid k \<longleftrightarrow> wid = watchID k \<and> snd e = sk_namespace k \<and> gvr_of D k = Some (fst e) \<and>
     wlive w (sk_cluster k) = Some i \<and> sk_resource k \<in> set watchResources \<and> sk_resource k \<noteq> ''podlogs''"

definition pools_ok :: "(string \<Rightarrow> discovery) \<Rightarrow> whub \<Rightarrow> bool" where
  "pools_ok D w \<longleftrightarrow> (\<forall>i. pool_wf (pool_of w i) \<and> (\<forall>e wid k. watchers (pool_of w i) e wid = Some k \<longrightarrow> handler_ok D w i e wid k))"

definition has_handler :: "(string \<Rightarrow> discovery) \<Rightarrow> whub \<Rightarrow> sub_key \<Rightarrow> bool" where
  "has_handler D w k \<longleftrightarrow> (\<exists>i g. wlive w (sk_cluster k) = Some i \<and> gvr_of D k = Some g \<and>
     watchers (pool_of w i) (g, sk_namespace k) (watchID k) = Some k)"

definition fed :: "(string \<Rightarrow> discovery) \<Rightarrow> whub \<Rightarrow> bool" where
  "fed D w \<longleftrightarrow> (\<forall>k. conns_of w k \<noteq> {} \<longrightarrow> sk_resource k \<in> set watchResources \<and> sk_resource k \<noteq> ''clusters'' \<and>
     (sk_resource k \<noteq> ''podlogs'' \<longrightarrow> has_handler D w k))"

definition live_inj :: "whub \<Rightarrow> bool" where
  "live_inj w \<longleftrightarrow> (\<forall>a b i. wlive w a = Some i \<longrightarrow> wlive w b = Some i \<longrightarrow> a = b)"

definition watch_inv :: "(string \<Rightarrow> discovery) \<Rightarrow> whub \<Rightarrow> bool" where
  "watch_inv D w \<longleftrightarrow> watch_ok w \<and> live_inj w \<and> pools_ok D w \<and> fed D w"

text \<open>Steps that touch neither tables nor pools.\<close>

definition same_core :: "whub \<Rightarrow> whub \<Rightarrow> bool" where
  "same_core w w' \<longleftrightarrow> wh_subs w' = wh_subs w \<and> wh_conns w' = wh_conns w \<and> wh_pools w' = wh_pools w \<and> wlive w' = wlive w"

lemma same_core_inv: "same_core w w' \<Longrightarrow> watch_inv D w' = watch_inv D w"
proof -
  assume a: "same_core w w'"
  then have "watch_ok w' = watch_ok w" using same_tables_ok [of w w'] by (simp add: same_core_def same_tables_def)
  moreover have "pool_of w' = pool_of w" "wlive w' = wlive w" "conns_of w' = conns_of w"
    using a by (auto simp: same_core_def pool_of_def conns_of_def fun_eq_iff)
  ultimately show ?thesis
    by (simp add: watch_inv_def live_inj_def pools_ok_def fed_def has_handler_def handler_ok_def)
qed

lemma same_core_refl [simp]: "same_core w w"
  by (simp add: same_core_def)

lemma same_core_trans: "same_core u v \<Longrightarrow> same_core v w \<Longrightarrow> same_core u w"
  by (simp add: same_core_def)

lemma same_core_simps [simp]:
  "same_core w (send_to c env w)" "same_core w (cancel stop w)" "same_core w (w\<lparr>wh_cluster_subs := x\<rparr>)"
  "same_core w (w\<lparr>wh_audit_subs := y\<rparr>)" "same_core w (w\<lparr>wh_boxes := b\<rparr>)"
  by (simp_all add: same_core_def send_to_def cancel_def wlive_def split: option.split)

lemma same_core_fold: "(\<And>x v. same_core v (f x v)) \<Longrightarrow> same_core w (fold f xs w)"
  by (induction xs arbitrary: w) (auto intro: same_core_trans)

lemma same_core_events [simp]:
  "same_core w (send_all cs env w)" "same_core w (deliver k a ns n obj w)" "same_core w (publishClusterStatus J ch w)"
  "same_core w (pumpAudit J ev w)" "same_core w (pool_event i key a ns n obj w)"
  by (simp_all add: send_all_def deliver_def publishClusterStatus_def pumpAudit_def pool_event_def same_core_fold split: option.split)

subsection \<open>Subscription ids\<close>

lemma no_bar: "r \<in> set watchResources \<Longrightarrow> CHR ''|'' \<notin> set r"
  by (auto simp: watchResources_def)

lemma watchID_inj:
  assumes "watchID j = watchID k" and "sk_cluster j = sk_cluster k" and "sk_namespace j = sk_namespace k"
    and "sk_resource j \<in> set watchResources" and "sk_resource k \<in> set watchResources"
  shows "j = k"
proof -
  have e: "sk_resource j @ ''|'' @ sk_namespace j @ ''|'' @ sk_name j = sk_resource k @ ''|'' @ sk_namespace k @ ''|'' @ sk_name k"
    using assms(1,2) by (simp add: watchID_def)
  have "takeWhile (\<lambda>c. c \<noteq> CHR ''|'') (r @ ''|'' @ s) = r" if "r \<in> set watchResources" for r s
    using no_bar [OF that] by (subst takeWhile_append2) auto
  then have r: "sk_resource j = sk_resource k" using e assms(4,5) by metis
  then show ?thesis using e assms(2,3) by (cases j, cases k) simp
qed

lemma handlers_apart:
  assumes "live_inj w" and "pools_ok D w" and "watchers (pool_of w i) e wid = Some j" and "handler_ok D w i e wid k"
  shows "j = k"
proof -
  have j: "handler_ok D w i e wid j" using assms(2,3) unfolding pools_ok_def by blast
  then have "sk_cluster j = sk_cluster k" using assms(1,4) unfolding live_inj_def handler_ok_def by blast
  then show ?thesis using j assms(4) watchID_inj [of j k] by (simp add: handler_ok_def)
qed

subsection \<open>Handlers come and go\<close>

text \<open>\<open>put_handler\<close> is what \<open>pool_Watch\<close> and \<open>pool_Unwatch\<close> do to the table of one pool.\<close>

lemma pool_of_set: "pool_of (set_pool i p w) j = (if j = i then p else pool_of w j)"
  by (simp add: pool_of_def set_pool_def)

lemma set_pool_frames [simp]: "conns_of (set_pool i p w) = conns_of w" "wlive (set_pool i p w) = wlive w"
    "wh_subs (set_pool i p w) = wh_subs w" "wh_conns (set_pool i p w) = wh_conns w"
  by (auto simp: set_pool_def conns_of_def wlive_def fun_eq_iff)

lemma pools_ok_set:
  assumes "pools_ok D w" and "pool_wf p"
    and "\<And>e wid k. watchers p e wid = Some k \<Longrightarrow> handler_ok D w i e wid k"
  shows "pools_ok D (set_pool i p w)"
proof -
  have "handler_ok D (set_pool i p w) = handler_ok D w" by (simp add: handler_ok_def fun_eq_iff)
  then show ?thesis using assms by (simp add: pools_ok_def pool_of_set)
qed

lemma pool_add:
  assumes P: "pools_ok D w" "live_inj w" and k: "handler_ok D w i (g, ns) wid k"
  shows "pools_ok D (set_pool i (snd (pool_Watch t g ns wid k (pool_of w i))) w)" (is "pools_ok D ?w")
    and "has_handler D w j \<Longrightarrow> has_handler D (set_pool i (snd (pool_Watch t g ns wid k (pool_of w i))) w) j"
    and "\<not> pl_closed (pool_of w i) \<Longrightarrow> has_handler D (set_pool i (snd (pool_Watch t g ns wid k (pool_of w i))) w) k"
proof -
  let ?p = "pool_of w i"
  have wt: "watchers (snd (pool_Watch t g ns wid k ?p)) e x =
      (if \<not> pl_closed ?p \<and> e = (g, ns) \<and> x = wid then Some k else watchers ?p e x)" for e x
    by (simp add: watchers_Watch)
  show "pools_ok D ?w"
    using P(1) k by (intro pools_ok_set) (auto simp: wt pools_ok_def intro: pool_wf_ops split: if_splits)
  show "has_handler D ?w j" if "has_handler D w j"
  proof -
    from that obtain i' g' where j: "wlive w (sk_cluster j) = Some i'" "gvr_of D j = Some g'"
      "watchers (pool_of w i') (g', sk_namespace j) (watchID j) = Some j" by (auto simp: has_handler_def)
    have "j = k" if "i' = i" "(g', sk_namespace j) = (g, ns)" "watchID j = wid"
      using handlers_apart [OF P(2,1) j(3)] k that by simp
    then show ?thesis using j by (auto simp: has_handler_def pool_of_set wt)
  qed
  show "has_handler D ?w k" if "\<not> pl_closed ?p"
    using k that wt [of "(g, ns)" wid] by (auto simp: has_handler_def handler_ok_def pool_of_set)
qed

lemma watch_inv_unwatch:
  assumes I: "watch_inv D w" and k: "conns_of w k = {}" "sk_resource k \<in> set watchResources"
  shows "watch_inv D (unwatch D t k w)"
proof -
  have "watch_inv D (set_pool i (pool_Unwatch t g (sk_namespace k) (watchID k) (pool_of w i)) w)" (is "watch_inv D ?w")
    if i: "wlive w (sk_cluster k) = Some i" and g: "gvr_of D k = Some g" for i g
  proof -
    let ?p = "pool_of w i"
    have P: "pools_ok D w" "live_inj w" using I by (simp_all add: watch_inv_def)
    then have wf: "pool_wf ?p" by (simp add: pools_ok_def)
    have wt: "watchers (pool_Unwatch t g (sk_namespace k) (watchID k) ?p) e x =
        (if e = (g, sk_namespace k) \<and> x = watchID k then None else watchers ?p e x)" for e x
      using spec_ops(2) [OF wf, of t g "sk_namespace k" "watchID k"] by (simp add: pool_spec_def)
    have "pools_ok D ?w"
      using P(1) wf by (intro pools_ok_set) (auto simp: wt pools_ok_def intro: pool_wf_ops split: if_splits)
    moreover have "has_handler D ?w j" if "has_handler D w j" and n: "conns_of w j \<noteq> {}" for j
    proof -
      from that(1) obtain i' g' where j: "wlive w (sk_cluster j) = Some i'" "gvr_of D j = Some g'"
        "watchers (pool_of w i') (g', sk_namespace j) (watchID j) = Some j" by (auto simp: has_handler_def)
      then have "sk_resource j \<in> set watchResources" using P(1) by (auto simp: pools_ok_def handler_ok_def)
      then have "\<not> (i' = i \<and> sk_namespace j = sk_namespace k \<and> watchID j = watchID k)"
        using watchID_inj [of j k] j(1) i k n P(2) by (auto simp: live_inj_def)
      then show ?thesis using j by (auto simp: has_handler_def pool_of_set wt)
    qed
    moreover have "watch_ok ?w" using I same_tables_ok [OF same_tables_simps(2)] by (simp add: watch_inv_def)
    ultimately show ?thesis using I by (auto simp: watch_inv_def fed_def live_inj_def)
  qed
  then show ?thesis using I
    by (auto simp: unwatch_def wlive_def live_def gvr_of_def split: option.split sum.split)
qed


subsection \<open>The operations keep it\<close>

lemma drop_inv:
  assumes "watch_inv D w" and "watch_ok w'" and "\<And>k. conns_of w' k \<subseteq> conns_of w k" and "pool_of w' = pool_of w" and "wlive w' = wlive w"
  shows "watch_inv D w'"
proof -
  show ?thesis using assms unfolding watch_inv_def
    by (fastforce simp: live_inj_def pools_ok_def fed_def has_handler_def handler_ok_def)
qed

lemma conns_subscribed: "conns_of w k = {c. (c, k) \<in> subscribed w}"
  by (auto simp: subscribed_conns)

lemma leave_frame: "wh_pools (fst (leave c k w)) = wh_pools w" "wlive (fst (leave c k w)) = wlive w"
  by (simp_all add: leave_def Let_def drop_conn_def cancel_def wlive_def split: option.split)

lemma leave_last: "snd (leave c k w) \<Longrightarrow> conns_of (fst (leave c k w)) k = {} \<and> map_of (wh_subs w) k \<noteq> None"
  by (auto simp: leave_def Let_def conns_of_def drop_conn_def cancel_def split: option.splits)

lemma subs_nonempty: "subs_ok w \<Longrightarrow> map_of (wh_subs w) k \<noteq> None \<Longrightarrow> conns_of w k \<noteq> {}"
  by (auto simp: subs_ok_def conns_of_def)

lemma Unsubscribe_inv:
  assumes I: "watch_inv D w"
  shows "watch_inv D (Unsubscribe_watch D t c k w)"
proof -
  define w1 where "w1 = (if sk_resource k = ''clusters'' then w\<lparr>wh_cluster_subs := al_del c (wh_cluster_subs w)\<rparr> else w)"
  define w2 where "w2 = (if sk_resource k = ''audit'' then w1\<lparr>wh_audit_subs := filter (\<lambda>d. d \<noteq> c) (wh_audit_subs w1)\<rparr> else w1)"
  define w2' where "w2' = removeConnSub c k w2"
  obtain w3 b where w3: "leave c k w2' = (w3, b)" by fastforce
  have u: "Unsubscribe_watch D t c k w = (if b \<and> sk_resource k \<noteq> ''podlogs'' then unwatch D t k w3 else w3)"
    by (simp add: Unsubscribe_watch_def Let_def w1_def [symmetric] w2_def [symmetric] w2'_def [symmetric] w3)
  have c2: "same_core w w2" by (simp add: w1_def w2_def same_core_def wlive_def)
  then have I2: "watch_inv D w2" using I same_core_inv by blast
  then have ok: "watch_ok w2" by (simp add: watch_inv_def)
  note r = removed_ok [OF ok, of c k, folded w2'_def]
  have l: "subs_ok w3" "subscribed w3 = subscribed w2 - {(c, k)}" "wh_conns w3 = wh_conns w2'"
    "wh_pools w3 = wh_pools w2'" "wlive w3 = wlive w2'"
    using leave_spec [OF r(1), of c k] leave_tables(2) [of c k w2'] leave_frame [of c k w2'] by (simp_all add: w3 r(2))
  have "watch_ok w3" using leaves_ok [OF ok l(3) [unfolded w2'_def] l(1,2)] .
  moreover have "wh_pools w2' = wh_pools w2" "wlive w2' = wlive w2"
    by (simp_all add: w2'_def removeConnSub_def wlive_def split: option.split)
  ultimately have I3: "watch_inv D w3"
    using l by (intro drop_inv [OF I2]) (auto simp: conns_subscribed pool_of_def fun_eq_iff)
  show ?thesis
  proof (cases "b \<and> sk_resource k \<noteq> ''podlogs''")
    case True
    then have "conns_of w3 k = {}" "map_of (wh_subs w2') k \<noteq> None" using leave_last [of c k w2'] by (simp_all add: w3)
    moreover have "conns_of w2 k \<noteq> {}" using subs_nonempty [OF r(1) calculation(2)] by (simp add: conns_subscribed r(2))
    then have "sk_resource k \<in> set watchResources" using I2 by (auto simp: watch_inv_def fed_def)
    ultimately show ?thesis using True watch_inv_unwatch [OF I3] by (simp add: u)
  qed (use I3 u in auto)
qed

lemma leave_all_frame: "wh_pools (fst (leave_all c ks w)) = wh_pools w \<and> wlive (fst (leave_all c ks w)) = wlive w"
proof (induction ks arbitrary: w)
  case (Cons k ks)
  obtain w1 b where w1: "leave c k w = (w1, b)" by fastforce
  obtain w2 need where w2: "leave_all c ks w1 = (w2, need)" by fastforce
  show ?case using Cons.IH [of w1] leave_frame [of c k w] by (simp add: w1 w2)
qed simp

lemma leave_all_needed:
  "subs_ok w \<Longrightarrow> k \<in> set (snd (leave_all c ks w)) \<Longrightarrow> conns_of (fst (leave_all c ks w)) k = {} \<and> conns_of w k \<noteq> {}"
proof (induction ks arbitrary: w)
  case (Cons j ks)
  obtain w1 b where w1: "leave c j w = (w1, b)" by fastforce
  obtain w2 need where w2: "leave_all c ks w1 = (w2, need)" by fastforce
  have s1: "subs_ok w1" "subscribed w1 \<subseteq> subscribed w" using leave_spec [OF Cons.prems(1), of c j] by (auto simp: w1)
  have s2: "subscribed w2 \<subseteq> subscribed w1" using leave_all_spec [OF s1(1), of c ks] by (auto simp: w2)
  show ?case
  proof (cases "k \<in> set need")
    case True
    then show ?thesis using Cons.IH [OF s1(1)] s1(2) by (auto simp: w1 w2 conns_subscribed)
  next
    case False
    then have "k = j" "b" using Cons.prems(2) by (auto simp: w1 w2 split: if_splits)
    then have "conns_of w1 k = {}" "map_of (wh_subs w) k \<noteq> None" using leave_last [of c j w] by (simp_all add: w1)
    then show ?thesis using subs_nonempty [OF Cons.prems(1)] s2 by (auto simp: w1 w2 conns_subscribed)
  qed
qed simp

lemma unwatch_frame: "conns_of (unwatch D t k w) = conns_of w"
  by (simp add: unwatch_def conns_of_def set_pool_def fun_eq_iff split: option.split sum.split)

lemma unwatch_all:
  "watch_inv D w \<Longrightarrow> (\<forall>k \<in> set ks. conns_of w k = {} \<and> sk_resource k \<in> set watchResources) \<Longrightarrow> watch_inv D (fold (unwatch D t) ks w)"
proof (induction ks arbitrary: w)
  case (Cons k ks)
  then show ?case using watch_inv_unwatch [of D w k t] by (simp add: unwatch_frame)
qed simp

lemma RemoveConn_inv:
  assumes I: "watch_inv D w"
  shows "watch_inv D (RemoveConn D t c w)"
proof -
  define w1 where "w1 = w\<lparr>wh_conns := al_del c (wh_conns w), wh_cluster_subs := al_del c (wh_cluster_subs w),
    wh_audit_subs := filter (\<lambda>d. d \<noteq> c) (wh_audit_subs w)\<rparr>"
  obtain w2 need where w2: "leave_all c (conn_keys w c) w1 = (w2, need)" by fastforce
  have r: "RemoveConn D t c w = fold (unwatch D t) need w2" by (simp add: RemoveConn_def Let_def w1_def [symmetric] w2)
  have ok: "watch_ok w" using I by (simp add: watch_inv_def)
  have s1: "subs_ok w1" "subscribed w1 = subscribed w" "conns_of w1 = conns_of w" "wh_pools w1 = wh_pools w" "wlive w1 = wlive w"
    using ok by (simp_all add: w1_def watch_ok_def subs_ok_def subscribed_def conns_of_def wlive_def fun_eq_iff)
  have s2: "subscribed w2 = subscribed w - {c} \<times> set (conn_keys w c)" "wh_pools w2 = wh_pools w" "wlive w2 = wlive w"
    using leave_all_spec [OF s1(1), of c "conn_keys w c"] leave_all_frame [of c "conn_keys w c" w1] s1 by (simp_all add: w2)
  have "watch_ok w2"
    using RemoveConn_spec(1) [OF ok, of D t c] same_tables_ok [OF fold_unwatch [of w2 D t need]] by (simp add: r)
  then have I2: "watch_inv D w2" using s2 by (intro drop_inv [OF I]) (auto simp: conns_subscribed pool_of_def fun_eq_iff)
  have "conns_of w2 k = {} \<and> sk_resource k \<in> set watchResources" if "k \<in> set need" for k
    using leave_all_needed [OF s1(1), of k c "conn_keys w c"] that I s1(3) by (auto simp: w2 watch_inv_def fed_def)
  then show ?thesis using unwatch_all [OF I2] by (simp add: r)
qed


subsection \<open>Subscribing\<close>

definition joined :: "(string \<Rightarrow> discovery) \<Rightarrow> nat \<Rightarrow> subscribe_payload \<Rightarrow> whub \<Rightarrow> whub \<Rightarrow> bool" where
  "joined D c p w w' \<longleftrightarrow> watch_inv D w' \<and> wlive w' = wlive w \<and>
     subscribed w' = (if sp_resource p \<in> {''clusters'', ''audit''} then subscribed w else insert (c, key_of p) (subscribed w))"

definition refused_sub :: "(string \<Rightarrow> discovery) \<Rightarrow> nat \<Rightarrow> subscribe_payload \<Rightarrow> whub \<Rightarrow> whub \<Rightarrow> bool" where
  "refused_sub D c p w w' \<longleftrightarrow> watch_inv D w' \<and> wlive w' = wlive w \<and>
     (subscribed w' = subscribed w \<or> subscribed w' = subscribed w - {(c, key_of p)})"

lemma snapshot_core: "preserves (same_core w) (pushClusterSnapshot J c cluster)"
proof -
  have g: "preserves (same_core w) (wh_call (gets f))" "preserves (same_core w) (modify (send_to c env))" for f :: "sys \<Rightarrow> 'a" and env
    by (simp add: preserves_def wh_call_def gets_def)
      (simp add: preserves_def modify_def same_core_trans [OF _ same_core_simps(1)])
  have g': "preserves (same_core w) (wh_call (gets f))" for f :: "sys \<Rightarrow> 'b"
    by (simp add: preserves_def wh_call_def gets_def)
  show ?thesis
    unfolding pushClusterSnapshot_def manager_Names_def manager_Snapshot_def
    by (intro pres_rules g g') (auto intro!: pres_rules g g' split: option.split)
qed

lemma same_core_sub:
  assumes "same_core w w'" and "watch_inv D w"
  shows "watch_inv D w' \<and> wlive w' = wlive w \<and> subscribed w' = subscribed w"
proof -
  have "watch_inv D w'" using assms same_core_inv by blast
  then show ?thesis using assms(1) by (simp add: same_core_def subscribed_def)
qed

lemma same_core_joined:
  assumes "same_core w w'" and "watch_inv D w"
  shows "sp_resource p \<in> {''clusters'', ''audit''} \<Longrightarrow> joined D c p w w'" and "refused_sub D c p w w'"
  using same_core_sub [OF assms] by (simp_all add: joined_def refused_sub_def)

lemma clusters_sub:
  assumes "watch_inv D w" and "sp_resource p = ''clusters''" and "same_core w w1"
  shows "wp (pushClusterSnapshot J c cl) (\<lambda>_. joined D c p w) (\<lambda>_. refused_sub D c p w) w1"
proof -
  have "wp (pushClusterSnapshot J c cl) (\<lambda>_. same_core w) (\<lambda>_. same_core w) w1"
    using snapshot_core assms(3) by (simp add: preserves_wp)
  then show ?thesis
    by (rule wp_mono) (simp_all add: same_core_joined [OF _ assms(1)] assms(2))
qed

lemma audit_sub:
  assumes "watch_inv D w" and "sp_resource p = ''audit''"
  shows "joined D c p w (addConnSub c (key_of p) (w\<lparr>wh_audit_subs := x\<rparr>))"
proof -
  let ?w = "addConnSub c (key_of p) (w\<lparr>wh_audit_subs := x\<rparr>)"
  have f: "wh_subs ?w = wh_subs w" "wh_pools ?w = wh_pools w" "wlive ?w = wlive w"
    by (simp_all add: addConnSub_def wlive_def)
  then have s: "subscribed ?w = subscribed w" by (simp add: subscribed_def)
  have a: "sk_resource (key_of p) = ''audit''" using assms(2) by (simp add: key_of_def)
  have "conn_keys (w\<lparr>wh_audit_subs := x\<rparr>) d = conn_keys w d" for d by (simp add: conn_keys_def)
  then have "watch_ok ?w"
    using assms(1) a by (auto simp: watch_inv_def watch_ok_def subs_ok_def tables_agree_def f s conn_keys_add)
  then have "watch_inv D ?w" using f s by (intro drop_inv [OF assms(1)]) (auto simp: conns_subscribed pool_of_def fun_eq_iff)
  then show ?thesis using assms(2) s f by (simp add: joined_def)
qed

lemma podlogs_sub:
  assumes I: "watch_inv D w" and p: "sp_resource p = ''podlogs''"
  shows "wp (subscribePodLogs c (key_of p)) (\<lambda>_. joined D c p w) (\<lambda>_. refused_sub D c p w) w"
proof (cases "map_of (wh_subs w) (key_of p)")
  case (Some st)
  then show ?thesis using I by (simp add: wp_def subscribePodLogs_def refused_sub_def)
next
  case None
  let ?k = "key_of p"
  let ?st = "\<lparr>ss_conns = [(c, \<lparr>sp_cluster = '''', sp_namespace = '''', sp_resource = '''', sp_name = '''', sp_container = ''''\<rparr>)],
        ss_gvr = None, ss_stop = Some (wh_follows w)\<rparr>"
  let ?v = "w\<lparr>wh_follows := Suc (wh_follows w)\<rparr>"
  let ?w = "addConnSub c ?k (w\<lparr>wh_follows := Suc (wh_follows w), wh_subs := al_put ?k ?st (wh_subs w)\<rparr>)"
  have k: "sk_resource ?k = ''podlogs''" using p by (simp add: key_of_def)
  have v: "same_tables w ?v" by (simp add: same_tables_def)
  then have ok: "watch_ok ?v" "subscribed ?v = subscribed w" using I same_tables_ok by (auto simp: watch_inv_def)
  have e: "conns_of ?v ?k = {}" using None by (simp add: conns_of_def)
  have j: "watch_ok ?w" "subscribed ?w = insert (c, ?k) (subscribed w)"
    using joins_ok [OF ok(1), of ?k c ?st] k e ok(2) by simp_all
  have "wh_pools ?w = wh_pools w" "wlive ?w = wlive w" by (simp_all add: addConnSub_def wlive_def)
  moreover from this have "pool_of ?w = pool_of w" by (simp add: pool_of_def fun_eq_iff)
  ultimately have h: "has_handler D ?w = has_handler D w" "handler_ok D ?w = handler_ok D w" "pool_of ?w = pool_of w" "wlive ?w = wlive w"
    by (simp_all add: has_handler_def handler_ok_def fun_eq_iff)
  have l: "''podlogs'' \<in> set watchResources" by (simp add: watchResources_def)
  have "fed D ?w" using I k l by (auto simp: watch_inv_def fed_def h(1) conns_subscribed j(2))
  then have "watch_inv D ?w" using I j(1) by (simp add: watch_inv_def live_inj_def pools_ok_def h)
  then show ?thesis using None j p \<open>wlive ?w = wlive w\<close> by (simp add: wp_def subscribePodLogs_def joined_def)
qed


lemma pool_of_cong: "wh_pools w' = wh_pools w \<Longrightarrow> pool_of w' = pool_of w"
  by (simp add: pool_of_def fun_eq_iff)

lemma watch_fails: "fst (pool_Watch t g ns wid k p) = (if pl_closed p then Inl errPoolClosed else Inr ())"
    "pl_closed p \<Longrightarrow> snd (pool_Watch t g ns wid k p) = p"
  by (simp_all add: pool_Watch_def)

lemma rollback_ok:
  assumes "watch_ok w"
  shows "watch_ok (subscribe_rollback c k w) \<and> subscribed (subscribe_rollback c k w) = subscribed w - {(c, k)} \<and>
    wh_pools (subscribe_rollback c k w) = wh_pools w \<and> wlive (subscribe_rollback c k w) = wlive w"
proof -
  note r = removed_ok [OF assms, of c k] and d = drop_conn_spec [OF removed_ok(1) [OF assms], of c k]
  have "watch_ok (subscribe_rollback c k w)"
    unfolding subscribe_rollback_def by (rule leaves_ok [OF assms, of _ c k]) (simp_all add: d r(2))
  moreover have "wh_pools (subscribe_rollback c k w) = wh_pools w \<and> wlive (subscribe_rollback c k w) = wlive w"
    by (simp add: subscribe_rollback_def drop_conn_def removeConnSub_def wlive_def Let_def split: option.split)
  ultimately show ?thesis by (simp add: subscribe_rollback_def d(2) r(2))
qed

lemma watch_sub:
  assumes I: "watch_inv D w" and res: "sp_resource p \<in> set watchResources" "sp_resource p \<notin> {''clusters'', ''audit'', ''podlogs''}"
    and rt: "map_of (s_runtimes (wh_sys w)) (sp_cluster p) = Some rt"
    and ref: "ResolveResource (D (sp_cluster p)) (sp_cluster p) (sp_resource p) = Inr ref"
  shows "wp (and_then (subscribe_add c p (rf_gvr ref)) (\<lambda>first. if \<not> first then ok ()
         else on_result (subscribe_watch t (kr_inst rt) (key_of p) (rf_gvr ref))
           (\<lambda>e. and_then (modify (subscribe_rollback c (key_of p))) (\<lambda>_.
             err (WithCause (New UpstreamK8sError ''start watch failed'') e))) ok))
    (\<lambda>_. joined D c p w) (\<lambda>_. refused_sub D c p w) w"
  unfolding wp_and_then [of "subscribe_add c p (rf_gvr ref)"]
proof (rule wp_mono [OF subscribe_add_spec])
  show "watch_ok w" "sp_resource p \<noteq> ''audit''" using I res by (auto simp: watch_inv_def)
next
  fix first w1
  let ?k = "key_of p" and ?i = "kr_inst rt" and ?g = "rf_gvr ref"
  assume "watch_ok w1 \<and> subscribed w1 = insert (c, ?k) (subscribed w) \<and> (first \<longleftrightarrow> conns_of w1 ?k = {c}) \<and>
    wh_sys w1 = wh_sys w \<and> wh_pools w1 = wh_pools w"
  then have w1: "watch_ok w1" "subscribed w1 = insert (c, ?k) (subscribed w)" "first \<longleftrightarrow> conns_of w1 ?k = {c}"
    "wlive w1 = wlive w" "pool_of w1 = pool_of w" by (simp_all add: wlive_def pool_of_def fun_eq_iff)
  have k: "sk_resource ?k = sp_resource p" "sk_cluster ?k = sp_cluster p" by (simp_all add: key_of_def)
  have P: "pools_ok D w1" "live_inj w1" using I w1(4,5) by (simp_all add: watch_inv_def pools_ok_def handler_ok_def live_inj_def)
  have hw: "has_handler D w1 = has_handler D w" by (simp add: has_handler_def w1 fun_eq_iff)
  have c1: "conns_of w1 j = (if j = ?k then insert c (conns_of w j) else conns_of w j)" for j
    by (auto simp: conns_subscribed w1(2))
  have "wlive w (sp_cluster p) = Some ?i" using rt by (simp add: wlive_def live_def)
  then have h: "handler_ok D w1 ?i (?g, sk_namespace ?k) (watchID ?k) ?k"
    using res ref by (simp add: handler_ok_def k gvr_of_def w1(4))
  have J: "joined D c p w w'" if "watch_ok w'" "subscribed w' = subscribed w1" "pools_ok D w'" "wlive w' = wlive w"
    "\<And>j. has_handler D w j \<Longrightarrow> has_handler D w' j" "conns_of w ?k \<noteq> {} \<or> has_handler D w' ?k" for w'
  proof -
    have "conns_of w' = conns_of w1" using that(2) by (simp add: conns_subscribed fun_eq_iff)
    then have "fed D w'" using I res that(5,6) by (auto simp: watch_inv_def fed_def c1 k split: if_splits)
    then show ?thesis using I that res by (auto simp: joined_def watch_inv_def live_inj_def w1(2))
  qed
  show "wp (if \<not> first then ok () else on_result (subscribe_watch t ?i ?k ?g)
         (\<lambda>e. and_then (modify (subscribe_rollback c ?k)) (\<lambda>_. err (WithCause (New UpstreamK8sError ''start watch failed'') e))) ok)
       (\<lambda>_. joined D c p w) (\<lambda>_. refused_sub D c p w) w1"
  proof (cases first)
    case False
    then have "conns_of w ?k \<noteq> {}" using w1(3) c1 [of ?k] by auto
    then have "joined D c p w w1" using w1 P by (intro J) (simp_all add: hw)
    then show ?thesis using False by (simp add: wp_rules)
  next
    case True
    define w2 where "w2 = set_pool ?i (snd (pool_Watch t ?g (sk_namespace ?k) (watchID ?k) ?k (pool_of w1 ?i))) w1"
    have ok2: "watch_ok w2" "subscribed w2 = subscribed w1" "wlive w2 = wlive w"
      using same_tables_ok [OF same_tables_simps(2)] w1 by (simp_all add: w2_def)
    have s: "subscribe_watch t ?i ?k ?g w1 = (if pl_closed (pool_of w1 ?i) then Inl errPoolClosed else Inr (), w2)"
      by (simp add: subscribe_watch_def w2_def watch_fails(1) split: prod.split)
        (metis fst_conv watch_fails(1))
    note add = pool_add [OF P h, where t = t, folded w2_def]
    show ?thesis
    proof (cases "pl_closed (pool_of w1 ?i)")
      case closed: False
      then have "joined D c p w w2" using ok2 add by (intro J) (simp_all add: hw)
      then show ?thesis using True closed s by (simp add: wp_def on_result_def ok_def)
    next
      case closed: True
      let ?w = "subscribe_rollback c ?k w2"
      have r: "watch_ok ?w" "subscribed ?w = subscribed w - {(c, ?k)}" "wh_pools ?w = wh_pools w2" "wlive ?w = wlive w"
        using rollback_ok [OF ok2(1), of c ?k] ok2 w1(2) by auto
      have "pool_of ?w = pool_of w"
        using pool_of_cong [OF r(3)] w1(5) closed by (simp add: w2_def fun_eq_iff pool_of_set watch_fails(2))
      then have "watch_inv D ?w" using r by (intro drop_inv [OF I]) (auto simp: conns_subscribed)
      then have "refused_sub D c p w ?w" using r by (simp add: refused_sub_def)
      then show ?thesis using True closed s by (simp add: wp_def on_result_def and_then_def modify_def err_def)
    qed
  qed
qed simp

end
