(* ===== verification/Watch_Runs.thy ===== *)
theory Watch_Runs
  imports Watch_Feed
begin

text \<open>
  The watch hub in operation: \<open>Subscribe\<close> as a whole, the system of its operations with events
  and pool ticks between them, and what subscribers receive.
\<close>

subsection \<open>Subscribing\<close>

lemma refused_same: "watch_inv D w \<Longrightarrow> refused_sub D c p w w"
  by (simp add: refused_sub_def)

theorem Subscribe_inv:
  assumes I: "watch_inv D w"
  shows "wp (Subscribe J D t c p) (\<lambda>_. joined D c p w) (\<lambda>_. refused_sub D c p w) w"
proof -
  let ?Q = "\<lambda>_ :: unit. joined D c p w" and ?E = "\<lambda>_ :: gerr. refused_sub D c p w"
  note r = refused_same [OF I]
  let ?rest = "\<lambda>rt. if sp_resource p = ''podlogs'' then
         and_then (guard (sp_name p \<noteq> '''') (New ParamInvalid ''podlogs subscription requires name'')) (\<lambda>_.
         subscribePodLogs c (key_of p))
       else and_then (from_sum (case ResolveResource (D (sp_cluster p)) (sp_cluster p) (sp_resource p) of
           Inl e \<Rightarrow> Inl (WithCause (New ParamInvalid (''unsupported resource '' @ sp_resource p)) e) | Inr r \<Rightarrow> Inr r)) (\<lambda>ref.
         and_then (subscribe_add c p (rf_gvr ref)) (\<lambda>first.
         if \<not> first then ok ()
         else on_result (subscribe_watch t (kr_inst rt) (key_of p) (rf_gvr ref))
           (\<lambda>e. and_then (modify (subscribe_rollback c (key_of p))) (\<lambda>_.
             err (WithCause (New UpstreamK8sError ''start watch failed'') e))) ok))"
  have rest: "wp (?rest rt) ?Q ?E w"
    if "sp_resource p \<in> set watchResources" "sp_resource p \<notin> {''clusters'', ''audit''}"
      and rt: "map_of (s_runtimes (wh_sys w)) (sp_cluster p) = Some rt" for rt
  proof (cases "sp_resource p = ''podlogs''")
    case True
    show ?thesis unfolding if_P [OF True] wp_and_then wp_guard using podlogs_sub [OF I True] r by auto
  next
    case False
    show ?thesis
    proof (cases "ResolveResource (D (sp_cluster p)) (sp_cluster p) (sp_resource p)")
      case (Inl e)
      then show ?thesis using False r by (simp add: wp_and_then wp_from_sum)
    next
      case (Inr ref)
      show ?thesis unfolding if_not_P [OF False] Inr sum.case wp_and_then [of "from_sum _"] wp_from_sum
        using watch_sub [OF I that(1) _ rt Inr] that(2) False by simp
    qed
  qed
  have get: "wp (and_then (watch_runtime (sp_cluster p)) ?rest) ?Q ?E w"
    if "sp_resource p \<in> set watchResources" "sp_resource p \<notin> {''clusters'', ''audit''}"
  proof (cases "map_of (s_runtimes (wh_sys w)) (sp_cluster p)")
    case None
    then show ?thesis using r by (simp add: wp_def and_then_def on_result_def watch_runtime_def wh_call_def manager_Get_def gets_def err_def)
  next
    case (Some rt)
    have "watch_runtime (sp_cluster p) w = (Inr rt, w)"
      using Some by (simp add: watch_runtime_def on_result_def wh_call_def manager_Get_def and_then_def gets_def ok_def)
    then show ?thesis using rest [OF that Some] by (simp only: wp_def and_then_def on_result_def prod.case sum.case)
  qed
  have m: "same_core w (w\<lparr>wh_cluster_subs := x\<rparr>)" for x by (rule same_core_simps)
  show ?thesis unfolding Subscribe_def wp_and_then [of "guard _ _"] wp_guard
    using r clusters_sub [OF I _ m] audit_sub [OF I] get
    by (auto simp: wp_and_then wp_state)
qed


subsection \<open>The system\<close>

lemma keeps_core: "same_core w w' \<Longrightarrow> watch_inv D w \<Longrightarrow> watch_inv D w'"
  using same_core_inv by blast

lemma Subscribe_keeps:
  assumes "watch_inv D w" and "Subscribe J D t c p w = (r, w')"
  shows "watch_inv D w'"
  using Subscribe_inv [OF assms(1), of J t c p] assms(2) by (auto simp: wp_def joined_def refused_sub_def split: sum.splits)

lemma frame_inv: "watch_inv D w \<Longrightarrow> watch_inv D (watch_frame J D t c env w)"
  using Subscribe_keeps [of D w J t c] Unsubscribe_inv [of D w t c] keeps_core [OF same_core_simps(1)]
  by (auto simp: watch_frame_def split: option.splits prod.splits sum.splits)

lemma set_pool_core:
  assumes "watch_inv D w" and "pool_wf p" and "watchers p = watchers (pool_of w i)"
  shows "watch_inv D (set_pool i p w)"
proof -
  have "handler_ok D (set_pool i p w) = handler_ok D w" "has_handler D (set_pool i p w) = has_handler D w"
    using assms(3) by (auto simp: handler_ok_def has_handler_def fun_eq_iff pool_of_set)
  moreover have "watch_ok (set_pool i p w)" using same_tables_ok [OF same_tables_simps(2)] assms(1) by (simp add: watch_inv_def)
  ultimately show ?thesis using assms by (auto simp: watch_inv_def pools_ok_def fed_def live_inj_def pool_of_set split: if_splits)
qed

lemma ticks_inv:
  assumes "watch_inv D w"
  shows "watch_inv D (set_pool i (reap t (pool_of w i)) w)" and "watch_inv D (set_pool i (snd (EnsureEventInformer t (pool_of w i))) w)"
proof -
  have wf: "pool_wf (pool_of w i)" using assms by (simp add: watch_inv_def pools_ok_def)
  have "sp_table (pool_spec (reap t (pool_of w i))) = sp_table (pool_spec (pool_of w i))"
    "sp_table (pool_spec (snd (EnsureEventInformer t (pool_of w i)))) = sp_table (pool_spec (pool_of w i))"
    using spec_ops(3,4) [OF wf] by simp_all
  then have e: "watchers (reap t (pool_of w i)) = watchers (pool_of w i)"
    "watchers (snd (EnsureEventInformer t (pool_of w i))) = watchers (pool_of w i)" by (simp_all add: pool_spec_def)
  show "watch_inv D (set_pool i (reap t (pool_of w i)) w)" "watch_inv D (set_pool i (snd (EnsureEventInformer t (pool_of w i))) w)"
    by (rule set_pool_core [OF assms pool_wf_ops(5) [OF wf] e(1)], rule set_pool_core [OF assms pool_wf_ops(3) [OF wf] e(2)])
qed

lemma stop_inv:
  assumes I: "watch_inv D w" and "\<forall>n. wlive w n \<noteq> Some i"
  shows "watch_inv D (set_pool i (pool_Stop (pool_of w i)) w)"
proof (rule set_pool_core [OF I])
  have wf: "pool_wf (pool_of w i)" using I by (simp add: watch_inv_def pools_ok_def)
  have n: "watchers (pool_of w i) e wid = None" for e wid
  proof (cases "watchers (pool_of w i) e wid")
    case (Some k)
    then have "handler_ok D w i e wid k" using I unfolding watch_inv_def pools_ok_def by blast
    then show ?thesis using assms(2) by (simp add: handler_ok_def)
  qed
  show "pool_wf (pool_Stop (pool_of w i))" by (rule pool_wf_ops [OF wf])
  show "watchers (pool_Stop (pool_of w i)) = watchers (pool_of w i)"
    using spec_ops(5) [OF wf] n by (simp add: pool_spec_def fun_eq_iff)
qed

text \<open>Which clusters are in use: those with subscriptions or handlers.\<close>

definition in_use :: "whub \<Rightarrow> string \<Rightarrow> bool" where
  "in_use w n \<longleftrightarrow> (\<exists>k. sk_cluster k = n \<and> (conns_of w k \<noteq> {} \<or> (\<exists>i e wid. watchers (pool_of w i) e wid = Some k)))"

text \<open>The steps: connections come, send frames, are written to and go; informers, the cluster manager
  and the audit trail report; informers are started and reclaimed; and the system around changes,
  all but the runtimes of clusters in use.\<close>

inductive watch_reach :: "encoders \<Rightarrow> (string \<Rightarrow> discovery) \<Rightarrow> whub \<Rightarrow> whub \<Rightarrow> bool" for J D w0 where
  reach_init: "watch_reach J D w0 w0"
| reach_open: "watch_reach J D w0 w \<Longrightarrow> watch_reach J D w0 (watch_open c w)"
| reach_frame: "watch_reach J D w0 w \<Longrightarrow> watch_reach J D w0 (watch_frame J D t c env w)"
| reach_close: "watch_reach J D w0 w \<Longrightarrow> watch_reach J D w0 (watch_close D t c w)"
| reach_written: "watch_reach J D w0 w \<Longrightarrow> watch_reach J D w0 (w\<lparr>wh_boxes := al_put c (runWriter b (box_of w c)) (wh_boxes w)\<rparr>)"
| reach_event: "watch_reach J D w0 w \<Longrightarrow> watch_reach J D w0 (forward i key action x w)"
| reach_status: "watch_reach J D w0 w \<Longrightarrow> watch_reach J D w0 (publishClusterStatus J ch w)"
| reach_audit: "watch_reach J D w0 w \<Longrightarrow> watch_reach J D w0 (pumpAudit J ev w)"
| reach_follow: "watch_reach J D w0 w \<Longrightarrow> watch_reach J D w0 (followPodLogs D t k c opened w)"
| reach_reap: "watch_reach J D w0 w \<Longrightarrow> watch_reach J D w0 (set_pool i (reap t (pool_of w i)) w)"
| reach_ensure: "watch_reach J D w0 w \<Longrightarrow> watch_reach J D w0 (set_pool i (snd (EnsureEventInformer t (pool_of w i))) w)"
| reach_stop: "watch_reach J D w0 w \<Longrightarrow> (\<forall>n. wlive w n \<noteq> Some i) \<Longrightarrow> watch_reach J D w0 (set_pool i (pool_Stop (pool_of w i)) w)"
| reach_outside: "watch_reach J D w0 w \<Longrightarrow> no_leak s \<Longrightarrow> (\<forall>n. in_use w n \<longrightarrow> live s n = live (wh_sys w) n) \<Longrightarrow>
    watch_reach J D w0 (w\<lparr>wh_sys := s\<rparr>)"

lemma no_leak_inj: "no_leak (wh_sys w) \<Longrightarrow> live_inj w"
  by (auto simp: no_leak_def live_inj_def wlive_def inj_on_def dom_def)

lemma outside_inv:
  assumes I: "watch_inv D w" and "no_leak s" and u: "\<forall>n. in_use w n \<longrightarrow> live s n = live (wh_sys w) n"
  shows "watch_inv D (w\<lparr>wh_sys := s\<rparr>)" (is "watch_inv D ?w")
proof -
  have p: "pool_of ?w = pool_of w" "conns_of ?w = conns_of w" by (simp_all add: pool_of_def conns_of_def fun_eq_iff)
  have l: "wlive ?w (sk_cluster k) = wlive w (sk_cluster k)"
    if "conns_of w k \<noteq> {} \<or> watchers (pool_of w i) e wid = Some k" for k i e wid
  proof -
    have "in_use w (sk_cluster k)" using that unfolding in_use_def by blast
    then show ?thesis using u by (simp add: wlive_def)
  qed
  have "handler_ok D ?w i e wid k = handler_ok D w i e wid k" if h: "watchers (pool_of w i) e wid = Some k" for i e wid k
    using l [OF disjI2, OF h] unfolding handler_ok_def by simp
  then have "pools_ok D ?w" using I unfolding watch_inv_def pools_ok_def p by simp
  moreover have "has_handler D ?w k = has_handler D w k" if "conns_of w k \<noteq> {}" for k
    using l that unfolding has_handler_def p by simp
  then have "fed D ?w" using I unfolding watch_inv_def fed_def p by simp
  moreover have "watch_ok ?w" using I same_tables_ok [OF same_tables_simps(5)] by (simp add: watch_inv_def)
  ultimately show ?thesis using no_leak_inj [of ?w] assms(2) by (simp add: watch_inv_def)
qed

lemma follow_inv: "watch_inv D w \<Longrightarrow> watch_inv D (followPodLogs D t k c opened w)"
  by (auto simp: followPodLogs_def intro!: Unsubscribe_inv keeps_core [OF same_core_fold, where w = w]
    intro: keeps_core [OF same_core_simps(1)] split: sum.splits)

lemma reach_inv: "watch_reach J D w0 w \<Longrightarrow> watch_inv D w0 \<Longrightarrow> watch_inv D w"
proof (induction rule: watch_reach.induct)
  case (reach_close w t c)
  then show ?case using keeps_core [OF same_core_simps(5)] RemoveConn_inv [of D w t c] by (simp add: watch_close_def Let_def)
qed (auto simp: watch_open_def forward_def intro: keeps_core [OF same_core_simps(5)] keeps_core [OF same_core_events(5)]
  keeps_core [OF same_core_events(3)] keeps_core [OF same_core_events(4)] frame_inv follow_inv ticks_inv stop_inv outside_inv
  split: informer_object.split)


subsection \<open>What subscribers receive\<close>

definition object_frame :: "string \<Rightarrow> string \<Rightarrow> string \<Rightarrow> json \<Rightarrow> sub_key \<Rightarrow> envelope" where
  "object_frame action ns name obj k = event_frame (sk_resource k) (sk_cluster k) ns name action obj"

lemma box_of_send: "box_of (send_to c env w) d = (if d = c then conn_Send env (box_of w c) else box_of w d)"
  by (simp add: box_of_def send_to_def)

lemma box_of_send_all: "distinct cs \<Longrightarrow> box_of (send_all cs env w) d = (if d \<in> set cs then conn_Send env (box_of w d) else box_of w d)"
proof (induction cs arbitrary: w)
  case (Cons c cs)
  then show ?case using Cons.IH [of "send_to c env w"] by (auto simp: send_all_def box_of_send)
qed (simp add: send_all_def)

lemma box_of_deliver:
  assumes "subs_ok w"
  shows "box_of (deliver k action ns name obj w) c =
    (if (c, k) \<in> subscribed w then conn_Send (object_frame action ns name obj k) (box_of w c) else box_of w c)"
proof (cases "map_of (wh_subs w) k")
  case (Some st)
  then have "distinct (map fst (ss_conns st))" using assms by (auto simp: subs_ok_def)
  from box_of_send_all [OF this] show ?thesis using Some by (simp add: deliver_def subscribed_def object_frame_def)
qed (simp add: deliver_def subscribed_def)

lemma box_of_fold:
  "subs_ok w \<Longrightarrow> box_of (fold (\<lambda>k. deliver k action ns name obj) ks w) c =
     fold (\<lambda>k. conn_Send (object_frame action ns name obj k)) (filter (\<lambda>k. (c, k) \<in> subscribed w) ks) (box_of w c)"
proof (induction ks arbitrary: w)
  case (Cons k ks)
  let ?w = "deliver k action ns name obj w"
  have s: "wh_subs ?w = wh_subs w" using same_tables_deliver [of w] by (simp add: same_tables_def)
  then have "subs_ok ?w" "subscribed ?w = subscribed w" using Cons.prems by (simp_all add: subs_ok_def subscribed_def)
  then show ?case using Cons.IH [of ?w] box_of_deliver [OF Cons.prems] by simp
qed simp

lemma sends_queue:
  "wc_queue (fold (\<lambda>k. conn_Send (f k)) ks b) =
     (if wc_closed b then wc_queue b else take (max wsSendBuffer (length (wc_queue b))) (wc_queue b @ map f ks))"
proof (induction ks arbitrary: b)
  case (Cons k ks)
  show ?case
  proof (cases "wc_closed b \<or> wsSendBuffer \<le> length (wc_queue b)")
    case True
    then show ?thesis using Cons.IH [of b] by (auto simp: conn_Send_def max_def)
  next
    case False
    then have "max wsSendBuffer (length (wc_queue b)) = wsSendBuffer" "max wsSendBuffer (Suc (length (wc_queue b))) = wsSendBuffer"
      by simp_all
    then show ?thesis using False Cons.IH [of "conn_Send (f k) b"] by (simp add: conn_Send_def)
  qed
qed simp

lemma handlers_of:
  assumes I: "watch_inv D w" and l: "wlive w cl = Some i"
  shows "distinct (dispatch (g, ns) (pool_of w i))"
    and "k \<in> set (dispatch (g, ns) (pool_of w i)) \<Longrightarrow> sk_cluster k = cl \<and> gvr_of D k = Some g \<and> sk_namespace k = ns \<and> sk_resource k \<noteq> ''podlogs''"
    and "conns_of w k \<noteq> {} \<Longrightarrow> sk_cluster k = cl \<Longrightarrow> gvr_of D k = Some g \<Longrightarrow> sk_namespace k = ns \<Longrightarrow> sk_resource k \<noteq> ''podlogs'' \<Longrightarrow>
      k \<in> set (dispatch (g, ns) (pool_of w i))"
proof -
  let ?p = "pool_of w i"
  have wf: "pool_wf ?p" and P: "\<And>e wid k. watchers ?p e wid = Some k \<Longrightarrow> handler_ok D w i e wid k" and inj: "live_inj w"
    using I unfolding watch_inv_def pools_ok_def by blast+
  have d: "set (dispatch (g, ns) ?p) = ran (watchers ?p (g, ns))" by (rule dispatch_watchers [OF wf])
  show "sk_cluster k = cl \<and> gvr_of D k = Some g \<and> sk_namespace k = ns \<and> sk_resource k \<noteq> ''podlogs''" if "k \<in> set (dispatch (g, ns) ?p)"
  proof -
    from that d obtain wid where "watchers ?p (g, ns) wid = Some k" by (auto simp: ran_def)
    from P [OF this] show ?thesis using l inj by (auto simp: handler_ok_def live_inj_def)
  qed
  show "distinct (dispatch (g, ns) ?p)"
  proof (cases "map_of (pl_entries ?p) (g, ns)")
    case (Some e)
    have w: "map_of (ie_handlers e) = watchers ?p (g, ns)" using Some by (simp add: watchers_def)
    have "distinct (map snd m)" if "distinct (map fst m)" "\<And>wid k. map_of m wid = Some k \<Longrightarrow> wid = watchID k"
      for m :: "(string \<times> sub_key) list"
    proof -
      have "map fst m = map watchID (map snd m)" using that by (auto simp: map_eq_conv)
      then show ?thesis using that(1) by (metis distinct_map)
    qed
    from this [OF handlers_distinct [OF wf Some]] show ?thesis using P Some w by (auto simp: dispatch_def handler_ok_def)
  qed (simp add: dispatch_def)
  show "k \<in> set (dispatch (g, ns) ?p)" if "conns_of w k \<noteq> {}" "sk_cluster k = cl" "gvr_of D k = Some g" "sk_namespace k = ns"
    "sk_resource k \<noteq> ''podlogs''"
  proof -
    have "has_handler D w k" using I that(1,5) by (auto simp: watch_inv_def fed_def)
    then show ?thesis using that l d by (auto simp: has_handler_def ran_def)
  qed
qed


subsection \<open>From the start of the server\<close>

definition NewWatchHub :: "sys \<Rightarrow> whub" where
  "NewWatchHub s = \<lparr>wh_sys = snd (AddStatusListener s), wh_pools = [], wh_subs = [], wh_conns = [], wh_cluster_subs = [],
     wh_audit_subs = [], wh_boxes = [], wh_follows = 0, wh_cancelled = [], wh_stopped = False\<rparr>"

lemma NewWatchHub_inv:
  assumes "no_leak s"
  shows "watch_inv D (NewWatchHub s)"
proof -
  let ?w = "NewWatchHub s"
  have e: "subscribed ?w = {}" "conn_keys ?w c = []" "conns_of ?w k = {}" "pool_of ?w i = newInformerPool" for c k i
    by (simp_all add: NewWatchHub_def subscribed_def conn_keys_def conns_of_def pool_of_def)
  have "no_leak (snd (AddStatusListener s))"
    using assms by (simp add: AddStatusListener_def and_then_def on_result_def gets_def modify_def ok_def no_leak_def live_def [abs_def])
  then have "live_inj ?w" by (intro no_leak_inj) (simp add: NewWatchHub_def)
  moreover have "watch_ok ?w" by (simp add: watch_ok_def subs_ok_def tables_agree_def e) (simp add: NewWatchHub_def)
  ultimately show ?thesis
    by (simp add: watch_inv_def pools_ok_def fed_def e pool_wf_def watchers_def newInformerPool_def running_informers_def)
qed




subsection \<open>Examples\<close>

definition demo_runtime :: "nat \<Rightarrow> k8s_runtime" where
  "demo_runtime i = \<lparr>kr_inst = i, kr_version = ''v1'', kr_config = \<lparr>rc_target = ''t'', rc_dial = None\<rparr>,
     kr_health = health_init (default_options \<lparr>op_interval = 0, op_probe_timeout = 0, op_backoff_start = 0\<rparr>) \<lparr>st_status = ''ready'', st_message = '''', st_transition = 0\<rparr>\<rparr>"

definition east_sys :: sys where
  "east_sys = \<lparr>s_world = \<lparr>w_db = empty_db, w_faults = [], w_now = 5\<rparr>, s_registry = [], s_runtimes = [(''east'', demo_runtime 0)],
     s_dialers = [], s_listeners = [], s_next_listener = 0, s_next_inst = 1, s_stopped = [], s_sent = []\<rparr>"

definition demo_encoders :: encoders where
  "demo_encoders = \<lparr>js_status = (\<lambda>ch. JStr (sc_status ch)), js_audit = (\<lambda>a. JStr (al_username a))\<rparr>"

definition no_discovery :: "string \<Rightarrow> discovery" where
  "no_discovery c = \<lparr>dc_supported = False, dc_lists = (\<lambda>_. (None, None)), dc_parse = (\<lambda>_. None)\<rparr>"

definition demo_payload :: "string \<Rightarrow> string \<Rightarrow> subscribe_payload" where
  "demo_payload resource name = \<lparr>sp_cluster = ''east'', sp_namespace = ''default'', sp_resource = resource, sp_name = name, sp_container = ''''\<rparr>"

definition subscribe_env :: "subscribe_payload \<Rightarrow> envelope" where
  "subscribe_env p = NewEnvelope ''subscribe'' ''r1'' (Some (marshal_subscribe p))"

text \<open>Two connections, the first subscribed to the pods of a namespace.\<close>

definition watching_pods :: whub where
  "watching_pods = watch_frame demo_encoders no_discovery 7 1 (subscribe_env (demo_payload ''pods'' ''''))
     (watch_open 2 (watch_open 1 (NewWatchHub east_sys)))"

lemma east_ok: "no_leak east_sys"
proof -
  have "live east_sys = [''east'' \<mapsto> 0]"
    by (auto simp: live_def fun_eq_iff east_sys_def demo_runtime_def)
  then show ?thesis by (auto simp: no_leak_def east_sys_def)
qed

lemma watching_reached: "watch_reach demo_encoders no_discovery (NewWatchHub east_sys) watching_pods"
  unfolding watching_pods_def by (intro watch_reach.intros)



definition pods_gvr :: gvr where
  "pods_gvr = rf_gvr (v1 '''' ''pods'' True)"


subsection \<open>Where the stream is less than its contract\<close>

text \<open>The contract of the stream lists resources that the hub refuses, and the hub's comments an empty
  cluster for the changes of all clusters, which it refuses too.\<close>

lemma listed_resources_refused:
  "sp_resource p \<in> {''pvcs'', ''namespaces''} \<or> sp_cluster p = '''' \<Longrightarrow> \<exists>m. Subscribe J D t c p w = (Inl (New ParamInvalid m), w)"
proof -
  assume p: "sp_resource p \<in> {''pvcs'', ''namespaces''} \<or> sp_cluster p = ''''"
  have "''pvcs'' \<notin> set watchResources" "''namespaces'' \<notin> set watchResources" by (simp_all add: watchResources_def)
  then have "sp_resource p \<notin> set watchResources \<or> sp_cluster p = ''''" using p by auto
  then show ?thesis
    by (cases "sp_resource p \<in> set watchResources")
      (simp_all add: Subscribe_def and_then_def on_result_def guard_def err_def ok_def del: New_def)
qed

text \<open>Only the first subscriber of a key sees the objects that are already there: the others join a
  running informer, and nothing is sent to them until an object changes.\<close>

lemma late_subscriber_gets_no_objects:
  assumes "watch_inv D w" and "map_of (wh_subs w) (key_of p) = Some st" and "c \<notin> conns_of w (key_of p)"
    and "sp_resource p \<notin> {''clusters'', ''audit'', ''podlogs''}"
  shows "wh_boxes (snd (Subscribe J D t c p w)) = wh_boxes w \<and> wh_pools (snd (Subscribe J D t c p w)) = wh_pools w"
proof -
  have n: "ss_conns st \<noteq> []" using assms(1,2) by (auto simp: watch_inv_def watch_ok_def subs_ok_def)
  have c: "al_put c p (ss_conns st) = (c, p) # ss_conns st"
    using assms(2,3) by (auto simp: al_put_def filter_id_conv conns_of_def image_iff)
  have "wh_boxes (addConnSub c k v) = wh_boxes v" "wh_pools (addConnSub c k v) = wh_pools v" for k v
    by (simp_all add: addConnSub_def)
  then show ?thesis using assms(2,4) n c
    by (auto simp: Subscribe_def and_then_def on_result_def guard_def err_def ok_def from_sum_def watch_runtime_def wh_call_def
      manager_Get_def gets_def subscribe_add_def Let_def split: sum.split option.split)
qed

text \<open>A subscription for one object is given the events of all: the name only sets subscriptions apart.\<close>

definition watching_one :: whub where
  "watching_one = watch_frame demo_encoders no_discovery 7 1 (subscribe_env (demo_payload ''pods'' ''web-0''))
     (watch_open 1 (NewWatchHub east_sys))"

lemma name_does_not_filter:
  "wc_queue (box_of (pool_event 0 (pods_gvr, ''default'') ''deleted'' ''default'' ''web-1'' JNull watching_one) 1) =
     [object_frame ''deleted'' ''default'' ''web-1'' JNull (key_of (demo_payload ''pods'' ''web-0''))]"
  by code_simp

text \<open>When the runtime of a cluster is replaced (its registration is updated), what was subscribed goes
  silent: the new runtime's informers know no handler, and a further subscriber, not being the
  first, does not start one either.\<close>

definition reregistered :: "whub \<Rightarrow> whub" where
  "reregistered w = set_pool 0 (pool_Stop (pool_of w 0)) (w\<lparr>wh_sys := (wh_sys w)\<lparr>s_runtimes := [(''east'', demo_runtime 1)], s_next_inst := 2\<rparr>\<rparr>)"

definition resubscribed :: whub where
  "resubscribed = watch_frame demo_encoders no_discovery 8 2 (subscribe_env (demo_payload ''pods'' '''')) (reregistered watching_pods)"

lemma replaced_runtime_goes_silent:
  "map_option (map fst \<circ> ss_conns) (map_of (wh_subs resubscribed) (key_of (demo_payload ''pods'' ''''))) = Some [2, 1] \<and>
   wc_queue (box_of resubscribed 2) = [] \<and>
   dispatch (pods_gvr, ''default'') (pool_of resubscribed 1) = [] \<and> pl_entries (pool_of resubscribed 1) = []"
  by code_simp



text \<open>The end of a log stream leaves its key behind: the logs of that pod cannot be followed again until
  the connection unsubscribes or goes; nor can a second connection follow them meanwhile.\<close>

lemma ended_log_stream_stays:
  assumes "map_of (wh_subs w) k \<noteq> None"
  shows "subscribePodLogs c k (followPodLogs D t k d (Inr chunks) w) =
    (Inl (New ParamInvalid ''podlogs subscription already active''), followPodLogs D t k d (Inr chunks) w)"
proof -
  have "same_tables w (fold (\<lambda>text. deliver k a ns n (f text)) chunks w)" for a ns n and f :: "string \<Rightarrow> json"
    by (simp add: same_tables_fold)
  then have "wh_subs (followPodLogs D t k d (Inr chunks) w) = wh_subs w" by (simp add: followPodLogs_def same_tables_def)
  then show ?thesis using assms by (simp add: subscribePodLogs_def)
qed

end
