(* ===== verification/Api_Handlers.thy ===== *)
theory Api_Handlers
  imports Http_Access Cluster_Lifecycle
begin

text \<open>
  The handlers of the management API (api/handler/auth.go, user.go, role.go, agent.go,
  kubeconfig.go, cluster.go, audit.go) and the agent manifest (service/manifest.go): binding of
  bodies and parameters, and the service behind each. A JSON body is the value it decodes to,
  \<open>None\<close> if it does not; random strings and what the environment holds are arguments.
\<close>

subsection \<open>Binding\<close>

definition bind_body :: "('b \<Rightarrow> bool) \<Rightarrow> string \<Rightarrow> 'b option \<Rightarrow> ('o, 'b) hact" where
  "bind_body required msg b = (case b of None \<Rightarrow> err (New ParamInvalid msg)
     | Some x \<Rightarrow> and_then (guard (required x) (New ParamInvalid msg)) (\<lambda>_. ok x))"

definition positive_param :: "http_request \<Rightarrow> string \<Rightarrow> string \<Rightarrow> ('o, int) hact" where
  "positive_param req k msg = (case atoi (hr_param req k) of None \<Rightarrow> err (New ParamInvalid msg)
     | Some i \<Rightarrow> and_then (guard (i > 0) (New ParamInvalid msg)) (\<lambda>_. ok i))"

definition parseID :: "http_request \<Rightarrow> ('o, int) hact" where
  "parseID req = positive_param req ''id'' ''invalid id''"

definition parseOptionalQueryInt :: "http_request \<Rightarrow> string \<Rightarrow> gerr + int" where
  "parseOptionalQueryInt req k = (if hr_query req k = '''' then Inr 0
     else case atoi (hr_query req k) of None \<Rightarrow> Inl (PlainErr (''invalid '' @ k @ '' '' @ go_quote (hr_query req k)))
       | Some v \<Rightarrow> if v \<le> 0 then Inl (PlainErr (''invalid '' @ k @ '' '' @ go_quote (hr_query req k))) else Inr v)"

definition with_identity :: "identity option \<Rightarrow> ('o, identity) hact" where
  "with_identity ident = (case ident of None \<Rightarrow> err (New Unauthorized ''authentication required'') | Some i \<Rightarrow> ok i)"

definition paginated :: "http_request \<Rightarrow> (pagination \<Rightarrow> ('o, 'a) hact) \<Rightarrow> ('o, 'a) hact" where
  "paginated req k = (case Parse (hr_query req) of
     Inl e \<Rightarrow> err (WithCause (New ParamInvalid ''invalid pagination'') e) | Inr p \<Rightarrow> k p)"

subsection \<open>Sessions (auth.go)\<close>

text \<open>The environment of a request: the libraries and services, and what the random source returns.\<close>

record 'o platform =
  pf_server :: "'o server"
  pf_wiring :: wiring
  pf_kube :: kube_service
  pf_salt :: string
  pf_rnd1 :: "string option"
  pf_rnd2 :: "string option"
  pf_duration :: "string \<Rightarrow> time option"
  pf_agent_image :: string
  pf_external_url :: string

abbreviation libs_of :: "'o platform \<Rightarrow> libs" where
  "libs_of P \<equiv> sv_libs (pf_server P)"

abbreviation secret_of :: "'o platform \<Rightarrow> string" where
  "secret_of P \<equiv> sv_secret (pf_server P)"

record login_request =
  lr_username :: string
  lr_password :: string

definition login :: "'o platform \<Rightarrow> login_request option \<Rightarrow> ('o, token_pair) hact" where
  "login P b = and_then (bind_body (\<lambda>r. lr_username r \<noteq> '''' \<and> lr_password r \<noteq> '''') ''username and password are required'' b) (\<lambda>r.
     on_store (Login (libs_of P) (secret_of P) (pf_rnd1 P) (lr_username r) (lr_password r)))"

definition refresh :: "'o platform \<Rightarrow> string option \<Rightarrow> ('o, token_pair) hact" where
  "refresh P b = and_then (bind_body (\<lambda>t. t \<noteq> '''') ''refreshToken is required'' b) (\<lambda>t.
     on_store (Refresh (libs_of P) (secret_of P) (pf_rnd1 P) t))"

definition logout :: "'o platform \<Rightarrow> string option \<Rightarrow> ('o, unit) hact" where
  "logout P b = and_then (bind_body (\<lambda>t. t \<noteq> '''') ''refreshToken is required'' b) (\<lambda>t.
     on_store (RevokeToken (libs_of P) t))"

subsection \<open>Users (user.go)\<close>

record create_user_request =
  cu_username :: string
  cu_password :: string
  cu_role :: string

record change_password_request =
  cp_old :: string
  cp_new :: string

definition listUsers :: "http_request \<Rightarrow> ('o, user_dto result_body) hact" where
  "listUsers req = paginated req (\<lambda>p. on_store (ListUsers p))"

definition createUser :: "'o platform \<Rightarrow> create_user_request option \<Rightarrow> ('o, user_dto) hact" where
  "createUser P b = and_then (bind_body (\<lambda>r. cu_username r \<noteq> '''' \<and> cu_password r \<noteq> '''' \<and> cu_role r \<noteq> '''')
       ''username, password and role are required'' b) (\<lambda>r.
     on_store (CreateUser (libs_of P) (pf_salt P) (cu_username r) (cu_password r) (cu_role r)))"

definition setUserStatus :: "http_request \<Rightarrow> bool option \<Rightarrow> ('o, unit) hact" where
  "setUserStatus req b = and_then (bind_body (\<lambda>_. True) ''invalid body'' b) (\<lambda>disabled.
     on_store (DisableUser (hr_param req ''username'') disabled))"

definition changeMyPassword :: "'o platform \<Rightarrow> identity option \<Rightarrow> change_password_request option \<Rightarrow> ('o, unit) hact" where
  "changeMyPassword P ident b = and_then (bind_body (\<lambda>r. cp_old r \<noteq> '''' \<and> cp_new r \<noteq> '''')
       ''oldPassword and newPassword are required'' b) (\<lambda>r.
     and_then (with_identity ident) (\<lambda>i.
     on_store (ChangePassword (libs_of P) (pf_salt P) (id_username i) (cp_old r) (cp_new r))))"

definition getMe :: "identity option \<Rightarrow> ('o, user_dto) hact" where
  "getMe ident = and_then (with_identity ident) (\<lambda>i. on_store (GetByUsername (id_username i)))"

definition getMyPermissions :: "identity option \<Rightarrow> ('o, me_permissions) hact" where
  "getMyPermissions ident = and_then (with_identity ident) (\<lambda>i. on_store (UserPermissions (id_username i)))"

definition resetUserPassword :: "'o platform \<Rightarrow> http_request \<Rightarrow> ('o, string \<times> string) hact" where
  "resetUserPassword P req = on_store (ResetPassword (libs_of P) (pf_salt P) (pf_rnd1 P) (hr_param req ''username''))"

definition deleteUser :: "http_request \<Rightarrow> identity option \<Rightarrow> ('o, unit) hact" where
  "deleteUser req ident = and_then (with_identity ident) (\<lambda>i. on_store (DeleteUser (id_username i) (hr_param req ''username'')))"

subsection \<open>Roles, groups and grants (role.go)\<close>

record role_request =
  rr_name :: string
  rr_description :: string
  rr_permissions :: "string list"

record group_request =
  gr_name :: string
  gr_description :: string

record grant_request =
  gq_subject_type :: string
  gq_subject_id :: int
  gq_object_type :: string
  gq_object_id :: int
  gq_scopes :: "scope list"

definition bind_role :: "role_request option \<Rightarrow> ('o, role_request) hact" where
  "bind_role = bind_body (\<lambda>r. rr_name r \<noteq> '''') ''name and permissions are required''"

definition bind_group :: "group_request option \<Rightarrow> ('o, group_request) hact" where
  "bind_group = bind_body (\<lambda>r. gr_name r \<noteq> '''') ''name is required''"

definition listRoles :: "('o, role_item list) hact" where
  "listRoles = on_store ListRoles"

definition createRole :: "role_request option \<Rightarrow> ('o, role_item) hact" where
  "createRole b = and_then (bind_role b) (\<lambda>r. on_store (CreateRole (rr_name r) (rr_description r) (rr_permissions r)))"

definition updateRole :: "http_request \<Rightarrow> role_request option \<Rightarrow> ('o, role_item) hact" where
  "updateRole req b = and_then (parseID req) (\<lambda>i. and_then (bind_role b) (\<lambda>r.
     on_store (UpdateRole i (rr_name r) (rr_description r) (rr_permissions r))))"

definition deleteRole :: "http_request \<Rightarrow> ('o, unit) hact" where
  "deleteRole req = and_then (parseID req) (\<lambda>i. on_store (DeleteRole i))"

definition listUserGroups :: "('o, group_dto list) hact" where
  "listUserGroups = on_store ListUserGroups"

definition createUserGroup :: "group_request option \<Rightarrow> ('o, group_dto) hact" where
  "createUserGroup b = and_then (bind_group b) (\<lambda>r. on_store (CreateUserGroup (gr_name r) (gr_description r)))"

definition updateUserGroup :: "http_request \<Rightarrow> group_request option \<Rightarrow> ('o, group_dto) hact" where
  "updateUserGroup req b = and_then (parseID req) (\<lambda>i. and_then (bind_group b) (\<lambda>r.
     on_store (UpdateUserGroup i (gr_name r) (gr_description r))))"

definition deleteUserGroup :: "http_request \<Rightarrow> ('o, unit) hact" where
  "deleteUserGroup req = and_then (parseID req) (\<lambda>i. on_store (DeleteUserGroup i))"

definition listGroupMembers :: "http_request \<Rightarrow> ('o, user_dto list) hact" where
  "listGroupMembers req = and_then (parseID req) (\<lambda>i. on_store (ListGroupMembers i))"

definition addGroupMember :: "http_request \<Rightarrow> int option \<Rightarrow> ('o, unit) hact" where
  "addGroupMember req b = and_then (parseID req) (\<lambda>i. and_then (bind_body (\<lambda>j. j \<noteq> 0) ''userId is required'' b) (\<lambda>j.
     on_store (AddGroupMember i j)))"

definition removeGroupMember :: "http_request \<Rightarrow> ('o, unit) hact" where
  "removeGroupMember req = and_then (parseID req) (\<lambda>i. and_then (positive_param req ''userId'' ''invalid userId'') (\<lambda>j.
     on_store (RemoveGroupMember i j)))"

definition listRoleGroups :: "('o, group_dto list) hact" where
  "listRoleGroups = on_store ListRoleGroups"

definition createRoleGroup :: "group_request option \<Rightarrow> ('o, group_dto) hact" where
  "createRoleGroup b = and_then (bind_group b) (\<lambda>r. on_store (CreateRoleGroup (gr_name r) (gr_description r)))"

definition updateRoleGroup :: "http_request \<Rightarrow> group_request option \<Rightarrow> ('o, group_dto) hact" where
  "updateRoleGroup req b = and_then (parseID req) (\<lambda>i. and_then (bind_group b) (\<lambda>r.
     on_store (UpdateRoleGroup i (gr_name r) (gr_description r))))"

definition deleteRoleGroup :: "http_request \<Rightarrow> ('o, unit) hact" where
  "deleteRoleGroup req = and_then (parseID req) (\<lambda>i. on_store (DeleteRoleGroup i))"

definition listRoleGroupRoles :: "http_request \<Rightarrow> ('o, role_item list) hact" where
  "listRoleGroupRoles req = and_then (parseID req) (\<lambda>i. on_store (ListRoleGroupRoles i))"

definition addRoleGroupRole :: "http_request \<Rightarrow> int option \<Rightarrow> ('o, unit) hact" where
  "addRoleGroupRole req b = and_then (parseID req) (\<lambda>i. and_then (bind_body (\<lambda>j. j \<noteq> 0) ''roleId is required'' b) (\<lambda>j.
     on_store (AddRoleGroupRole i j)))"

definition removeRoleGroupRole :: "http_request \<Rightarrow> ('o, unit) hact" where
  "removeRoleGroupRole req = and_then (parseID req) (\<lambda>i. and_then (positive_param req ''roleId'' ''invalid roleId'') (\<lambda>j.
     on_store (RemoveRoleGroupRole i j)))"

definition listGrants :: "http_request \<Rightarrow> ('o, grant_item list) hact" where
  "listGrants req = (case parseOptionalQueryInt req ''subjectId'' of Inl _ \<Rightarrow> err (New ParamInvalid ''invalid subjectId'')
     | Inr sid \<Rightarrow> (case parseOptionalQueryInt req ''objectId'' of Inl _ \<Rightarrow> err (New ParamInvalid ''invalid objectId'')
     | Inr oid \<Rightarrow> on_store (ListGrants (hr_query req ''subjectType'') sid (hr_query req ''objectType'') oid)))"

definition createGrant :: "grant_request option \<Rightarrow> ('o, grant_item) hact" where
  "createGrant b = and_then (bind_body (\<lambda>r. gq_subject_type r \<noteq> '''' \<and> gq_subject_id r \<noteq> 0 \<and> gq_object_type r \<noteq> '''' \<and>
         gq_object_id r \<noteq> 0) ''subjectType, subjectId, objectType, objectId and scopes are required'' b) (\<lambda>r.
     on_store (CreateGrant (gq_subject_type r) (gq_subject_id r) (gq_object_type r) (gq_object_id r) (gq_scopes r)))"

definition deleteGrant :: "http_request \<Rightarrow> ('o, unit) hact" where
  "deleteGrant req = and_then (parseID req) (\<lambda>i. on_store (DeleteGrant i))"

text \<open>The bytes of the message of a refusal.\<close>

definition only_self_or_admin :: string where
  "only_self_or_admin = [CHR 0xE5, CHR 0x8F, CHR 0xAA, CHR 0xE8, CHR 0x83, CHR 0xBD, CHR 0xE6, CHR 0x9F, CHR 0xA5, CHR 0xE8, CHR 0xAF, CHR 0xA2, CHR 0xE6, CHR 0x9C, CHR 0xAC, CHR 0xE4, CHR 0xBA, CHR 0xBA, CHR 0xE6, CHR 0x88, CHR 0x96] @ '' admin '' @ [CHR 0xE5, CHR 0x8F, CHR 0xAF, CHR 0xE6, CHR 0x9F, CHR 0xA5, CHR 0xE8, CHR 0xAF, CHR 0xA2, CHR 0xE4, CHR 0xBB, CHR 0x96, CHR 0xE4, CHR 0xBA, CHR 0xBA]"

definition effectivePermissions :: "http_request \<Rightarrow> identity option \<Rightarrow> ('o, string list) hact" where
  "effectivePermissions req ident =
     and_then (guard (case ident of None \<Rightarrow> False
         | Some i \<Rightarrow> id_username i = hr_param req ''username'' \<or> id_role i = ''admin'') (New Forbidden only_self_or_admin)) (\<lambda>_.
     and_then (on_store (GetByUsername (hr_param req ''username''))) (\<lambda>u.
     on_store (EffectivePermissions (ud_id u) (ud_role u) (hr_query req ''cluster'') (hr_query req ''namespace''))))"

subsection \<open>Enrollment tokens and the agent manifest (agent.go, manifest.go)\<close>

record enroll_request =
  eq_cluster :: string
  eq_ttl :: string
  eq_ttl_hours :: int

definition listEnrollTokens :: "('o, enroll_view list \<times> nat) hact" where
  "listEnrollTokens = and_then (on_store Enroll_List) (\<lambda>items. ok (items, length items))"

definition createEnrollToken :: "'o platform \<Rightarrow> enroll_request option \<Rightarrow> ('o, enroll_view \<times> string) hact" where
  "createEnrollToken P b = and_then (bind_body (\<lambda>r. eq_cluster r \<noteq> '''') ''cluster is required'' b) (\<lambda>r.
     on_store (Enroll_Create (libs_of P) (pf_rnd1 P) (eq_cluster r)
       (if eq_ttl r = '''' \<and> eq_ttl_hours r > 0 then itoa (eq_ttl_hours r) @ ''h'' else eq_ttl r)))"

definition deleteEnrollToken :: "http_request \<Rightarrow> ('o, unit) hact" where
  "deleteEnrollToken req = and_then (positive_param req ''id'' ''invalid token id'') (\<lambda>i. on_store (Enroll_Revoke i))"

record manifest_data =
  md_cluster :: string
  md_namespace :: string
  md_image :: string
  md_server_url :: string
  md_token :: string

definition ManifestDefaultImage :: string where
  "ManifestDefaultImage = ''ghcr.io/axyzxyz/kubeui-agent:latest''"

definition manifestNamespace :: string where
  "manifestNamespace = ''kubeui-system''"

text \<open>The template, line by line.\<close>

definition manifest_header :: "manifest_data \<Rightarrow> string list" where
  "manifest_header m = [
     ''# kubeUI Agent '' @ [CHR 0xE5, CHR 0x8F, CHR 0x8D, CHR 0xE8, CHR 0xBF, CHR 0x9E, CHR 0xE9, CHR 0x83, CHR 0xA8, CHR 0xE7, CHR 0xBD, CHR 0xB2, CHR 0xE6, CHR 0xB8, CHR 0x85, CHR 0xE5, CHR 0x8D, CHR 0x95] @ ''('' @ [CHR 0xE9, CHR 0x9B, CHR 0x86, CHR 0xE7, CHR 0xBE, CHR 0xA4] @ '': '' @ md_cluster m @ '')'',
     ''# '' @ [CHR 0xE7, CHR 0x94, CHR 0xA8, CHR 0xE6, CHR 0xB3, CHR 0x95] @ '': kubectl apply -f manifest.yaml'',
     ''apiVersion: v1'',
     ''kind: Namespace'',
     ''metadata:'',
     ''  name: '' @ md_namespace m,
     ''---'',
     ''apiVersion: v1'',
     ''kind: ServiceAccount'',
     ''metadata:'',
     ''  name: kubeui-agent'',
     ''  namespace: '' @ md_namespace m,
     ''---'',
     ''# '' @ [CHR 0xE6, CHR 0x9C, CHR 0x80, CHR 0xE5, CHR 0xB0, CHR 0x8F, CHR 0xE6, CHR 0x9D, CHR 0x83, CHR 0xE9, CHR 0x99, CHR 0x90] @ '':Agent '' @ [CHR 0xE4, CHR 0xBB, CHR 0x85, CHR 0xE5, CHR 0x81, CHR 0x9A, CHR 0xE9, CHR 0x9A, CHR 0xA7, CHR 0xE9, CHR 0x81, CHR 0x93, CHR 0xE9, CHR 0x80, CHR 0x8F, CHR 0xE4, CHR 0xBC, CHR 0xA0] @ '','' @ [CHR 0xE4, CHR 0xB8, CHR 0x8D, CHR 0xE8, CHR 0xAE, CHR 0xBF, CHR 0xE9, CHR 0x97, CHR 0xAE, CHR 0xE6, CHR 0x9C, CHR 0xAC, CHR 0xE9, CHR 0x9B, CHR 0x86, CHR 0xE7, CHR 0xBE, CHR 0xA4] @ '' K8s API,'' @ [CHR 0xE8, CHR 0xA7, CHR 0x84, CHR 0xE5, CHR 0x88, CHR 0x99, CHR 0xE4, CHR 0xB8, CHR 0xBA, CHR 0xE7, CHR 0xA9, CHR 0xBA, CHR 0xE3, CHR 0x80, CHR 0x82]]"

definition manifest_role :: "manifest_data \<Rightarrow> string list" where
  "manifest_role m = [
     ''apiVersion: rbac.authorization.k8s.io/v1'',
     ''kind: Role'',
     ''metadata:'',
     ''  name: kubeui-agent-minimal'',
     ''  namespace: '' @ md_namespace m,
     ''rules: []'',
     ''---'',
     ''apiVersion: rbac.authorization.k8s.io/v1'',
     ''kind: RoleBinding'',
     ''metadata:'',
     ''  name: kubeui-agent-minimal'',
     ''  namespace: '' @ md_namespace m,
     ''roleRef:'',
     ''  apiGroup: rbac.authorization.k8s.io'',
     ''  kind: Role'',
     ''  name: kubeui-agent-minimal'',
     ''subjects:'']"

definition manifest_deployment :: "manifest_data \<Rightarrow> string list" where
  "manifest_deployment m = [
     ''  - kind: ServiceAccount'',
     ''    name: kubeui-agent'',
     ''    namespace: '' @ md_namespace m,
     ''---'',
     ''apiVersion: apps/v1'',
     ''kind: Deployment'',
     ''metadata:'',
     ''  name: kubeui-agent'',
     ''  namespace: '' @ md_namespace m,
     ''  labels:'',
     ''    app.kubernetes.io/name: kubeui-agent'',
     ''    app.kubernetes.io/part-of: kubeUI'',
     ''spec:'',
     ''  replicas: 1'']"

definition manifest_pod :: "manifest_data \<Rightarrow> string list" where
  "manifest_pod m = [
     ''  selector:'',
     ''    matchLabels:'',
     ''      app.kubernetes.io/name: kubeui-agent'',
     ''  template:'',
     ''    metadata:'',
     ''      labels:'',
     ''        app.kubernetes.io/name: kubeui-agent'',
     ''    spec:'',
     ''      serviceAccountName: kubeui-agent'',
     ''      containers:'',
     ''        - name: agent'',
     ''          image: '' @ md_image m,
     ''          imagePullPolicy: IfNotPresent'']"

definition manifest_resources :: "manifest_data \<Rightarrow> string list" where
  "manifest_resources m = [
     ''          env:'',
     ''            - name: KUBEUI_SERVER_URL'',
     ''              value: '' @ [CHR 0x22] @ md_server_url m @ [CHR 0x22],
     ''            - name: KUBEUI_ENROLL_TOKEN'',
     ''              value: '' @ [CHR 0x22] @ md_token m @ [CHR 0x22],
     ''          resources:'',
     ''            requests:'',
     ''              cpu: 10m'',
     ''              memory: 16Mi'',
     ''            limits:'',
     ''              cpu: 200m'',
     ''              memory: 64Mi'']"

definition manifestTemplate :: "manifest_data \<Rightarrow> string" where
  "manifestTemplate m = concat (map (\<lambda>l. l @ [CHR 0x0A])
     (manifest_header m @ manifest_role m @ manifest_deployment m @ manifest_pod m @ manifest_resources m))"

definition RenderAgentManifest :: "libs \<Rightarrow> string \<Rightarrow> string \<Rightarrow> string \<Rightarrow> string act" where
  "RenderAgentManifest l img token serverURL =
     and_then (Enroll_Check l token) (\<lambda>cluster.
     and_then (guard (serverURL \<noteq> '''') (New ParamInvalid ''serverUrl is not configured'')) (\<lambda>_.
     ok (manifestTemplate \<lparr>md_cluster = cluster, md_namespace = manifestNamespace,
       md_image = (if img = '''' then ManifestDefaultImage else img), md_server_url = serverURL, md_token = token\<rparr>)))"

definition agentManifest :: "'o platform \<Rightarrow> http_request \<Rightarrow> ('o, string \<times> string) hact" where
  "agentManifest P req =
     and_then (guard (hr_query req ''token'' \<noteq> '''') (New ParamInvalid ''token is required'')) (\<lambda>_.
     and_then (on_store (RenderAgentManifest (libs_of P) (pf_agent_image P) (hr_query req ''token'') (pf_external_url P))) (\<lambda>y.
     ok (y, pf_external_url P)))"

subsection \<open>Client credentials (kubeconfig.go)\<close>

text \<open>\<open>parseTTL\<close>; \<open>pf_duration\<close> is \<open>time.ParseDuration\<close>.\<close>

definition kubeconfig_parseTTL :: "'o platform \<Rightarrow> string \<Rightarrow> ('o, time) hact" where
  "kubeconfig_parseTTL P s = (if s = '''' then ok 0
     else case pf_duration P s of None \<Rightarrow> err (New ParamInvalid ''invalid ttl, expect Go duration like 24h'')
       | Some d \<Rightarrow> and_then (guard (d > 0) (New ParamInvalid ''invalid ttl, expect Go duration like 24h'')) (\<lambda>_. ok d))"

text \<open>The body, a lifetime and a description, may be missing.\<close>

definition issueKubeconfig :: "'o platform \<Rightarrow> http_request \<Rightarrow> identity option \<Rightarrow> (string \<times> string) option \<Rightarrow> ('o, issued_created) hact" where
  "issueKubeconfig P req ident b = and_then (with_identity ident) (\<lambda>i.
     let (ttl, description) = (case b of None \<Rightarrow> ('''', '''') | Some x \<Rightarrow> x) in
     and_then (kubeconfig_parseTTL P ttl) (\<lambda>d.
     on_kube (Issue (libs_of P) (pf_kube P) (pf_rnd1 P) (pf_rnd2 P) (id_user i) (hr_param req ''cluster'') d description)))"

definition listMyKubeconfigs :: "identity option \<Rightarrow> ('o, issued_view list \<times> nat) hact" where
  "listMyKubeconfigs ident = and_then (with_identity ident) (\<lambda>i.
     and_then (on_kube (ListForUser (id_user i))) (\<lambda>items. ok (items, length items)))"

definition revokeKubeconfig :: "http_request \<Rightarrow> identity option \<Rightarrow> ('o, unit) hact" where
  "revokeKubeconfig req ident = and_then (with_identity ident) (\<lambda>i.
     and_then (positive_param req ''id'' ''invalid credential id'') (\<lambda>j.
     on_kube (Kube_Revoke j (id_user i) (id_role i = ''admin''))))"

definition downloadKubeconfig :: "'o platform \<Rightarrow> http_request \<Rightarrow> ('o, string) hact" where
  "downloadKubeconfig P req = on_kube (Download (libs_of P) (pf_kube P) (hr_query req ''code''))"

subsection \<open>Clusters (cluster.go)\<close>

definition on_clusters :: "'a sact \<Rightarrow> ('o, 'a) hact" where
  "on_clusters m = on_res (on_sys m)"

definition listClusters :: "('o, cluster_info list \<times> nat) hact" where
  "listClusters = and_then (on_clusters ListClusterInfos) (\<lambda>items. ok (items, length items))"

definition registerCluster :: "'o platform \<Rightarrow> register_request option \<Rightarrow> ('o, cluster_info) hact" where
  "registerCluster P b = and_then (bind_body (\<lambda>r. rq_name r \<noteq> '''' \<and> rq_kubeconfig r \<noteq> '''') ''name and kubeconfig are required'' b) (\<lambda>r.
     on_clusters (Register (wi_service (pf_wiring P)) (hook_registered (pf_wiring P)) (wi_probe (pf_wiring P)) (pf_rnd1 P) r))"

definition clusterStatus :: "http_request \<Rightarrow> ('o, status_change) hact" where
  "clusterStatus req = on_clusters (ClusterStatus (hr_param req ''cluster''))"

definition deleteCluster :: "http_request \<Rightarrow> ('o, unit) hact" where
  "deleteCluster req = on_clusters (DeleteClusterReg hook_unregistered (hr_param req ''cluster''))"

text \<open>The body: the kubeconfig and the context's name.\<close>

definition rotateKubeconfig :: "'o platform \<Rightarrow> http_request \<Rightarrow> (string \<times> string) option \<Rightarrow> ('o, cluster_info) hact" where
  "rotateKubeconfig P req b = and_then (bind_body (\<lambda>r. fst r \<noteq> '''') ''kubeconfig is required'' b) (\<lambda>r.
     on_clusters (RotateKubeconfig (wi_service (pf_wiring P)) (hook_registered (pf_wiring P)) (wi_probe (pf_wiring P)) (pf_rnd1 P)
       (hr_param req ''cluster'') (fst r) (snd r)))"

subsection \<open>The audit trail (audit.go)\<close>

definition listAuditLogs :: "http_request \<Rightarrow> ('o, audit_log result_body) hact" where
  "listAuditLogs req = paginated req (\<lambda>p. ListAudit
     \<lparr>af_username = hr_query req ''username'', af_cluster = hr_query req ''cluster'', af_action = hr_query req ''action''\<rparr> p)"

end
