(* ===== verification/Api_Routes.thy ===== *)
theory Api_Routes
  imports Api_Handlers
begin

text \<open>
  The routes of the management API with the middlewares in front of them (handler/router.go);
  \<open>Api_Access\<close> shows who can change what with them.
\<close>

subsection \<open>Routes (handler/router.go)\<close>

text \<open>The routes by what they are mounted behind: nothing, \<open>Auth\<close>, or \<open>Auth\<close> and \<open>AdminOnly\<close>. (The
  WebSocket endpoints, which are mounted behind nothing, and the proxy have their own theories.)\<close>

datatype public_route =
    PLogin "login_request option" | PRefresh "string option" | PDownload | PManifest

datatype own_route =
    OLogout "string option" | OMe | OMyPermissions | OMyPassword "change_password_request option" | OEffective
  | OEnrollTokens | OIssue "(string \<times> string) option" | OKubeconfigs | ORevokeKubeconfig | OClusters | OClusterStatus

datatype admin_route =
    AUsers | AUserCreate "create_user_request option" | AUserStatus "bool option" | AUserReset | AUserDelete
  | ARoles | ARoleCreate "role_request option" | ARoleUpdate "role_request option" | ARoleDelete
  | AUserGroups | AUserGroupCreate "group_request option" | AUserGroupUpdate "group_request option" | AUserGroupDelete
  | AMembers | AMemberAdd "int option" | AMemberRemove
  | ARoleGroups | ARoleGroupCreate "group_request option" | ARoleGroupUpdate "group_request option" | ARoleGroupDelete
  | AGroupRoles | AGroupRoleAdd "int option" | AGroupRoleRemove
  | AGrants | AGrantCreate "grant_request option" | AGrantDelete
  | AAuditLogs | AEnrollCreate "enroll_request option" | AEnrollDelete
  | AClusterRegister "register_request option" | AClusterDelete | AClusterRotate "(string \<times> string) option"

datatype api_route = Public public_route | Own own_route | Admin admin_route | OnResource route

text \<open>Of a handler's answer only the access token is used further, by the audit middleware.\<close>

definition answer :: "('o, 'a) hact \<Rightarrow> ('o, string) hact" where
  "answer m = and_then m (\<lambda>_. ok '''')"

primrec public_handler :: "'o platform \<Rightarrow> http_request \<Rightarrow> public_route \<Rightarrow> ('o, string) hact" where
  "public_handler P req (PLogin b) = and_then (login P b) (\<lambda>t. ok (tp_access t))"
| "public_handler P req (PRefresh b) = and_then (refresh P b) (\<lambda>t. ok (tp_access t))"
| "public_handler P req PDownload = answer (downloadKubeconfig P req)"
| "public_handler P req PManifest = answer (agentManifest P req)"

primrec own_handler :: "'o platform \<Rightarrow> http_request \<Rightarrow> identity option \<Rightarrow> own_route \<Rightarrow> ('o, string) hact" where
  "own_handler P req i (OLogout b) = answer (logout P b)"
| "own_handler P req i OMe = answer (getMe i)"
| "own_handler P req i OMyPermissions = answer (getMyPermissions i)"
| "own_handler P req i (OMyPassword b) = answer (changeMyPassword P i b)"
| "own_handler P req i OEffective = answer (effectivePermissions req i)"
| "own_handler P req i OEnrollTokens = answer listEnrollTokens"
| "own_handler P req i (OIssue b) = answer (issueKubeconfig P req i b)"
| "own_handler P req i OKubeconfigs = answer (listMyKubeconfigs i)"
| "own_handler P req i ORevokeKubeconfig = answer (revokeKubeconfig req i)"
| "own_handler P req i OClusters = answer listClusters"
| "own_handler P req i OClusterStatus = answer (clusterStatus req)"

primrec admin_handler :: "'o platform \<Rightarrow> http_request \<Rightarrow> identity option \<Rightarrow> admin_route \<Rightarrow> ('o, string) hact" where
  "admin_handler P req i AUsers = answer (listUsers req)"
| "admin_handler P req i (AUserCreate b) = answer (createUser P b)"
| "admin_handler P req i (AUserStatus b) = answer (setUserStatus req b)"
| "admin_handler P req i AUserReset = answer (resetUserPassword P req)"
| "admin_handler P req i AUserDelete = answer (deleteUser req i)"
| "admin_handler P req i ARoles = answer listRoles"
| "admin_handler P req i (ARoleCreate r) = answer (createRole r)"
| "admin_handler P req i (ARoleUpdate r) = answer (updateRole req r)"
| "admin_handler P req i ARoleDelete = answer (deleteRole req)"
| "admin_handler P req i AUserGroups = answer listUserGroups"
| "admin_handler P req i (AUserGroupCreate g) = answer (createUserGroup g)"
| "admin_handler P req i (AUserGroupUpdate g) = answer (updateUserGroup req g)"
| "admin_handler P req i AUserGroupDelete = answer (deleteUserGroup req)"
| "admin_handler P req i AMembers = answer (listGroupMembers req)"
| "admin_handler P req i (AMemberAdd m) = answer (addGroupMember req m)"
| "admin_handler P req i AMemberRemove = answer (removeGroupMember req)"
| "admin_handler P req i ARoleGroups = answer listRoleGroups"
| "admin_handler P req i (ARoleGroupCreate g) = answer (createRoleGroup g)"
| "admin_handler P req i (ARoleGroupUpdate g) = answer (updateRoleGroup req g)"
| "admin_handler P req i ARoleGroupDelete = answer (deleteRoleGroup req)"
| "admin_handler P req i AGroupRoles = answer (listRoleGroupRoles req)"
| "admin_handler P req i (AGroupRoleAdd r) = answer (addRoleGroupRole req r)"
| "admin_handler P req i AGroupRoleRemove = answer (removeRoleGroupRole req)"
| "admin_handler P req i AGrants = answer (listGrants req)"
| "admin_handler P req i (AGrantCreate g) = answer (createGrant g)"
| "admin_handler P req i AGrantDelete = answer (deleteGrant req)"
| "admin_handler P req i AAuditLogs = answer (listAuditLogs req)"
| "admin_handler P req i (AEnrollCreate e) = answer (createEnrollToken P e)"
| "admin_handler P req i AEnrollDelete = answer (deleteEnrollToken req)"
| "admin_handler P req i (AClusterRegister c) = answer (registerCluster P c)"
| "admin_handler P req i AClusterDelete = answer (deleteCluster req)"
| "admin_handler P req i (AClusterRotate k) = answer (rotateKubeconfig P req k)"

definition api_reply :: "identity option \<Rightarrow> string \<Rightarrow> reply" where
  "api_reply ident token = \<lparr>rp_status = 200, rp_body = \<lparr>b_code = 0, b_message = ''ok''\<rparr>, rp_access_token = token,
     rp_identity = ident, rp_created = ('''', '''')\<rparr>"

definition replied :: "identity option \<Rightarrow> ('o, string) hact \<Rightarrow> ('o, reply) hact" where
  "replied ident m = on_result m (\<lambda>e. ok (fail_reply ident e)) (\<lambda>t. ok (api_reply ident t))"

definition authed :: "'o platform \<Rightarrow> http_request \<Rightarrow> (identity \<Rightarrow> ('o, reply) hact) \<Rightarrow> ('o, reply) hact" where
  "authed P req k = on_result (Auth (libs_of P) (secret_of P) req) (\<lambda>e. ok (fail_reply None e)) k"

primrec api_serve :: "'o platform \<Rightarrow> http_request \<Rightarrow> api_route \<Rightarrow> ('o, reply) hact" where
  "api_serve P req (Public r) = Audit (sv_payload (pf_server P)) req (replied None (public_handler P req r))"
| "api_serve P req (Own r) = Audit (sv_payload (pf_server P)) req
     (authed P req (\<lambda>i. replied (Some i) (own_handler P req (Some i) r)))"
| "api_serve P req (Admin r) = Audit (sv_payload (pf_server P)) req
     (authed P req (\<lambda>i. replied (Some i) (and_then (AdminOnly i) (\<lambda>_. admin_handler P req (Some i) r))))"
| "api_serve P req (OnResource r) = serve (pf_server P) req r"

end
