(* ===== verification/Api_Access.thy ===== *)
theory Api_Access
  imports Api_Routes
begin

text \<open>
  Who can change what through the API: the accounts, the authorization tables, the enrollment
  tokens and the clusters change only for a token with the role of an administrator.
\<close>

subsection \<open>What only administrators change\<close>

definition account :: "user \<Rightarrow> int \<times> string \<times> string \<times> bool" where
  "account u = (u_id u, u_username u, u_role u, u_disabled u)"

definition same_accounts :: "string set \<Rightarrow> user list \<Rightarrow> user list \<Rightarrow> bool" where
  "same_accounts who = list_all2 (\<lambda>u v. account v = account u \<and> (u_username u \<notin> who \<longrightarrow> u_password_hash v = u_password_hash u))"

text \<open>From one database to the other only the password hashes of some users and the tables of
  sessions, issued credentials and the audit trail may differ.\<close>

definition unmoved :: "string set \<Rightarrow> database \<Rightarrow> database \<Rightarrow> bool" where
  "unmoved who d d' \<longleftrightarrow> same_accounts who (trows (db_users d)) (trows (db_users d')) \<and>
     db_roles d' = db_roles d \<and> db_role_groups d' = db_role_groups d \<and> db_role_group_roles d' = db_role_group_roles d \<and>
     db_grants d' = db_grants d \<and> db_grant_scopes d' = db_grant_scopes d \<and> db_user_groups d' = db_user_groups d \<and>
     db_user_group_members d' = db_user_group_members d \<and> db_enroll_tokens d' = db_enroll_tokens d \<and>
     db_clusters d' = db_clusters d"

definition same_clusters :: "sys \<Rightarrow> sys \<Rightarrow> bool" where
  "same_clusters s s' \<longleftrightarrow> s_registry s' = s_registry s \<and> s_runtimes s' = s_runtimes s \<and> s_dialers s' = s_dialers s \<and>
     s_stopped s' = s_stopped s"

definition unmoved_sys :: "string set \<Rightarrow> sys \<Rightarrow> sys \<Rightarrow> bool" where
  "unmoved_sys who s s' \<longleftrightarrow> unmoved who (w_db (s_world s)) (w_db (s_world s')) \<and> same_clusters s s'"

definition unmoved_state :: "string set \<Rightarrow> 'o astate \<Rightarrow> 'o astate \<Rightarrow> bool" where
  "unmoved_state who s s' \<longleftrightarrow> unmoved_sys who (rs_sys (as_res s)) (rs_sys (as_res s'))"

lemma same_accounts_refl [simp]: "same_accounts who us us"
  by (simp add: same_accounts_def list_all2_same)

lemma unmoved_refl [simp]: "unmoved who d d"
  by (simp add: unmoved_def)

lemma unmoved_state_refl [simp]: "unmoved_state who s s"
  by (simp add: unmoved_state_def unmoved_sys_def same_clusters_def)

subsection \<open>Operations that move nothing\<close>

abbreviation world_still :: "string set \<Rightarrow> database \<Rightarrow> world \<Rightarrow> bool" where
  "world_still who d \<equiv> on_db (unmoved who d)"

lemma unmoved_frame:
  "unmoved who d0 d \<Longrightarrow> unmoved who d0 (db_refresh_tokens_update f d)"
  "unmoved who d0 d \<Longrightarrow> unmoved who d0 (db_issued_update g d)"
  "unmoved who d0 d \<Longrightarrow> unmoved who d0 (db_audit_logs_update h d)"
  by (simp_all add: unmoved_def)

lemmas still_rules = pres_rules
  frame_rules [where I = "unmoved who d0" and upd = db_refresh_tokens_update for who d0, OF unmoved_frame(1)]
  frame_rules [where I = "unmoved who d0" and upd = db_issued_update for who d0, OF unmoved_frame(2)]
  frame_rules [where I = "unmoved who d0" and upd = db_audit_logs_update for who d0, OF unmoved_frame(3)]

lemma sessions_still:
  "preserves (world_still who d) (Login l k rnd n pw)" "preserves (world_still who d) (Refresh l k rnd tok)"
  "preserves (world_still who d) (RevokeToken l tok)" "preserves (world_still who d) (VerifyAccessToken l k tok)"
  "preserves (world_still who d) (GetByUsername n)" "preserves (world_still who d) (UserPermissions n)"
  "preserves (world_still who d) (RevokeAllForUser i)"
  by (auto simp: session_defs session_repo_defs GetByUsername_def UserPermissions_def VerifyAccessToken_def issuePair_def Let_def
    intro!: still_rules split: sum.splits)


lemma reads_still:
  "preserves (world_still who d) Enroll_List" "preserves (world_still who d) (RenderAgentManifest l im tok u)"
  "preserves (world_still who d) (repo_GetClusterByName n)" "preserves (world_still who d) repo_ListClusters"
  "preserves (world_still who d) (repo_ListAuditLogs q x y)" "preserves (world_still who d) (repo_CreateAuditLog e)"
  by (auto simp: Enroll_List_def RenderAgentManifest_def Enroll_Check_def enroll_lookup_def repo_ListEnrollTokens_def
    repo_GetEnrollTokenByHash_def repo_GetClusterByName_def repo_ListClusters_def repo_ListAuditLogs_def repo_CreateAuditLog_def Let_def
    intro!: still_rules split: option.splits)

lemma permissions_still:
  "preserves (world_still who d) (EffectivePermissions i r c ns)" "preserves (world_still who d) (Authorize i r perm c ns)"
  by (auto simp: EffectivePermissions_def Authorize_def permissionsForObject_def repo_GetRoleByID_def repo_ListGroupRoles_def repo_GrantsForUser_def preload_scopes_def Let_def
    intro!: still_rules split: option.splits)


abbreviation kube_still :: "string set \<Rightarrow> database \<Rightarrow> kube_state \<Rightarrow> bool" where
  "kube_still who d \<equiv> \<lambda>s. unmoved who d (w_db (kw_world s))"

lemma kube_prims:
  "preserves (world_still who d) m \<Longrightarrow> preserves (kube_still who d) (db m)"
  "preserves (kube_still who d) (put_code c e)" "preserves (kube_still who d) (take_code c)" "preserves (kube_still who d) (drop_codes t)"
  by (auto simp: preserves_def db_def put_code_def take_code_def drop_codes_def split: prod.splits)

lemma credentials_still:
  "preserves (kube_still who d) (Issue l ks r1 r2 i c ttl ds)" "preserves (kube_still who d) (ListForUser i)"
  "preserves (kube_still who d) (Kube_Revoke j i b)" "preserves (kube_still who d) (Download l ks code)"
  by (auto simp: Issue_def ListForUser_def Kube_Revoke_def Download_def kube_cleanupExpired_def
    repo_DeleteExpiredIssuedKubeconfigs_def repo_CreateIssuedKubeconfig_def repo_ListIssuedKubeconfigsForUser_def
    repo_GetIssuedKubeconfigByID_def repo_RevokeIssuedKubeconfig_def repo_GetIssuedKubeconfigByHash_def
    intro!: kube_prims reads_still still_rules split: option.splits)

abbreviation sys_still :: "string set \<Rightarrow> sys \<Rightarrow> sys \<Rightarrow> bool" where
  "sys_still who s0 \<equiv> unmoved_sys who s0"

lemma sys_prims:
  "preserves (world_still who (w_db (s_world s0))) m \<Longrightarrow> preserves (sys_still who s0) (on_world m)"
  "preserves (sys_still who s0) (gets f)"
  by (auto simp: preserves_def on_world_def gets_def unmoved_sys_def same_clusters_def split: prod.splits)

lemma clusters_still:
  "preserves (sys_still who s0) ListClusterInfos" "preserves (sys_still who s0) (ClusterStatus n)"
  "preserves (sys_still who s0) (manager_Get n)"
  by (auto simp: ListClusterInfos_def ClusterStatus_def manager_Get_def intro!: sys_prims reads_still still_rules split: option.splits)

subsection \<open>Handlers that move nothing\<close>

abbreviation server_still :: "string set \<Rightarrow> 'o astate \<Rightarrow> 'o astate \<Rightarrow> bool" where
  "server_still who s0 \<equiv> unmoved_state who s0"

lemma server_prims:
  "preserves (world_still who (database_of s0)) m \<Longrightarrow> preserves (server_still who s0) (on_store m)"
  "preserves (kube_still who (database_of s0)) k \<Longrightarrow> preserves (server_still who s0) (on_kube k)"
  "preserves (sys_still who (rs_sys (as_res s0))) c \<Longrightarrow> preserves (server_still who s0) (on_clusters c)"
  "preserves (\<lambda>t. sys_still who (rs_sys (as_res s0)) (rs_sys t)) r \<Longrightarrow> preserves (server_still who s0) (on_res r)"
  "preserves (server_still who s0) (broadcast e)"
proof -
  show "preserves (world_still who (database_of s0)) m \<Longrightarrow> preserves (server_still who s0) (on_store m)"
    by (fastforce simp: preserves_def on_store_def on_res_def on_sys_def on_world_def unmoved_state_def unmoved_sys_def
      same_clusters_def database_of_def split: prod.splits)
  show "preserves (kube_still who (database_of s0)) k \<Longrightarrow> preserves (server_still who s0) (on_kube k)"
    unfolding preserves_wp wp_on_kube
    by (intro allI impI, rule wp_mono) (auto simp: unmoved_state_def unmoved_sys_def same_clusters_def database_of_def)
  show "preserves (sys_still who (rs_sys (as_res s0))) c \<Longrightarrow> preserves (server_still who s0) (on_clusters c)"
    by (fastforce simp: preserves_def on_clusters_def on_res_def on_sys_def unmoved_state_def split: prod.splits)
  show "preserves (\<lambda>t. sys_still who (rs_sys (as_res s0)) (rs_sys t)) r \<Longrightarrow> preserves (server_still who s0) (on_res r)"
    by (fastforce simp: preserves_def on_res_def unmoved_state_def split: prod.splits)
  show "preserves (server_still who s0) (broadcast e)"
    by (simp add: preserves_def broadcast_def unmoved_state_def)
qed

lemma Record_still: "preserves (server_still who s0) (Record e)"
  unfolding Record_def by (intro server_prims reads_still still_rules)


lemmas binding_defs = bind_body_def positive_param_def with_identity_def paginated_def

lemma public_still: "preserves (server_still who s0) (public_handler P req r)"
  by (cases r) (auto simp: login_def refresh_def downloadKubeconfig_def agentManifest_def answer_def binding_defs
    intro!: server_prims sessions_still credentials_still reads_still still_rules split: option.splits)

lemma own_still:
  assumes "\<And>b. r \<noteq> OMyPassword b"
  shows "preserves (server_still who s0) (own_handler P req i r)"
  using assms by (cases r) (auto simp: logout_def getMe_def getMyPermissions_def effectivePermissions_def listEnrollTokens_def
    issueKubeconfig_def kubeconfig_parseTTL_def listMyKubeconfigs_def revokeKubeconfig_def listClusters_def clusterStatus_def
    answer_def binding_defs Let_def intro!: server_prims sessions_still credentials_still reads_still permissions_still clusters_still
    still_rules split: option.splits prod.splits)

text \<open>A user's own password.\<close>

lemma own_hash:
  assumes "db_wf d" and "tbl_first u_id (\<lambda>x. u_username x = n) (db_users d) = Some u"
    and "tbl_save u_id user_uniq (u\<lparr>u_password_hash := h, u_updated := t\<rparr>) (db_users d) = Some us"
  shows "unmoved {n} d (db_users_update (\<lambda>_. us) d)"
proof -
  have u: "u \<in> set (trows (db_users d))" "u_username u = n" using tbl_first_SomeD [OF assms(2)] by simp_all
  have d: "distinct (map u_id (trows (db_users d)))" using users.get_wf [OF assms(1)] by (simp add: tbl_wf_def)
  have e: "v = u" if "v \<in> set (trows (db_users d))" "u_id v = u_id u" for v
    using d u(1) that by (simp add: eq_key_imp_eq_value distinct_map inj_on_def)
  have us: "trows us = map (\<lambda>x. if u_id x = u_id u then u\<lparr>u_password_hash := h, u_updated := t\<rparr> else x) (trows (db_users d))"
    using assms(3) u(1) by (auto simp: tbl_save_def list_ex_iff split: if_splits)
  have "same_accounts {n} (trows (db_users d)) (trows us)"
    unfolding same_accounts_def us list_all2_map2 using e u(2) by (auto simp: list.rel_refl_strong account_def intro!: list.rel_refl_strong)
  then show ?thesis by (simp add: unmoved_def)
qed

lemma ChangePassword_still:
  assumes "db_wf (w_db w)"
  shows "wp (ChangePassword l salt n old new) (\<lambda>_. world_still {n} (w_db w)) (\<lambda>_. world_still {n} (w_db w)) w"
proof -
  have r: "wp (RevokeAllForUser i) (\<lambda>_. world_still {n} (w_db w)) (\<lambda>_. world_still {n} (w_db w)) v" if "unmoved {n} (w_db w) (w_db v)" for i v
    using sessions_still(7) [of "{n}" "w_db w" i] that by (simp add: preserves_wp)
  show ?thesis
    by (auto simp: ChangePassword_def comparePassword_def HashPassword_def repo_GetUserByUsername_def repo_UpdateUser_def wp_rules
      intro!: r own_hash [OF assms] split: option.splits sum.splits)
qed

lemma changeMyPassword_still:
  assumes "db_wf (database_of s)"
  shows "wp (changeMyPassword P (Some i) b) (\<lambda>_. unmoved_state {id_username i} s) (\<lambda>_. unmoved_state {id_username i} s) s"
proof -
  have "wp (on_store (ChangePassword l salt n old new)) (\<lambda>_. unmoved_state {n} s) (\<lambda>_. unmoved_state {n} s) s" for l salt n old new
    unfolding on_store_def wp_rules
    by (rule wp_mono [OF ChangePassword_still])
      (use assms in \<open>auto simp: unmoved_state_def unmoved_sys_def same_clusters_def database_of_def\<close>)
  then show ?thesis by (auto simp: changeMyPassword_def binding_defs wp_rules split: option.split)
qed


lemma still_mono: "unmoved_state A s0 s \<Longrightarrow> A \<subseteq> B \<Longrightarrow> unmoved_state B s0 s"
  unfolding unmoved_state_def unmoved_sys_def unmoved_def same_accounts_def by (auto elim: list_all2_mono)

subsection \<open>The resource routes\<close>

lemma send_still: "preserves (\<lambda>t. sys_still who s0 (rs_sys t)) (send c f q)"
  "preserves (\<lambda>t. sys_still who s0 (rs_sys t)) (send_raw c g q)"
  "preserves (sys_still who s0) m \<Longrightarrow> preserves (\<lambda>t. sys_still who s0 (rs_sys t)) (on_sys m)"
  by (force simp: preserves_def send_def send_raw_def on_sys_def split: prod.splits)+

lemma resource_still: "preserves (server_still who s0) (route_handler L A req i rt)"
  by (cases rt) (auto simp: handler_defs resource_ops Let_def SecretData_def GetYAML_def split: sum.splits option.splits
      intro!: reads_still server_prims send_still clusters_still sys_prims still_rules)


lemma RequirePermScope_still: "preserves (server_still who s0) (RequirePermScope req i perm)"
  unfolding RequirePermScope_def HasPermScope_def by (intro server_prims permissions_still still_rules)

subsection \<open>Behind the middlewares\<close>

lemma Audit_still:
  assumes "wp m (\<lambda>rp s'. unmoved_state who s0 s' \<and> R rp) (\<lambda>_ _. False) s"
  shows "wp (Audit p req m) (\<lambda>rp s'. unmoved_state who s0 s' \<and> R rp) (\<lambda>_ _. False) s"
  unfolding Audit_def wp_and_then
proof (rule wp_mono [OF assms], elim conjE)
  fix rp s'
  assume "unmoved_state who s0 s'" "R rp"
  then have "wp (Record e) (\<lambda>_. unmoved_state who s0) (\<lambda>_. unmoved_state who s0) s'" for e
    using Record_still [of who s0 e] by (simp add: preserves_wp)
  then show "wp (if writes req then and_then (drop_err (Record (recorder_entry p req rp))) (\<lambda>_. ok rp) else ok rp)
     (\<lambda>rp s'. unmoved_state who s0 s' \<and> R rp) (\<lambda>_ _. False) s'"
    using \<open>unmoved_state who s0 s'\<close> \<open>R rp\<close> by (auto simp: wp_rules intro: wp_mono)
qed simp

lemma wp_replied: "wp (replied i m) Q E s = wp m (\<lambda>t. Q (api_reply i t)) (\<lambda>e. Q (fail_reply i e)) s"
  by (simp add: replied_def wp_rules)

definition token_names :: "'o platform \<Rightarrow> http_request \<Rightarrow> 'o astate \<Rightarrow> identity \<Rightarrow> bool" where
  "token_names P req s = proves (libs_of P) (secret_of P) (w_now (s_world (rs_sys (as_res s)))) (bearer req)"

lemma wp_Auth_401:
  "wp (Auth l k req) (\<lambda>ident s'. s' = s \<and> proves l k (w_now (s_world (rs_sys (as_res s)))) (bearer req) ident)
     (\<lambda>e s'. s' = s \<and> fst (Fail e) = 401) s"
  by (auto simp: Auth_def VerifyAccessToken_def on_store_def wp_rules bearer_def proves_def Fail_def HTTPStatusOf_def errcode_defs
    split: option.splits sum.splits)

lemma wp_authed:
  assumes "\<And>i. token_names P req s i \<Longrightarrow> wp (k i) Q (\<lambda>_ _. False) s" and "\<And>e. fst (Fail e) = 401 \<Longrightarrow> Q (fail_reply None e) s"
  shows "wp (authed P req k) Q (\<lambda>_ _. False) s"
  unfolding authed_def wp_on_result
  by (rule wp_mono [OF wp_Auth_401]) (use assms in \<open>auto simp: wp_rules token_names_def\<close>)

lemma still_run: "preserves (server_still who s0) m \<Longrightarrow> unmoved_state who s0 s \<Longrightarrow>
    wp m (\<lambda>_. unmoved_state who s0) (\<lambda>_. unmoved_state who s0) s"
  by (simp add: preserves_wp)

text \<open>An own request, served: only the caller's own password can move.\<close>

lemma own_moves_nothing:
  assumes "db_wf (database_of s)" and "token_names P req s i"
  shows "wp (own_handler P req (Some i) r) (\<lambda>_. unmoved_state (id_username ` {i. token_names P req s i}) s)
    (\<lambda>_. unmoved_state (id_username ` {i. token_names P req s i}) s) s"
proof (cases "\<exists>b. r = OMyPassword b")
  case True
  then obtain b where b: "r = OMyPassword b" by blast
  have sub: "{id_username i} \<subseteq> id_username ` {i. token_names P req s i}" using assms(2) by simp
  show ?thesis unfolding b own_handler.simps answer_def wp_and_then wp_ok
    by (rule wp_mono [OF changeMyPassword_still [OF assms(1)]]; erule still_mono [OF _ sub])
next
  case False
  then show ?thesis by (intro still_run [OF own_still]) simp_all
qed



text \<open>A viewer asks for the list of users.\<close>

definition demo_platform :: "thing platform" where
  "demo_platform = \<lparr>pf_server = demo_server, pf_wiring = demo_wiring,
     pf_kube = \<lparr>ks_external_url = ''https://kubeui'', ks_write = (\<lambda>_. Inr ''yaml'')\<rparr>, pf_salt = ''s'', pf_rnd1 = Some ''a'',
     pf_rnd2 = Some ''b'', pf_duration = (\<lambda>_. None), pf_agent_image = '''', pf_external_url = ''https://kubeui''\<rparr>"

definition list_users_request :: http_request where
  "list_users_request = demo_http ''GET'' ''users'' '''' ''''"



subsection \<open>What a credential is issued for\<close>

text \<open>Issuing a credential, which the cluster proxy accepts for the cluster's own rights, asks for a valid
  token only: neither the role nor any permission point of its user is looked at.\<close>

lemma and_then_ok: "and_then (ok x) k = k x"
  by (simp add: and_then_def on_result_def ok_def)

lemma issue_ignores_rights:
  assumes "id_user i = id_user j"
  shows "own_handler P req (Some i) (OIssue b) = own_handler P req (Some j) (OIssue b)"
  by (simp only: own_handler.simps issueKubeconfig_def with_identity_def option.case and_then_ok assms)

end
