(* ===== verification/Proxy.thy ===== *)
theory Proxy
  imports Http_Access
begin

text \<open>
  The reverse proxy to the clusters' API servers (api/handler/proxy.go): which requests it lets
  through, with whose credentials they arrive, and the cache of its clients. Parsing URLs,
  certificates and files are parameters, as is the answer of the API server; of a request the
  model keeps what the proxy decides about, and other headers and the body pass unchanged.
\<close>

subsection \<open>Clients of a cluster\<close>

text \<open>The fields of \<open>rest.Config\<close> that the proxy reads, but for the dialer; \<open>None\<close> is a nil slice.\<close>

record proxy_config =
  pc_host :: string
  pc_insecure :: bool
  pc_ca_file :: string
  pc_ca_data :: string
  pc_cert_data :: "string option"
  pc_key_data :: "string option"
  pc_cert_file :: string
  pc_key_file :: string
  pc_bearer :: string
  pc_bearer_file :: string

record proxy_url =
  pu_scheme :: string
  pu_host :: string
  pu_path :: string

text \<open>The libraries. A runtime's \<open>*rest.Config\<close> is a pointer: \<open>pl_pointer\<close> is its identity, and \<open>pl_config\<close> the
  fields behind it, none of which is written after it was built but the dialer.\<close>

record proxy_libs =
  pl_pointer :: "k8s_runtime \<Rightarrow> nat"
  pl_config :: "nat \<Rightarrow> proxy_config"
  pl_read_file :: "string \<Rightarrow> gerr + string"
  pl_key_pair :: "string \<Rightarrow> string \<Rightarrow> gerr + string"
  pl_load_pair :: "string \<Rightarrow> string \<Rightarrow> gerr + string"
  pl_pem :: "string \<Rightarrow> bool"
  pl_url :: "string \<Rightarrow> gerr + proxy_url"

record proxy_client =
  px_insecure :: bool
  px_roots :: "string option"
  px_certificate :: "string option"
  px_dial :: "int option"
  px_bearer :: string

definition wrapped :: "string \<Rightarrow> gerr + 'a \<Rightarrow> gerr + 'a" where
  "wrapped m r = (case r of Inl e \<Rightarrow> Inl (WrapErr m e) | Inr x \<Rightarrow> Inr x)"

definition or_else :: "gerr + 'a \<Rightarrow> ('a \<Rightarrow> gerr + 'b) \<Rightarrow> gerr + 'b" where
  "or_else r k = (case r of Inl e \<Rightarrow> Inl e | Inr x \<Rightarrow> k x)"

definition rootCertPool :: "proxy_libs \<Rightarrow> string \<Rightarrow> string \<Rightarrow> gerr + string option" where
  "rootCertPool L caFile caData =
     (if caData = '''' \<and> caFile = '''' then Inr None
      else or_else (if caData \<noteq> '''' then Inr caData else wrapped ''read CA file'' (pl_read_file L caFile)) (\<lambda>data.
        if pl_pem L data then Inr (Some data) else Inl (PlainErr ''no valid certificates in CA data'')))"

definition clientCertificate :: "proxy_libs \<Rightarrow> proxy_config \<Rightarrow> gerr + string option" where
  "clientCertificate L c =
     (if pc_cert_data c \<noteq> None \<or> pc_key_data c \<noteq> None
      then or_else (wrapped ''parse client cert/key data'' (pl_key_pair L (case pc_cert_data c of None \<Rightarrow> '''' | Some d \<Rightarrow> d)
        (case pc_key_data c of None \<Rightarrow> '''' | Some d \<Rightarrow> d))) (\<lambda>x. Inr (Some x))
      else if pc_cert_file c \<noteq> '''' \<and> pc_key_file c \<noteq> ''''
      then or_else (wrapped ''load client cert/key file'' (pl_load_pair L (pc_cert_file c) (pc_key_file c))) (\<lambda>x. Inr (Some x))
      else Inr None)"

definition bearer_of_config :: "proxy_libs \<Rightarrow> proxy_config \<Rightarrow> gerr + string" where
  "bearer_of_config L c = (if pc_bearer c = '''' \<and> pc_bearer_file c \<noteq> ''''
     then or_else (wrapped ''read bearer token file'' (pl_read_file L (pc_bearer_file c))) (\<lambda>b. Inr (trim_space b))
     else Inr (pc_bearer c))"

definition buildProxyClient :: "proxy_libs \<Rightarrow> proxy_config \<Rightarrow> int option \<Rightarrow> gerr + proxy_client" where
  "buildProxyClient L c dial =
     or_else (if pc_insecure c then Inr None else rootCertPool L (pc_ca_file c) (pc_ca_data c)) (\<lambda>roots.
     or_else (clientCertificate L c) (\<lambda>cert.
     or_else (bearer_of_config L c) (\<lambda>b.
     Inr \<lparr>px_insecure = pc_insecure c, px_roots = roots, px_certificate = cert, px_dial = dial, px_bearer = b\<rparr>)))"

subsection \<open>Forwarding\<close>

record out_request =
  or_method :: string
  or_scheme :: string
  or_host :: string
  or_path :: string
  or_authorization :: "string option"

text \<open>The server with the cache of clients, by the pointer of their configuration, and what was sent
  to API servers, with the client it was sent through.\<close>

record 'o proxy_state =
  ps_server :: "'o astate"
  ps_clients :: "(nat \<times> proxy_client) list"
  ps_forwarded :: "(proxy_client \<times> out_request) list"

type_synonym ('o, 'a) xact = "('o proxy_state, 'a) gm"

definition on_server :: "('o, 'a) hact \<Rightarrow> ('o, 'a) xact" where
  "on_server m = (\<lambda>s. case m (ps_server s) of (r, t) \<Rightarrow> (r, s\<lparr>ps_server := t\<rparr>))"

lemma wp_on_server [wp_rules]: "wp (on_server m) Q E s =
  wp m (\<lambda>x t. Q x (s\<lparr>ps_server := t\<rparr>)) (\<lambda>e t. E e (s\<lparr>ps_server := t\<rparr>)) (ps_server s)"
  by (simp add: wp_def on_server_def split: prod.splits sum.splits)

definition clientFor :: "proxy_libs \<Rightarrow> k8s_runtime \<Rightarrow> ('o, proxy_client) xact" where
  "clientFor L rt = (\<lambda>s. case map_of (ps_clients s) (pl_pointer L rt) of Some cl \<Rightarrow> (Inr cl, s)
     | None \<Rightarrow> (case buildProxyClient L (pl_config L (pl_pointer L rt)) (rc_dial (kr_config rt)) of
         Inl e \<Rightarrow> (Inl e, s)
       | Inr cl \<Rightarrow> (Inr cl, s\<lparr>ps_clients := al_put (pl_pointer L rt) cl (ps_clients s)\<rparr>)))"

definition stripClusterPrefix :: "string \<Rightarrow> string" where
  "stripClusterPrefix p = (if p = '''' \<or> p = ''/'' then '''' else p)"

definition singleJoinSlash :: "string \<Rightarrow> string \<Rightarrow> string" where
  "singleJoinSlash a b =
     (if a = '''' then b else if b = '''' then a
      else if has_suffix a ''/'' \<and> has_prefix b ''/'' then a @ tl b
      else if \<not> has_suffix a ''/'' \<and> \<not> has_prefix b ''/'' then a @ ''/'' @ b
      else a @ b)"

text \<open>\<open>Rewrite\<close> of the reverse proxy; the outgoing request still has the caller's header.\<close>

definition rewrite_request :: "proxy_url \<Rightarrow> http_request \<Rightarrow> out_request" where
  "rewrite_request target req = \<lparr>or_method = hr_method req, or_scheme = pu_scheme target, or_host = pu_host target,
     or_path = singleJoinSlash (pu_path target) (stripClusterPrefix (hr_param req ''path'')),
     or_authorization = (if hr_authorization req = '''' then None else Some (hr_authorization req))\<rparr>"

definition RoundTrip :: "proxy_client \<Rightarrow> out_request \<Rightarrow> out_request" where
  "RoundTrip cl o_req = o_req\<lparr>or_authorization := (if px_bearer cl = '''' then None else Some (''Bearer '' @ px_bearer cl))\<rparr>"

definition forward_request :: "proxy_client \<Rightarrow> out_request \<Rightarrow> ('o, unit) xact" where
  "forward_request cl o_req = modify (\<lambda>s. s\<lparr>ps_forwarded := ps_forwarded s @ [(cl, RoundTrip cl o_req)]\<rparr>)"

subsection \<open>The handler\<close>

definition bearerTokenOf :: "http_request \<Rightarrow> string option" where
  "bearerTokenOf req = (case cut_prefix (hr_authorization req) ''Bearer '' of None \<Rightarrow> None | Some t \<Rightarrow> if t = '''' then None else Some t)"

definition k8sProxyAction :: string where "k8sProxyAction = ''k8s-proxy''"

definition proxyAudit :: "http_request \<Rightarrow> identity option \<Rightarrow> string \<Rightarrow> string \<Rightarrow> string \<Rightarrow> ('o, unit) xact" where
  "proxyAudit req ident username cluster result =
     (let (uid, name) = (case ident of None \<Rightarrow> (0, username)
          | Some i \<Rightarrow> (id_user i, if username = '''' then id_username i else username)) in
      on_server (drop_err (Record \<lparr>ae_request_id = '''', ae_user_id = uid, ae_username = name, ae_action = k8sProxyAction,
        ae_resource = hr_path req, ae_resource_type = ''k8s-proxy'', ae_cluster = cluster, ae_namespace = '''',
        ae_name = hr_method req @ '' '' @ hr_param req ''path'', ae_source_ip = hr_ip req, ae_user_agent = hr_user_agent req,
        ae_result = result\<rparr>)))"

text \<open>Who may pass, for the token presented: the name to record, or the name and the answer of the refusal.\<close>

definition proxy_admit :: "libs \<Rightarrow> string \<Rightarrow> string \<Rightarrow> string \<Rightarrow> ('o, (string \<times> int \<times> body) + string) xact" where
  "proxy_admit l secret cluster token =
     on_result (on_server (on_kube (VerifyShortToken l token)))
       (\<lambda>_. on_result (on_server (on_store (VerifyAccessToken l secret token)))
          (\<lambda>_. ok (Inl ('''', 401, \<lparr>b_code = Unauthorized, b_message = ''invalid or expired token''\<rparr>)))
          (\<lambda>i. ok (if id_role i \<in> {''admin'', ''operator'', ''viewer''} then Inr ''''
             else Inl (id_username i, 403, \<lparr>b_code = Forbidden, b_message = ''k8s-proxy access denied by platform RBAC''\<rparr>))))
       (\<lambda>rec. and_then (on_server (on_store (UsernameByID (ik_user_id rec)))) (\<lambda>owner.
          ok (if ik_cluster rec = cluster then Inr owner
              else Inl (owner, 403, \<lparr>b_code = Forbidden, b_message = ''credential is not valid for this cluster''\<rparr>))))"

text \<open>The answer of the proxy itself; \<open>None\<close> if the API server answers.\<close>

definition k8sProxy :: "libs \<Rightarrow> string \<Rightarrow> proxy_libs \<Rightarrow> (proxy_client \<Rightarrow> out_request \<Rightarrow> bool) \<Rightarrow> http_request \<Rightarrow> identity option \<Rightarrow>
    ('o, (int \<times> body) option) xact" where
  "k8sProxy l secret L reached req ident =
     (let cluster = hr_param req ''cluster'' in
      case bearerTokenOf req of
        None \<Rightarrow> and_then (proxyAudit req ident '''' cluster ''deny'') (\<lambda>_.
          ok (Some (401, \<lparr>b_code = Unauthorized, b_message = ''missing bearer token''\<rparr>)))
      | Some token \<Rightarrow> and_then (proxy_admit l secret cluster token) (\<lambda>admitted.
          case admitted of
            Inl (name, answer) \<Rightarrow> and_then (proxyAudit req ident name cluster ''deny'') (\<lambda>_. ok (Some answer))
          | Inr name \<Rightarrow>
            on_result (on_server (on_res (on_sys (manager_Get cluster))))
              (\<lambda>_. and_then (proxyAudit req ident '''' cluster ''deny'') (\<lambda>_.
                 ok (Some (404, \<lparr>b_code = ClusterNotFound, b_message = ''cluster not found''\<rparr>))))
              (\<lambda>rt. case pl_url L (pc_host (pl_config L (pl_pointer L rt))) of
                 Inl _ \<Rightarrow> ok (Some (502, \<lparr>b_code = UpstreamK8sError, b_message = ''invalid cluster host''\<rparr>))
               | Inr target \<Rightarrow>
                 on_result (clientFor L rt)
                   (\<lambda>_. ok (Some (502, \<lparr>b_code = UpstreamK8sError, b_message = ''build proxy transport failed''\<rparr>)))
                   (\<lambda>cl. and_then (proxyAudit req ident name cluster ''allow'') (\<lambda>_.
                     and_then (forward_request cl (rewrite_request target req)) (\<lambda>_.
                     ok (if reached cl (RoundTrip cl (rewrite_request target req)) then None
                         else Some (502, \<lparr>b_code = AgentTunnelUnavailable, b_message = ''agent tunnel or apiserver unavailable''\<rparr>))))))))"


subsection \<open>Whose credential reaches the API server\<close>

text \<open>Every cached client is one that was built for the configuration it is cached under.\<close>

definition cache_ok :: "proxy_libs \<Rightarrow> 'o proxy_state \<Rightarrow> bool" where
  "cache_ok L s \<longleftrightarrow> (\<forall>p cl. map_of (ps_clients s) p = Some cl \<longrightarrow> (\<exists>d. buildProxyClient L (pl_config L p) d = Inr cl))"

definition issued_rows :: "'o proxy_state \<Rightarrow> issued_kubeconfig list" where
  "issued_rows s = trows (db_issued (database_of (ps_server s)))"

definition proxy_now :: "'o proxy_state \<Rightarrow> time" where
  "proxy_now s = w_now (s_world (rs_sys (as_res (ps_server s))))"

text \<open>Who a token lets pass to a cluster: the owner of a live credential for that cluster, or a user with
  a built-in role.\<close>

definition admits :: "libs \<Rightarrow> string \<Rightarrow> 'o proxy_state \<Rightarrow> string \<Rightarrow> string \<Rightarrow> bool" where
  "admits l secret s cluster token \<longleftrightarrow>
     (\<exists>r \<in> set (issued_rows s). ik_token_hash r = hashToken l token \<and> ik_cluster r = cluster \<and> \<not> ik_revoked r \<and> proxy_now s \<le> ik_expires r) \<or>
     (\<exists>i. proves l secret (proxy_now s) token i \<and> id_role i \<in> {''admin'', ''operator'', ''viewer''})"

text \<open>A request as the proxy may send it: to the host of the cluster's configuration, below its base
  path, with that configuration's own credential and no other, through a client built for it.\<close>

definition properly_sent :: "proxy_libs \<Rightarrow> 'o proxy_state \<Rightarrow> http_request \<Rightarrow> proxy_client \<times> out_request \<Rightarrow> bool" where
  "properly_sent L s req x \<longleftrightarrow> (\<exists>rt target d b. let c = pl_config L (pl_pointer L rt) in
     map_of (s_runtimes (rs_sys (as_res (ps_server s)))) (hr_param req ''cluster'') = Some rt \<and>
     pl_url L (pc_host c) = Inr target \<and> buildProxyClient L c d = Inr (fst x) \<and> bearer_of_config L c = Inr b \<and>
     or_method (snd x) = hr_method req \<and> or_scheme (snd x) = pu_scheme target \<and> or_host (snd x) = pu_host target \<and>
     or_path (snd x) = singleJoinSlash (pu_path target) (stripClusterPrefix (hr_param req ''path'')) \<and>
     or_authorization (snd x) = (if b = '''' then None else Some (''Bearer '' @ b)))"

lemma wp_proxyAudit: "wp (proxyAudit req i n c r) (\<lambda>_ s'. ps_clients s' = ps_clients s \<and> ps_forwarded s' = ps_forwarded s) (\<lambda>_ _. False) s"
proof -
  have t: "wp m (\<lambda>_ _. True) (\<lambda>_ _. True) t" for m :: "('a, 'b) hact" and t by (simp add: wp_def split: prod.split sum.split)
  show ?thesis by (cases i) (simp_all add: proxyAudit_def Let_def wp_rules t)
qed

text \<open>Reading the database changes nothing a request is decided by.\<close>

definition same_basis :: "'o proxy_state \<Rightarrow> 'o proxy_state \<Rightarrow> bool" where
  "same_basis s s' \<longleftrightarrow> ps_clients s' = ps_clients s \<and> ps_forwarded s' = ps_forwarded s \<and> issued_rows s' = issued_rows s \<and>
     proxy_now s' = proxy_now s \<and> s_runtimes (rs_sys (as_res (ps_server s'))) = s_runtimes (rs_sys (as_res (ps_server s)))"

lemma wp_proxy_admit:
  "wp (proxy_admit l secret cluster token) (\<lambda>r s'. same_basis s s' \<and>
      (case r of Inl (_, status, _) \<Rightarrow> status \<in> {401, 403} | Inr _ \<Rightarrow> token = '''' \<or> admits l secret s cluster token)) (\<lambda>_ _. False) s"
  by (auto simp: proxy_admit_def VerifyShortToken_def VerifyAccessToken_def UsernameByID_def repo_GetIssuedKubeconfigByHash_def
    repo_GetUserByID_def on_store_def wp_rules same_basis_def issued_rows_def proxy_now_def admits_def proves_def database_of_def
    split: option.splits sum.splits dest!: tbl_first_SomeD)


lemma wp_clientFor:
  assumes "cache_ok L s"
  shows "wp (clientFor L rt) (\<lambda>cl s'. cache_ok L s' \<and> ps_server s' = ps_server s \<and> ps_forwarded s' = ps_forwarded s \<and>
       (\<exists>d. buildProxyClient L (pl_config L (pl_pointer L rt)) d = Inr cl))
     (\<lambda>_ s'. s' = s) s"
  using assms by (auto simp: wp_def clientFor_def cache_ok_def split: option.split sum.split)

lemma built_bearer: "buildProxyClient L c d = Inr cl \<Longrightarrow> bearer_of_config L c = Inr (px_bearer cl)"
  by (auto simp: buildProxyClient_def or_else_def split: sum.splits if_splits)

text \<open>What the handler does once the caller is admitted, as it stands in \<open>k8sProxy\<close>.\<close>

abbreviation pass_on :: "proxy_libs \<Rightarrow> (proxy_client \<Rightarrow> out_request \<Rightarrow> bool) \<Rightarrow> http_request \<Rightarrow> identity option \<Rightarrow> string \<Rightarrow>
    ('o, (int \<times> body) option) xact" where
  "pass_on L reached req ident name \<equiv>
     on_result (on_server (on_res (on_sys (manager_Get (hr_param req ''cluster'')))))
       (\<lambda>_. and_then (proxyAudit req ident '''' (hr_param req ''cluster'') ''deny'') (\<lambda>_.
          ok (Some (404, \<lparr>b_code = ClusterNotFound, b_message = ''cluster not found''\<rparr>))))
       (\<lambda>rt. case pl_url L (pc_host (pl_config L (pl_pointer L rt))) of
          Inl _ \<Rightarrow> ok (Some (502, \<lparr>b_code = UpstreamK8sError, b_message = ''invalid cluster host''\<rparr>))
        | Inr target \<Rightarrow>
          on_result (clientFor L rt)
            (\<lambda>_. ok (Some (502, \<lparr>b_code = UpstreamK8sError, b_message = ''build proxy transport failed''\<rparr>)))
            (\<lambda>cl. and_then (proxyAudit req ident name (hr_param req ''cluster'') ''allow'') (\<lambda>_.
              and_then (forward_request cl (rewrite_request target req)) (\<lambda>_.
              ok (if reached cl (RoundTrip cl (rewrite_request target req)) then None
                  else Some (502, \<lparr>b_code = AgentTunnelUnavailable, b_message = ''agent tunnel or apiserver unavailable''\<rparr>))))))"

text \<open>Nothing was sent and the answer is one of a refusal.\<close>

definition withheld :: "proxy_libs \<Rightarrow> 'o proxy_state \<Rightarrow> (int \<times> body) option \<Rightarrow> 'o proxy_state \<Rightarrow> bool" where
  "withheld L s a s' \<longleftrightarrow> cache_ok L s' \<and> ps_forwarded s' = ps_forwarded s \<and>
     (\<exists>status b. a = Some (status, b) \<and> status \<in> {401, 403, 404, 502})"

text \<open>One request was sent, as it may be.\<close>

definition sent_once :: "proxy_libs \<Rightarrow> 'o proxy_state \<Rightarrow> http_request \<Rightarrow> 'o proxy_state \<Rightarrow> bool" where
  "sent_once L s req s' \<longleftrightarrow> cache_ok L s' \<and> (\<exists>x. ps_forwarded s' = ps_forwarded s @ [x] \<and> properly_sent L s req x)"

lemma wp_refusal:
  assumes "cache_ok L t" and "ps_forwarded t = ps_forwarded s" and "status \<in> {401, 403, 404, 502}"
  shows "wp (and_then (proxyAudit req ident n c r) (\<lambda>_. ok (Some (status, b)))) (withheld L s) (\<lambda>_ _. False) t"
  unfolding wp_and_then wp_ok
  by (rule wp_mono [OF wp_proxyAudit]) (use assms in \<open>auto simp: withheld_def cache_ok_def\<close>)

lemma sent_properly:
  assumes "map_of (s_runtimes (rs_sys (as_res (ps_server p)))) (hr_param req ''cluster'') = Some rt"
    and "pl_url L (pc_host (pl_config L (pl_pointer L rt))) = Inr target"
    and "buildProxyClient L (pl_config L (pl_pointer L rt)) d = Inr cl"
  shows "properly_sent L p req (cl, RoundTrip cl (rewrite_request target req))"
  using assms built_bearer [OF assms(3)] by (auto simp: properly_sent_def Let_def RoundTrip_def rewrite_request_def)

lemma wp_audited_sending:
  assumes "cache_ok L t" and "ps_forwarded t = ps_forwarded s"
    and "properly_sent L s req (cl, RoundTrip cl out)"
  shows "wp (and_then (proxyAudit req ident n c r) (\<lambda>_. and_then (forward_request cl out) (\<lambda>_. ok a)))
    (\<lambda>_. sent_once L s req) (\<lambda>_ _. False) t"
  unfolding wp_and_then [of "proxyAudit _ _ _ _ _"]
  by (rule wp_mono [OF wp_proxyAudit]) (use assms in \<open>auto simp: sent_once_def cache_ok_def forward_request_def wp_rules\<close>)

lemma wp_pass_on:
  assumes "cache_ok L t" and "ps_forwarded t = ps_forwarded s"
    and "s_runtimes (rs_sys (as_res (ps_server t))) = s_runtimes (rs_sys (as_res (ps_server s)))"
  shows "wp (pass_on L reached req ident name) (\<lambda>a s'. withheld L s a s' \<or> sent_once L s req s') (\<lambda>_ _. False) t"
proof (cases "map_of (s_runtimes (rs_sys (as_res (ps_server t)))) (hr_param req ''cluster'')")
  case None
  then have "wp (on_server (on_res (on_sys (manager_Get (hr_param req ''cluster''))))) (\<lambda>_ _. False) (\<lambda>_ u. u = t) t"
    by (simp add: wp_rules manager_Get_def)
  then show ?thesis unfolding wp_on_result [of "on_server _"]
    by (rule wp_mono) (simp, use wp_mono [OF wp_refusal [OF assms(1,2)]] in simp)
next
  case (Some rt)
  then have "wp (on_server (on_res (on_sys (manager_Get (hr_param req ''cluster''))))) (\<lambda>x u. x = rt \<and> u = t) (\<lambda>_ _. False) t"
    by (simp add: wp_rules manager_Get_def)
  then show ?thesis unfolding wp_on_result [of "on_server _"]
  proof (rule wp_mono, goal_cases)
    case (1 x u)
    then have u: "x = rt" "u = t" by simp_all
    show ?case
    proof (cases "pl_url L (pc_host (pl_config L (pl_pointer L rt)))")
      case (Inl e)
      then show ?thesis using assms by (simp add: u wp_ok withheld_def)
    next
      case (Inr target)
      show ?thesis unfolding u Inr sum.case wp_on_result [of "clientFor L rt"]
      proof (rule wp_mono [OF wp_clientFor [OF assms(1)]], goal_cases)
        case (1 cl v)
        then show ?case using Some assms Inr
          by (auto intro!: wp_mono [OF wp_audited_sending [of L v s]] intro: sent_properly)
      next
        case (2 e v)
        then show ?case using assms by (simp add: wp_ok withheld_def)
      qed
    qed
  qed simp
qed

text \<open>C40: the proxy sends only with leave and only with the cluster's own credential. For any request,
  in any state whose cache was filled by the proxy: either nothing is sent and the answer is 401,
  403, 404 or 502; or the token presented is a live credential issued for this very cluster or
  the valid token of a user with a built-in role, and exactly one request is sent, to the cluster's
  own host below its base path, authorized by the bearer token of the cluster's configuration if it
  has one and by nothing else: no token of the platform ever leaves it.\<close>

theorem proxy_sends_properly:
  fixes s s' :: "'o proxy_state"
  assumes "cache_ok L s" and "k8sProxy l secret L reached req ident s = (Inr a, s')"
  shows "cache_ok L s' \<and>
    (ps_forwarded s' = ps_forwarded s \<and> (\<exists>status b. a = Some (status, b) \<and> status \<in> {401, 403, 404, 502}) \<or>
     (\<exists>token x. bearerTokenOf req = Some token \<and> admits l secret s (hr_param req ''cluster'') token \<and>
        ps_forwarded s' = ps_forwarded s @ [x] \<and> properly_sent L s req x))"
proof -
  let ?Q = "\<lambda>a s'. withheld L s a s' \<or>
    (\<exists>token. bearerTokenOf req = Some token \<and> admits l secret s (hr_param req ''cluster'') token \<and> sent_once L s req s')"
  have "wp (k8sProxy l secret L reached req ident) ?Q (\<lambda>_ _. False) s"
  proof (cases "bearerTokenOf req")
    case None
    show ?thesis unfolding k8sProxy_def Let_def None option.case
      by (rule wp_mono [OF wp_refusal [OF assms(1)]]) simp_all
  next
    case (Some token)
    then have nonempty: "token \<noteq> ''''" by (auto simp: bearerTokenOf_def split: option.splits if_splits)
    show ?thesis unfolding k8sProxy_def Let_def Some option.case wp_and_then [of "proxy_admit l secret _ token"]
    proof (rule wp_mono [OF wp_proxy_admit], goal_cases)
      case (1 r t)
      then have t: "cache_ok L t" "ps_forwarded t = ps_forwarded s"
          "s_runtimes (rs_sys (as_res (ps_server t))) = s_runtimes (rs_sys (as_res (ps_server s)))"
        using assms(1) by (auto simp: same_basis_def cache_ok_def)
      show ?case
      proof (cases r)
        case (Inl x)
        then obtain n status b where r: "r = Inl (n, status, b)" by (cases x) simp
        then have "status \<in> {401, 403, 404, 502}" using 1 by auto
        then show ?thesis unfolding r sum.case prod.case
          by (rule wp_mono [OF wp_refusal [OF t(1,2)]]) simp_all
      next
        case (Inr n)
        then have "admits l secret s (hr_param req ''cluster'') token" using 1 nonempty by simp
        then show ?thesis unfolding Inr sum.case by (auto intro!: wp_mono [OF wp_pass_on [OF t]])
      qed
    qed simp
  qed
  from wp_InrD [OF this assms(2)] show ?thesis unfolding withheld_def sent_once_def by blast
qed


subsection \<open>Examples\<close>

text \<open>A viewer lists the pods of a cluster whose configuration holds the bearer token \<open>sa\<close>.\<close>

definition demo_proxy :: proxy_libs where
  "demo_proxy = \<lparr>pl_pointer = kr_inst, pl_config = (\<lambda>_. \<lparr>pc_host = ''https://east'', pc_insecure = False, pc_ca_file = '''', pc_ca_data = ''ca'',
     pc_cert_data = None, pc_key_data = None, pc_cert_file = '''', pc_key_file = '''', pc_bearer = ''sa'', pc_bearer_file = ''''\<rparr>),
     pl_read_file = (\<lambda>_. Inl DriverErr), pl_key_pair = (\<lambda>_ _. Inl DriverErr), pl_load_pair = (\<lambda>_ _. Inl DriverErr),
     pl_pem = (\<lambda>_. True), pl_url = (\<lambda>_. Inr \<lparr>pu_scheme = ''https'', pu_host = ''east'', pu_path = ''/base''\<rparr>)\<rparr>"

definition demo_proxied :: http_request where
  "demo_proxied = (demo_http ''GET'' '''' '''' '''')\<lparr>hr_param := (\<lambda>k. if k = ''cluster'' then ''c1'' else if k = ''path'' then ''/api/v1/pods'' else '''')\<rparr>"

definition demo_proxy_state :: "thing proxy_state" where
  "demo_proxy_state = \<lparr>ps_server = demo_astate, ps_clients = [], ps_forwarded = []\<rparr>"

definition demo_pass :: "(gerr + (int \<times> body) option) \<times> thing proxy_state" where
  "demo_pass = k8sProxy demo_libs ''key'' demo_proxy (\<lambda>_ _. True) demo_proxied None demo_proxy_state"

lemma demo_passes: "fst demo_pass = Inr None" "map snd (ps_forwarded (snd demo_pass)) =
     [\<lparr>or_method = ''GET'', or_scheme = ''https'', or_host = ''east'', or_path = ''/base/api/v1/pods'', or_authorization = Some ''Bearer sa''\<rparr>]"
  by code_simp+

lemma proxy_sends_properly_witness:
  "\<exists>x. ps_forwarded (snd demo_pass) = [x] \<and> admits demo_libs ''key'' demo_proxy_state ''c1'' ''jwt'' \<and>
     properly_sent demo_proxy demo_proxy_state demo_proxied x"
proof -
  have c: "cache_ok demo_proxy demo_proxy_state" by (simp add: cache_ok_def demo_proxy_state_def)
  have r: "k8sProxy demo_libs ''key'' demo_proxy (\<lambda>_ _. True) demo_proxied None demo_proxy_state = (Inr None, snd demo_pass)"
    using demo_passes(1) by (metis demo_pass_def prod.collapse)
  have n: "hr_param demo_proxied ''cluster'' = ''c1''" "bearerTokenOf demo_proxied = Some ''jwt''" "ps_forwarded demo_proxy_state = []"
    by code_simp+
  from proxy_sends_properly [OF c r] n show ?thesis by simp
qed

subsection \<open>What the handler leaves open\<close>

text \<open>A cached client is used whatever dialer the runtime has by now. The hub re-registers a cluster
  under the pointer it has when an agent connects, so a client built before keeps dialing directly.\<close>

lemma cached_client_keeps_dialer:
  assumes "map_of (ps_clients s) (pl_pointer L rt) = Some cl"
  shows "clientFor L rt s = (Inr cl, s)"
  using assms by (simp add: clientFor_def)

text \<open>An access with a token of the platform is recorded without a user: the name the token gives is not kept.\<close>

lemma viewer_access_anonymous:
  "map (\<lambda>r. (al_username r, al_user_id r, al_result r)) (audit_rows (ps_server (snd demo_pass))) = [('''', 0, ''allow'')]"
  by code_simp

text \<open>An access that fails because the cluster's configuration cannot be used is not recorded.\<close>

lemma broken_cluster_not_audited:
  "(let (a, s) = k8sProxy demo_libs ''key'' (demo_proxy\<lparr>pl_url := \<lambda>_. Inl DriverErr\<rparr>) (\<lambda>_ _. True) demo_proxied None demo_proxy_state
    in (a, audit_rows (ps_server s))) = (Inr (Some (502, \<lparr>b_code = UpstreamK8sError, b_message = ''invalid cluster host''\<rparr>)), [])"
  by code_simp

end
