(* ===== verification/Terminal.thy ===== *)
theory Terminal
  imports Http_Access Watching "HOL-Library.Sublist"
begin

text \<open>
  The terminal and the live log of a pod (api/handler/terminal.go, logstream.go and
  \<open>FollowPodLogs\<close>): who may open them, what they ask of the cluster, the frames in both
  directions and the records of a session. What arrives on the socket, what the remote process
  writes and when it ends are the environment's, as is the construction of the transports.
\<close>

subsection \<open>State\<close>

text \<open>What is asked of a cluster's API server, with the dialer the connection is made with.\<close>

datatype stream_request =
    RExec "int option" string string string string
  | RFollow string string string

text \<open>A connection: its queue of control frames (\<open>watch_conn\<close>), the binary frames written to it, and the
  two channels of a terminal.\<close>

record 'o ws_state =
  ws_server :: "'o astate"
  ws_conn :: watch_conn
  ws_binary :: "string list"
  ws_stdin :: "string list"
  ws_sizes :: "(int \<times> int) list"
  ws_asked :: "(string \<times> stream_request) list"

type_synonym ('o, 'a) wsact = "('o ws_state, 'a) gm"

definition on_srv :: "('o, 'a) hact \<Rightarrow> ('o, 'a) wsact" where
  "on_srv m = (\<lambda>s. case m (ws_server s) of (r, t) \<Rightarrow> (r, s\<lparr>ws_server := t\<rparr>))"

lemma wp_on_srv [wp_rules]: "wp (on_srv m) Q E s =
  wp m (\<lambda>x t. Q x (s\<lparr>ws_server := t\<rparr>)) (\<lambda>e t. E e (s\<lparr>ws_server := t\<rparr>)) (ws_server s)"
  by (simp add: wp_def on_srv_def split: prod.splits sum.splits)

definition ws_Send :: "envelope \<Rightarrow> 'o ws_state \<Rightarrow> 'o ws_state" where
  "ws_Send env s = s\<lparr>ws_conn := conn_Send env (ws_conn s)\<rparr>"

definition sendWSError :: "gerr \<Rightarrow> 'o ws_state \<Rightarrow> 'o ws_state" where
  "sendWSError e = ws_Send (NewEnvelope ''error'' '''' (Some (marshal_error
     \<lparr>xp_code = (case From e of None \<Rightarrow> InternalError | Some (code, _) \<Rightarrow> code), xp_message = err_text e\<rparr>)))"

definition ws_end :: "'o ws_state \<Rightarrow> 'o ws_state" where
  "ws_end s = s\<lparr>ws_conn := conn_close (ws_conn s)\<rparr>"

text \<open>The gate that both endpoints share: the token, the permission point in the scope of the query, the upgrade
  (which the client may fail). \<open>Inl\<close> is the answer without an upgrade, if there is one.\<close>

definition errUnauthorizedBody :: body where
  "errUnauthorizedBody = \<lparr>b_code = Unauthorized, b_message = ''invalid or expired token''\<rparr>"

definition ws_gate :: "libs \<Rightarrow> string \<Rightarrow> bool \<Rightarrow> string \<Rightarrow> http_request \<Rightarrow> ('o, (int \<times> body) option + identity) wsact" where
  "ws_gate l secret upgrades perm req =
     and_then (on_srv (on_store (wsIdentity l secret req))) (\<lambda>r. case r of
       None \<Rightarrow> ok (Inl (Some (401, errUnauthorizedBody)))
     | Some i \<Rightarrow> and_then (on_srv (HasPermScope i perm (cluster_of req) (nsOf req))) (\<lambda>b.
         if \<not> b then ok (Inl (Some (403, \<lparr>b_code = Forbidden, b_message = ''insufficient privilege: '' @ perm\<rparr>)))
         else if \<not> upgrades then ok (Inl None)
         else and_then (modify (\<lambda>s. s\<lparr>ws_conn := newWatchConn\<rparr>)) (\<lambda>_. ok (Inr i))))"

subsection \<open>The terminal (terminal.go)\<close>

definition terminalExitType :: string where "terminalExitType = ''terminal:exit''"
definition terminalStdin :: string where "terminalStdin = ''terminal:stdin''"
definition terminalResize :: string where "terminalResize = ''terminal:resize''"
definition defaultShell :: string where "defaultShell = ''/bin/sh''"

text \<open>A control frame; \<open>uint16\<close> fields take no other number.\<close>

record term_frame =
  tf_type :: string
  tf_data :: string
  tf_cols :: int
  tf_rows :: int

fun read_uint16 :: "string \<Rightarrow> (string \<times> json) list \<Rightarrow> int \<times> bool \<Rightarrow> int \<times> bool" where
  "read_uint16 k [] acc = acc"
| "read_uint16 k ((j, v) # kvs) acc = read_uint16 k kvs
     (if same_key j k then (case v of JNum n \<Rightarrow> if 0 \<le> n \<and> n < 65536 then (n, snd acc) else (fst acc, True)
        | JNull \<Rightarrow> acc | _ \<Rightarrow> (fst acc, True)) else acc)"

definition unmarshal_term_frame :: "json option \<Rightarrow> term_frame option" where
  "unmarshal_term_frame text = (case object_of text of None \<Rightarrow> None | Some kvs \<Rightarrow>
     (let num = (\<lambda>k. read_uint16 k kvs (0, False)) in
      if list_ex (\<lambda>k. snd (str_field kvs k)) [''type'', ''data''] \<or> list_ex (\<lambda>k. snd (num k)) [''cols'', ''rows''] then None
      else Some \<lparr>tf_type = fst (str_field kvs ''type''), tf_data = fst (str_field kvs ''data''),
        tf_cols = fst (num ''cols''), tf_rows = fst (num ''rows'')\<rparr>))"

text \<open>\<open>terminalSizeQueue\<close>: \<open>Next\<close> waits on an empty queue, which is no step here.\<close>

definition enqueue :: "int \<times> int \<Rightarrow> 'o ws_state \<Rightarrow> 'o ws_state" where
  "enqueue z s = (if length (ws_sizes s) < 8 then s\<lparr>ws_sizes := ws_sizes s @ [z]\<rparr> else s)"

definition size_Next :: "'o ws_state \<Rightarrow> 'o ws_state" where
  "size_Next s = s\<lparr>ws_sizes := tl (ws_sizes s)\<rparr>"

text \<open>One frame of the client in \<open>pumpTerminalInput\<close>; \<open>None\<close> is a text that is not JSON. A write to stdin
  returns when the remote side has taken it.\<close>

datatype ws_message = Text "json option" | Binary string

definition pump_message :: "ws_message \<Rightarrow> 'o ws_state \<Rightarrow> 'o ws_state" where
  "pump_message m s = (case m of Binary _ \<Rightarrow> s
     | Text t \<Rightarrow> (case unmarshal_term_frame t of None \<Rightarrow> s
       | Some f \<Rightarrow> if tf_type f = terminalStdin then s\<lparr>ws_stdin := ws_stdin s @ [tf_data f]\<rparr>
           else if tf_type f = terminalResize then enqueue (tf_cols f, tf_rows f) s
           else if tf_type f = ''ping'' then ws_Send (NewEnvelope ''pong'' '''' (Some JNull)) s
           else s))"

text \<open>What happens while the remote process runs, in order: a frame of the client, the end of reading (an error,
  or 30 seconds of silence), output with the outcome of its write, a size taken by the process.\<close>

datatype term_event = Arrived ws_message | ReadFailed | Output string bool | SizeTaken

fun term_run :: "bool \<Rightarrow> term_event list \<Rightarrow> 'o ws_state \<Rightarrow> 'o ws_state" where
  "term_run reading [] s = s"
| "term_run reading (Arrived m # es) s = term_run reading es (if reading then pump_message m s else s)"
| "term_run reading (ReadFailed # es) s = term_run False es s"
| "term_run reading (Output p written # es) s = term_run reading es (if written then s\<lparr>ws_binary := ws_binary s @ [p]\<rparr> else s)"
| "term_run reading (SizeTaken # es) s = term_run reading es (size_Next s)"

definition recordTerminalAudit :: "http_request \<Rightarrow> identity \<Rightarrow> string \<Rightarrow> string \<Rightarrow> string \<Rightarrow> ('o, unit) wsact" where
  "recordTerminalAudit req i action ns name = on_srv (drop_err (Record \<lparr>ae_request_id = hr_request_id req, ae_user_id = id_user i,
     ae_username = id_username i, ae_action = action, ae_resource = ''pods'', ae_resource_type = ''pod'',
     ae_cluster = cluster_of req, ae_namespace = ns, ae_name = name, ae_source_ip = hr_ip req,
     ae_user_agent = hr_user_agent req, ae_result = ''allow''\<rparr>))"

text \<open>The libraries: the steps of \<open>newSPDYExecutor\<close> that can fail. The transport keeps the dialer of the cluster's
  configuration.\<close>

record exec_libs =
  sx_transport :: "rest_config \<Rightarrow> gerr + unit"
  sx_tls :: "rest_config \<Rightarrow> gerr + unit"
  sx_upgrade :: "rest_config \<Rightarrow> gerr + unit"
  sx_wrap :: "rest_config \<Rightarrow> gerr + unit"

definition newSPDYExecutor :: "exec_libs \<Rightarrow> rest_config \<Rightarrow> gerr + int option" where
  "newSPDYExecutor X cfg =
     (case sx_transport X cfg of Inl e \<Rightarrow> Inl (WrapErr ''build transport config'' e) | Inr _ \<Rightarrow>
      case sx_tls X cfg of Inl e \<Rightarrow> Inl (WrapErr ''build exec tls config'' e) | Inr _ \<Rightarrow>
      case sx_upgrade X cfg of Inl e \<Rightarrow> Inl (WrapErr ''build exec upgrade roundtripper'' e) | Inr _ \<Rightarrow>
      case sx_wrap X cfg of Inl e \<Rightarrow> Inl (WrapErr ''wrap exec transport'' e) | Inr _ \<Rightarrow> Inr (rc_dial cfg))"

definition newExecExecutor :: "exec_libs \<Rightarrow> string \<Rightarrow> string \<Rightarrow> string \<Rightarrow> string \<Rightarrow> string \<Rightarrow> ('o, stream_request) wsact" where
  "newExecExecutor X cluster ns name container shell =
     on_result (on_srv (on_res (on_sys (manager_Get cluster))))
       (\<lambda>e. err (WithCause (New ClusterNotFound ''cluster not found'') e))
       (\<lambda>rt. case newSPDYExecutor X (kr_config rt) of Inl e \<Rightarrow> err e
          | Inr dial \<Rightarrow> ok (RExec dial ns name container shell))"

definition shell_of :: "string option \<Rightarrow> string" where
  "shell_of shell = (case shell of None \<Rightarrow> defaultShell | Some x \<Rightarrow> x)"

definition exit_frame :: "bool \<Rightarrow> envelope" where
  "exit_frame failed = NewEnvelope terminalExitType '''' (Some (JObj [(''code'', JNum (if failed then 1 else 0))]))"

text \<open>\<open>StreamWithContext\<close> sends the request; \<open>outcome\<close> is how the process ends, \<open>None\<close> while it runs. \<open>shell\<close> is the
  query's value, \<open>None\<close> if the query has none.\<close>

definition term_stream :: "string \<Rightarrow> stream_request \<Rightarrow> term_event list \<Rightarrow> ('o, unit) wsact" where
  "term_stream cluster x events = modify (\<lambda>s. term_run True events (s\<lparr>ws_asked := ws_asked s @ [(cluster, x)]\<rparr>))"

definition term_session :: "exec_libs \<Rightarrow> http_request \<Rightarrow> identity \<Rightarrow> string option \<Rightarrow> term_event list \<Rightarrow> bool option \<Rightarrow> ('o, unit) wsact" where
  "term_session X req i shell events outcome =
     and_then (recordTerminalAudit req i ''terminal-open'' (nsOf req) (name_of req)) (\<lambda>_.
     on_result (newExecExecutor X (cluster_of req) (nsOf req) (name_of req) (hr_query req ''container'') (shell_of shell))
       (\<lambda>e. modify (ws_end \<circ> sendWSError e))
       (\<lambda>x. and_then (term_stream (cluster_of req) x events) (\<lambda>_.
          case outcome of None \<Rightarrow> ok ()
          | Some failed \<Rightarrow> and_then (modify (ws_Send (exit_frame failed))) (\<lambda>_.
              and_then (recordTerminalAudit req i ''terminal-close'' (nsOf req) (name_of req)) (\<lambda>_.
              modify ws_end)))))"

definition podTerminal :: "libs \<Rightarrow> string \<Rightarrow> exec_libs \<Rightarrow> bool \<Rightarrow> http_request \<Rightarrow> string option \<Rightarrow> term_event list \<Rightarrow> bool option \<Rightarrow>
    ('o, (int \<times> body) option) wsact" where
  "podTerminal l secret X upgrades req shell events outcome =
     and_then (ws_gate l secret upgrades ''terminal:use'' req) (\<lambda>g. case g of Inl a \<Rightarrow> ok a
     | Inr i \<Rightarrow> and_then (term_session X req i shell events outcome) (\<lambda>_. ok None))"

subsection \<open>The live log (logstream.go)\<close>

text \<open>One turn of the loop: the bytes read and whether the read returned an error, whether they could be written,
  and whether the client has gone by the end of the turn.\<close>

record log_turn =
  lt_bytes :: string
  lt_ended :: bool
  lt_written :: bool
  lt_gone :: bool

text \<open>How the loop is left: with the closing frame, with the client gone, or not yet.\<close>

datatype log_exit = Closing | ClientGone | StillReading

fun copy_log :: "log_turn list \<Rightarrow> 'o ws_state \<Rightarrow> log_exit \<times> 'o ws_state" where
  "copy_log [] s = (StillReading, s)"
| "copy_log (t # ts) s =
     (if lt_bytes t \<noteq> '''' \<and> \<not> lt_written t then (Closing, s)
      else (let s1 = (if lt_bytes t \<noteq> '''' then s\<lparr>ws_binary := ws_binary s @ [lt_bytes t]\<rparr> else s) in
        if lt_ended t then (Closing, s1) else if lt_gone t then (ClientGone, s1) else copy_log ts s1))"

definition FollowPodLogs :: "(string \<Rightarrow> stream_request \<Rightarrow> api_error + 'r) \<Rightarrow> string \<Rightarrow> string \<Rightarrow> string \<Rightarrow> string \<Rightarrow> ('o, 'r) wsact" where
  "FollowPodLogs opens cluster ns name container =
     and_then (on_srv (on_res (runtimeOf cluster))) (\<lambda>_.
     and_then (modify (\<lambda>s. s\<lparr>ws_asked := ws_asked s @ [(cluster, RFollow ns name container)]\<rparr>)) (\<lambda>_.
     case opens cluster (RFollow ns name container) of Inl e \<Rightarrow> err (mapK8sError e) | Inr r \<Rightarrow> ok r))"

definition close_frame :: envelope where
  "close_frame = NewEnvelope ''logstream:close'' '''' (Some JNull)"

definition podLogStream :: "libs \<Rightarrow> string \<Rightarrow> (string \<Rightarrow> stream_request \<Rightarrow> api_error + log_turn list) \<Rightarrow> bool \<Rightarrow> http_request \<Rightarrow>
    ('o, (int \<times> body) option) wsact" where
  "podLogStream l secret opens upgrades req =
     and_then (ws_gate l secret upgrades ''logs:read'' req) (\<lambda>g. case g of Inl a \<Rightarrow> ok a
     | Inr i \<Rightarrow> on_result (FollowPodLogs opens (cluster_of req) (nsOf req) (name_of req) (hr_query req ''container''))
         (\<lambda>e. and_then (modify (ws_end \<circ> sendWSError e)) (\<lambda>_. ok None))
         (\<lambda>turns. and_then (modify (\<lambda>s. case copy_log turns s of (Closing, s') \<Rightarrow> ws_end (ws_Send close_frame s')
              | (ClientGone, s') \<Rightarrow> ws_end s' | (StillReading, s') \<Rightarrow> s')) (\<lambda>_. ok None)))"


subsection \<open>What a terminal asks and records\<close>

definition faults_of :: "'o astate \<Rightarrow> bool list" where
  "faults_of s = w_faults (s_world (rs_sys (as_res s)))"

definition runtimes_of :: "'o astate \<Rightarrow> (string \<times> k8s_runtime) list" where
  "runtimes_of s = s_runtimes (rs_sys (as_res s))"

definition clock_of :: "'o astate \<Rightarrow> time" where
  "clock_of s = w_now (s_world (rs_sys (as_res s)))"

text \<open>The trail from one state to another: rows that say truthfully who did what to which pod, for a part of
  the actions in order, and for all of them if the database refuses nothing.\<close>

definition names_session :: "http_request \<Rightarrow> identity \<Rightarrow> audit_log \<Rightarrow> bool" where
  "names_session req i row \<longleftrightarrow> al_user_id row = id_user i \<and> al_username row = id_username i \<and> al_cluster row = cluster_of req \<and>
     al_namespace row = nsOf req \<and> al_name row = name_of req \<and> al_resource_type row = ''pod'' \<and> al_result row = ''allow''"

definition trail :: "http_request \<Rightarrow> identity \<Rightarrow> string list \<Rightarrow> 'o astate \<Rightarrow> 'o astate \<Rightarrow> bool" where
  "trail req i acts s t \<longleftrightarrow> (\<exists>rows. audit_rows t = audit_rows s @ rows \<and> list_all (names_session req i) rows \<and>
     subseq (map al_action rows) acts \<and> (faults_of s = [] \<longrightarrow> map al_action rows = acts \<and> faults_of t = []))"

lemma trail_append: "trail req i xs s t \<Longrightarrow> trail req i ys t u \<Longrightarrow> trail req i (xs @ ys) s u"
  unfolding trail_def
proof (elim exE conjE)
  fix r1 r2
  assume "audit_rows t = audit_rows s @ r1" "list_all (names_session req i) r1" "subseq (map al_action r1) xs"
    "faults_of s = [] \<longrightarrow> map al_action r1 = xs \<and> faults_of t = []"
    "audit_rows u = audit_rows t @ r2" "list_all (names_session req i) r2" "subseq (map al_action r2) ys"
    "faults_of t = [] \<longrightarrow> map al_action r2 = ys \<and> faults_of u = []"
  then show "\<exists>rows. audit_rows u = audit_rows s @ rows \<and> list_all (names_session req i) rows \<and>
     subseq (map al_action rows) (xs @ ys) \<and> (faults_of s = [] \<longrightarrow> map al_action rows = xs @ ys \<and> faults_of u = [])"
    by (intro exI [of _ "r1 @ r2"]) (auto intro: list_emb_append_mono)
qed

lemma wp_terminal_audit:
  "wp (recordTerminalAudit req i a (nsOf req) (name_of req)) (\<lambda>_ t. \<exists>v. t = s\<lparr>ws_server := v\<rparr> \<and>
     trail req i [a] (ws_server s) v \<and> runtimes_of v = runtimes_of (ws_server s)) (\<lambda>_ _. False) s"
proof -
  have one: "trail req i [a] u v" if "audit_rows v = audit_rows u @ [(audit_row e)\<lparr>al_id := j, al_created := c\<rparr>]"
      "names_session req i (audit_row e)" "al_action (audit_row e) = a" "faults_of v = tl (faults_of u)" for u v :: "'a astate" and e j c
    using that unfolding trail_def by (intro exI [of _ "[(audit_row e)\<lparr>al_id := j, al_created := c\<rparr>]"]) (simp add: names_session_def)
  have none: "trail req i [a] u v" if "audit_rows v = audit_rows u" "faults_of u \<noteq> []" for u v :: "'a astate"
    using that unfolding trail_def by (intro exI [of _ "[]"]) simp
  have rows: "wp (Record e) (\<lambda>_ v. (\<exists>j c. audit_rows v = audit_rows u @ [(audit_row e)\<lparr>al_id := j, al_created := c\<rparr>]) \<and>
       faults_of v = tl (faults_of u) \<and> runtimes_of v = runtimes_of u)
     (\<lambda>_ v. audit_rows v = audit_rows u \<and> faults_of u \<noteq> [] \<and> runtimes_of v = runtimes_of u) u" for u :: "'a astate" and e
    by (auto simp: Record_def on_store_def repo_CreateAuditLog_def wp_rules audit_rows_def audit_row_def tbl_insert_def
      audit_log_uniq_def fault_def Let_def list_ex_iff faults_of_def runtimes_of_def tick_def split: option.splits if_splits)
  have rec: "wp (Record e) (\<lambda>_ v. trail req i [a] u v \<and> runtimes_of v = runtimes_of u)
     (\<lambda>_ v. trail req i [a] u v \<and> runtimes_of v = runtimes_of u) u"
    if "names_session req i (audit_row e)" "al_action (audit_row e) = a" for u :: "'a astate" and e
    by (rule wp_mono [OF rows [of e u]]) (use one [OF _ that] none in blast)+
  show ?thesis unfolding recordTerminalAudit_def wp_on_srv wp_drop_err
    by (rule wp_mono [OF rec]) (auto simp: names_session_def audit_row_def)
qed


text \<open>The gate lets a connection through only with a valid token whose user has the permission point there.\<close>

definition proven_for :: "libs \<Rightarrow> string \<Rightarrow> string \<Rightarrow> http_request \<Rightarrow> 'o astate \<Rightarrow> identity \<Rightarrow> bool" where
  "proven_for l secret perm req s i \<longleftrightarrow> proves l secret (clock_of s) (wsTokenOf req) i \<and>
     authorized (database_of s) (id_user i) (id_role i) perm (cluster_of req) (nsOf req)"

lemma wp_HasPermScope:
  assumes wf: "db_wf (database_of s)"
  shows "wp (HasPermScope i perm c ns) (\<lambda>b t. trail req j [] s t \<and> runtimes_of t = runtimes_of s \<and>
     (b \<longrightarrow> authorized (database_of s) (id_user i) (id_role i) perm c ns)) (\<lambda>_ _. False) s"
proof -
  let ?w = "s_world (rs_sys (as_res s))"
  have q: "quiet (w_db ?w) (w_faults ?w = []) ?w" by (simp add: quiet_def)
  have wf': "db_wf (w_db ?w)" using wf by (simp add: database_of_def)
  have "wp (Authorize (id_user i) (id_role i) perm c ns) (\<lambda>b w. w_db w = w_db ?w \<and> (w_faults ?w = [] \<longrightarrow> w_faults w = []) \<and>
      (b \<longrightarrow> authorized (w_db ?w) (id_user i) (id_role i) perm c ns)) (\<lambda>_ _. False) ?w"
    unfolding Authorize_def wp_on_result
    by (rule wp_mono [OF readsD [OF reads_EffectivePermissions [OF wf'] q]])
      (auto simp: wp_rules quiet_def authorized_def list_ex_iff)
  then show ?thesis
    unfolding HasPermScope_def on_store_def wp_rules
    by (elim wp_mono) (auto simp: trail_def audit_rows_def faults_of_def runtimes_of_def database_of_def)
qed

lemma wp_ws_gate:
  assumes wf: "db_wf (database_of (ws_server s))"
  shows "wp (ws_gate l secret up perm req) (\<lambda>g t. \<exists>v. trail req j [] (ws_server s) v \<and> runtimes_of v = runtimes_of (ws_server s) \<and>
     (case g of Inl a \<Rightarrow> t = s\<lparr>ws_server := v\<rparr> \<and> (case a of None \<Rightarrow> \<not> up | Some (status, _) \<Rightarrow> status \<in> {401, 403})
      | Inr i \<Rightarrow> up \<and> t = s\<lparr>ws_server := v, ws_conn := newWatchConn\<rparr> \<and> proven_for l secret perm req (ws_server s) i)) (\<lambda>_ _. False) s"
proof -
  have t0: "trail req j [] v v" for v :: "'a astate" by (simp add: trail_def)
  have "wp (on_store (wsIdentity l secret req)) (\<lambda>r v. v = ws_server s \<and>
      (\<forall>i. r = Some i \<longrightarrow> proves l secret (clock_of (ws_server s)) (wsTokenOf req) i)) (\<lambda>_ _. False) (ws_server s)"
    by (auto simp: wsIdentity_def VerifyAccessToken_def on_store_def wp_rules proves_def clock_of_def split: sum.splits)
  then show ?thesis
    unfolding ws_gate_def wp_and_then wp_on_srv
  proof (elim wp_mono, goal_cases)
    case (1 r v)
    then show ?case
    proof (cases r)
      case None
      then show ?thesis using 1 t0 by (auto simp: wp_rules intro!: exI [of _ "ws_server s"])
    next
      case (Some i)
      have pr: "proves l secret (clock_of (ws_server s)) (wsTokenOf req) i" and v: "v = ws_server s" using 1 Some by auto
      show ?thesis unfolding Some option.case wp_and_then wp_on_srv
        by (rule wp_mono [OF wp_HasPermScope [of _ i perm "cluster_of req" "nsOf req" req j]])
          (use wf pr v in \<open>auto simp: wp_rules proven_for_def\<close>)
    qed
  qed simp
qed


text \<open>What the frames of a client give the remote process: the texts typed, as long as the client is read.\<close>

fun typed :: "term_event list \<Rightarrow> string list" where
  "typed [] = []"
| "typed (Arrived (Text t) # es) = (case unmarshal_term_frame t of None \<Rightarrow> typed es
     | Some f \<Rightarrow> if tf_type f = ''terminal:stdin'' then tf_data f # typed es else typed es)"
| "typed (ReadFailed # es) = []"
| "typed (_ # es) = typed es"

fun shown :: "term_event list \<Rightarrow> string list" where
  "shown [] = []"
| "shown (Output p True # es) = p # shown es"
| "shown (_ # es) = shown es"

lemma pump_frame: "ws_server (pump_message m s) = ws_server s" "ws_asked (pump_message m s) = ws_asked s"
  "ws_binary (pump_message m s) = ws_binary s" "wc_written (ws_conn (pump_message m s)) = wc_written (ws_conn s)"
  "length (ws_sizes s) \<le> 8 \<Longrightarrow> length (ws_sizes (pump_message m s)) \<le> 8"
  by (auto simp: pump_message_def enqueue_def ws_Send_def conn_Send_def split: ws_message.splits option.splits)

lemma pump_typed: "ws_stdin (pump_message (Text t) s) = ws_stdin s @ (case unmarshal_term_frame t of None \<Rightarrow> []
     | Some f \<Rightarrow> if tf_type f = ''terminal:stdin'' then [tf_data f] else [])"
  "pump_message (Binary b) s = s"
  by (auto simp: pump_message_def enqueue_def ws_Send_def terminalStdin_def terminalResize_def split: option.splits)

lemma term_run_silent: "ws_stdin (term_run False es s) = ws_stdin s"
proof (induction es arbitrary: s)
  case (Cons x es)
  then show ?case by (cases x) (simp_all add: size_Next_def)
qed simp

lemma term_run_frame: "ws_server (term_run r es s) = ws_server s" "ws_asked (term_run r es s) = ws_asked s"
  "wc_written (ws_conn (term_run r es s)) = wc_written (ws_conn s)"
  "length (ws_sizes s) \<le> 8 \<Longrightarrow> length (ws_sizes (term_run r es s)) \<le> 8"
  by (induction r es s rule: term_run.induct) (simp_all add: pump_frame size_Next_def)

lemma term_run_shown: "ws_binary (term_run r es s) = ws_binary s @ shown es"
proof (induction r es s rule: term_run.induct)
  case (4 r p w es s)
  then show ?case by (cases w) simp_all
qed (simp_all add: pump_frame size_Next_def)

lemma term_run_typed: "ws_stdin (term_run True es s) = ws_stdin s @ typed es"
proof (induction es arbitrary: s rule: typed.induct)
  case (2 t es)
  then show ?case by (auto simp: pump_typed split: option.splits)
qed (auto simp: term_run_silent pump_typed size_Next_def)

lemma wp_newExecExecutor:
  "wp (newExecExecutor X c ns name container shell) (\<lambda>x t. t = s \<and> (\<exists>rt. map_of (runtimes_of (ws_server s)) c = Some rt \<and>
      x = RExec (rc_dial (kr_config rt)) ns name container shell)) (\<lambda>_ t. t = s) s"
  by (auto simp: newExecExecutor_def newSPDYExecutor_def manager_Get_def runtimes_of_def wp_rules split: option.splits sum.splits)

text \<open>A request that is turned away, and a session as it was granted: at most one exec is asked, of exactly the
  cluster, namespace, pod, container and shell of the request, through the cluster's dialer.\<close>

definition turned_away :: "bool \<Rightarrow> (int \<times> body) option \<Rightarrow> 'o ws_state \<Rightarrow> 'o ws_state \<Rightarrow> bool" where
  "turned_away up a s s' \<longleftrightarrow> ws_asked s' = ws_asked s \<and> audit_rows (ws_server s') = audit_rows (ws_server s) \<and>
     (case a of None \<Rightarrow> \<not> up | Some (status, _) \<Rightarrow> status \<in> {401, 403})"

definition exec_asked :: "http_request \<Rightarrow> string option \<Rightarrow> 'o ws_state \<Rightarrow> 'o ws_state \<Rightarrow> bool" where
  "exec_asked req shell s s' \<longleftrightarrow> (\<exists>rt. map_of (runtimes_of (ws_server s)) (cluster_of req) = Some rt \<and>
     ws_asked s' = ws_asked s @ [(cluster_of req, RExec (rc_dial (kr_config rt)) (nsOf req) (name_of req)
       (hr_query req ''container'') (shell_of shell))])"

definition session_left :: "http_request \<Rightarrow> identity \<Rightarrow> string option \<Rightarrow> term_event list \<Rightarrow> bool option \<Rightarrow> 'o ws_state \<Rightarrow> 'o ws_state \<Rightarrow> bool" where
  "session_left req i shell events outcome s s' \<longleftrightarrow>
     (ws_asked s' = ws_asked s \<and> trail req i [''terminal-open''] (ws_server s) (ws_server s')) \<or>
     (exec_asked req shell s s' \<and> ws_stdin s' = ws_stdin s @ typed events \<and> ws_binary s' = ws_binary s @ shown events \<and>
      trail req i (''terminal-open'' # (case outcome of None \<Rightarrow> [] | Some _ \<Rightarrow> [''terminal-close''])) (ws_server s) (ws_server s'))"

lemma wp_term_session:
  fixes s :: "'o ws_state"
  shows "wp (term_session X req i shell events outcome) (\<lambda>_ s'. session_left req i shell events outcome s s') (\<lambda>_ _. False) s"
  unfolding term_session_def wp_and_then [of "recordTerminalAudit _ _ _ _ _"]
proof (rule wp_mono [OF wp_terminal_audit], elim exE conjE)
  fix t v assume t: "t = s\<lparr>ws_server := v\<rparr>" and v: "trail req i [''terminal-open''] (ws_server s) v" "runtimes_of v = runtimes_of (ws_server s)"
  have fail: "session_left req i shell events outcome s ((ws_end \<circ> sendWSError e) t)" for e
    using v(1) t by (simp add: session_left_def ws_end_def sendWSError_def ws_Send_def)
  show "wp (on_result (newExecExecutor X (cluster_of req) (nsOf req) (name_of req) (hr_query req ''container'') (shell_of shell))
       (\<lambda>e. modify (ws_end \<circ> sendWSError e))
       (\<lambda>x. and_then (term_stream (cluster_of req) x events) (\<lambda>_. case outcome of None \<Rightarrow> ok ()
          | Some failed \<Rightarrow> and_then (modify (ws_Send (exit_frame failed))) (\<lambda>_.
              and_then (recordTerminalAudit req i ''terminal-close'' (nsOf req) (name_of req)) (\<lambda>_. modify ws_end)))))
     (\<lambda>_ s'. session_left req i shell events outcome s s') (\<lambda>_ _. False) t"
    unfolding wp_on_result [of "newExecExecutor _ _ _ _ _ _"]
  proof (rule wp_mono [OF wp_newExecExecutor], elim exE conjE)
    fix x u rt
    assume u: "u = t" and rt: "map_of (runtimes_of (ws_server t)) (cluster_of req) = Some rt"
      and x: "x = RExec (rc_dial (kr_config rt)) (nsOf req) (name_of req) (hr_query req ''container'') (shell_of shell)"
    let ?r = "term_run True events (t\<lparr>ws_asked := ws_asked t @ [(cluster_of req, x)]\<rparr>)"
    have r: "ws_server ?r = v" "exec_asked req shell s ?r" "ws_stdin ?r = ws_stdin s @ typed events" "ws_binary ?r = ws_binary s @ shown events"
      using rt v(2) t x by (simp_all add: term_run_frame term_run_typed term_run_shown exec_asked_def)
    have "wp (case outcome of None \<Rightarrow> ok ()
          | Some failed \<Rightarrow> and_then (modify (ws_Send (exit_frame failed))) (\<lambda>_.
              and_then (recordTerminalAudit req i ''terminal-close'' (nsOf req) (name_of req)) (\<lambda>_. modify ws_end)))
        (\<lambda>_ s'. session_left req i shell events outcome s s') (\<lambda>_ _. False) ?r"
    proof (cases outcome)
      case None
      then show ?thesis using r v(1) by (simp add: wp_ok session_left_def)
    next
      case (Some failed)
      have "wp (recordTerminalAudit req i ''terminal-close'' (nsOf req) (name_of req))
         (\<lambda>_ w. session_left req i shell events outcome s (ws_end w)) (\<lambda>_ _. False) (ws_Send (exit_frame failed) ?r)"
        using Some r trail_append [OF v(1)]
        by (intro wp_mono [OF wp_terminal_audit]) (auto simp: session_left_def exec_asked_def ws_end_def ws_Send_def)
      then show ?thesis unfolding Some option.case wp_and_then wp_state .
    qed
    then show "wp (and_then (term_stream (cluster_of req) x events) (\<lambda>_. case outcome of None \<Rightarrow> ok ()
          | Some failed \<Rightarrow> and_then (modify (ws_Send (exit_frame failed))) (\<lambda>_.
              and_then (recordTerminalAudit req i ''terminal-close'' (nsOf req) (name_of req)) (\<lambda>_. modify ws_end))))
        (\<lambda>_ s'. session_left req i shell events outcome s s') (\<lambda>_ _. False) u"
      unfolding u wp_and_then [of "term_stream _ _ _"] unfolding term_stream_def wp_state .
  qed (use fail in \<open>simp add: wp_state\<close>)
qed simp



text \<open>The same gate stands before the log stream, which asks for one pod's log and writes what is read.\<close>

fun copied :: "log_turn list \<Rightarrow> string list" where
  "copied [] = []"
| "copied (t # ts) = (if lt_bytes t \<noteq> '''' \<and> \<not> lt_written t then []
     else (if lt_bytes t \<noteq> '''' then [lt_bytes t] else []) @ (if lt_ended t \<or> lt_gone t then [] else copied ts))"

lemma copy_log_frame:
  "ws_asked (snd (copy_log ts s)) = ws_asked s" "ws_server (snd (copy_log ts s)) = ws_server s"
  "ws_conn (snd (copy_log ts s)) = ws_conn s" "ws_binary (snd (copy_log ts s)) = ws_binary s @ copied ts"
  by (induction ts arbitrary: s) (auto simp: Let_def)

lemma log_stream_guarded:
  fixes s s' :: "'o ws_state"
  assumes "db_wf (database_of (ws_server s))" and "podLogStream l secret opens up req s = (Inr a, s')"
  shows "turned_away up a s s' \<or>
    (a = None \<and> (\<exists>i. proven_for l secret ''logs:read'' req (ws_server s) i) \<and>
     (ws_asked s' = ws_asked s \<or> ws_asked s' = ws_asked s @ [(cluster_of req, RFollow (nsOf req) (name_of req) (hr_query req ''container''))]))"
proof -
  define Q :: "(int \<times> body) option \<Rightarrow> 'o ws_state \<Rightarrow> bool" where "Q a s' \<longleftrightarrow> turned_away up a s s' \<or>
    (a = None \<and> (\<exists>i. proven_for l secret ''logs:read'' req (ws_server s) i) \<and>
     (ws_asked s' = ws_asked s \<or> ws_asked s' = ws_asked s @ [(cluster_of req, RFollow (nsOf req) (name_of req) (hr_query req ''container''))]))" for a s'
  have "wp (podLogStream l secret opens up req) Q (\<lambda>_ _. False) s"
    unfolding podLogStream_def wp_and_then [of "ws_gate _ _ _ _ _"]
  proof (rule wp_mono [OF wp_ws_gate [OF assms(1), where j = eve]], goal_cases)
    case (1 g t)
    show ?case
    proof (cases g)
      case (Inl a)
      with 1 show ?thesis by (auto simp: wp_ok Q_def turned_away_def trail_def dest!: list_emb_Nil2)
    next
      case (Inr i)
      then have t: "ws_asked t = ws_asked s" and i: "proven_for l secret ''logs:read'' req (ws_server s) i" using 1 by auto
      have run: "wp (on_srv (on_res (runtimeOf (cluster_of req)))) (\<lambda>_ u. ws_asked u = ws_asked s) (\<lambda>_ u. ws_asked u = ws_asked s) t"
        unfolding wp_on_srv wp_on_res by (rule wp_mono [OF wp_runtimeOf]) (simp_all add: t)
      have "Q None u" if "ws_asked u = ws_asked s \<or> ws_asked u = ws_asked s @ [(cluster_of req, RFollow (nsOf req) (name_of req) (hr_query req ''container''))]" for u
        using that i by (auto simp: Q_def)
      moreover have "ws_asked (case copy_log ts u of (Closing, s') \<Rightarrow> ws_end (ws_Send close_frame s') | (ClientGone, s') \<Rightarrow> ws_end s' | (StillReading, s') \<Rightarrow> s') = ws_asked u" for ts and u :: "'o ws_state"
        using copy_log_frame(1) [of ts u] by (auto simp: ws_end_def ws_Send_def split: prod.splits log_exit.splits)
      ultimately show ?thesis unfolding Inr sum.case wp_on_result FollowPodLogs_def wp_and_then [of "on_srv _"]
        by (intro wp_mono [OF run]) (auto simp: wp_rules ws_end_def sendWSError_def ws_Send_def split: sum.splits)
    qed
  qed simp
  from wp_InrD [OF this assms(2)] show ?thesis by (simp add: Q_def)
qed

subsection \<open>What never arrives\<close>

text \<open>Neither endpoint starts the writer of its connection: every control frame that they send stays in the
  queue, and the connection is closed over it. The browser sees no pong, no error, no exit code
  and no closing frame.\<close>

definition unwritten :: "'o ws_state \<Rightarrow> bool" where
  "unwritten s \<longleftrightarrow> wc_written (ws_conn s) = []"

lemma unwritten_rules:
  "preserves unwritten (on_srv m)" "preserves unwritten (recordTerminalAudit req i a ns nm)"
  "(\<And>s. unwritten s \<Longrightarrow> unwritten (f s)) \<Longrightarrow> preserves unwritten (modify f)"
  by (auto simp: preserves_def unwritten_def on_srv_def recordTerminalAudit_def modify_def split: prod.split)

lemma unwritten_steps: "unwritten s \<Longrightarrow> unwritten (ws_end s)" "unwritten s \<Longrightarrow> unwritten (ws_Send f s)"
  "unwritten s \<Longrightarrow> unwritten (sendWSError e s)" "unwritten s \<Longrightarrow> unwritten (term_run r es s)"
  "unwritten s \<Longrightarrow> unwritten (snd (copy_log ts s))" "unwritten (s\<lparr>ws_conn := newWatchConn\<rparr>)"
  "unwritten (s\<lparr>ws_asked := x\<rparr>) = unwritten s"
  by (simp_all add: unwritten_def ws_end_def ws_Send_def sendWSError_def conn_close_def conn_Send_def newWatchConn_def
      term_run_frame copy_log_frame)

lemma unwritten_cases:
  "preserves I m \<Longrightarrow> (\<And>y. preserves I (f y)) \<Longrightarrow> preserves I (case x of None \<Rightarrow> m | Some y \<Rightarrow> f y)"
  "(\<And>y. preserves I (g y)) \<Longrightarrow> (\<And>y. preserves I (f y)) \<Longrightarrow> preserves I (case z of Inl y \<Rightarrow> g y | Inr y \<Rightarrow> f y)"
  by (simp_all split: option.split sum.split)

lemmas unwritten_intros = pres_rules unwritten_cases unwritten_rules unwritten_steps

lemma ws_gate_unwritten: "preserves unwritten (ws_gate l k up p req)"
  unfolding ws_gate_def by (intro unwritten_intros)

lemma control_frames_lost:
  fixes s :: "'o ws_state"
  assumes "unwritten s"
  shows "unwritten (snd (podTerminal l k X up req shell events outcome s))" "unwritten (snd (podLogStream l k opens up req s))"
proof -
  have "preserves unwritten (newExecExecutor X c ns nm ct sh)" for c ns nm ct sh
    unfolding newExecExecutor_def by (intro unwritten_intros)
  then have "preserves unwritten (term_session X req i shell events outcome)" for i
    unfolding term_session_def term_stream_def
    by (intro unwritten_intros) (simp_all add: unwritten_steps)
  then have "preserves unwritten (podTerminal l k X up req shell events outcome)"
    unfolding podTerminal_def by (intro unwritten_intros ws_gate_unwritten)
  then show "unwritten (snd (podTerminal l k X up req shell events outcome s))" using assms by (rule preservesD)
  have *: "unwritten (case copy_log ts u of (Closing, s') \<Rightarrow> ws_end (ws_Send close_frame s') | (ClientGone, s') \<Rightarrow> ws_end s' | (StillReading, s') \<Rightarrow> s')"
    if "unwritten u" for ts and u :: "'o ws_state"
    using unwritten_steps(5) [OF that, of ts] by (auto simp: unwritten_steps split: prod.splits log_exit.splits)
  have "preserves (unwritten :: 'o ws_state \<Rightarrow> bool) (podLogStream l k opens up req)"
    unfolding podLogStream_def FollowPodLogs_def
    by (intro unwritten_intros ws_gate_unwritten *) (simp_all add: unwritten_steps)
  then show "unwritten (snd (podLogStream l k opens up req s))" using assms by (rule preservesD)
qed

subsection \<open>Examples\<close>

text \<open>An administrator lists a directory and leaves; the process ends.\<close>

definition root_claims :: claims where
  "root_claims = \<lparr>c_uid = 1, c_username = ''root'', c_role = ''admin'', c_subject = ''1'', c_issued = 0, c_expires = 7200\<rparr>"

definition root_libs :: libs where
  "root_libs = demo_libs\<lparr>jwt_parse := (\<lambda>kf t tok. if tok = ''jwt'' then Inr root_claims else Inl DriverErr)\<rparr>"

definition demo_exec :: exec_libs where
  "demo_exec = \<lparr>sx_transport = (\<lambda>_. Inr ()), sx_tls = (\<lambda>_. Inr ()), sx_upgrade = (\<lambda>_. Inr ()), sx_wrap = (\<lambda>_. Inr ())\<rparr>"

definition typed_frame :: "string \<Rightarrow> term_event" where
  "typed_frame x = Arrived (Text (Some (JObj [(''type'', JStr ''terminal:stdin''), (''data'', JStr x)])))"

definition demo_events :: "term_event list" where
  "demo_events = [typed_frame ''ls'', Output ''bin'' True, ReadFailed, typed_frame ''lost'']"

definition demo_ws :: "thing ws_state" where
  "demo_ws = \<lparr>ws_server = demo_astate, ws_conn = newWatchConn, ws_binary = [], ws_stdin = [], ws_sizes = [], ws_asked = []\<rparr>"

definition demo_terminal :: "(gerr + (int \<times> body) option) \<times> thing ws_state" where
  "demo_terminal = podTerminal root_libs ''key'' demo_exec True (demo_http ''GET'' '''' ''p'' ''ns1'') None demo_events (Some False) demo_ws"

lemma demo_terminal_runs: "fst demo_terminal = Inr None"
  "ws_asked (snd demo_terminal) = [(''c1'', RExec None ''ns1'' ''p'' '''' ''/bin/sh'')]"
  by code_simp+


end
