(* ===== verification/Startup.thy ===== *)
theory Startup
  imports Cluster_Lifecycle
begin

text \<open>
  Configuration (internal/config), the first contents of the database (cmd/server, store.go) and
  the order in which the server brings its parts up. YAML, the merging of keys (koanf) and the
  random source are parameters, and so is what the file system, the driver and \<open>AutoMigrate\<close> answer.
\<close>

subsection \<open>Configuration (config/config.go)\<close>

record tls_config =
  tc_cert_file :: string
  tc_key_file :: string

record server_config =
  sv_addr :: string
  sv_read_timeout :: int
  sv_write_timeout :: int
  sv_tls :: tls_config
  sv_external_url :: string

record database_config =
  dc_driver :: string
  dc_dsn :: string

record security_config =
  se_master_key :: string
  se_jwt_secret :: string

record log_config =
  lo_level :: string
  lo_format :: string

record platform_config =
  cf_server :: server_config
  cf_database :: database_config
  cf_security :: security_config
  cf_log :: log_config

definition or_string :: "string \<Rightarrow> string \<Rightarrow> string" where
  "or_string s d = (if s = '''' then d else s)"

definition or_int :: "int \<Rightarrow> int \<Rightarrow> int" where
  "or_int i d = (if i = 0 then d else i)"

text \<open>The derived address uses the listening address after its own default.\<close>

definition external_url :: "server_config \<Rightarrow> string" where
  "external_url v = (if sv_external_url v \<noteq> '''' then sv_external_url v
     else (if tc_cert_file (sv_tls v) \<noteq> '''' \<and> tc_key_file (sv_tls v) \<noteq> '''' then ''https'' else ''http'') @ ''://'' @
       (if has_prefix (sv_addr v) '':'' then ''localhost'' @ sv_addr v else sv_addr v))"

definition applyDefaults :: "platform_config \<Rightarrow> platform_config" where
  "applyDefaults c =
     (let v = (cf_server c)\<lparr>sv_addr := or_string (sv_addr (cf_server c)) '':8080''\<rparr>;
          v' = v\<lparr>sv_external_url := external_url v, sv_read_timeout := or_int (sv_read_timeout v) 30,
            sv_write_timeout := or_int (sv_write_timeout v) 60\<rparr>;
          driver = or_string (dc_driver (cf_database c)) ''sqlite'';
          dsn = dc_dsn (cf_database c) in
      c\<lparr>cf_server := v',
        cf_database := \<lparr>dc_driver = driver, dc_dsn = (if dsn = '''' \<and> driver = ''sqlite'' then ''data/kubeui.db'' else dsn)\<rparr>,
        cf_log := \<lparr>lo_level = or_string (lo_level (cf_log c)) ''info'', lo_format = or_string (lo_format (cf_log c)) ''json''\<rparr>\<rparr>)"

fun firstNonEmpty :: "string list \<Rightarrow> string" where
  "firstNonEmpty [] = ''''"
| "firstNonEmpty (v # vs) = (if v \<noteq> '''' then v else firstNonEmpty vs)"

definition envPrefix :: string where "envPrefix = ''KUBEUI_''"

fun replace_double :: "string \<Rightarrow> string" where
  "replace_double (a # b # r) = (if a = CHR ''_'' \<and> b = CHR ''_'' then CHR ''.'' # replace_double r else a # replace_double (b # r))"
| "replace_double r = r"

text \<open>The key that a variable of the environment is read as.\<close>

definition env_key :: "string \<Rightarrow> string" where
  "env_key v = replace_double (to_lower (case cut_prefix v envPrefix of None \<Rightarrow> v | Some r \<Rightarrow> r))"

definition generateRandomKeyB64 :: "string option \<Rightarrow> gerr + string" where
  "generateRandomKeyB64 rnd = (case rnd of None \<Rightarrow> Inl DriverErr | Some bytes \<Rightarrow> Inr (EncodeToString bytes))"

text \<open>koanf: a file read into its keys, the environment's keys laid over them, the keys decoded into the
  struct, and one key as a string.\<close>

record 'k koanf =
  ko_empty :: 'k
  ko_file :: "string \<Rightarrow> 'k \<Rightarrow> gerr + 'k"
  ko_env :: "(string \<times> string) list \<Rightarrow> 'k \<Rightarrow> gerr + 'k"
  ko_unmarshal :: "'k \<Rightarrow> gerr + platform_config"
  ko_string :: "'k \<Rightarrow> string \<Rightarrow> string"

definition env_of :: "(string \<times> string) list \<Rightarrow> string \<Rightarrow> string" where
  "env_of env v = (case map_of env v of None \<Rightarrow> '''' | Some x \<Rightarrow> x)"

definition key_or_random :: "string \<Rightarrow> string \<Rightarrow> string option \<Rightarrow> gerr + string" where
  "key_or_random what key rnd = (if key \<noteq> '''' then Inr key
     else case generateRandomKeyB64 rnd of Inl e \<Rightarrow> Inl (WrapErr what e) | Inr k \<Rightarrow> Inr k)"

definition Load :: "'k koanf \<Rightarrow> (string \<times> string) list \<Rightarrow> string option \<Rightarrow> string option \<Rightarrow> string \<Rightarrow> gerr + platform_config" where
  "Load K env rnd1 rnd2 path =
     (case (if path \<noteq> '''' then ko_file K path (ko_empty K) else Inr (ko_empty K)) of
        Inl e \<Rightarrow> Inl (WrapErr (''load config file '' @ path) e)
      | Inr k0 \<Rightarrow>
      case ko_env K (map (\<lambda>(v, x). (env_key v, x)) (filter (\<lambda>(v, _). has_prefix v envPrefix) env)) k0 of
        Inl e \<Rightarrow> Inl (WrapErr ''load env config'' e)
      | Inr k \<Rightarrow>
      case ko_unmarshal K k of
        Inl e \<Rightarrow> Inl (WrapErr ''unmarshal config'' e)
      | Inr raw \<Rightarrow>
      case key_or_random ''generate dev master key''
          (firstNonEmpty [env_of env ''KUBEUI_MASTER_KEY'', ko_string K k ''security.masterKey'']) rnd1 of
        Inl e \<Rightarrow> Inl e
      | Inr master \<Rightarrow>
      case key_or_random ''generate dev jwt secret''
          (firstNonEmpty [env_of env ''KUBEUI_JWT_SECRET'', ko_string K k ''auth.jwtSecret'']) rnd2 of
        Inl e \<Rightarrow> Inl e
      | Inr jwt \<Rightarrow> Inr ((applyDefaults raw)\<lparr>cf_security := \<lparr>se_master_key = master, se_jwt_secret = jwt\<rparr>\<rparr>))"

subsection \<open>The migration of old bindings (store/store.go)\<close>

text \<open>The old tables: \<open>None\<close> is a missing table, \<open>Inl\<close> one that cannot be read (older columns).\<close>

record legacy_binding =
  lb_id :: int
  lb_role :: int
  lb_subject_type :: string
  lb_subject :: int

record legacy_tables =
  lg_bindings :: "(gerr + legacy_binding list) option"
  lg_scopes :: "(gerr + (int \<times> string \<times> string) list) option"

definition rows_or_none :: "(gerr + 'a list) option \<Rightarrow> 'a list" where
  "rows_or_none t = (case t of Some (Inr rows) \<Rightarrow> rows | _ \<Rightarrow> [])"

definition migrate_binding :: "(int \<times> string \<times> string) list \<Rightarrow> legacy_binding \<Rightarrow> unit act" where
  "migrate_binding scopes r =
     (if lb_subject_type r = '''' \<or> lb_subject r \<le> 0 \<or> lb_role r \<le> 0 then ok ()
      else on_result (repo_CreateGrant \<lparr>g_id = 0, g_subject_type = lb_subject_type r, g_subject_id = lb_subject r,
          g_object_type = ''role'', g_object_id = lb_role r, g_created = 0\<rparr>
          (map snd (filter (\<lambda>sc. fst sc = lb_id r) scopes))) (\<lambda>_. ok ()) (\<lambda>_. ok ()))"

text \<open>The two drops may fail, as \<open>d1\<close> and \<open>d2\<close> say; then the table stays.\<close>

definition migrateLegacyRoleBindings :: "bool \<Rightarrow> bool \<Rightarrow> legacy_tables \<Rightarrow> legacy_tables act" where
  "migrateLegacyRoleBindings d1 d2 L =
     (case lg_bindings L of None \<Rightarrow> ok L
      | Some b \<Rightarrow> and_then (mapM (migrate_binding (rows_or_none (lg_scopes L))) (rows_or_none (Some b))) (\<lambda>_.
          ok \<lparr>lg_bindings = (if d1 then None else Some b), lg_scopes = (if d2 then None else lg_scopes L)\<rparr>))"

subsection \<open>Bringing the server up (cmd/server/main.go)\<close>

definition ensureDefaultAdmin :: "libs \<Rightarrow> string \<Rightarrow> unit act" where
  "ensureDefaultAdmin l salt = on_result (repo_GetUserByUsername ''admin'')
     (\<lambda>_. and_then (HashPassword l salt ''admin123'') (\<lambda>hash.
        and_then (repo_CreateUser \<lparr>u_id = 0, u_username = ''admin'', u_password_hash = hash, u_role = RoleAdmin,
          u_disabled = False, u_created = 0, u_updated = 0\<rparr>) (\<lambda>_. ok ())))
     (\<lambda>_. ok ())"

text \<open>\<open>filepath.Dir\<close>: what stands before the last slash, cleaned of empty, \<open>.\<close> and \<open>..\<close> elements;
  \<open>rooted\<close> says whether the path begins with a slash, and \<open>acc\<close> holds the elements so far, backwards.\<close>

fun clean_elems :: "bool \<Rightarrow> string list \<Rightarrow> string list \<Rightarrow> string list" where
  "clean_elems rooted [] acc = rev acc"
| "clean_elems rooted (e # es) acc =
     (if e = '''' \<or> e = ''.'' then clean_elems rooted es acc
      else if e \<noteq> ''..'' then clean_elems rooted es (e # acc)
      else case acc of
          [] \<Rightarrow> clean_elems rooted es (if rooted then [] else [''..''])
        | a # rest \<Rightarrow> clean_elems rooted es (if a = ''..'' then ''..'' # acc else rest))"

fun join_slash :: "string list \<Rightarrow> string" where
  "join_slash [] = ''''"
| "join_slash [e] = e"
| "join_slash (e # es) = e @ ''/'' @ join_slash es"

definition clean_path :: "string \<Rightarrow> string" where
  "clean_path p = (let rooted = has_prefix p ''/''; body = join_slash (clean_elems rooted (split_on (CHR ''/'') p) []) in
     if rooted then ''/'' @ body else if body = '''' then ''.'' else body)"

definition path_dir :: "string \<Rightarrow> string" where
  "path_dir p = clean_path (rev (dropWhile (\<lambda>c. c \<noteq> CHR ''/'') (rev p)))"

text \<open>\<open>Open\<close>: what the file system, the driver and \<open>AutoMigrate\<close> answer is a parameter.\<close>

record store_libs =
  so_mkdir :: "string \<Rightarrow> gerr option"
  so_open :: "string \<Rightarrow> string \<Rightarrow> gerr option"
  so_migrate :: "gerr option"

definition supported_driver :: "string \<Rightarrow> bool" where
  "supported_driver d \<longleftrightarrow> d = '''' \<or> d = ''sqlite'' \<or> d = ''postgres''"

definition step_error :: "string \<Rightarrow> gerr option \<Rightarrow> unit act" where
  "step_error what r = (case r of None \<Rightarrow> ok () | Some e \<Rightarrow> err (WrapErr what e))"

definition store_Open :: "store_libs \<Rightarrow> database_config \<Rightarrow> bool \<Rightarrow> bool \<Rightarrow> legacy_tables \<Rightarrow> legacy_tables act" where
  "store_Open S c d1 d2 L =
     and_then (guard (supported_driver (dc_driver c)) (PlainErr (''unsupported database driver '' @ go_quote (dc_driver c)))) (\<lambda>_.
     and_then (if dc_driver c \<noteq> ''postgres'' \<and> path_dir (dc_dsn c) \<noteq> ''.'' \<and> path_dir (dc_dsn c) \<noteq> ''''
        then step_error (''create sqlite dir '' @ path_dir (dc_dsn c)) (so_mkdir S (path_dir (dc_dsn c))) else ok ()) (\<lambda>_.
     and_then (step_error ''open database'' (so_open S (dc_driver c) (dc_dsn c))) (\<lambda>_.
     and_then (step_error ''auto migrate'' (so_migrate S)) (\<lambda>_.
     migrateLegacyRoleBindings d1 d2 L))))"

text \<open>\<open>run\<close> up to the point where requests are served; a failed restoration is only logged. The key of
  the cipher is the configuration's.\<close>

definition with_key :: "string \<Rightarrow> wiring \<Rightarrow> wiring" where
  "with_key key v = v\<lparr>wi_service := (wi_service v)\<lparr>rg_key := key\<rparr>\<rparr>"

definition server_start :: "store_libs \<Rightarrow> libs \<Rightarrow> string \<Rightarrow> wiring \<Rightarrow> platform_config \<Rightarrow> bool \<Rightarrow> bool \<Rightarrow> legacy_tables \<Rightarrow> wiring sact" where
  "server_start S l salt v c d1 d2 L =
     and_then (errorf ''open store'' (on_world (store_Open S (cf_database c) d1 d2 L))) (\<lambda>_.
     and_then (errorf ''seed defaults'' (on_world (SeedDefaults BuiltinRoleSeeds))) (\<lambda>_.
     and_then (errorf ''ensure default admin'' (on_world (ensureDefaultAdmin l salt))) (\<lambda>_.
     and_then (errorf ''init crypto'' (from_sum (NewCipher (se_master_key (cf_security c))))) (\<lambda>key.
     and_then (ignore_err (RestoreClusters (wi_service (with_key key v)) (hook_registered (with_key key v)))) (\<lambda>_.
     ok (with_key key v))))))"

subsection \<open>Properties\<close>

lemma applyDefaults_idem: "applyDefaults (applyDefaults c) = applyDefaults c"
  by (simp add: applyDefaults_def Let_def or_string_def or_int_def external_url_def)

text \<open>Nothing that was set is overridden, and nothing that has a default is left open.\<close>

lemma applyDefaults_complete:
  "sv_addr (cf_server (applyDefaults c)) \<noteq> ''''" "sv_external_url (cf_server (applyDefaults c)) \<noteq> ''''"
  "supported_driver (dc_driver (cf_database c)) \<Longrightarrow> supported_driver (dc_driver (cf_database (applyDefaults c)))"
  "sv_external_url (cf_server c) \<noteq> '''' \<Longrightarrow> sv_external_url (cf_server (applyDefaults c)) = sv_external_url (cf_server c)"
  by (auto simp: applyDefaults_def Let_def or_string_def external_url_def supported_driver_def)

text \<open>A database that already has an administrator's account is left as it is, whatever its password.\<close>

lemma ensureDefaultAdmin_keeps:
  assumes "u \<in> set (trows (db_users (w_db w)))" and "u_username u = ''admin''" and "w_faults w = []"
  shows "wp (ensureDefaultAdmin l salt) (\<lambda>_ w'. w_db w' = w_db w) (\<lambda>_ _. False) w"
  using assms by (auto simp: ensureDefaultAdmin_def repo_GetUserByUsername_def wp_rules tbl_first_None split: option.splits)

text \<open>The first start makes an administrator whose password is a constant of the source; the environment has no
  say in it.\<close>

lemma first_admin_password:
  assumes "\<forall>u \<in> set (trows (db_users (w_db w))). u_username u \<noteq> ''admin''" and "w_faults w = []"
    and "bcrypt_generate l salt ''admin123'' = Inr h"
  shows "wp (ensureDefaultAdmin l salt) (\<lambda>_ w'. \<exists>u. trows (db_users (w_db w')) = trows (db_users (w_db w)) @ [u] \<and>
     u_username u = ''admin'' \<and> u_role u = RoleAdmin \<and> \<not> u_disabled u \<and> u_password_hash u = h) (\<lambda>_ _. False) w"
proof -
  have "tbl_first u_id (\<lambda>u. u_username u = ''admin'') (db_users (w_db w)) = None" using assms(1) by (simp add: tbl_first_None)
  then show ?thesis
    using assms by (auto simp: ensureDefaultAdmin_def repo_GetUserByUsername_def repo_CreateUser_def HashPassword_def wp_rules
        tbl_insert_def user_uniq_def RoleAdmin_def with_default_def Let_def list_ex_iff split: option.splits)
qed

text \<open>The key that the chart generates, 44 letters and digits, is no key: it decodes to 33 bytes.\<close>

lemma std_decode_full:
  "length s mod 4 = 0 \<Longrightarrow> list_all (\<lambda>c. std_val c \<noteq> None \<and> c \<noteq> CHR ''='') s \<Longrightarrow>
     \<exists>bs. std_decode s = Some bs \<and> 4 * length bs = 3 * length s"
proof (induction s rule: length_induct)
  case (1 s)
  show ?case
  proof (cases s rule: std_decode.cases)
    case (2 a b c d r)
    then obtain w x y z where "std_val a = Some w" "std_val b = Some x" "std_val c = Some y" "std_val d = Some z"
      "c \<noteq> CHR ''=''" "d \<noteq> CHR ''=''" using 1(3) by auto
    moreover have "length r < length s" "length r mod 4 = 0" "list_all (\<lambda>c. std_val c \<noteq> None \<and> c \<noteq> CHR ''='') r"
      using 1(2,3) 2 by simp_all
    then obtain bs where "std_decode r = Some bs" "4 * length bs = 3 * length r" using 1(1)[rule_format, of r] by auto
    ultimately show ?thesis using 2 by simp
  qed (use 1 in auto)
qed

definition alnum :: "char \<Rightarrow> bool" where
  "alnum c \<longleftrightarrow> (let n = (of_char c :: nat) in 48 \<le> n \<and> n \<le> 57 \<or> 65 \<le> n \<and> n \<le> 90 \<or> 97 \<le> n \<and> n \<le> 122)"

lemma alnum_char: "alnum c \<Longrightarrow> std_val c \<noteq> None \<and> c \<noteq> CHR ''='' \<and> c \<noteq> CHR 0x0A \<and> c \<noteq> CHR 0x0D"
  by (auto simp: alnum_def std_val_def Let_def)

lemma chart_key_refused:
  assumes "length s = 44" and "list_all alnum s"
  shows "NewCipher s = Inl (PlainErr ''master key must be 32 bytes, got 33'')"
proof -
  have "filter (\<lambda>c. c \<noteq> CHR 0x0A \<and> c \<noteq> CHR 0x0D) s = s"
    using assms(2) alnum_char by (auto simp: filter_id_conv list_all_iff)
  moreover obtain bs where "std_decode s = Some bs" "length bs = 33"
    using std_decode_full [of s] assms alnum_char by (auto simp: list_all_iff)
  moreover have "itoa 33 = ''33''" by code_simp
  ultimately show ?thesis by (simp add: NewCipher_def DecodeString_def)
qed

text \<open>What the chart sets is read as keys that nothing asks for.\<close>

lemma chart_variables_ignored:
  "env_key ''KUBEUI_DB_DRIVER'' = ''db_driver''" "env_key ''KUBEUI_DB_DSN'' = ''db_dsn''"
  "env_key ''KUBEUI_AUTH_JWT_SECRET'' = ''auth_jwt_secret''" "env_key ''KUBEUI_DATABASE__DSN'' = ''database.dsn''"
  by code_simp+

end
