(* ===== verification/Engine.thy ===== *)
theory Engine
  imports Api_Routes Proxy
begin

text \<open>
  What stands around every handler (handler/router.go, api/middleware): the request identifier, the
  access log, the recovery from panics, and the pages of the frontend for every path that is no
  route (internal/web). Gin is a library: of it the model has the order of a chain, the
  response writer and that \<open>CustomRecovery\<close> calls its function when what it wraps panics.
\<close>

subsection \<open>A request in the chain\<close>

text \<open>The response as it stands, what the middlewares keep in gin's context, and the lines logged. A
  response that is started keeps its status; bodies are written one behind the other.\<close>

datatype log_line = AccessLine string string int string | PanicLine string

record gin_ctx =
  gx_request_id :: string
  gx_id_header :: "string option"
  gx_status :: int
  gx_started :: bool
  gx_bodies :: "body list"
  gx_log :: "log_line list"

definition new_gin_ctx :: gin_ctx where
  "new_gin_ctx = \<lparr>gx_request_id = '''', gx_id_header = None, gx_status = 200, gx_started = False, gx_bodies = [], gx_log = []\<rparr>"

text \<open>What a handler leaves: whether it panicked, and the state after it.\<close>

type_synonym 's chain = "gin_ctx \<times> 's \<Rightarrow> bool \<times> gin_ctx \<times> 's"

definition write_json :: "int \<Rightarrow> body \<Rightarrow> gin_ctx \<Rightarrow> gin_ctx" where
  "write_json status b c = c\<lparr>gx_status := (if gx_started c then gx_status c else status), gx_started := True, gx_bodies := gx_bodies c @ [b]\<rparr>"

definition log_to :: "log_line \<Rightarrow> gin_ctx \<Rightarrow> gin_ctx" where
  "log_to x c = c\<lparr>gx_log := gx_log c @ [x]\<rparr>"

subsection \<open>The middlewares (api/middleware)\<close>

text \<open>\<open>uuid\<close> is what the random source gives this invocation.\<close>

definition RequestID :: "string \<Rightarrow> string \<Rightarrow> 's chain \<Rightarrow> 's chain" where
  "RequestID header uuid next_handler = (\<lambda>(c, s).
     let i = (if header = '''' then uuid else header) in
     next_handler (c\<lparr>gx_request_id := i, gx_id_header := Some i\<rparr>, s))"

text \<open>A panic passes through: nothing after \<open>c.Next()\<close> is run.\<close>

definition Logging :: "string \<Rightarrow> string \<Rightarrow> 's chain \<Rightarrow> 's chain" where
  "Logging verb path next_handler = (\<lambda>x. case next_handler x of (panics, c, s) \<Rightarrow>
     (panics, if panics then c else log_to (AccessLine verb path (gx_status c) (gx_request_id c)) c, s))"

definition recovery_answer :: body where
  "recovery_answer = \<lparr>b_code = InternalError, b_message = ''internal error''\<rparr>"

definition Recovery :: "'s chain \<Rightarrow> 's chain" where
  "Recovery next_handler = (\<lambda>x. case next_handler x of (panics, c, s) \<Rightarrow>
     (False, if panics then write_json 500 recovery_answer (log_to (PanicLine (gx_request_id c)) c) else c, s))"

definition base_chain :: "http_request \<Rightarrow> string \<Rightarrow> 's chain \<Rightarrow> 's chain" where
  "base_chain req uuid h = RequestID (hr_request_id req) uuid (Logging (hr_method req) (hr_path req) (Recovery h))"

subsection \<open>The routes behind them (handler/router.go)\<close>

text \<open>A panic of a handler is an error that its transformer leaves: what stands behind it in the
  middlewares of the group is not run either. The audit trail takes the identifier from the context.\<close>

definition api_chain :: "'o platform \<Rightarrow> http_request \<Rightarrow> (http_request \<Rightarrow> ('o, reply) hact) \<Rightarrow> 'o astate chain" where
  "api_chain P req handler = (\<lambda>(c, s). case Audit (sv_payload (pf_server P)) (req\<lparr>hr_request_id := gx_request_id c\<rparr>)
       (handler (req\<lparr>hr_request_id := gx_request_id c\<rparr>)) s of
     (Inl _, s') \<Rightarrow> (True, c, s') | (Inr rp, s') \<Rightarrow> (False, write_json (rp_status rp) (rp_body rp) c, s'))"

text \<open>The reverse proxy's own answer; \<open>None\<close> is the API server's, with the status it has.\<close>

definition proxy_chain :: "libs \<Rightarrow> string \<Rightarrow> proxy_libs \<Rightarrow> (proxy_client \<Rightarrow> out_request \<Rightarrow> bool) \<Rightarrow> int \<Rightarrow> http_request \<Rightarrow> 'o proxy_state chain" where
  "proxy_chain l secret L reached upstream req = (\<lambda>(c, s). case k8sProxy l secret L reached req None s of
     (Inl _, s') \<Rightarrow> (True, c, s')
   | (Inr (Some (status, b)), s') \<Rightarrow> (False, write_json status b c, s')
   | (Inr None, s') \<Rightarrow> (False, c\<lparr>gx_status := upstream, gx_started := True\<rparr>, s'))"

text \<open>The group of the proxy is made from the engine, which has the three middlewares, with the three
  middlewares again; each generates an identifier of its own.\<close>

definition proxy_group :: "http_request \<Rightarrow> string \<Rightarrow> string \<Rightarrow> 's chain \<Rightarrow> 's chain" where
  "proxy_group req uuid1 uuid2 h = base_chain req uuid1 (base_chain req uuid2 h)"

definition healthz :: "'s chain" where
  "healthz = (\<lambda>(c, s). (False, c\<lparr>gx_status := 200, gx_started := True\<rparr>, s))"

subsection \<open>The frontend (internal/web/web.go)\<close>

text \<open>The embedded files: what a valid path names. \<open>valid_path\<close> is \<open>fs.ValidPath\<close>.\<close>

datatype entry = File string | Dir

type_synonym web_files = "string \<Rightarrow> entry option"

definition valid_path :: "string \<Rightarrow> bool" where
  "valid_path p \<longleftrightarrow> p = ''.'' \<or> (\<forall>e \<in> set (split_on (CHR ''/'') p). e \<notin> {'''', ''.'', ''..''})"

definition open_path :: "web_files \<Rightarrow> string \<Rightarrow> entry option" where
  "open_path B p = (if valid_path p then B p else None)"

datatype web_answer =
    WebNoApi body
  | WebFile string
  | WebRedirect string
  | WebIndex string
  | WebMissing

text \<open>\<open>path.Base\<close> of a valid path, and what \<open>http.FileServer\<close> answers for a path that opens.\<close>

definition base_name :: "string \<Rightarrow> string" where
  "base_name p = last (split_on (CHR ''/'') p)"

definition serve_file :: "string \<Rightarrow> entry \<Rightarrow> web_answer" where
  "serve_file p e = (if has_suffix (''/'' @ p) ''/index.html'' then WebRedirect ''./''
     else case e of Dir \<Rightarrow> WebRedirect (base_name p @ ''/'') | File content \<Rightarrow> WebFile content)"

definition strip_slash :: "string \<Rightarrow> string" where
  "strip_slash p = (case cut_prefix p ''/'' of None \<Rightarrow> p | Some r \<Rightarrow> r)"

definition web_index :: "web_files \<Rightarrow> web_answer" where
  "web_index B = (case open_path B ''index.html'' of Some (File content) \<Rightarrow> WebIndex content | _ \<Rightarrow> WebMissing)"

definition web_handler :: "web_files \<Rightarrow> string \<Rightarrow> web_answer" where
  "web_handler B url =
     (if has_prefix url ''/api/'' \<or> url = ''/api'' then WebNoApi \<lparr>b_code = NotFound, b_message = ''not found''\<rparr>
      else let p = strip_slash url in
        if p \<noteq> '''' then (case open_path B p of Some e \<Rightarrow> serve_file p e | None \<Rightarrow> web_index B) else web_index B)"

fun web_status :: "web_answer \<Rightarrow> int" where
  "web_status (WebNoApi _) = 404"
| "web_status (WebFile _) = 200"
| "web_status (WebRedirect _) = 301"
| "web_status (WebIndex _) = 200"
| "web_status WebMissing = 404"


subsection \<open>What every answer has\<close>

definition request_id_of :: "http_request \<Rightarrow> string \<Rightarrow> string" where
  "request_id_of req uuid = (if hr_request_id req = '''' then uuid else hr_request_id req)"

definition with_id :: "string \<Rightarrow> gin_ctx \<Rightarrow> gin_ctx" where
  "with_id i c = c\<lparr>gx_request_id := i, gx_id_header := Some i\<rparr>"

lemma base_chain_eq:
  assumes "h (with_id (request_id_of req uuid) c, s) = (p, c', s')"
  shows "base_chain req uuid h (c, s) =
    (False, let d = (if p then write_json 500 recovery_answer (log_to (PanicLine (gx_request_id c')) c') else c')
       in log_to (AccessLine (hr_method req) (hr_path req) (gx_status d) (gx_request_id d)) d, s')"
  using assms unfolding with_id_def request_id_of_def
  by (simp add: base_chain_def RequestID_def Logging_def Recovery_def Let_def)

lemma base_chain_catches: "\<not> fst (base_chain req uuid h x)"
  by (auto simp: base_chain_def RequestID_def Logging_def Recovery_def Let_def split: prod.splits)

text \<open>An API request is answered once and logged once, under one identifier: the caller's, or a new
  one; the trail and the header of the answer have the same.\<close>

theorem api_answered:
  assumes "Audit (sv_payload (pf_server P)) (req\<lparr>hr_request_id := request_id_of req uuid\<rparr>)
      (handler (req\<lparr>hr_request_id := request_id_of req uuid\<rparr>)) s = (Inr rp, s')"
  shows "base_chain req uuid (api_chain P req handler) (new_gin_ctx, s) =
    (False, \<lparr>gx_request_id = request_id_of req uuid, gx_id_header = Some (request_id_of req uuid), gx_status = rp_status rp,
       gx_started = True, gx_bodies = [rp_body rp],
       gx_log = [AccessLine (hr_method req) (hr_path req) (rp_status rp) (request_id_of req uuid)]\<rparr>, s')"
proof -
  let ?i = "request_id_of req uuid"
  have "gx_request_id (with_id ?i new_gin_ctx) = ?i" by (simp add: with_id_def)
  then have h: "api_chain P req handler (with_id ?i new_gin_ctx, s) =
      (False, write_json (rp_status rp) (rp_body rp) (with_id ?i new_gin_ctx), s')"
    using assms by (simp add: api_chain_def)
  show ?thesis unfolding base_chain_eq [where h = "api_chain P req handler" and p = False, OF h]
    by (simp add: with_id_def new_gin_ctx_def write_json_def log_to_def Let_def)
qed

text \<open>A handler that panics is answered with 500, but what it did stays, and the trail has nothing of it.\<close>

theorem panic_not_audited:
  assumes "handler (req\<lparr>hr_request_id := request_id_of req uuid\<rparr>) s = (Inl e, s')"
  shows "base_chain req uuid (api_chain P req handler) (new_gin_ctx, s) =
    (False, \<lparr>gx_request_id = request_id_of req uuid, gx_id_header = Some (request_id_of req uuid), gx_status = 500,
       gx_started = True, gx_bodies = [recovery_answer],
       gx_log = [PanicLine (request_id_of req uuid), AccessLine (hr_method req) (hr_path req) 500 (request_id_of req uuid)]\<rparr>, s')"
proof -
  let ?i = "request_id_of req uuid"
  have "gx_request_id (with_id ?i new_gin_ctx) = ?i" by (simp add: with_id_def)
  then have h: "api_chain P req handler (with_id ?i new_gin_ctx, s) = (True, with_id ?i new_gin_ctx, s')"
    using assms by (simp add: api_chain_def Audit_def and_then_def on_result_def err_def)
  show ?thesis unfolding base_chain_eq [where h = "api_chain P req handler" and p = True, OF h]
    by (simp add: with_id_def new_gin_ctx_def write_json_def log_to_def Let_def)
qed

text \<open>A proxied request is logged twice, and a generated identifier is replaced by a second one.\<close>

lemma proxied_logged_twice:
  assumes "h (with_id (request_id_of req uuid2) new_gin_ctx, s) = (False, c, s')"
  shows "proxy_group req uuid1 uuid2 h (new_gin_ctx, s) =
    (False, log_to (AccessLine (hr_method req) (hr_path req) (gx_status c) (gx_request_id c))
       (log_to (AccessLine (hr_method req) (hr_path req) (gx_status c) (gx_request_id c)) c), s')"
proof -
  have "with_id i (with_id j c) = with_id i c" for i j c by (simp add: with_id_def)
  then have "base_chain req uuid2 h (with_id (request_id_of req uuid1) new_gin_ctx, s) =
      (False, log_to (AccessLine (hr_method req) (hr_path req) (gx_status c) (gx_request_id c)) c, s')"
    using assms base_chain_eq [where p = False and h = h and c = "with_id (request_id_of req uuid1) new_gin_ctx" and req = req
        and uuid = uuid2 and s = s and c' = c and s' = s'] by (simp add: Let_def)
  from base_chain_eq [where h = "base_chain req uuid2 h" and p = False, OF this] show ?thesis by (simp add: proxy_group_def Let_def log_to_def)
qed

subsection \<open>What the frontend answers\<close>

text \<open>The path a relative redirect leads to.\<close>

definition dir_part :: "string \<Rightarrow> string" where
  "dir_part url = rev (dropWhile (\<lambda>c. c \<noteq> CHR ''/'') (rev url))"

definition resolve_redirect :: "string \<Rightarrow> string \<Rightarrow> string" where
  "resolve_redirect url loc = dir_part url @ (if loc = ''./'' then '''' else loc)"

lemma split_on_ne [simp]: "split_on c s \<noteq> []"
  by (induction s) (auto split: list.split)

lemma split_on_last: "last (split_on c s) = rev (takeWhile (\<lambda>x. x \<noteq> c) (rev s))"
proof (induction s)
  case (Cons x s)
  obtain p ps where s: "split_on c s = p # ps" by (cases "split_on c s") auto
  show ?case
  proof (cases "c \<in> set s")
    case True
    then have "ps \<noteq> []"
    proof -
      have "c \<in> set s \<Longrightarrow> length (split_on c s) > 1" for s
      proof (induction s)
        case (Cons y s)
        then show ?case by (cases "split_on c s") auto
      qed simp
      then show ?thesis using True s by (metis length_Cons less_irrefl list.size(3) One_nat_def)
    qed
    then show ?thesis using Cons.IH s True by (auto simp: takeWhile_append1)
  next
    case False
    have "split_on c s = [s]" using False
    proof (induction s)
      case (Cons y s)
      then show ?case by auto
    qed simp
    moreover have "takeWhile (\<lambda>y. y \<noteq> c) (rev s) = rev s" using False by (auto simp: takeWhile_eq_all_conv)
    ultimately show ?thesis by (simp add: takeWhile_append)
  qed
qed simp

lemma dir_base: "dir_part url @ rev (takeWhile (\<lambda>c. c \<noteq> CHR ''/'') (rev url)) = url"
proof -
  have "rev (takeWhile (\<lambda>c. c \<noteq> CHR ''/'') (rev url) @ dropWhile (\<lambda>c. c \<noteq> CHR ''/'') (rev url)) = url"
    unfolding takeWhile_dropWhile_id by simp
  then show ?thesis by (simp only: dir_part_def rev_append)
qed

lemma trailing_slash_invalid: "\<not> valid_path (p @ ''/'')"
proof -
  have "last (split_on (CHR ''/'') (p @ ''/'')) = ''''" by (simp add: split_on_last)
  then have "'''' \<in> set (split_on (CHR ''/'') (p @ ''/''))" by (metis last_in_set split_on_ne)
  then show ?thesis by (auto simp: valid_path_def)
qed

lemma web_handler_slash:
  assumes "has_suffix url ''/''" and "\<not> has_prefix url ''/api/''"
  shows "web_handler B url = web_index B"
proof -
  obtain r where url: "url = r @ ''/''" using assms(1) by (auto simp: has_suffix_iff)
  have "open_path B (strip_slash url) = None" if "strip_slash url \<noteq> ''''"
  proof (cases r)
    case Nil
    then show ?thesis using that by (simp add: strip_slash_def cut_prefix_def url)
  next
    case (Cons a r')
    then have "strip_slash url = r @ ''/'' \<or> strip_slash url = r' @ ''/''"
      by (cases "a = CHR ''/''") (simp_all add: strip_slash_def cut_prefix_def url)
    then show ?thesis using trailing_slash_invalid by (auto simp: open_path_def)
  qed
  moreover have "url \<noteq> ''/api''" by (simp add: url append_eq_Cons_conv)
  ultimately show ?thesis using assms(2) by (auto simp: web_handler_def Let_def)
qed

text \<open>Where a request for \<open>/p\<close> is redirected to: the directory part ends in a slash, and the last element
  with a slash is the path itself with a slash.\<close>

lemma dir_part_rooted:
  "has_suffix (dir_part (CHR ''/'' # p)) ''/''" "\<exists>t. CHR ''/'' # p = dir_part (CHR ''/'' # p) @ t"
proof -
  have "CHR ''/'' \<in> set (rev (CHR ''/'' # p))" by simp
  then have "dropWhile (\<lambda>c. c \<noteq> CHR ''/'') (rev (CHR ''/'' # p)) \<noteq> []" unfolding dropWhile_eq_Nil_conv by blast
  then obtain x xs where d: "dropWhile (\<lambda>c. c \<noteq> CHR ''/'') (rev (CHR ''/'' # p)) = x # xs" by (meson neq_Nil_conv)
  then have "x = CHR ''/''" unfolding dropWhile_eq_Cons_conv by blast
  then show "has_suffix (dir_part (CHR ''/'' # p)) ''/''" unfolding dir_part_def d by (auto simp: has_suffix_iff)
  show "\<exists>t. CHR ''/'' # p = dir_part (CHR ''/'' # p) @ t" using dir_base [of "CHR ''/'' # p"] by metis
qed

lemma redirect_to_self: "dir_part (CHR ''/'' # p) @ base_name p @ ''/'' = (CHR ''/'' # p) @ ''/''"
proof -
  have "rev (takeWhile (\<lambda>c. c \<noteq> CHR ''/'') (rev (CHR ''/'' # p))) = rev (takeWhile (\<lambda>c. c \<noteq> CHR ''/'') (rev p))"
    by (simp add: takeWhile_tail)
  then show ?thesis using dir_base [of "CHR ''/'' # p"] by (metis append_assoc base_name_def split_on_last)
qed

lemma web_handler_with_slash:
  assumes "\<not> (has_prefix url ''/api/'' \<or> url = ''/api'')"
  shows "web_handler B (url @ ''/'') = web_index B"
proof (rule web_handler_slash)
  show "has_suffix (url @ ''/'') ''/''" by (auto simp: has_suffix_iff)
  show "\<not> has_prefix (url @ ''/'') ''/api/''"
  proof
    assume "has_prefix (url @ ''/'') ''/api/''"
    then obtain r where "url @ ''/'' = ''/api/'' @ r" by (auto simp: has_prefix_iff)
    then show False using assms by (cases r rule: rev_cases) (auto simp: has_prefix_iff)
  qed
qed

text \<open>The frontend answers with a file of the frontend at the very path, or the index page, or a redirect
  that leads to the index page; nothing under the prefix of the API is answered with a page, and
  no directory is listed.\<close>

theorem web_answers:
  assumes "has_prefix url ''/''"
  shows "case web_handler B url of
      WebNoApi _ \<Rightarrow> url = ''/api'' \<or> has_prefix url ''/api/''
    | WebFile content \<Rightarrow> B (tl url) = Some (File content)
    | WebIndex content \<Rightarrow> B ''index.html'' = Some (File content)
    | WebRedirect loc \<Rightarrow> web_handler B (resolve_redirect url loc) = web_index B
    | WebMissing \<Rightarrow> \<forall>content. B ''index.html'' \<noteq> Some (File content)"
proof -
  obtain p where url: "url = CHR ''/'' # p" using assms by (auto simp: has_prefix_iff)
  then have s: "strip_slash url = p" "tl url = p" by (simp_all add: strip_slash_def cut_prefix_def)
  have i: "valid_path ''index.html''" by (simp add: valid_path_def)
  have index: "case web_index B of WebIndex c \<Rightarrow> B ''index.html'' = Some (File c)
      | WebMissing \<Rightarrow> \<forall>c. B ''index.html'' \<noteq> Some (File c) | _ \<Rightarrow> False"
    using i by (auto simp: web_index_def open_path_def split: option.split entry.split)
  show ?thesis
  proof (cases "has_prefix url ''/api/'' \<or> url = ''/api''")
    case True
    then show ?thesis by (auto simp: web_handler_def)
  next
    case no_api: False
    show ?thesis
    proof (cases "p \<noteq> '''' \<and> open_path B p \<noteq> None")
      case False
      then have "web_handler B url = web_index B" using no_api s by (auto simp: web_handler_def)
      then show ?thesis using index by (cases "web_index B") auto
    next
      case True
      then obtain e where e: "B p = Some e" "valid_path p" "web_handler B url = serve_file p e"
        using no_api s by (auto simp: web_handler_def open_path_def split: if_splits)
      have to_dir: "web_handler B (dir_part url) = web_index B"
        using no_api dir_part_rooted [of p, folded url] by (intro web_handler_slash) (auto simp: has_prefix_iff)
      have "web_handler B (dir_part url @ base_name p @ ''/'') = web_index B"
        using web_handler_with_slash [OF no_api] by (simp only: redirect_to_self [of p, folded url])
      then show ?thesis
        using e to_dir s by (auto simp: serve_file_def resolve_redirect_def split: entry.split)
    qed
  qed
qed

definition demo_pages :: web_files where
  "demo_pages = [''index.html'' \<mapsto> File ''page'', ''assets'' \<mapsto> Dir, ''assets/a.js'' \<mapsto> File ''js'']"

lemma demo_answers:
  "web_handler demo_pages ''/assets/a.js'' = WebFile ''js''" "web_handler demo_pages ''/clusters/c1'' = WebIndex ''page''"
  "web_handler demo_pages ''/assets'' = WebRedirect ''assets/''" "web_index demo_pages = WebIndex ''page''"
  by code_simp+

lemma web_answers_witness:
  "web_handler demo_pages ''/assets'' = WebRedirect ''assets/'' \<and>
   web_handler demo_pages (resolve_redirect ''/assets'' ''assets/'') = WebIndex ''page''"
  using web_answers [of "''/assets''" demo_pages] demo_answers(3,4) by simp

end
