(* ===== verification/Commands.thy ===== *)
theory Commands
  imports Startup Watching Agent_Hub
begin

text \<open>
  The two commands: the agent's options and its exit status (cmd/agent/main.go), and the server from
  the moment it listens to its end (cmd/server/main.go), with the level of the log they set up
  (pkg/logx). What the signal and the listener do is a list of events.
\<close>

subsection \<open>Options (package flag)\<close>

text \<open>One argument as \<open>flag.Parse\<close> reads it.\<close>

datatype flag_arg = NoFlag | BadFlag | Flag string "string option"

definition read_flag :: "string \<Rightarrow> flag_arg" where
  "read_flag s =
     (if length s < 2 \<or> hd s \<noteq> CHR ''-'' \<or> s = ''--'' then NoFlag
      else let n = (if has_prefix s ''--'' then drop 2 s else drop 1 s) in
        if n = '''' \<or> hd n \<in> {CHR ''-'', CHR ''=''} then BadFlag
        else let (k, v) = (takeWhile (\<lambda>c. c \<noteq> CHR ''='') n, dropWhile (\<lambda>c. c \<noteq> CHR ''='') n) in
          Flag k (if v = '''' then None else Some (tl v)))"

text \<open>\<open>strconv.ParseBool\<close>.\<close>

definition ParseBool :: "string \<Rightarrow> bool option" where
  "ParseBool s = (if s \<in> {''1'', ''t'', ''T'', ''true'', ''TRUE'', ''True''} then Some True
     else if s \<in> {''0'', ''f'', ''F'', ''false'', ''FALSE'', ''False''} then Some False else None)"

datatype flags = Parsed "string \<Rightarrow> string option" | FlagError | FlagHelp

definition bool_text :: "bool \<Rightarrow> string" where
  "bool_text b = (if b then ''true'' else ''false'')"

text \<open>The options that were set, by name; \<open>K\<close> says which names there are and which are boolean.\<close>

fun parse_flags :: "(string \<Rightarrow> bool option) \<Rightarrow> string list \<Rightarrow> (string \<Rightarrow> string option) \<Rightarrow> flags" where
  "parse_flags K [] vs = Parsed vs"
| "parse_flags K (s # args) vs = (case read_flag s of
       NoFlag \<Rightarrow> Parsed vs
     | BadFlag \<Rightarrow> FlagError
     | Flag k v \<Rightarrow> (case K k of
           None \<Rightarrow> if k = ''help'' \<or> k = ''h'' then FlagHelp else FlagError
         | Some True \<Rightarrow> (case v of None \<Rightarrow> parse_flags K args (vs(k \<mapsto> ''true''))
             | Some x \<Rightarrow> (case ParseBool x of None \<Rightarrow> FlagError | Some b \<Rightarrow> parse_flags K args (vs(k \<mapsto> bool_text b))))
         | Some False \<Rightarrow> (case v of Some x \<Rightarrow> parse_flags K args (vs(k \<mapsto> x))
             | None \<Rightarrow> (case args of [] \<Rightarrow> FlagError | x # rest \<Rightarrow> parse_flags K rest (vs(k \<mapsto> x))))))"

subsection \<open>The agent (cmd/agent/main.go)\<close>

definition agent_flags :: "string \<Rightarrow> bool option" where
  "agent_flags = [''server'' \<mapsto> False, ''token'' \<mapsto> False, ''version'' \<mapsto> False, ''insecure'' \<mapsto> True]"

definition envOr :: "(string \<times> string) list \<Rightarrow> string \<Rightarrow> string \<Rightarrow> string" where
  "envOr env key def = (if env_of env key \<noteq> '''' then env_of env key else def)"

definition set_or :: "(string \<Rightarrow> string option) \<Rightarrow> string \<Rightarrow> string \<Rightarrow> string" where
  "set_or vs k def = (case vs k of None \<Rightarrow> def | Some x \<Rightarrow> x)"

text \<open>Up to the client that is run: an exit status, or its configuration.\<close>

definition agent_start :: "(string \<times> string) list \<Rightarrow> string list \<Rightarrow> int + client_config" where
  "agent_start env args = (case parse_flags agent_flags args (\<lambda>_. None) of
       FlagError \<Rightarrow> Inl 2
     | FlagHelp \<Rightarrow> Inl 0
     | Parsed vs \<Rightarrow>
         let server = set_or vs ''server'' (env_of env ''KUBEUI_SERVER_URL'');
             token = set_or vs ''token'' (env_of env ''KUBEUI_ENROLL_TOKEN'');
             e = env_of env ''KUBEUI_AGENT_INSECURE'' in
         if server = '''' \<or> token = '''' then Inl 2
         else Inr (NewClient \<lparr>cc_server = server, cc_token = token, cc_version = set_or vs ''version'' (envOr env ''KUBEUI_AGENT_VERSION'' ''dev''),
           cc_heartbeat = 0, cc_dial_timeout = 0,
           cc_insecure = (set_or vs ''insecure'' (bool_text (e = ''1'' \<or> e = ''true'')) = ''true'')\<rparr>))"

text \<open>A turn of \<open>Client.Run\<close> as the context sees it: cancelled before it, while its session lasts, or
  while it waits; \<open>tn_session\<close> is what \<open>runOnce\<close> returns.\<close>

record run_turn =
  tn_before :: bool
  tn_session :: "bool \<times> gerr option"
  tn_during :: bool
  tn_waiting :: bool

definition context_canceled :: gerr where
  "context_canceled = PlainErr ''context canceled''"

text \<open>\<open>Run\<close> with its returns: the delays it began to wait, and the error it returned, if it did.\<close>

fun client_Run :: "run_turn list \<Rightarrow> time \<Rightarrow> time list \<times> gerr option" where
  "client_Run [] backoff = ([], None)"
| "client_Run (t # ts) backoff =
     (if tn_before t then ([], Some context_canceled)
      else if snd (tn_session t) \<noteq> None \<and> tn_during t then ([], Some context_canceled)
      else let b = (if fst (tn_session t) then ReconnectBackoffStart else backoff) in
        if tn_waiting t then ([b], Some context_canceled)
        else let d = wrap64 (b * 2); (ds, r) = client_Run ts (if d > ReconnectBackoffMax then ReconnectBackoffMax else d)
          in (b # ds, r))"

text \<open>The exit status; \<open>None\<close> while the agent runs. The context is cancelled by a signal only.\<close>

definition agent_main :: "(string \<times> string) list \<Rightarrow> string list \<Rightarrow> run_turn list \<Rightarrow> int option" where
  "agent_main env args turns = (case agent_start env args of Inl code \<Rightarrow> Some code
     | Inr cfg \<Rightarrow> (let cancelled = (\<exists>t \<in> set turns. tn_before t \<or> tn_during t \<or> tn_waiting t) in
         case snd (client_Run turns ReconnectBackoffStart) of None \<Rightarrow> None
         | Some e \<Rightarrow> if \<not> cancelled then Some 1 else Some 0))"

subsection \<open>The log (pkg/logx)\<close>

datatype log_level = LevelDebug | LevelInfo | LevelWarn | LevelError

text \<open>The levels are ordered as their numbers in \<open>slog\<close>.\<close>

fun slog_level :: "log_level \<Rightarrow> int" where
  "slog_level LevelDebug = -4"
| "slog_level LevelInfo = 0"
| "slog_level LevelWarn = 4"
| "slog_level LevelError = 8"

instantiation log_level :: linorder
begin

definition less_eq_log_level :: "log_level \<Rightarrow> log_level \<Rightarrow> bool" where
  "less_eq_log_level a b \<longleftrightarrow> slog_level a \<le> slog_level b"

definition less_log_level :: "log_level \<Rightarrow> log_level \<Rightarrow> bool" where
  "less_log_level a b \<longleftrightarrow> slog_level a < slog_level b"

instance
proof
  fix a b :: log_level
  show "a \<le> b \<Longrightarrow> b \<le> a \<Longrightarrow> a = b" by (cases a; cases b) (simp_all add: less_eq_log_level_def)
qed (auto simp: less_eq_log_level_def less_log_level_def)

end

definition logx_level :: "string \<Rightarrow> log_level" where
  "logx_level level = (let l = to_lower level in
     if l = ''debug'' then LevelDebug else if l = ''warn'' then LevelWarn else if l = ''error'' then LevelError else LevelInfo)"

text \<open>\<open>Init\<close>: the level and whether lines are text; otherwise they are JSON.\<close>

definition logx_Init :: "string \<Rightarrow> string \<Rightarrow> log_level \<times> bool" where
  "logx_Init level format = (logx_level level, to_lower format = ''text'')"

text \<open>\<open>Debug\<close>, \<open>Info\<close>, \<open>Warn\<close> and \<open>Error\<close>: a line is written if its level is enabled.\<close>

definition logx_write :: "log_level \<times> bool \<Rightarrow> log_level \<Rightarrow> 'l \<Rightarrow> 'l list \<Rightarrow> 'l list" where
  "logx_write handler level line written = (if fst handler \<le> level then written @ [line] else written)"

subsection \<open>The server's end (cmd/server/main.go)\<close>

text \<open>What can happen once the server listens.\<close>

datatype server_event = ListenFails gerr | Terminated

definition tls_enabled :: "platform_config \<Rightarrow> bool" where
  "tls_enabled c \<longleftrightarrow> tc_cert_file (sv_tls (cf_server c)) \<noteq> '''' \<and> tc_key_file (sv_tls (cf_server c)) \<noteq> ''''"

text \<open>The \<open>select\<close>: an error to return, or the signal; \<open>None\<close> while neither has come. The error of the TLS
  listener is logged and not sent to the channel.\<close>

fun await_end :: "platform_config \<Rightarrow> server_event list \<Rightarrow> (gerr + unit) option" where
  "await_end c [] = None"
| "await_end c (Terminated # es) = Some (Inr ())"
| "await_end c (ListenFails e # es) = (if tls_enabled c then await_end c es else Some (Inl (WrapErr ''listen and serve'' e)))"

text \<open>The parts that are stopped, over one system of clusters: that of the watch hub.\<close>

record server_parts =
  pa_watch :: whub
  pa_agents :: hub

definition shutdown_parts :: "int \<Rightarrow> server_parts \<Rightarrow> server_parts" where
  "shutdown_parts listener p =
     (let w = watch_Stop listener (pa_watch p);
          h = snd (hub_Close (pa_agents p));
          s = snd (manager_Close (wh_sys w)) in
      \<lparr>pa_watch = w\<lparr>wh_sys := s\<rparr>, pa_agents = h\<lparr>hb_sys := s\<rparr>\<rparr>)"

text \<open>\<open>run\<close> from there on; \<open>graceful\<close> is what \<open>http.Server.Shutdown\<close> returns.\<close>

definition run_end :: "platform_config \<Rightarrow> server_event list \<Rightarrow> gerr option \<Rightarrow> int \<Rightarrow> server_parts \<Rightarrow> ((gerr + unit) \<times> server_parts) option" where
  "run_end c events graceful listener p = (case await_end c events of
       None \<Rightarrow> None
     | Some (Inl e) \<Rightarrow> Some (Inl e, p)
     | Some (Inr _) \<Rightarrow> (case graceful of Some e \<Rightarrow> Some (Inl (WrapErr ''graceful shutdown'' e), p)
         | None \<Rightarrow> Some (Inr (), shutdown_parts listener p)))"

subsection \<open>What the log keeps\<close>

text \<open>No configuration silences errors, a line that is written stays written at every more verbose
  configuration, and a level that is not one of the four names is \<open>info\<close>.\<close>

lemma log_levels:
  "logx_write (logx_Init level format) LevelError x xs = xs @ [x]"
  "fst h' \<le> fst h \<Longrightarrow> logx_write h l x xs = xs @ [x] \<Longrightarrow> logx_write h' l x xs = xs @ [x]"
  "to_lower level \<notin> {''debug'', ''warn'', ''error''} \<Longrightarrow> logx_write (logx_Init level format) l x xs = (if l = LevelDebug then xs else xs @ [x])"
  by (auto simp: logx_write_def logx_Init_def logx_level_def Let_def less_eq_log_level_def split: if_splits)
    (cases l; simp)+

subsection \<open>What the agent's options mean\<close>

text \<open>The command runs exactly with a server and a token, and an option counts more than the environment.\<close>

lemma agent_needs_server_and_token:
  "agent_start env args = Inr cfg \<Longrightarrow> cc_server cfg \<noteq> '''' \<and> cc_token cfg \<noteq> '''' \<and> 0 < cc_heartbeat cfg \<and> 0 < cc_dial_timeout cfg"
  by (auto simp: agent_start_def Let_def NewClient_def DefaultHeartbeatInterval_def seconds_def split: flags.splits if_splits)

lemma read_name: "k \<noteq> '''' \<Longrightarrow> CHR ''='' \<notin> set k \<Longrightarrow> hd k \<noteq> CHR ''-'' \<Longrightarrow> read_flag (''-'' @ k) = Flag k None"
proof -
  assume k: "k \<noteq> ''''" "CHR ''='' \<notin> set k" "hd k \<noteq> CHR ''-''"
  obtain a r where a: "k = a # r" using k(1) by (cases k) auto
  have "takeWhile (\<lambda>c. c \<noteq> CHR ''='') k = k" "dropWhile (\<lambda>c. c \<noteq> CHR ''='') k = []"
    using k(2) by (auto simp: takeWhile_eq_all_conv dropWhile_eq_Nil_conv)
  then show ?thesis using k a by (auto simp: read_flag_def)
qed

theorem options_over_environment:
  assumes "server \<noteq> ''''" and "token \<noteq> ''''"
  shows "\<exists>cfg. agent_start env [''-server'', server, ''-token'', token] = Inr cfg \<and> cc_server cfg = server \<and> cc_token cfg = token"
proof -
  have r: "read_flag ''-server'' = Flag ''server'' None" "read_flag ''-token'' = Flag ''token'' None" by code_simp+
  have "parse_flags agent_flags [''-server'', server, ''-token'', token] (\<lambda>_. None) =
      Parsed [''server'' \<mapsto> server, ''token'' \<mapsto> token]"
    by (simp add: r agent_flags_def)
  then show ?thesis using assms by (simp add: agent_start_def set_or_def Let_def NewClient_def)
qed

text \<open>Waiting delays are those of \<open>Run\<close>, and the loop returns only because of its context: the agent that
  has started ends with status 0, whatever its sessions ended with.\<close>

lemma client_Run_delays:
  "\<forall>t \<in> set ts. \<not> tn_before t \<and> \<not> tn_during t \<and> \<not> tn_waiting t \<Longrightarrow>
     client_Run ts b = (Run (map (\<lambda>t. fst (tn_session t)) ts) b, None)"
  by (induction ts arbitrary: b) (auto simp: Let_def)

lemma client_Run_returns: "snd (client_Run ts b) = Some e \<Longrightarrow> e = context_canceled \<and> (\<exists>t \<in> set ts. tn_before t \<or> tn_during t \<or> tn_waiting t)"
proof (induction ts arbitrary: b)
  case (Cons t ts)
  then show ?case by (auto simp: Let_def case_prod_beta split: if_splits)
qed simp

theorem agent_exit_status:
  "agent_main env args turns = Some code \<Longrightarrow> code \<in> {0, 2} \<and> (code = 2 \<longrightarrow> agent_start env args = Inl 2)"
  using client_Run_returns [of turns ReconnectBackoffStart]
  by (fastforce simp: agent_main_def agent_start_def Let_def split: sum.splits option.splits flags.splits if_splits)

subsection \<open>What the end of the server leaves\<close>

text \<open>With a certificate, a listener that cannot start does not end the server: it waits for a signal
  without serving anybody.\<close>

theorem tls_failure_unnoticed:
  assumes "tls_enabled c" and "Terminated \<notin> set es"
  shows "await_end c es = None"
  using assms(2)
proof (induction es)
  case (Cons e es)
  then show ?case using assms(1) by (cases e) auto
qed simp

lemma listen_failure_ends: "\<not> tls_enabled c \<Longrightarrow> await_end c (ListenFails e # es) = Some (Inl (WrapErr ''listen and serve'' e))"
  by simp

text \<open>When requests do not end in time nothing else is stopped.\<close>

lemma slow_requests_skip_shutdown:
  "await_end c es = Some (Inr ()) \<Longrightarrow> run_end c es (Some e) listener p = Some (Inl (WrapErr ''graceful shutdown'' e), p)"
  by (simp add: run_end_def)

lemma unregister_all:
  "no_leak s \<Longrightarrow> wp (mapM manager_Unregister ns) (\<lambda>_ s'. no_leak s' \<and> s_next_inst s' = s_next_inst s \<and>
     live s' = (\<lambda>n. if n \<in> set ns then None else live s n)) (\<lambda>_ _. False) s"
proof (induction ns arbitrary: s)
  case (Cons n ns)
  have "wp (manager_Unregister n) (\<lambda>_ s'. no_leak s' \<and> s_next_inst s' = s_next_inst s \<and> live s' = (live s)(n := None)) (\<lambda>_ _. False) s"
    using wp_manager_Unregister by (rule wp_mono) (use Cons.prems in \<open>auto intro: no_leak_drop\<close>)
  then show ?case unfolding mapM.simps wp_and_then wp_ok
  proof (rule wp_mono, elim conjE)
    fix x s1 assume s1: "no_leak s1" "s_next_inst s1 = s_next_inst s" "live s1 = (live s)(n := None)"
    show "wp (mapM manager_Unregister ns) (\<lambda>_ s'. no_leak s' \<and> s_next_inst s' = s_next_inst s \<and>
        live s' = (\<lambda>m. if m \<in> set (n # ns) then None else live s m)) (\<lambda>_ _. False) s1"
      using Cons.IH [OF s1(1)] by (rule wp_mono) (auto simp: s1 fun_eq_iff)
  qed simp
qed (simp add: wp_rules)

lemma wp_manager_Close:
  assumes "no_leak s"
  shows "wp manager_Close (\<lambda>_ s'. live s' = (\<lambda>_. None) \<and> set (s_stopped s') = {..<s_next_inst s}) (\<lambda>_ _. False) s"
proof -
  have d: "(\<lambda>n. if n \<in> set (map fst (s_runtimes s)) then None else live s n) = (\<lambda>_. None)"
    by (auto simp: fun_eq_iff live_def map_of_eq_None_iff)
  show ?thesis unfolding manager_Close_def wp_and_then wp_state wp_ok
    using unregister_all [OF assms, of "map fst (s_runtimes s)", unfolded d]
    by (rule wp_mono) (auto simp: d no_leak_def ran_def)
qed

lemma wp_close_all:
  "wp (mapM ws_close ss) (\<lambda>_ h'. set ss \<subseteq> set (hb_down h') \<and> set (hb_down h) \<subseteq> set (hb_down h') \<and> hb_sessions h' = hb_sessions h) (\<lambda>_ _. False) h"
proof (induction ss arbitrary: h)
  case (Cons x ss)
  show ?case unfolding mapM.simps wp_and_then wp_ok ws_close_def wp_state
    by (rule wp_mono [OF Cons.IH [unfolded ws_close_def]]) auto
qed (simp add: wp_rules)

text \<open>An orderly end leaves nothing running: every runtime ever started is stopped, no subscription is
  left and its followers are cancelled, and no agent has a session or an open socket.\<close>

theorem shutdown_complete:
  assumes "no_leak (wh_sys (pa_watch p))" and "await_end c es = Some (Inr ())"
  shows "\<exists>p'. run_end c es None listener p = Some (Inr (), p') \<and>
    live (wh_sys (pa_watch p')) = (\<lambda>_. None) \<and> set (s_stopped (wh_sys (pa_watch p'))) = {..<s_next_inst (wh_sys (pa_watch p))} \<and>
    wh_stopped (pa_watch p') \<and> wh_subs (pa_watch p') = [] \<and>
    (\<forall>(k, st) \<in> set (wh_subs (pa_watch p)). set_option (ss_stop st) \<subseteq> set (wh_cancelled (pa_watch p'))) \<and>
    hb_sessions (pa_agents p') = [] \<and> (\<forall>(n, a) \<in> set (hb_sessions (pa_agents p)). as_ws a \<in> set (hb_down (pa_agents p')))"
proof -
  let ?w = "watch_Stop listener (pa_watch p)"
  have nl: "no_leak (wh_sys ?w)" "s_next_inst (wh_sys ?w) = s_next_inst (wh_sys (pa_watch p))"
    using assms(1) by (simp_all add: watch_Stop_def Let_def no_leak_def live_def [abs_def])
  have m: "live (snd (manager_Close (wh_sys ?w))) = (\<lambda>_. None) \<and> set (s_stopped (snd (manager_Close (wh_sys ?w)))) = {..<s_next_inst (wh_sys ?w)}"
    using wp_manager_Close [OF nl(1)] by (auto simp: wp_def split: prod.splits sum.splits)
  have "wp hub_Close (\<lambda>_ h. hb_sessions h = [] \<and> (\<forall>(n, a) \<in> set (hb_sessions (pa_agents p)). as_ws a \<in> set (hb_down h))) (\<lambda>_ _. False) (pa_agents p)"
    unfolding hub_Close_def wp_and_then wp_state wp_ok by (rule wp_mono [OF wp_close_all]) (auto simp: image_subset_iff)
  then have h: "hb_sessions (snd (hub_Close (pa_agents p))) = [] \<and>
      (\<forall>(n, a) \<in> set (hb_sessions (pa_agents p)). as_ws a \<in> set (hb_down (snd (hub_Close (pa_agents p)))))"
    by (auto simp: wp_def split: prod.splits sum.splits)
  have f: "set_option (ss_stop st) \<subseteq> set (wh_cancelled ?w)" if "(k, st) \<in> set (wh_subs (pa_watch p))" for k st
    using that by (auto simp: watch_Stop_def Let_def List.map_filter_def intro!: rev_image_eqI [of "(k, st)"])
  have "wh_stopped ?w" "wh_subs ?w = []" by (simp_all add: watch_Stop_def Let_def)
  then show ?thesis
    using m h nl(2) f by (auto simp: run_end_def assms(2) shutdown_parts_def Let_def)
qed

end
