(* ===== verification/Watch_Steps.thy ===== *)
theory Watch_Steps
  imports Watch_Runs
begin

text \<open>
  The watch hub under interleaving: the operations of its connections in the sections that the
  hub's lock and the pools' locks divide them into, run in any order. The hub's two tables agree
  whatever the order; the handlers in the pools do not follow, as the last examples show.
\<close>

subsection \<open>The sections (service/watchhub.go)\<close>

text \<open>\<open>Subscribe\<close> up to the point where the hub's lock is released, with what is still to be done: the
  first subscriber of a key starts its watch in the pool of the runtime it looked up.\<close>

definition subscribe_first :: "encoders \<Rightarrow> (string \<Rightarrow> discovery) \<Rightarrow> nat \<Rightarrow> subscribe_payload \<Rightarrow> (gvr \<times> nat) option wact" where
  "subscribe_first J D c p =
     and_then (guard (sp_resource p \<in> set watchResources) (New ParamInvalid (''unsupported resource '' @ sp_resource p))) (\<lambda>_.
     and_then (guard (sp_cluster p \<noteq> '''') (New ParamInvalid ''cluster is required'')) (\<lambda>_.
     if sp_resource p = ''clusters'' then
       and_then (modify (\<lambda>w. w\<lparr>wh_cluster_subs := al_put c (sp_cluster p) (wh_cluster_subs w)\<rparr>)) (\<lambda>_.
       and_then (pushClusterSnapshot J c (sp_cluster p)) (\<lambda>_. ok None))
     else if sp_resource p = ''audit'' then
       and_then (modify (\<lambda>w. addConnSub c (key_of p) (w\<lparr>wh_audit_subs := (if c \<in> set (wh_audit_subs w) then wh_audit_subs w
         else c # wh_audit_subs w)\<rparr>))) (\<lambda>_. ok None)
     else and_then (watch_runtime (sp_cluster p)) (\<lambda>rt.
       if sp_resource p = ''podlogs'' then
         and_then (guard (sp_name p \<noteq> '''') (New ParamInvalid ''podlogs subscription requires name'')) (\<lambda>_.
         and_then (subscribePodLogs c (key_of p)) (\<lambda>_. ok None))
       else and_then (from_sum (case ResolveResource (D (sp_cluster p)) (sp_cluster p) (sp_resource p) of
           Inl e \<Rightarrow> Inl (WithCause (New ParamInvalid (''unsupported resource '' @ sp_resource p)) e) | Inr r \<Rightarrow> Inr r)) (\<lambda>ref.
         and_then (subscribe_add c p (rf_gvr ref)) (\<lambda>first. ok (if first then Some (rf_gvr ref, kr_inst rt) else None))))))"

definition subscribe_rest :: "time \<Rightarrow> nat \<Rightarrow> subscribe_payload \<Rightarrow> (gvr \<times> nat) option \<Rightarrow> unit wact" where
  "subscribe_rest t c p r = (case r of None \<Rightarrow> ok ()
     | Some (g, i) \<Rightarrow> on_result (subscribe_watch t i (key_of p) g)
         (\<lambda>e. and_then (modify (subscribe_rollback c (key_of p))) (\<lambda>_.
            err (WithCause (New UpstreamK8sError ''start watch failed'') e))) ok)"

text \<open>\<open>Unsubscribe\<close> and \<open>RemoveConn\<close> under the lock, with the keys whose watches are to be released.\<close>

definition unsubscribe_first :: "nat \<Rightarrow> sub_key \<Rightarrow> whub \<Rightarrow> whub \<times> sub_key list" where
  "unsubscribe_first c k w =
     (let w1 = (if sk_resource k = ''clusters'' then w\<lparr>wh_cluster_subs := al_del c (wh_cluster_subs w)\<rparr> else w);
          w2 = (if sk_resource k = ''audit'' then w1\<lparr>wh_audit_subs := filter (\<lambda>d. d \<noteq> c) (wh_audit_subs w1)\<rparr> else w1);
          (w3, last) = leave c k (removeConnSub c k w2) in
      (w3, if last \<and> sk_resource k \<noteq> ''podlogs'' then [k] else []))"

definition remove_first :: "nat \<Rightarrow> whub \<Rightarrow> whub \<times> sub_key list" where
  "remove_first c w = leave_all c (conn_keys w c) (w\<lparr>wh_conns := al_del c (wh_conns w),
     wh_cluster_subs := al_del c (wh_cluster_subs w), wh_audit_subs := filter (\<lambda>d. d \<noteq> c) (wh_audit_subs w)\<rparr>)"

text \<open>One after the other the sections are the operations.\<close>

lemma and_then_assoc: "and_then (and_then m f) g = and_then m (\<lambda>x. and_then (f x) g)"
  by (auto simp: and_then_def on_result_def err_def fun_eq_iff split: prod.splits sum.splits)

lemma and_then_unit_laws: "and_then (ok x) f = f x" "and_then m ok = m"
  by (auto simp: and_then_def on_result_def ok_def err_def fun_eq_iff split: prod.splits sum.splits)

lemma and_then_unit: "and_then m (\<lambda>_. ok ()) = m"
  by (auto simp: and_then_def on_result_def ok_def err_def fun_eq_iff split: prod.splits sum.splits)

lemma and_then_if: "and_then (if b then m else n) f = (if b then and_then m f else and_then n f)"
  by simp

lemma Subscribe_sections:
  "Subscribe J D t c p = and_then (subscribe_first J D c p) (subscribe_rest t c p)"
proof -
  have r: "subscribe_rest t c p (if first then Some (g, i) else None) = (if \<not> first then ok ()
         else on_result (subscribe_watch t i (key_of p) g)
           (\<lambda>e. and_then (modify (subscribe_rollback c (key_of p))) (\<lambda>_.
             err (WithCause (New UpstreamK8sError ''start watch failed'') e))) ok)" "subscribe_rest t c p None = ok ()" for first g i
    by (simp_all add: subscribe_rest_def)
  show ?thesis
    unfolding Subscribe_def subscribe_first_def and_then_assoc and_then_if and_then_unit_laws r and_then_unit ..
qed

lemma Unsubscribe_sections:
  "Unsubscribe_watch D t c k w = (case unsubscribe_first c k w of (w', ks) \<Rightarrow> fold (unwatch D t) ks w')"
proof -
  define w1 where "w1 = (if sk_resource k = ''clusters'' then w\<lparr>wh_cluster_subs := al_del c (wh_cluster_subs w)\<rparr> else w)"
  define w2 where "w2 = (if sk_resource k = ''audit'' then w1\<lparr>wh_audit_subs := filter (\<lambda>d. d \<noteq> c) (wh_audit_subs w1)\<rparr> else w1)"
  obtain w3 b where w3: "leave c k (removeConnSub c k w2) = (w3, b)" by fastforce
  show ?thesis
    unfolding Unsubscribe_watch_def unsubscribe_first_def Let_def w1_def [symmetric] w2_def [symmetric] w3 by simp
qed

lemma RemoveConn_sections: "RemoveConn D t c w = (case remove_first c w of (w', ks) \<Rightarrow> fold (unwatch D t) ks w')"
  by (simp add: RemoveConn_def remove_first_def Let_def split: prod.split)

subsection \<open>Interleaving\<close>

text \<open>What a connection's reader has still to do. One frame is worked off before the next is read, so a
  connection has one such task at most; the followers of pod logs unsubscribe on their own.\<close>

datatype task = TWatch subscribe_payload gvr nat | TRollback sub_key | TUnwatch "sub_key list"

type_synonym tasks = "nat \<Rightarrow> task option"

definition task_of :: "subscribe_payload \<Rightarrow> (gvr \<times> nat) option \<Rightarrow> task option" where
  "task_of p r = (case r of None \<Rightarrow> None | Some (g, i) \<Rightarrow> Some (TWatch p g i))"

text \<open>\<open>st_other\<close> is everything that leaves the tables alone: events and frames, informers that are
  started and reclaimed, clusters that come, go and are replaced. \<open>Stop\<close> is not a step.\<close>

inductive watch_steps :: "encoders \<Rightarrow> (string \<Rightarrow> discovery) \<Rightarrow> whub \<Rightarrow> whub \<Rightarrow> tasks \<Rightarrow> bool" for J D w0 where
  st_start: "watch_steps J D w0 w0 (\<lambda>_. None)"
| st_subscribe: "watch_steps J D w0 w P \<Longrightarrow> P c = None \<Longrightarrow> subscribe_first J D c p w = (Inr r, w') \<Longrightarrow>
    watch_steps J D w0 w' (P(c := task_of p r))"
| st_refused: "watch_steps J D w0 w P \<Longrightarrow> P c = None \<Longrightarrow> subscribe_first J D c p w = (Inl e, w') \<Longrightarrow> watch_steps J D w0 w' P"
| st_watched: "watch_steps J D w0 w P \<Longrightarrow> P c = Some (TWatch p g i) \<Longrightarrow> subscribe_watch t i (key_of p) g w = (Inr u, w') \<Longrightarrow>
    watch_steps J D w0 w' (P(c := None))"
| st_failed: "watch_steps J D w0 w P \<Longrightarrow> P c = Some (TWatch p g i) \<Longrightarrow> subscribe_watch t i (key_of p) g w = (Inl e, w') \<Longrightarrow>
    watch_steps J D w0 w' (P(c \<mapsto> TRollback (key_of p)))"
| st_rollback: "watch_steps J D w0 w P \<Longrightarrow> P c = Some (TRollback k) \<Longrightarrow> watch_steps J D w0 (subscribe_rollback c k w) (P(c := None))"
| st_leave: "watch_steps J D w0 w P \<Longrightarrow> P c = None \<Longrightarrow> unsubscribe_first c k w = (w', ks) \<Longrightarrow>
    watch_steps J D w0 w' (P(c \<mapsto> TUnwatch ks))"
| st_remove: "watch_steps J D w0 w P \<Longrightarrow> P c = None \<Longrightarrow> remove_first c w = (w', ks) \<Longrightarrow>
    watch_steps J D w0 w' (P(c \<mapsto> TUnwatch ks))"
| st_unwatch: "watch_steps J D w0 w P \<Longrightarrow> P c = Some (TUnwatch (k # ks)) \<Longrightarrow>
    watch_steps J D w0 (unwatch D t k w) (P(c \<mapsto> TUnwatch ks))"
| st_idle: "watch_steps J D w0 w P \<Longrightarrow> P c = Some (TUnwatch []) \<Longrightarrow> watch_steps J D w0 w (P(c := None))"
| st_follow: "watch_steps J D w0 w P \<Longrightarrow> sk_resource k = ''podlogs'' \<Longrightarrow> unsubscribe_first c k w = (w', ks) \<Longrightarrow> watch_steps J D w0 w' P"
| st_other: "watch_steps J D w0 w P \<Longrightarrow> same_tables w w' \<Longrightarrow> watch_steps J D w0 w' P"

subsection \<open>What the sections do to the tables\<close>

lemma unsubscribe_first_spec:
  assumes "watch_ok w"
  shows "watch_ok (fst (unsubscribe_first c k w))" and "subscribed (fst (unsubscribe_first c k w)) = subscribed w - {(c, k)}"
proof -
  obtain w' ks where u: "unsubscribe_first c k w = (w', ks)" by fastforce
  fix D t
  have "same_tables w' (fold (unwatch D t) ks w')" by simp
  moreover have "Unsubscribe_watch D t c k w = fold (unwatch D t) ks w'" by (simp add: Unsubscribe_sections u)
  ultimately show "watch_ok (fst (unsubscribe_first c k w))" "subscribed (fst (unsubscribe_first c k w)) = subscribed w - {(c, k)}"
    using same_tables_ok [of w' "fold (unwatch D t) ks w'"] Unsubscribe_spec [OF assms, of D t c k] by (simp_all add: u)
qed

lemma remove_first_spec:
  assumes "watch_ok w"
  shows "watch_ok (fst (remove_first c w))" and "subscribed (fst (remove_first c w)) = {x \<in> subscribed w. fst x \<noteq> c}"
proof -
  obtain w' ks where u: "remove_first c w = (w', ks)" by fastforce
  fix D t
  have "same_tables w' (fold (unwatch D t) ks w')" by simp
  moreover have "RemoveConn D t c w = fold (unwatch D t) ks w'" by (simp add: RemoveConn_sections u)
  ultimately show "watch_ok (fst (remove_first c w))" "subscribed (fst (remove_first c w)) = {x \<in> subscribed w. fst x \<noteq> c}"
    using same_tables_ok [of w' "fold (unwatch D t) ks w'"] RemoveConn_spec [OF assms, of D t c] by (simp_all add: u)
qed

lemma rollback_spec:
  assumes "watch_ok w"
  shows "watch_ok (subscribe_rollback c k w)" and "subscribed (subscribe_rollback c k w) = subscribed w - {(c, k)}"
proof -
  note r = removed_ok [OF assms, of c k]
  show s: "subscribed (subscribe_rollback c k w) = subscribed w - {(c, k)}"
    using drop_conn_spec(2) [OF r(1)] r(2) by (simp add: subscribe_rollback_def)
  show "watch_ok (subscribe_rollback c k w)"
    by (rule leaves_ok [OF assms _ _ s]) (simp_all add: subscribe_rollback_def drop_conn_spec(1) [OF r(1)])
qed

lemma same_core_tables: "same_core w w' \<Longrightarrow> same_tables w w'"
  by (simp add: same_core_def same_tables_def)

text \<open>A subscription to one of the two global streams adds no pair.\<close>

definition added :: "nat \<Rightarrow> subscribe_payload \<Rightarrow> whub \<Rightarrow> (gvr \<times> nat) option \<Rightarrow> whub \<Rightarrow> bool" where
  "added c p w r w' \<longleftrightarrow> watch_ok w' \<and>
     subscribed w' = (if sp_resource p \<in> {''clusters'', ''audit''} then subscribed w else insert (c, key_of p) (subscribed w)) \<and>
     (r \<noteq> None \<longrightarrow> sp_resource p \<notin> {''clusters'', ''audit'', ''podlogs''})"

lemma added_audit:
  assumes "watch_ok w" and "sp_resource p = ''audit''"
  shows "added c p w None (addConnSub c (key_of p) (w\<lparr>wh_audit_subs := x\<rparr>))"
proof -
  let ?w = "addConnSub c (key_of p) (w\<lparr>wh_audit_subs := x\<rparr>)"
  have a: "sk_resource (key_of p) = ''audit''" using assms(2) by (simp add: key_of_def)
  have s: "subscribed ?w = subscribed w" "subs_ok ?w = subs_ok w" by (simp_all add: subscribed_def subs_ok_def)
  have "conn_keys (w\<lparr>wh_audit_subs := x\<rparr>) d = conn_keys w d" for d by (simp add: conn_keys_def)
  then show ?thesis using assms a by (auto simp: added_def watch_ok_def tables_agree_def s conn_keys_add)
qed

lemma added_clusters:
  assumes "watch_ok w" and "sp_resource p = ''clusters''"
  shows "wp (pushClusterSnapshot J c cl) (\<lambda>_. added c p w None) (\<lambda>_ w'. subscribed w' = subscribed w \<and> watch_ok w')
    (w\<lparr>wh_cluster_subs := x\<rparr>)"
proof -
  have a: "added c p w None w' \<and> subscribed w' = subscribed w \<and> watch_ok w'" if "same_core w w'" for w'
    using same_tables_ok [OF same_core_tables [OF that]] assms by (simp add: added_def)
  have "wp (pushClusterSnapshot J c cl) (\<lambda>_. same_core w) (\<lambda>_. same_core w) (w\<lparr>wh_cluster_subs := x\<rparr>)"
    using snapshot_core same_core_simps(3) by (simp add: preserves_wp)
  then show ?thesis by (rule wp_mono) (use a in blast)+
qed

lemma added_podlogs:
  assumes "watch_ok w" and "sp_resource p = ''podlogs''"
  shows "wp (subscribePodLogs c (key_of p)) (\<lambda>_. added c p w None) (\<lambda>_ w'. w' = w) w"
proof (cases "map_of (wh_subs w) (key_of p)")
  case (Some st)
  then show ?thesis by (simp add: wp_def subscribePodLogs_def)
next
  case None
  let ?v = "w\<lparr>wh_follows := Suc (wh_follows w)\<rparr>"
  have v: "same_tables w ?v" by (simp add: same_tables_def)
  have ok: "watch_ok ?v" "subscribed ?v = subscribed w" using same_tables_ok [OF v] assms(1) by simp_all
  have e: "conns_of ?v (key_of p) = {}" using None by (simp add: conns_of_def)
  have "sk_resource (key_of p) \<noteq> ''audit''" using assms(2) by (simp add: key_of_def)
  then show ?thesis
    using joins_ok [OF ok(1), of "key_of p" c "\<lparr>ss_conns = [(c, \<lparr>sp_cluster = '''', sp_namespace = '''', sp_resource = '''', sp_name = '''', sp_container = ''''\<rparr>)],
        ss_gvr = None, ss_stop = Some (wh_follows w)\<rparr>"] e ok(2) assms(2) None
    by (simp add: wp_def subscribePodLogs_def added_def)
qed

lemma subscribe_first_spec:
  assumes I: "watch_ok w"
  shows "wp (subscribe_first J D c p) (\<lambda>r. added c p w r) (\<lambda>_ w'. subscribed w' = subscribed w \<and> watch_ok w') w"
proof -
  have same: "w' = w \<Longrightarrow> subscribed w' = subscribed w \<and> watch_ok w'" for w' using I by simp
  have rt: "wp (watch_runtime cl) (\<lambda>_ w'. w' = w) (\<lambda>_ w'. w' = w) w" for cl
    by (auto simp: watch_runtime_def manager_Get_def wp_rules split: option.split)
  have add: "wp (subscribe_add c p g) (\<lambda>first w'. added c p w (if first then Some (g, i) else None) w') (\<lambda>_ _. False) w"
    if "sp_resource p \<notin> {''clusters'', ''audit'', ''podlogs''}" for g i
    by (rule wp_mono [OF subscribe_add_spec [OF I]]) (use that in \<open>auto simp: added_def\<close>)
  let ?E = "\<lambda>_ :: gerr. \<lambda>w'. subscribed w' = subscribed w \<and> watch_ok w'"
  let ?rest = "\<lambda>rt. if sp_resource p = ''podlogs'' then
         and_then (guard (sp_name p \<noteq> '''') (New ParamInvalid ''podlogs subscription requires name'')) (\<lambda>_.
         and_then (subscribePodLogs c (key_of p)) (\<lambda>_. ok None))
       else and_then (from_sum (case ResolveResource (D (sp_cluster p)) (sp_cluster p) (sp_resource p) of
           Inl e \<Rightarrow> Inl (WithCause (New ParamInvalid (''unsupported resource '' @ sp_resource p)) e) | Inr r \<Rightarrow> Inr r)) (\<lambda>ref.
         and_then (subscribe_add c p (rf_gvr ref)) (\<lambda>first. ok (if first then Some (rf_gvr ref, kr_inst rt) else None)))"
  have rest: "wp (?rest rt) (added c p w) ?E w" if "sp_resource p \<notin> {''clusters'', ''audit''}" for rt
  proof (cases "sp_resource p = ''podlogs''")
    case True
    have "wp (subscribePodLogs c (key_of p)) (\<lambda>_. added c p w None) ?E w"
      by (rule wp_mono [OF added_podlogs [OF I True]]) (assumption | erule same)+
    then show ?thesis unfolding if_P [OF True] wp_and_then wp_guard wp_ok using I by simp
  next
    case False
    show ?thesis
    proof (cases "ResolveResource (D (sp_cluster p)) (sp_cluster p) (sp_resource p)")
      case (Inl e)
      then show ?thesis using False I by (simp add: wp_and_then wp_from_sum)
    next
      case (Inr ref)
      have r: "sp_resource p \<notin> {''clusters'', ''audit'', ''podlogs''}" using that False by simp
      show ?thesis unfolding if_not_P [OF False] Inr sum.case wp_and_then wp_from_sum wp_ok
        by (rule wp_mono [OF add [OF r]]) simp_all
    qed
  qed
  have get: "wp (and_then (watch_runtime (sp_cluster p)) ?rest) (added c p w) ?E w" if "sp_resource p \<notin> {''clusters'', ''audit''}"
    unfolding wp_and_then [of "watch_runtime _"]
  proof (rule wp_mono [OF rt])
    fix x w' assume "w' = w"
    then show "wp (?rest x) (added c p w) ?E w'" using rest [OF that, of x] by (simp only:)
  qed (rule same)
  let ?body = "if sp_resource p = ''clusters'' then
       and_then (modify (\<lambda>w. w\<lparr>wh_cluster_subs := al_put c (sp_cluster p) (wh_cluster_subs w)\<rparr>)) (\<lambda>_.
       and_then (pushClusterSnapshot J c (sp_cluster p)) (\<lambda>_. ok None))
     else if sp_resource p = ''audit'' then
       and_then (modify (\<lambda>w. addConnSub c (key_of p) (w\<lparr>wh_audit_subs := (if c \<in> set (wh_audit_subs w) then wh_audit_subs w
         else c # wh_audit_subs w)\<rparr>))) (\<lambda>_. ok None)
     else and_then (watch_runtime (sp_cluster p)) ?rest"
  have body: "wp ?body (added c p w) ?E w"
  proof (cases "sp_resource p = ''clusters''")
    case True
    show ?thesis unfolding if_P [OF True] wp_and_then wp_state wp_ok by (rule added_clusters [OF I True])
  next
    case not_clusters: False
    show ?thesis
    proof (cases "sp_resource p = ''audit''")
      case True
      show ?thesis unfolding if_not_P [OF not_clusters] if_P [OF True] wp_and_then wp_state wp_ok by (rule added_audit [OF I True])
    next
      case False
      show ?thesis unfolding if_not_P [OF not_clusters] if_not_P [OF False] by (rule get) (use not_clusters False in simp)
    qed
  qed
  show ?thesis unfolding subscribe_first_def wp_and_then [of "guard _ _"] wp_guard
    using I body by simp
qed


subsection \<open>The tables agree whatever the order\<close>

text \<open>The invariant: the tables agree, and whoever has a watch to start, or to take back, is subscribed;
  so the state that the code rolls back is still the one of the key.\<close>

definition owes_ok :: "whub \<Rightarrow> tasks \<Rightarrow> bool" where
  "owes_ok w P \<longleftrightarrow>
     (\<forall>c p g i. P c = Some (TWatch p g i) \<longrightarrow> (c, key_of p) \<in> subscribed w \<and> sp_resource p \<notin> {''clusters'', ''audit'', ''podlogs''}) \<and>
     (\<forall>c k. P c = Some (TRollback k) \<longrightarrow> (c, k) \<in> subscribed w \<and> sk_resource k \<noteq> ''podlogs'')"

lemma watch_result: "subscribe_watch t i k g w = (r, w') \<Longrightarrow> same_tables w w'"
  by (auto simp: subscribe_watch_def split: prod.splits)

lemma steps_inv: "watch_steps J D w0 w P \<Longrightarrow> watch_ok w0 \<Longrightarrow> watch_ok w \<and> owes_ok w P"
proof (induction rule: watch_steps.induct)
  case st_start
  then show ?case by (simp add: owes_ok_def)
next
  case (st_subscribe w P c p r w')
  then have a: "added c p w r w'" using wp_InrD [OF subscribe_first_spec] by blast
  have o: "owes_ok w P" using st_subscribe by simp
  have mono: "(d, k) \<in> subscribed w \<Longrightarrow> (d, k) \<in> subscribed w'" for d k using a by (simp add: added_def)
  have new: "T = Some (TWatch q g i) \<Longrightarrow> T = task_of p r \<Longrightarrow> q = p \<and> r \<noteq> None" "task_of p r \<noteq> Some (TRollback k)" for T q g i k
    by (auto simp: task_of_def split: option.splits)
  have "owes_ok w' (P(c := task_of p r))"
    using o a mono new unfolding owes_ok_def added_def by (auto split: if_splits)
  then show ?case using a by (simp add: added_def fun_upd_def)
next
  case (st_refused w P c p e w')
  then have "subscribed w' = subscribed w \<and> watch_ok w'" using wp_InlD [OF subscribe_first_spec] by blast
  then show ?case using st_refused by (simp add: owes_ok_def)
next
  case (st_watched w P c p g i t u w')
  then show ?case using same_tables_ok [OF watch_result [OF st_watched.hyps(3)]] by (auto simp: owes_ok_def)
next
  case (st_failed w P c p g i t e w')
  have k: "sk_resource (key_of p) = sp_resource p" by (simp add: key_of_def)
  have o: "owes_ok w P" and "watch_ok w" using st_failed by simp_all
  then have "sk_resource (key_of p) \<noteq> ''podlogs''" using st_failed.hyps(2) unfolding owes_ok_def k by blast
  then show ?case using st_failed.hyps o \<open>watch_ok w\<close> same_tables_ok [OF watch_result [OF st_failed.hyps(3)]]
    unfolding owes_ok_def by auto
next
  case (st_rollback w P c k)
  then show ?case using rollback_spec [of w c k] by (auto simp: owes_ok_def)
next
  case (st_leave w P c k w' ks)
  then show ?case using unsubscribe_first_spec [of w c k] by (auto simp: owes_ok_def)
next
  case (st_remove w P c w' ks)
  then show ?case using remove_first_spec [of w c] by (auto simp: owes_ok_def)
next
  case (st_unwatch w P c k ks t)
  then show ?case using same_tables_ok [OF same_tables_simps(4) [of w D t k]] by (auto simp: owes_ok_def)
next
  case (st_idle w P c)
  then show ?case by (auto simp: owes_ok_def)
next
  case (st_follow w P k c w' ks)
  have "sk_resource (key_of p) = sp_resource p" for p by (simp add: key_of_def)
  then show ?case using st_follow unsubscribe_first_spec [of w c k] by (fastforce simp: owes_ok_def)
next
  case (st_other w P w')
  then show ?case using same_tables_ok [OF st_other.hyps(2)] by (simp add: owes_ok_def)
qed

text \<open>C30: the tables of the hub agree under any interleaving. However the sections of subscribing,
  unsubscribing and disconnecting connections, of ending log followers and of everything else are
  interleaved, the table of keys and the tables of connections say the same; the first section of
  a subscription adds its pair or, refused, nothing; leaving and going take exactly their pairs at
  once; and a watch that cannot be started takes back exactly the pair of its connection.\<close>

theorem watch_tables_interleaved:
  assumes "watch_steps J D (NewWatchHub s) w P"
  shows "tables_agree w \<and>
    (case subscribe_first J D c p w of
       (Inr _, w') \<Rightarrow> subscribed w' = (if sp_resource p \<in> {''clusters'', ''audit''} then subscribed w else insert (c, key_of p) (subscribed w))
     | (Inl _, w') \<Rightarrow> subscribed w' = subscribed w) \<and>
    subscribed (fst (unsubscribe_first c k w)) = subscribed w - {(c, k)} \<and>
    subscribed (fst (remove_first c w)) = {x \<in> subscribed w. fst x \<noteq> c} \<and>
    (P c = Some (TRollback j) \<longrightarrow> (c, j) \<in> subscribed w \<and> subscribed (subscribe_rollback c j w) = subscribed w - {(c, j)})"
proof -
  have "watch_ok (NewWatchHub s)"
    by (simp add: watch_ok_def subs_ok_def tables_agree_def subscribed_def conn_keys_def NewWatchHub_def)
  from steps_inv [OF assms this] have I: "watch_ok w" and O: "owes_ok w P" by simp_all
  have "case subscribe_first J D c p w of
       (Inr _, w') \<Rightarrow> subscribed w' = (if sp_resource p \<in> {''clusters'', ''audit''} then subscribed w else insert (c, key_of p) (subscribed w))
     | (Inl _, w') \<Rightarrow> subscribed w' = subscribed w"
    using subscribe_first_spec [OF I, of J D c p] by (auto simp: wp_def added_def split: prod.splits sum.splits)
  moreover have "tables_agree w" using I by (simp add: watch_ok_def)
  moreover have "P c = Some (TRollback j) \<longrightarrow> (c, j) \<in> subscribed w" using O by (simp add: owes_ok_def)
  ultimately show ?thesis
    using unsubscribe_first_spec(2) [OF I] remove_first_spec(2) [OF I] rollback_spec(2) [OF I] by blast
qed

subsection \<open>The handlers do not follow\<close>

text \<open>Two connections on one key. The first leaves; before it has released the watch the second
  subscribes and, being the first of a new state, starts the watch under the same id; then the
  first releases it. The second is subscribed and has no handler: it never gets an event.\<close>

definition pods_key :: sub_key where
  "pods_key = key_of (demo_payload ''pods'' '''')"

definition race0 :: whub where "race0 = watch_open 2 (watch_open 1 (NewWatchHub east_sys))"
definition race1 :: whub where "race1 = snd (subscribe_first demo_encoders no_discovery 1 (demo_payload ''pods'' '''') race0)"
definition race2 :: whub where "race2 = snd (subscribe_watch 7 0 pods_key pods_gvr race1)"
definition race3 :: whub where "race3 = fst (unsubscribe_first 1 pods_key race2)"
definition race4 :: whub where "race4 = snd (subscribe_first demo_encoders no_discovery 2 (demo_payload ''pods'' '''') race3)"
definition race5 :: whub where "race5 = snd (subscribe_watch 8 0 pods_key pods_gvr race4)"
definition overtaken :: whub where "overtaken = unwatch no_discovery 9 pods_key race5"

lemma race_results:
  "fst (subscribe_first demo_encoders no_discovery 1 (demo_payload ''pods'' '''') race0) = Inr (Some (pods_gvr, 0))"
  "fst (subscribe_watch 7 0 pods_key pods_gvr race1) = Inr ()"
  "snd (unsubscribe_first 1 pods_key race2) = [pods_key]"
  "fst (subscribe_first demo_encoders no_discovery 2 (demo_payload ''pods'' '''') race3) = Inr (Some (pods_gvr, 0))"
  "fst (subscribe_watch 8 0 pods_key pods_gvr race4) = Inr ()"
  by code_simp+

lemma race_steps:
  "subscribe_first demo_encoders no_discovery 1 (demo_payload ''pods'' '''') race0 = (Inr (Some (pods_gvr, 0)), race1)"
  "subscribe_watch 7 0 (key_of (demo_payload ''pods'' '''')) pods_gvr race1 = (Inr (), race2)"
  "unsubscribe_first 1 pods_key race2 = (race3, [pods_key])"
  "subscribe_first demo_encoders no_discovery 2 (demo_payload ''pods'' '''') race3 = (Inr (Some (pods_gvr, 0)), race4)"
  "subscribe_watch 8 0 (key_of (demo_payload ''pods'' '''')) pods_gvr race4 = (Inr (), race5)"
  using race_results unfolding race2_def race3_def race4_def race5_def race1_def pods_key_def [symmetric]
  by (metis prod.collapse)+

lemma overtaken_reached: "watch_steps demo_encoders no_discovery (NewWatchHub east_sys) overtaken (\<lambda>_. None)"
proof -
  let ?S = "watch_steps demo_encoders no_discovery (NewWatchHub east_sys)" and ?p = "demo_payload ''pods'' ''''"
  have "?S race0 (\<lambda>_. None)"
    by (rule st_other [OF st_start]) (simp add: race0_def watch_open_def same_tables_def)
  from st_subscribe [OF this _ race_steps(1)] have "?S race1 [1 \<mapsto> TWatch ?p pods_gvr 0]" by (simp add: task_of_def)
  from st_watched [OF this _ race_steps(2), of 1] have "?S race2 (\<lambda>_. None)" by simp
  from st_leave [OF this _ race_steps(3)] have "?S race3 [1 \<mapsto> TUnwatch [pods_key]]" by simp
  from st_subscribe [OF this _ race_steps(4)] have "?S race4 [1 \<mapsto> TUnwatch [pods_key], 2 \<mapsto> TWatch ?p pods_gvr 0]"
    by (simp add: task_of_def)
  from st_watched [OF this _ race_steps(5), of 2] have "?S race5 [1 \<mapsto> TUnwatch [pods_key]]" by (simp add: fun_upd_idem)
  from st_unwatch [OF this, of 1 pods_key "[]" 9] have "?S overtaken [1 \<mapsto> TUnwatch []]" by (simp add: overtaken_def)
  from st_idle [OF this, of 1] show ?thesis by simp
qed

lemma overtaken_silent:
  "(2, pods_key) \<in> subscribed overtaken" "dispatch (pods_gvr, ''default'') (pool_of overtaken 0) = []"
  "dispatch (pods_gvr, ''default'') (pool_of race2 0) = [pods_key]"
proof -
  have "map_option (map fst \<circ> ss_conns) (map_of (wh_subs overtaken) pods_key) = Some [2]" by code_simp
  then show "(2, pods_key) \<in> subscribed overtaken" by (auto simp: subscribed_def)
  show "dispatch (pods_gvr, ''default'') (pool_of overtaken 0) = []" "dispatch (pods_gvr, ''default'') (pool_of race2 0) = [pods_key]"
    by code_simp+
qed

theorem unsubscribe_overtakes_subscribe:
  "\<exists>w. watch_steps demo_encoders no_discovery (NewWatchHub east_sys) w (\<lambda>_. None) \<and> (2, pods_key) \<in> subscribed w \<and>
     dispatch (pods_gvr, ''default'') (pool_of w 0) = []"
  using overtaken_reached overtaken_silent by blast

lemma watch_tables_interleaved_witness:
  "tables_agree overtaken \<and> (2, pods_key) \<in> subscribed overtaken \<and>
   subscribed (fst (remove_first 2 overtaken)) = {x \<in> subscribed overtaken. fst x \<noteq> 2}"
  using watch_tables_interleaved [OF overtaken_reached] overtaken_silent(1) by blast

end
