(* ===== verification/Credential_Life.thy ===== *)
theory Credential_Life
  imports Proxy
begin

text \<open>
  The life of a client credential across its components: \<open>KubeconfigService\<close> issues, lists, cleans up
  and revokes it, the rest of the server runs meanwhile, and the reverse proxy is asked with it.
  The property that puts them together is in the root theory.
\<close>

subsection \<open>What happens to a credential\<close>

definition revokes :: "int \<Rightarrow> kube_op \<Rightarrow> bool" where
  "revokes i op = (case op of KRevoke j _ _ \<Rightarrow> j = i | _ \<Rightarrow> False)"

text \<open>A later issue draws another secret, and one with another hash.\<close>

definition draws_other :: "libs \<Rightarrow> string \<Rightarrow> kube_op \<Rightarrow> bool" where
  "draws_other l token op = (case op of
       KIssue r1 _ _ _ _ _ \<Rightarrow> (\<forall>raw. newAgentSecret r1 = Inr raw \<longrightarrow> hashToken l raw \<noteq> hashToken l token)
     | _ \<Rightarrow> True)"

text \<open>From a state on: operations of the service with any outcome, and anything else that leaves the table
  of credentials alone, such as disabling or deleting their users, while time passes. The flag says
  whether the credential was revoked on the way.\<close>

inductive kube_life :: "libs \<Rightarrow> kube_service \<Rightarrow> string \<Rightarrow> int \<Rightarrow> 'o astate \<Rightarrow> bool \<Rightarrow> 'o astate \<Rightarrow> bool"
  for l ks token i s0 where
  life_start: "kube_life l ks token i s0 False s0"
| life_kube: "kube_life l ks token i s0 rv s \<Longrightarrow> draws_other l token op \<Longrightarrow> on_kube (run_kube l ks op) s = (r, s') \<Longrightarrow>
    kube_life l ks token i s0 (rv \<or> revokes i op \<and> is_ok r) s'"
| life_other: "kube_life l ks token i s0 rv s \<Longrightarrow> db_issued (database_of s') = db_issued (database_of s) \<Longrightarrow>
    w_now (s_world (rs_sys (as_res s))) \<le> w_now (s_world (rs_sys (as_res s'))) \<Longrightarrow> kube_life l ks token i s0 rv s'"

text \<open>What the table has of it: a live credential is there until it expires; a revoked one never
  verifies again.\<close>

record credential =
  cr_hash :: string
  cr_id :: int
  cr_user :: int
  cr_cluster :: string
  cr_expires :: time

definition cred_table :: "credential \<Rightarrow> bool \<Rightarrow> issued_kubeconfig tbl \<Rightarrow> time \<Rightarrow> bool" where
  "cred_table c rv t n \<longleftrightarrow>
     (\<forall>r \<in> set (trows t). ik_token_hash r = cr_hash c \<longrightarrow> ik_id r = cr_id c \<and> ik_user_id r = cr_user c \<and>
        ik_cluster r = cr_cluster c \<and> ik_expires r = cr_expires c \<and> ik_revoked r = rv) \<and>
     (\<not> rv \<longrightarrow> n \<le> cr_expires c \<longrightarrow> (\<exists>r \<in> set (trows t). ik_token_hash r = cr_hash c))"

definition cred_state :: "credential \<Rightarrow> bool \<Rightarrow> world \<Rightarrow> bool" where
  "cred_state c rv w \<longleftrightarrow> cred_table c rv (db_issued (w_db w)) (w_now w)"

lemma cred_table_later: "cred_table c rv t n \<Longrightarrow> n \<le> m \<Longrightarrow> cred_table c rv t m"
  by (simp add: cred_table_def)

lemma cred_table_cleaned: "cred_table c rv t n \<Longrightarrow> cred_table c rv (tbl_delete (\<lambda>k. ik_expires k < n) t) n"
  by (fastforce simp: cred_table_def tbl_delete_def)

lemma cred_table_inserted:
  assumes "tbl_insert (\<lambda>i. ik_id_update (\<lambda>_. i)) issued_uniq k t = Some (k', t')" and "cred_table c rv t n"
    and "ik_token_hash k \<noteq> cr_hash c"
  shows "cred_table c rv t' n"
  using assms(2,3) issued.insert_SomeD(1,3) [OF assms(1)] by (auto simp: cred_table_def)

lemma cred_table_revoked:
  assumes "cred_table c rv t n"
  shows "cred_table c (rv \<or> i = cr_id c) (tbl_update (\<lambda>k. ik_id k = i) (ik_revoked_update (\<lambda>_. True)) t) n"
  using assms by (fastforce simp: cred_table_def tbl_update_def)

lemma wp_kube_cred:
  assumes "cred_state c rv (kw_world s)" and "draws_other l token op" and "cr_hash c = hashToken l token"
  shows "wp (run_kube l ks op) (\<lambda>_ s'. cred_state c (rv \<or> revokes (cr_id c) op) (kw_world s') \<and> w_now (kw_world s') = w_now (kw_world s))
    (\<lambda>_ s'. cred_state c rv (kw_world s') \<and> w_now (kw_world s') = w_now (kw_world s)) s"
proof (cases op)
  case (KIssue r1 r2 u cl t d)
  let ?n = "w_now (kw_world s)"
  have I: "cred_table c rv (db_issued (w_db (kw_world s))) ?n" using assms(1) by (simp add: cred_state_def)
  note J = cred_table_cleaned [OF I]
  have h: "hashToken l raw \<noteq> cr_hash c" if "newAgentSecret r1 = Inr raw" for raw
    using assms(2,3) that by (simp add: KIssue draws_other_def)
  show ?thesis using I J
    by (auto simp: KIssue revokes_def Issue_def kube_cleanupExpired_def repo_GetClusterByName_def repo_CreateIssuedKubeconfig_def
        repo_DeleteExpiredIssuedKubeconfigs_def wp_rules cred_state_def h split: option.split sum.split
        intro: cred_table_inserted)
next
  case (KDownload code)
  then show ?thesis using assms(1)
    by (auto simp: Download_def wp_rules repo_GetIssuedKubeconfigByHash_def revokes_def cred_state_def split: option.split sum.split)
next
  case (KRevoke j q a)
  then show ?thesis using assms(1) cred_table_revoked [of c rv _ _ j]
    by (auto simp: Kube_Revoke_def wp_rules repo_GetIssuedKubeconfigByID_def repo_RevokeIssuedKubeconfig_def revokes_def
        cred_state_def split: option.split dest: tbl_first_SomeD)
qed

text \<open>The state of the server as the credential sees it.\<close>

abbreviation server_world :: "'o astate \<Rightarrow> world" where
  "server_world s \<equiv> s_world (rs_sys (as_res s))"

lemma life_cred:
  assumes "kube_life l ks token i s0 rv s" and "cred_state c False (server_world s0)" and "cr_id c = i" and "cr_hash c = hashToken l token"
  shows "cred_state c rv (server_world s)"
  using assms
proof (induction rule: kube_life.induct)
  case (life_kube rv s op r s')
  let ?k = "\<lparr>kw_world = server_world s, kw_codes = as_codes s\<rparr>"
  obtain r' k where "run_kube l ks op ?k = (r', k)" by fastforce
  then have k: "run_kube l ks op ?k = (r, k)" and s': "server_world s' = kw_world k"
    using life_kube.hyps(3) by (auto simp: on_kube_def)
  have "cred_state c rv (kw_world ?k)" using life_kube by simp
  from wp_kube_cred [OF this life_kube.hyps(2), where ks = ks] life_kube.prems k
  show ?case by (cases r) (auto simp: wp_def s' is_ok_def)
next
  case (life_other rv s s')
  then show ?case using cred_table_later by (simp add: cred_state_def database_of_def)
qed simp

text \<open>A new credential is in that state.\<close>

definition new_credential :: "libs \<Rightarrow> int \<Rightarrow> string \<Rightarrow> issued_created \<Rightarrow> credential" where
  "new_credential l uid cluster c = \<lparr>cr_hash = hashToken l (ic_token c), cr_id = iv_id c, cr_user = uid, cr_cluster = cluster,
     cr_expires = iv_expires c\<rparr>"

lemma issued_cred:
  assumes "issued_state l code uid cluster t c s"
  shows "cred_state (new_credential l uid cluster c) False (kw_world s)"
proof -
  let ?d = "w_db (kw_world s)"
  from assms obtain r where wf: "db_wf ?d" and r: "r \<in> set (trows (db_issued ?d))" "ik_token_hash r = hashToken l (ic_token c)"
      "ik_user_id r = uid" "ik_cluster r = cluster" "\<not> ik_revoked r" "ik_expires r = iv_expires c" "ik_id r = iv_id c"
    by (auto simp: issued_state_def)
  have "x = r" if "x \<in> set (trows (db_issued ?d))" "ik_token_hash x = hashToken l (ic_token c)" for x
    using issued_by_hash [OF wf that(1)] issued_by_hash [OF wf r(1)] that(2) r(2) by simp
  then have u: "ik_id x = iv_id c \<and> ik_user_id x = uid \<and> ik_cluster x = cluster \<and> ik_expires x = iv_expires c \<and> ik_revoked x = False"
    if "x \<in> set (trows (db_issued ?d))" "ik_token_hash x = hashToken l (ic_token c)" for x
    using that r(3-7) by blast
  show ?thesis unfolding cred_state_def cred_table_def new_credential_def credential.simps
    by (intro conjI ballI impI) (use r(1,2) u in blast)+
qed

subsection \<open>What the proxy makes of it\<close>

text \<open>Who is admitted with the token, in a working database.\<close>

lemma wp_admit_cred:
  assumes c: "cred_state c rv (server_world (ps_server p))" "cr_hash c = hashToken l token"
    and "w_faults (server_world (ps_server p)) = []" and "\<forall>i. \<not> proves l secret (proxy_now p) token i" and "token \<noteq> ''''"
  shows "wp (proxy_admit l secret cluster token) (\<lambda>r p'. same_basis p p' \<and>
      (if rv \<or> cr_expires c < proxy_now p then \<exists>b. r = Inl ('''', 401, b)
       else if cr_cluster c = cluster then \<exists>n. r = Inr n else \<exists>n b. r = Inl (n, 403, b))) (\<lambda>_ _. False) p"
proof -
  let ?w = "server_world (ps_server p)"
  let ?t = "db_issued (w_db ?w)"
  have jwt: "jwt_parse l (keyfunc secret) (w_now ?w) token \<noteq> Inr x" for x
    using assms(4,5) by (auto simp: proves_def proxy_now_def)
  show ?thesis
  proof (cases "tbl_first ik_id (\<lambda>k. ik_token_hash k = hashToken l token) ?t")
    case None
    then have "rv \<or> cr_expires c < w_now ?w"
      using c by (auto simp: cred_state_def cred_table_def tbl_first_None not_less)
    then show ?thesis using None jwt assms(3)
      by (auto simp: proxy_admit_def VerifyShortToken_def VerifyAccessToken_def repo_GetIssuedKubeconfigByHash_def
        on_store_def wp_rules same_basis_def issued_rows_def proxy_now_def database_of_def split: sum.splits)
  next
    case (Some r)
    then have "ik_cluster r = cr_cluster c" "ik_expires r = cr_expires c" "ik_revoked r = rv"
      using c by (auto simp: cred_state_def cred_table_def dest!: tbl_first_SomeD)
    then show ?thesis using Some jwt assms(3)
      by (auto simp: proxy_admit_def VerifyShortToken_def VerifyAccessToken_def UsernameByID_def repo_GetIssuedKubeconfigByHash_def
        repo_GetUserByID_def on_store_def wp_rules same_basis_def issued_rows_def proxy_now_def database_of_def
        split: option.splits sum.splits)
  qed
qed

text \<open>A cluster that can be reached: it has a runtime whose configuration has a host and makes a client.\<close>

definition usable :: "proxy_libs \<Rightarrow> 'o proxy_state \<Rightarrow> string \<Rightarrow> bool" where
  "usable L p cluster \<longleftrightarrow> (\<exists>rt target cl. map_of (s_runtimes (rs_sys (as_res (ps_server p)))) cluster = Some rt \<and>
     pl_url L (pc_host (pl_config L (pl_pointer L rt))) = Inr target \<and>
     buildProxyClient L (pl_config L (pl_pointer L rt)) (rc_dial (kr_config rt)) = Inr cl)"

text \<open>A request that is not admitted, and one that is.\<close>

lemma refused_by_proxy:
  assumes "bearerTokenOf req = Some token"
    and "wp (proxy_admit l secret (hr_param req ''cluster'') token)
       (\<lambda>r p'. same_basis p p' \<and> (\<exists>n b. r = Inl (n, status, b))) (\<lambda>_ _. False) p"
  shows "wp (k8sProxy l secret L reached req ident) (\<lambda>a p'. ps_forwarded p' = ps_forwarded p \<and> (\<exists>b. a = Some (status, b))) (\<lambda>_ _. False) p"
  unfolding k8sProxy_def Let_def assms(1) option.case wp_and_then [of "proxy_admit l secret _ token"]
proof (rule wp_mono [OF assms(2)], goal_cases)
  case (1 r t)
  then obtain n b where r: "r = Inl (n, status, b)" and t: "ps_forwarded t = ps_forwarded p" by (auto simp: same_basis_def)
  show ?case unfolding r sum.case prod.case wp_and_then wp_ok
    by (rule wp_mono [OF wp_proxyAudit]) (use t in simp_all)
qed simp

lemma passed_by_proxy:
  fixes p :: "'o proxy_state"
  assumes "bearerTokenOf req = Some token" and c: "cache_ok L p" and u: "usable L p (hr_param req ''cluster'')"
    and "wp (proxy_admit l secret (hr_param req ''cluster'') token) (\<lambda>r p'. same_basis p p' \<and> (\<exists>n. r = Inr n)) (\<lambda>_ _. False) p"
  shows "wp (k8sProxy l secret L reached req ident)
    (\<lambda>_ p'. \<exists>x. ps_forwarded p' = ps_forwarded p @ [x] \<and> properly_sent L p req x) (\<lambda>_ _. False) p"
  unfolding k8sProxy_def Let_def assms(1) option.case wp_and_then [of "proxy_admit l secret _ token"]
proof (rule wp_mono [OF assms(4)], goal_cases)
  case (1 r t)
  then obtain n where r: "r = Inr n" by blast
  from 1 have t: "ps_forwarded t = ps_forwarded p" "ps_clients t = ps_clients p"
    "s_runtimes (rs_sys (as_res (ps_server t))) = s_runtimes (rs_sys (as_res (ps_server p)))" by (auto simp: same_basis_def)
  from u obtain rt target cl where rt: "map_of (s_runtimes (rs_sys (as_res (ps_server p)))) (hr_param req ''cluster'') = Some rt"
      and target: "pl_url L (pc_host (pl_config L (pl_pointer L rt))) = Inr target"
      and cl: "buildProxyClient L (pl_config L (pl_pointer L rt)) (rc_dial (kr_config rt)) = Inr cl"
    by (auto simp: usable_def)
  have get: "wp (on_server (on_res (on_sys (manager_Get (hr_param req ''cluster''))))) (\<lambda>x v. x = rt \<and> v = t) (\<lambda>_ _. False) t"
    using rt t(3) by (simp add: wp_rules manager_Get_def)
  have client: "wp (clientFor L rt) (\<lambda>cl' v. ps_forwarded v = ps_forwarded p \<and>
      (\<exists>d. buildProxyClient L (pl_config L (pl_pointer L rt)) d = Inr cl')) (\<lambda>_ _. False) t"
    using c cl t(1,2) by (auto simp: wp_def clientFor_def cache_ok_def split: option.split)
  show ?case unfolding r sum.case wp_on_result [of "on_server _"]
  proof (rule wp_mono [OF get], goal_cases)
    case (1 x v)
    then have xv: "x = rt" "v = t" by simp_all
    show ?case unfolding xv target sum.case wp_on_result [of "clientFor L rt"]
    proof (rule wp_mono [OF client], goal_cases)
      case (1 cl' y)
      then obtain d where y: "ps_forwarded y = ps_forwarded p"
        and d: "buildProxyClient L (pl_config L (pl_pointer L rt)) d = Inr cl'" by blast
      show ?case unfolding wp_and_then [of "proxyAudit _ _ _ _ _"]
        by (rule wp_mono [OF wp_proxyAudit]) (use y sent_properly [OF rt target d] in \<open>auto simp: forward_request_def wp_rules\<close>)
    qed simp
  qed simp
qed simp

text \<open>The handler always answers, whatever its libraries and the database do.\<close>

lemma answers_on_result:
  assumes "\<And>e t. wp (f e) (\<lambda>_ _. True) (\<lambda>_ _. False) t" and "\<And>x t. wp (g x) (\<lambda>_ _. True) (\<lambda>_ _. False) t"
  shows "wp (on_result m f g) (\<lambda>_ _. True) (\<lambda>_ _. False) s"
proof -
  have "wp m (\<lambda>_ _. True) (\<lambda>_ _. True) s" by (simp add: wp_def split: prod.split sum.split)
  then show ?thesis unfolding wp_on_result by (rule wp_mono) (use assms in simp_all)
qed

lemma k8sProxy_answers: "wp (k8sProxy l secret L reached req ident) (\<lambda>_ _. True) (\<lambda>_ _. False) p"
proof -
  have a: "wp (and_then (proxyAudit r i n c x) k) (\<lambda>_ _. True) (\<lambda>_ _. False) t"
    if "\<And>t. wp (k ()) (\<lambda>_ _. True) (\<lambda>_ _. False) t" for r i n c x k t
    unfolding wp_and_then by (rule wp_mono [OF wp_proxyAudit]) (use that in simp_all)
  have o: "wp (ok y) (\<lambda>_ _. True) (\<lambda>_ _. False) t" for y t by (simp add: wp_ok)
  have f: "wp (and_then (forward_request cl q) (\<lambda>_. ok y)) (\<lambda>_ _. True) (\<lambda>_ _. False) t" for cl q y t
    by (simp add: forward_request_def wp_rules)
  have k: "wp (and_then (proxy_admit l secret c token) k) (\<lambda>_ _. True) (\<lambda>_ _. False) t"
    if "\<And>x t. wp (k x) (\<lambda>_ _. True) (\<lambda>_ _. False) t" for c token k t
    unfolding wp_and_then by (rule wp_mono [OF wp_proxy_admit]) (use that in simp_all)
  show ?thesis unfolding k8sProxy_def Let_def
    by (auto split: option.split sum.split prod.split intro!: a o f k answers_on_result)
qed

text \<open>Together: the answer depends on the life of the credential and on nothing else.\<close>

lemma credential_at_proxy:
  assumes "cred_state c rv (server_world (ps_server p))" and "cr_hash c = hashToken l token"
    and "w_faults (server_world (ps_server p)) = []" and "\<forall>i. \<not> proves l secret (proxy_now p) token i"
    and "cache_ok L p" and "bearerTokenOf req = Some token"
  shows "\<exists>a p'. k8sProxy l secret L reached req ident p = (Inr a, p') \<and>
    (if \<not> rv \<and> proxy_now p \<le> cr_expires c \<and> hr_param req ''cluster'' = cr_cluster c
     then usable L p (cr_cluster c) \<longrightarrow> (\<exists>x. ps_forwarded p' = ps_forwarded p @ [x] \<and> properly_sent L p req x)
     else ps_forwarded p' = ps_forwarded p \<and> (\<exists>b. a = Some (if \<not> rv \<and> proxy_now p \<le> cr_expires c then 403 else 401, b)))"
proof -
  let ?cl = "hr_param req ''cluster''" and ?live = "\<not> rv \<and> proxy_now p \<le> cr_expires c"
  have token: "token \<noteq> ''''" using assms(6) by (auto simp: bearerTokenOf_def split: option.splits if_splits)
  note adm = wp_admit_cred [OF assms(1-4) token, of ?cl]
  have run: "\<exists>a p'. k8sProxy l secret L reached req ident p = (Inr a, p') \<and> Q a p'"
    if "wp (k8sProxy l secret L reached req ident) Q (\<lambda>_ _. False) p" for Q
    using that by (auto simp: wp_def split: prod.splits sum.splits)
  show ?thesis
  proof (cases "?live \<and> ?cl = cr_cluster c")
    case False
    have "wp (proxy_admit l secret ?cl token) (\<lambda>r p'. same_basis p p' \<and> (\<exists>n b. r = Inl (n, if ?live then 403 else 401, b))) (\<lambda>_ _. False) p"
      using adm by (rule wp_mono) (use False in \<open>auto split: if_splits\<close>)
    from run [OF refused_by_proxy [OF assms(6) this]] show ?thesis using False by auto
  next
    case True
    have a: "wp (proxy_admit l secret ?cl token) (\<lambda>r p'. same_basis p p' \<and> (\<exists>n. r = Inr n)) (\<lambda>_ _. False) p"
      using adm by (rule wp_mono) (use True in \<open>auto split: if_splits\<close>)
    show ?thesis
    proof (cases "usable L p ?cl")
      case usable: True
      from run [OF passed_by_proxy [OF assms(6,5) usable a]] show ?thesis using True by auto
    next
      case False
      then show ?thesis using run [OF k8sProxy_answers] True by auto
    qed
  qed
qed

text \<open>A credential lasts at least a minute and at most a week.\<close>

lemma wp_Issue_expiry:
  "wp (Issue l ks r1 r2 uid cluster ttl d) (\<lambda>c _. iv_expires c \<le> w_now (kw_world s) + IssuedMaxTTL) (\<lambda>_ _. True) s"
proof -
  have t: "issue_ttl ttl = Inr x \<Longrightarrow> x \<le> IssuedMaxTTL" for x
    by (auto simp: issue_ttl_def issue_consts time_defs split: if_splits)
  show ?thesis
    by (auto simp: Issue_def kube_cleanupExpired_def repo_GetClusterByName_def repo_CreateIssuedKubeconfig_def
        repo_DeleteExpiredIssuedKubeconfigs_def wp_rules toIssuedView_def issued_view.defs
        issued_created.defs t split: option.split sum.split dest: issued.insert_SomeD(1))
qed

subsection \<open>The account behind a credential\<close>

text \<open>Disabling or deleting a user, and giving the user a new password, leave the user's credentials as
  they are: the proxy goes on admitting them.\<close>

definition same_issued :: "issued_kubeconfig tbl \<Rightarrow> time \<Rightarrow> world \<Rightarrow> bool" where
  "same_issued t n w \<longleftrightarrow> db_issued (w_db w) = t \<and> w_now w = n"

lemma accounts_keep_credentials:
  "preserves (same_issued t n) (DisableUser u b)" "preserves (same_issued t n) (DeleteUser o_name u)"
  "preserves (same_issued t n) (ResetPassword l salt rnd u)"
  unfolding preserves_wp
  by (auto simp: DisableUser_def DeleteUser_def ResetPassword_def RevokeAllForUser_def repo_GetUserByUsername_def repo_UpdateUser_def
      repo_RevokeAllForUser_def repo_DeleteUser_def HashPassword_def wp_rules same_issued_def split: option.split sum.split)

lemma disabled_user_keeps_credential:
  assumes "kube_life l ks token i s0 rv s" and "on_store (DisableUser u True) s = (r, s')"
  shows "kube_life l ks token i s0 rv s'"
proof (rule life_other [OF assms(1)])
  have "same_issued (db_issued (database_of s)) (w_now (server_world s)) (server_world s)"
    by (simp add: same_issued_def database_of_def)
  from accounts_keep_credentials(1) [of _ _ u True] this
  have "same_issued (db_issued (database_of s)) (w_now (server_world s)) (snd (DisableUser u True (server_world s)))"
    by (simp add: preserves_def)
  then show "db_issued (database_of s') = db_issued (database_of s)" "w_now (server_world s) \<le> w_now (server_world s')"
    using assms(2) by (auto simp: same_issued_def on_store_def on_res_def on_sys_def on_world_def database_of_def split: prod.splits)
qed

end
