(* ===== verification/Assembly.thy ===== *)
theory Assembly
  imports Commands Agent_Steps Watch_Runs
begin

text \<open>
  What the server puts behind the interfaces that the other theories leave open, and the whole of
  its command: the probes of a cluster (k8s/health.go, service/clusterreg.go), the construction of
  its clients (k8s/manager.go), and \<open>main\<close> with \<open>run\<close> around the start and the end
  (cmd/server/main.go). The answers of clusters and libraries are parameters.
\<close>

subsection \<open>The health probe (k8s/health.go)\<close>

text \<open>\<open>/readyz\<close> as the REST client reports it.\<close>

record http_answer =
  ha_error :: "gerr option"
  ha_code :: int

definition probeReady :: "http_answer \<Rightarrow> gerr + unit" where
  "probeReady a = (case ha_error a of Some e \<Rightarrow> Inl (WrapErr ''probe /readyz'' e)
     | None \<Rightarrow> if ha_code a < 200 \<or> ha_code a \<ge> 300
         then Inl (PlainErr (''probe /readyz: http status '' @ itoa (ha_code a))) else Inr ())"

text \<open>\<open>Manager.probe\<close>: an injected probe, or \<open>/readyz\<close> within the time of the options.\<close>

definition run_probe :: "options \<Rightarrow> (time \<Rightarrow> gerr + unit) option \<Rightarrow> (time \<Rightarrow> http_answer) \<Rightarrow> gerr + unit" where
  "run_probe opts injected ask = (case injected of Some f \<Rightarrow> f (op_probe_timeout opts)
     | None \<Rightarrow> probeReady (ask (op_probe_timeout opts)))"

definition health_turn :: "options \<Rightarrow> (time \<Rightarrow> gerr + unit) option \<Rightarrow> (time \<Rightarrow> http_answer) \<Rightarrow> string \<Rightarrow> unit sact" where
  "health_turn opts injected ask name = manager_probe opts StatusUpdater name (is_ok (run_probe opts injected ask))"

subsection \<open>The version probe (service/clusterreg.go)\<close>

record version_libs =
  vl_client :: "rest_config \<Rightarrow> gerr option"
  vl_get :: "rest_config \<Rightarrow> time \<Rightarrow> gerr + string"
  vl_decode :: "string \<Rightarrow> gerr + string"

definition probeTimeout :: time where "probeTimeout = 10 * seconds"

definition probeServerVersion :: "version_libs \<Rightarrow> rest_config \<Rightarrow> gerr + string" where
  "probeServerVersion V cfg = (case vl_client V cfg of Some e \<Rightarrow> Inl (WrapErr ''build clientset'' e)
     | None \<Rightarrow> (case vl_get V cfg probeTimeout of Inl e \<Rightarrow> Inl (WrapErr ''get server version'' e)
        | Inr body \<Rightarrow> (case vl_decode V body of Inl e \<Rightarrow> Inl (WrapErr ''decode server version'' e)
           | Inr version \<Rightarrow> Inr version)))"

subsection \<open>The clients of a runtime (k8s/manager.go)\<close>

record client_libs =
  cb_clientset :: "rest_config \<Rightarrow> gerr option"
  cb_dynamic :: "rest_config \<Rightarrow> gerr option"
  cb_discovery :: "rest_config \<Rightarrow> gerr option"

text \<open>The first error, in the order in which the clients are built.\<close>

definition defaultClients :: "client_libs \<Rightarrow> rest_config \<Rightarrow> gerr option" where
  "defaultClients B cfg = (case cb_clientset B cfg of Some e \<Rightarrow> Some (WrapErr ''build clientset'' e)
     | None \<Rightarrow> (case cb_dynamic B cfg of Some e \<Rightarrow> Some (WrapErr ''build dynamic client'' e)
        | None \<Rightarrow> map_option (WrapErr ''build discovery client'') (cb_discovery B cfg)))"

text \<open>The callbacks and parameters as \<open>run\<close> wires them; nothing is injected.\<close>

definition server_wiring :: "reg_service \<Rightarrow> client_libs \<Rightarrow> version_libs \<Rightarrow> wiring" where
  "server_wiring rs B V = \<lparr>wi_service = rs, wi_options = default_options \<lparr>op_interval = 0, op_probe_timeout = 0, op_backoff_start = 0\<rparr>,
     wi_new_clients = defaultClients B, wi_probe = probeServerVersion V\<rparr>"

subsection \<open>The command (cmd/server/main.go)\<close>

text \<open>What surrounds the process: its libraries, the old tables, and what the requests that are served
  make of the hubs before it ends.\<close>

record 'k host =
  ho_config :: "'k koanf"
  ho_env :: "(string \<times> string) list"
  ho_rnd1 :: "string option"
  ho_rnd2 :: "string option"
  ho_store :: store_libs
  ho_libs :: libs
  ho_salt :: string
  ho_wiring :: wiring
  ho_drops :: "bool \<times> bool"
  ho_legacy :: legacy_tables
  ho_served :: "wiring \<Rightarrow> server_parts \<Rightarrow> server_parts"
  ho_listener :: int

definition server_run :: "'k host \<Rightarrow> platform_config \<Rightarrow> server_event list \<Rightarrow> gerr option \<Rightarrow> sys \<Rightarrow> ((gerr + unit) \<times> sys) option" where
  "server_run H c events graceful s =
     (case server_start (ho_store H) (ho_libs H) (ho_salt H) (ho_wiring H) c (fst (ho_drops H)) (snd (ho_drops H)) (ho_legacy H) s of
        (Inl e, s1) \<Rightarrow> Some (Inl e, s1)
      | (Inr v, s1) \<Rightarrow>
          let w = NewWatchHub s1;
              p = ho_served H v \<lparr>pa_watch = w, pa_agents = fresh_hub (wh_sys w)\<rparr> in
          map_option (\<lambda>(r, q). (r, wh_sys (pa_watch q))) (run_end c events graceful (ho_listener H) p))"

definition server_flags :: "string \<Rightarrow> bool option" where
  "server_flags = [''config'' \<mapsto> False]"

text \<open>The exit status; \<open>None\<close> while the server runs.\<close>

definition server_main :: "'k host \<Rightarrow> string list \<Rightarrow> server_event list \<Rightarrow> gerr option \<Rightarrow> sys \<Rightarrow> int option" where
  "server_main H args events graceful s = (case parse_flags server_flags args (\<lambda>_. None) of
       FlagError \<Rightarrow> Some 2
     | FlagHelp \<Rightarrow> Some 0
     | Parsed vs \<Rightarrow> (case Load (ho_config H) (ho_env H) (ho_rnd1 H) (ho_rnd2 H) (set_or vs ''config'' '''') of
           Inl e \<Rightarrow> Some 1
         | Inr c \<Rightarrow> map_option (\<lambda>(r, _). if is_ok r then 0 else 1) (server_run H c events graceful s)))"


subsection \<open>What the probes decide\<close>

definition answers :: "http_answer \<Rightarrow> bool" where
  "answers a \<longleftrightarrow> ha_error a = None \<and> 200 \<le> ha_code a \<and> ha_code a < 300"

lemma probeReady_ok: "is_ok (probeReady a) \<longleftrightarrow> answers a"
  by (auto simp: probeReady_def is_ok_def answers_def split: option.splits)

lemma health_step_status:
  "st_status (h_cell (fst (health_step opts b t h))) =
     (if b then ''ready'' else if wrap64 (h_fail h + 1) \<ge> reconnectThreshold then ''reconnecting''
      else if wrap64 (h_fail h + 1) \<ge> degradedThreshold then ''degraded'' else st_status (h_cell h))"
  by (auto simp: health_step_def setStatus_def Let_def)

text \<open>One answer of \<open>/readyz\<close> in the 2xx range makes a cluster ready at once, whatever it was; any other answer
  and every failure counts towards the two thresholds. The runtime stays the same one.\<close>

theorem readyz_decides:
  assumes "map_of (s_runtimes s) n = Some rt"
  shows "wp (health_turn opts None ask n)
    (\<lambda>_ s'. \<exists>rt'. map_of (s_runtimes s') n = Some rt' \<and> kr_inst rt' = kr_inst rt \<and>
       st_status (h_cell (kr_health rt')) =
         (if answers (ask (op_probe_timeout opts)) then ''ready''
          else if wrap64 (h_fail (kr_health rt) + 1) \<ge> reconnectThreshold then ''reconnecting''
          else if wrap64 (h_fail (kr_health rt) + 1) \<ge> degradedThreshold then ''degraded''
          else st_status (h_cell (kr_health rt)))) (\<lambda>_ _. False) s"
proof -
  let ?b = "answers (ask (op_probe_timeout opts))"
  obtain h u where hu: "health_step opts ?b (w_now (s_world s)) (kr_health rt) = (h, u)" by fastforce
  then have st: "st_status (h_cell h) = (if ?b then ''ready''
          else if wrap64 (h_fail (kr_health rt) + 1) \<ge> reconnectThreshold then ''reconnecting''
          else if wrap64 (h_fail (kr_health rt) + 1) \<ge> degradedThreshold then ''degraded''
          else st_status (h_cell (kr_health rt)))"
    using health_step_status [of opts ?b "w_now (s_world s)" "kr_health rt"] by simp
  let ?s = "s_runtimes_update (al_put n (rt\<lparr>kr_health := h\<rparr>)) s"
  have "wp (notify StatusUpdater ch) (\<lambda>_ s'. s_runtimes s' = s_runtimes ?s) (\<lambda>_ _. False) ?s" for ch
    unfolding notify_def wp_rules by (rule wp_mono [OF wp_StatusUpdater]) (simp_all add: same_runtimes_def)
  then have "wp (notify StatusUpdater ch) (\<lambda>_ s'. \<exists>rt'. map_of (s_runtimes s') n = Some rt' \<and> kr_inst rt' = kr_inst rt \<and>
      st_status (h_cell (kr_health rt')) = st_status (h_cell h)) (\<lambda>_ _. False) ?s" for ch
    by (rule wp_mono) simp_all
  then show ?thesis using assms hu
    unfolding st [symmetric] by (simp add: health_turn_def run_probe_def probeReady_ok manager_probe_def wp_rules Let_def)
qed

text \<open>A cluster that was registered for direct access has answered: its clients were built and
  \<open>/version\<close> was read with the configuration of the kubeconfig.\<close>

theorem direct_registration_reached:
  assumes "sys_wf s" and "mode_of req = ''direct''"
    and "Register rs (hook_registered (server_wiring rs B V)) (probeServerVersion V) rnd req s = (Inr info, s')"
  shows "\<exists>cfg body version. parseAndValidate (rg_libs rs) (rq_kubeconfig req) (rq_context req) = Inr cfg \<and>
    vl_client V cfg = None \<and> vl_get V cfg probeTimeout = Inr body \<and> vl_decode V body = Inr version \<and>
    (let c = applyDialer cfg (map_of (s_dialers s) (rq_name req)) in
       cb_clientset B c = None \<and> cb_dynamic B c = None \<and> cb_discovery B c = None)"
proof -
  from wp_InrD [OF manager_hook.Register_spec [OF assms(1)] assms(3) [unfolded hook_registered_def]]
  obtain cfg sealed where a: "admissible rs (probeServerVersion V) rnd req cfg sealed"
    and b: "startable (wi_new_clients (server_wiring rs B V)) s (rq_name req) cfg" by blast
  have "defaultClients B (applyDialer cfg (map_of (s_dialers s) (rq_name req))) = None"
    using b by (simp add: startable_def server_wiring_def)
  then show ?thesis using a assms(2)
    by (auto simp: admissible_def probeServerVersion_def defaultClients_def Let_def split: option.splits sum.splits)
qed

subsection \<open>What a server that serves has\<close>

text \<open>The command ends with status 0 on a request for help, and otherwise only if the configuration was
  read, the start succeeded, and a signal ended it with all requests done.\<close>

theorem server_exits_zero:
  "server_main H args events graceful s = Some 0 \<longleftrightarrow>
     parse_flags server_flags args (\<lambda>_. None) = FlagHelp \<or>
     (\<exists>vs c v s1. parse_flags server_flags args (\<lambda>_. None) = Parsed vs \<and>
        Load (ho_config H) (ho_env H) (ho_rnd1 H) (ho_rnd2 H) (set_or vs ''config'' '''') = Inr c \<and>
        server_start (ho_store H) (ho_libs H) (ho_salt H) (ho_wiring H) c (fst (ho_drops H)) (snd (ho_drops H)) (ho_legacy H) s = (Inr v, s1) \<and>
        await_end c events = Some (Inr ()) \<and> graceful = None)"
  by (auto simp: server_main_def server_run_def run_end_def Let_def is_ok_def
      split: flags.splits sum.splits option.splits prod.splits if_splits)
    (metis (full_types) old.unit.exhaust sum.exhaust)+

definition has_admin :: "database \<Rightarrow> bool" where
  "has_admin d \<longleftrightarrow> (\<exists>u \<in> set (trows (db_users d)). u_username u = ''admin'')"

definition has_role :: "string \<Rightarrow> database \<Rightarrow> bool" where
  "has_role n d \<longleftrightarrow> n \<in> ro_name ` set (trows (db_roles d))"

lemma wp_seed_role:
  assumes "ro_name r \<noteq> ''''"
  shows "wp (seed_role r) (\<lambda>_ w'. has_role (ro_name r) (w_db w') \<and> (\<forall>n. has_role n (w_db w) \<longrightarrow> has_role n (w_db w'))) (\<lambda>_ _. True) w"
proof -
  have f: "tbl_first ro_id (\<lambda>x. nz_str (ro_name r) (ro_name x)) (db_roles (w_db w)) = Some x \<Longrightarrow> has_role (ro_name r) (w_db w)" for x
    using assms by (auto simp: has_role_def nz_str_def image_iff dest!: tbl_first_SomeD intro: sym)
  have u: "has_role n (db_roles_update (tbl_update p (\<lambda>y. y\<lparr>ro_permissions := q, ro_updated := t\<rparr>)) d) = has_role n d" for n p q t d
  proof -
    have "ro_name \<circ> (\<lambda>y. if p y then y\<lparr>ro_permissions := q, ro_updated := t\<rparr> else y) = ro_name" by auto
    then have "map ro_name (trows (tbl_update p (\<lambda>y. y\<lparr>ro_permissions := q, ro_updated := t\<rparr>) (db_roles d))) = map ro_name (trows (db_roles d))"
      by (simp only: trows_update map_map)
    then show ?thesis unfolding has_role_def by (simp flip: set_map del: trows_update)
  qed
  show ?thesis
    by (auto simp: seed_role_def wp_rules u f split: option.splits)
      (auto simp: has_role_def tbl_insert_def Let_def split: if_splits)
qed

lemma wp_seed_roles:
  assumes "\<forall>r \<in> set rs. ro_name r \<noteq> ''''"
  shows "wp (mapM seed_role rs) (\<lambda>_ w'. (\<forall>r \<in> set rs. has_role (ro_name r) (w_db w')) \<and>
    (\<forall>n. has_role n (w_db w) \<longrightarrow> has_role n (w_db w'))) (\<lambda>_ _. True) w"
  using assms
proof (induction rs arbitrary: w)
  case (Cons r rs)
  then have "ro_name r \<noteq> ''''" by simp
  then show ?case unfolding mapM.simps wp_rules
  proof (rule wp_mono [OF wp_seed_role], goal_cases)
    case (1 x w1)
    show ?case by (rule wp_mono [OF Cons.IH]) (use 1 Cons.prems in auto)
  qed simp
qed (simp add: wp_rules)

lemma seeded_names: "ro_name ` set BuiltinRoleSeeds = {RoleAdmin, RoleOperator, RoleViewer}"
  by (simp add: BuiltinRoleSeeds_def)

lemma wp_ensureDefaultAdmin:
  "wp (ensureDefaultAdmin l salt) (\<lambda>_ w'. has_admin (w_db w') \<and> db_roles (w_db w') = db_roles (w_db w)) (\<lambda>_ _. True) w"
  by (auto simp: ensureDefaultAdmin_def repo_GetUserByUsername_def repo_CreateUser_def HashPassword_def wp_rules has_admin_def
      tbl_insert_def Let_def split: option.splits sum.splits if_splits dest!: tbl_first_SomeD)

lemma kept_prims:
  "preserves (on_db I) m \<Longrightarrow> preserves (\<lambda>s. I (w_db (s_world s))) (on_world m)"
  "preserves (\<lambda>s. I (w_db (s_world s))) (gets f)"
  "(\<And>s. s_world (g s) = s_world s) \<Longrightarrow> preserves (\<lambda>s. I (w_db (s_world s))) (modify g)"
  by (auto simp: preserves_def on_world_def gets_def modify_def split: prod.splits)

lemma restore_keeps:
  assumes "\<And>f d. I d \<Longrightarrow> I (db_clusters_update f d)"
  shows "preserves (\<lambda>s. I (w_db (s_world s))) (RestoreClusters rs (hook_registered v))"
proof -
  note rules = pres_rules kept_prims Store_Laws.frame_rules [where I = I and upd = db_clusters_update, OF assms]
  show ?thesis
    by (auto simp: RestoreClusters_def restoreOne_def mark_offline_def hook_registered_def manager_defs newClusterRuntime_def
        stop_runtime_def notify_def StatusUpdater_def reg_Put_def repo_UpdateClusterStatus_def repo_ListClusters_def Dialer_def Let_def
        intro!: rules split: sum.splits option.splits)
qed

text \<open>Whatever database the server was started on, and whatever failed of the restoration: once it serves there
  is an account of the name \<open>admin\<close> and a role of each of the three built-in names.\<close>

theorem serving_has_admin_and_roles:
  assumes "server_start S l salt v c d1 d2 L s = (Inr v', s')"
  shows "has_admin (w_db (s_world s')) \<and> (\<forall>n \<in> {RoleAdmin, RoleOperator, RoleViewer}. has_role n (w_db (s_world s')))"
proof -
  define I where "I d \<longleftrightarrow> has_admin d \<and> (\<forall>n \<in> {RoleAdmin, RoleOperator, RoleViewer}. has_role n d)" for d
  have frame: "I d \<Longrightarrow> I (db_clusters_update f d)" for f d by (simp add: I_def has_admin_def has_role_def)
  have names: "\<forall>r \<in> set BuiltinRoleSeeds. ro_name r \<noteq> ''''" by (simp add: BuiltinRoleSeeds_def RoleAdmin_def RoleOperator_def RoleViewer_def)
  have restored: "wp (RestoreClusters rs (hook_registered u)) (\<lambda>_ t. I (w_db (s_world t))) (\<lambda>_ t. I (w_db (s_world t))) t"
    if "I (w_db (s_world t))" for rs u t
    using restore_keeps [of I, OF frame] that by (simp add: preserves_wp)
  have admin: "wp (ensureDefaultAdmin l salt) (\<lambda>_ w'. I (w_db w')) (\<lambda>_ _. True) w"
    if "\<forall>n \<in> {RoleAdmin, RoleOperator, RoleViewer}. has_role n (w_db w)" for w
    by (rule wp_mono [OF wp_ensureDefaultAdmin]) (use that in \<open>auto simp: I_def has_role_def\<close>)
  have "wp (server_start S l salt v c d1 d2 L) (\<lambda>_ t. I (w_db (s_world t))) (\<lambda>_ _. True) s"
    unfolding server_start_def wp_rules
  proof (rule wp_mono [where Q = "\<lambda>_ _. True" and E = "\<lambda>_ _. True"], goal_cases)
    case 1
    then show ?case by (simp add: wp_def split: prod.splits sum.splits)
  next
    case (2 x w1)
    show ?case unfolding SeedDefaults_def wp_rules
    proof (rule wp_mono [OF wp_seed_roles [OF names]], goal_cases)
      case (1 y w2)
      then have "\<forall>n \<in> {RoleAdmin, RoleOperator, RoleViewer}. has_role n (w_db w2)" unfolding seeded_names [symmetric] by blast
      from admin [OF this] show ?case by (simp, elim wp_mono) (auto intro: restored split: sum.split)
    qed simp
  qed simp
  from wp_InrD [OF this assms] show ?thesis by (simp add: I_def)
qed

end
