(* ===== verification/Spec2Isabelle.thy ===== *)
theory Spec2Isabelle
  imports Rbac_Effects Auth_Sessions Kubeissue Cluster_Lifecycle Http_Access Agent_Steps Agent_Laws Watch_Runs
    Api_Access Proxy Terminal Startup Engine Commands Watch_Steps Credential_Life Assembly
begin

text \<open>
  The verification library of the KubeUI backend (the Go module under src/backend): a model of the
  platform server and of the agent it connects clusters by, and the theorems that say what they
  guarantee.

  \<^bold>\<open>The program.\<close> KubeUI manages Kubernetes clusters from one server. A request of the HTTP API passes
  the audit and authentication middlewares and a permission check, reaches a handler, and the
  handler a service; services keep their state in a SQL database (users, refresh tokens, roles,
  grants and scopes, clusters, enrollment tokens, issued credentials, the audit trail) and in
  memory (the registry and the runtimes of the clusters with their health loops and informers,
  download codes, the watch hub's subscriptions, the agent hub's sessions). Clusters are reached
  directly or through an agent that dials back to the server and carries byte streams over
  WebSockets.

  \<^bold>\<open>How code becomes definitions.\<close> A Go function is a HOL function of the same name where HOL leaves it
  free; a struct is a record, a Go \<open>error\<close> a value of \<open>gerr\<close> (business errors, wrapped errors,
  sentinels), a function with effects a state transformer \<open>('s, 'a) gm\<close> returning \<open>Inl\<close> an error or
  \<open>Inr\<close> a result with the state after it. \<open>wp\<close> is the weakest precondition of such a transformer,
  and \<open>wp_rules\<close> collects its laws. The state grows with the layers: \<open>world\<close> (database, clock, statements that
  will be refused), \<open>sys\<close> (and the clusters' runtimes), \<open>rstate\<close> (and the requests sent to API
  servers), \<open>astate\<close> (and the audit stream and the download codes), \<open>proxy_state\<close>, \<open>ws_state\<close>,
  \<open>whub\<close> and \<open>tunnel_world\<close>; \<open>on_world\<close>, \<open>on_sys\<close>, \<open>on_res\<close>, \<open>on_store\<close>, \<open>on_server\<close> and the like lift an operation to the
  next. Every definition computes, so that the examples run by the simplifier.

  \<^item> Vocabulary: Prelude (errors, transformers, 64-bit arithmetic, text), Errcode (pkg/errcode, response),
    Pagination (pkg/pagination).
  \<^item> Storage (internal/store): Sql_Table is one table with its statements, Store the entities and the
    world, Store_Rbac and Store_Repos the repositories method by method. The locale \<open>sql_table\<close> has
    the laws of a table with a primary key and unique indexes, \<open>db_table\<close> those of its statements;
    Store_Laws interprets it on all thirteen tables.
  \<^item> Permissions (service/user.go, role.go): Permissions (points, role sets, the JSON codec), Rbac_Service
    (every operation of RoleService), Rbac_Authz (\<open>Authorize\<close> is its specification over sets, and
    fails closed), Rbac_Invariant (any sequence of operations keeps the tables well-formed, the
    references intact and the built-in roles unchanged), Rbac_Effects (what a grant adds and a
    deletion takes).
  \<^item> Accounts and credentials: Auth_Service and Auth_Sessions (login, single use of refresh tokens, the
    effect of disabling a user and of a new password), Enroll (lifetimes, enrollment tokens), Kubeissue (client
    credentials, one-time download codes), Crypto (sealed kubeconfigs).
  \<^item> Clusters (internal/k8s, service/clusterreg.go, registry.go, cmd/server): Health (the classification of
    probes), Clusters (registry, manager, registration service, callbacks), Cluster_Laws (the locale
    \<open>runtime_hook\<close>, what the service relies on; the manager provides it), Cluster_Lifecycle (the
    effect of registration, deletion and restart; runtimes never leak).
  \<^item> Resources (service/resource*.go): Resources (names, listing, details, masking, YAML, operations, metrics), Listing
    (the locale \<open>weak_order\<close>; pages tile a sorted listing, secrets are masked).
  \<^item> HTTP: Auditing (service/audit.go, the audit middleware), Http_Access (authentication and permission
    middlewares, resource handlers and routes: what is sent to a cluster was authorized), Api_Handlers and
    Api_Routes (the management API), Api_Access (only administrators change accounts, rights and
    clusters), Proxy (the cluster proxy), Terminal (the terminal and the log stream of a pod), Engine (the
    chain of request identifiers, access log and recovery before all of them, and the frontend's
    files: every answer carries an identifier, a panic is answered with 500 and not audited).
  \<^item> Agents (internal/agent): Wsx (frames), Tunnel (the byte stream over messages), Agent_Client (the
    agent), Agent_Hub (the server's side, divided into the sections of its locks), Agent_Steps (the
    sections under any interleaving), Agent_Laws (one registration and one dial as a whole, over the
    locale \<open>hub_hooks\<close>, which extends \<open>runtime_hook\<close>).
  \<^item> Event streams: Informers (k8s/informer.go, a refinement of a table of handlers), Watching
    (service/watchhub.go, handler/watch.go), Watch_Laws and Watch_Feed (the hub's tables agree and its
    handlers match its subscriptions), Watch_Runs (any sequence of its operations; events reach
    exactly the subscribed connections), Watch_Steps (the hub's sections under any interleaving: its
    tables still agree, its handlers may not, \<open>unsubscribe_overtakes_subscribe\<close>).
  \<^item> The two processes (cmd/server, cmd/agent, internal/config, store.go): Startup (configuration, opening
    and migrating the database, the order of \<open>run\<close>), Commands (the agent's options and exit status,
    the listener, the order of shutdown), Assembly (the probes and clients behind the interfaces; the
    server's \<open>main\<close> as a whole, and what every server that serves has).
  \<^item> Across components: Credential_Life (an issued credential under the service's operations and the
    server's, up to the proxy) and this theory, whose two properties follow a credential from its
    issue to the cluster and a grant from its creation to the check before a route.

  \<^bold>\<open>Bounds.\<close> Integers of the code are HOL integers with the wrap-around to 64 bits written out where the code
  can overflow (lifetimes, pages, counters of subscriptions); a text is the list of its bytes. Channels keep
  their capacities (64 frames of a connection, 64 rows of an audit subscriber, 8 sizes of a terminal) and
  drop what does not fit. No definition needs fuel: loops that depend on the environment (the reconnecting agent,
  health probes, the pumps of a connection, the terminal, the end of the server) run over the list of what happens to
  them, and the theorems hold for every such list. A statement of the database may be refused at any
  point, as the list \<open>w_faults\<close> says; theorems that need a working database say so.

  \<^bold>\<open>Parameters.\<close> Code that is not the repository's is an argument: SHA-256, bcrypt, the JWT library, AES-GCM,
  YAML, the Kubernetes client (building clients, the answers of API servers, discovery, objects as they
  are read and written, the floating-point side of quantities), URL and certificate parsing, \<open>time.ParseDuration\<close>, koanf, the random source. JSON is
  modelled from the decoded value on; a request's body is the value it decodes to. Where a theorem
  relies on such an argument (that opening undoes sealing, that a signed token verifies) it is a
  hypothesis, and the witness of the theorem instantiates it. A frame sent to a closed connection is dropped, although Go's
  \<open>select\<close> may put it into the queue first; an informer's key, a text in the code, is the pair it is built from; the
  pointer of a \<open>rest.Config\<close> is a number.

  \<^bold>\<open>Concurrency.\<close> Operations that hold a lock throughout are one step. Where the code releases a lock in
  between, the sections are definitions of their own: the manager's registration (two that overlap
  leak a runtime, \<open>racing_registers_leak\<close>), the refresh of a token (\<open>refresh_race\<close>), every section of the agent hub, which
  \<open>Agent_Steps\<close> interleaves freely, and the sections of the watch hub, which \<open>Watch_Steps\<close> interleaves.
  The theorems of Watch_Runs are about operations that do not overlap; \<open>Stop\<close> is not a step of either.

  \<^bold>\<open>Not modelled.\<close> The database driver, \<open>AutoMigrate\<close> and the HTTP server (matching a URL to its route,
  reading a request, its timeouts), whose results are parameters; the text of log lines; the transport
  of bodies and upgraded connections by the reverse proxy; deadlines of sockets, which appear as
  read errors; setters that only tests use; the browser application under src/frontend, which has no
  authority.

  \<^bold>\<open>What is left.\<close> Cancellation of the contexts of requests; \<open>Stop\<close> of the watch hub between the sections of
  its operations.
\<close>

section \<open>Across the components\<close>

subsection \<open>A credential from its issue to the proxy\<close>

text \<open>C16: the life of a credential, from its issue to the cluster. A credential that was issued is good
  for at most a week. Whatever the service and the server do afterwards, a request with its token
  is sent on, once and with the cluster's own credential, as long as it has not expired and has
  not been revoked, and then only to the cluster it was issued for: to another it is refused with 403,
  and expired or revoked it is refused with 401, and nothing is sent. Nothing else about its user
  or the server counts. (The token is not by chance a token of the platform, and no later
  credential has the same hash.)\<close>

theorem credential_lifecycle:
  fixes s0 s1 :: "'o astate" and p :: "'o proxy_state"
  assumes "db_wf (database_of s0)" and "on_kube (Issue l ks r1 r2 uid cluster ttl d) s0 = (Inr c, s1)"
    and "kube_life l ks (ic_token c) (iv_id c) s1 rv (ps_server p)"
    and "w_faults (server_world (ps_server p)) = []" and "cache_ok L p"
    and "\<forall>i. \<not> proves l secret (proxy_now p) (ic_token c) i" and "bearerTokenOf req = Some (ic_token c)"
  shows "iv_expires c \<le> w_now (server_world s0) + 7 * 24 * hours \<and>
    (\<exists>a p'. k8sProxy l secret L reached req ident p = (Inr a, p') \<and>
      (if \<not> rv \<and> proxy_now p \<le> iv_expires c \<and> hr_param req ''cluster'' = cluster
       then usable L p cluster \<longrightarrow> (\<exists>x. ps_forwarded p' = ps_forwarded p @ [x] \<and> properly_sent L p req x)
       else ps_forwarded p' = ps_forwarded p \<and>
         (\<exists>b. a = Some (if \<not> rv \<and> proxy_now p \<le> iv_expires c then 403 else 401, b))))"
proof -
  let ?k = "\<lparr>kw_world = server_world s0, kw_codes = as_codes s0\<rparr>" and ?n = "new_credential l uid cluster c"
  obtain r k where rk: "Issue l ks r1 r2 uid cluster ttl d ?k = (r, k)" by fastforce
  then have issue: "Issue l ks r1 r2 uid cluster ttl d ?k = (Inr c, k)" and s1: "server_world s1 = kw_world k"
    using assms(2) by (auto simp: on_kube_def)
  have wf: "db_wf (w_db (kw_world ?k))" using assms(1) by (simp add: database_of_def)
  from wp_InrD [OF wp_Issue [OF wf] issue] have new: "cred_state ?n False (server_world s1)"
    by (auto simp: s1 dest: issued_cred)
  have n: "cr_id ?n = iv_id c" "cr_hash ?n = hashToken l (ic_token c)" "cr_cluster ?n = cluster" "cr_expires ?n = iv_expires c"
    by (simp_all add: new_credential_def)
  have "iv_expires c \<le> w_now (server_world s0) + 7 * 24 * hours"
    using wp_InrD [OF wp_Issue_expiry issue] by (simp add: IssuedMaxTTL_def)
  with credential_at_proxy [OF life_cred [OF assms(3) new n(1,2)] n(2) assms(4,6,5,7)] show ?thesis
    unfolding n by blast
qed

definition issuing_state :: "thing astate" where
  "issuing_state = demo_astate\<lparr>as_res := (as_res demo_astate)\<lparr>rs_sys := (rs_sys (as_res demo_astate))\<lparr>s_world := enroll_world 100\<rparr>\<rparr>\<rparr>"

definition demo_credential :: "(gerr + issued_created) \<times> thing astate" where
  "demo_credential = on_kube (Issue demo_libs demo_service (Some ''abc'') (Some ''abd'') 7 ''c1'' (2 * hours) ''laptop'') issuing_state"

definition asked_with_credential :: http_request where
  "asked_with_credential = demo_proxied\<lparr>hr_authorization := ''Bearer YWJj''\<rparr>"

definition credential_proxy :: "thing proxy_state" where
  "credential_proxy = \<lparr>ps_server = snd demo_credential, ps_clients = [], ps_forwarded = []\<rparr>"

lemma demo_credential_issued:
  "case fst demo_credential of Inl _ \<Rightarrow> False | Inr c \<Rightarrow> ic_token c = ''YWJj'' \<and> iv_expires c = 100 + 2 * hours"
  "w_faults (server_world (snd demo_credential)) = []" "w_now (server_world (snd demo_credential)) = 100"
  "map_of (s_runtimes (rs_sys (as_res (snd demo_credential)))) ''c1'' \<noteq> None"
proof -
  obtain c k where k: "demo_issue kube_start = (Inr c, k)" "w_faults (kw_world k) = []" "w_now (kw_world k) = 100"
      "iv_expires c = 100 + 2 * hours"
    by (rule demo_issued)
  have "case fst (demo_issue kube_start) of Inl _ \<Rightarrow> False | Inr c \<Rightarrow> ic_token c = ''YWJj''" by code_simp
  then have token: "ic_token c = ''YWJj''" by (simp add: k)
  have "\<lparr>kw_world = server_world issuing_state, kw_codes = as_codes issuing_state\<rparr> = kube_start"
    by (simp add: issuing_state_def demo_astate_def kube_start_def)
  then have d: "demo_credential = (Inr c, issuing_state\<lparr>as_res := (as_res issuing_state)\<lparr>rs_sys := (rs_sys (as_res issuing_state))\<lparr>s_world := kw_world k\<rparr>\<rparr>,
      as_codes := kw_codes k\<rparr>)"
    by (simp add: demo_credential_def on_kube_def k(1) [unfolded demo_issue_def])
  show "case fst demo_credential of Inl _ \<Rightarrow> False | Inr c \<Rightarrow> ic_token c = ''YWJj'' \<and> iv_expires c = 100 + 2 * hours"
    "w_faults (server_world (snd demo_credential)) = []" "w_now (server_world (snd demo_credential)) = 100"
    "map_of (s_runtimes (rs_sys (as_res (snd demo_credential)))) ''c1'' \<noteq> None"
    using k(2-4) token by (simp_all add: d issuing_state_def demo_astate_def)
qed

lemma credential_lifecycle_witness:
  "\<exists>a p' x. k8sProxy demo_libs ''key'' demo_proxy (\<lambda>_ _. True) asked_with_credential None credential_proxy = (Inr a, p') \<and>
     ps_forwarded p' = [x] \<and> properly_sent demo_proxy credential_proxy asked_with_credential x"
proof -
  obtain c where r: "fst demo_credential = Inr c" and c: "ic_token c = ''YWJj''" "iv_expires c = 100 + 2 * hours"
    using demo_credential_issued(1) by (cases "fst demo_credential") auto
  have issue: "demo_credential = (Inr c, snd demo_credential)" by (simp add: prod_eq_iff r)
  then have issued: "on_kube (Issue demo_libs demo_service (Some ''abc'') (Some ''abd'') 7 ''c1'' (2 * hours) ''laptop'') issuing_state =
      (Inr c, snd demo_credential)" by (simp only: demo_credential_def)
  have wf: "db_wf (database_of issuing_state)" by code_simp
  have life: "kube_life demo_libs demo_service (ic_token c) (iv_id c) (snd demo_credential) False (ps_server credential_proxy)"
    by (simp add: credential_proxy_def kube_life.life_start)
  have f: "w_faults (server_world (ps_server credential_proxy)) = []" "proxy_now credential_proxy = 100"
    using demo_credential_issued(2,3) by (simp_all add: credential_proxy_def proxy_now_def)
  have cache: "cache_ok demo_proxy credential_proxy" by (simp add: cache_ok_def credential_proxy_def)
  have jwt: "\<forall>i. \<not> proves demo_libs ''key'' (proxy_now credential_proxy) (ic_token c) i"
    by (simp add: proves_def demo_libs_def c)
  have tok: "bearerTokenOf asked_with_credential = Some ''YWJj''" "hr_param asked_with_credential ''cluster'' = ''c1''" by code_simp+
  obtain rt where "map_of (s_runtimes (rs_sys (as_res (snd demo_credential)))) ''c1'' = Some rt" using demo_credential_issued(4) by blast
  moreover have "\<exists>cl. buildProxyClient demo_proxy (pl_config demo_proxy n) d = Inr cl" for n d
    by (simp add: buildProxyClient_def or_else_def rootCertPool_def clientCertificate_def bearer_of_config_def demo_proxy_def)
  ultimately have "usable demo_proxy credential_proxy ''c1''"
    by (auto simp: usable_def credential_proxy_def demo_proxy_def)
  moreover have "(100 :: int) \<le> 100 + 2 * hours" by (simp add: time_defs)
  moreover have "ps_forwarded credential_proxy = []" by (simp add: credential_proxy_def)
  ultimately show ?thesis
    using credential_lifecycle [OF wf issued life f(1) cache jwt tok(1) [folded c(1)],
        of "\<lambda>_ _. True" None] f(2) tok(2) c(2) by auto
qed

subsection \<open>A grant from the administrator to the requests of its subject\<close>

lemma CreateGrant_wf: "preserves (on_db db_wf) (CreateGrant st sid ot oid ss)"
  by (auto simp: CreateGrant_def refuse_existing_def checkSubjectExists_def subjectName_def objectName_def lookup_defs
    pres_rules preserves_db_all)

text \<open>C5: a grant opens exactly the requests it covers. After \<open>CreateGrant\<close>, successful or not, the permission
  check before a route passes for a request exactly if it would have passed before, or the grant was made,
  its subject is the user or a group of the user, one of its scopes covers the cluster of the path
  and the namespace of the query, and the point of the route, or all points, are among those of
  the granted role or role group; otherwise it refuses the request as forbidden.\<close>

theorem grant_opens_requests:
  fixes s s1 :: "'o astate"
  assumes "db_wf (database_of s)" and "refs (database_of s)" and "on_store (CreateGrant st sid ot oid ss) s = (r, s1)"
    and "w_faults (server_world s1) = []" and "id_role ident \<noteq> RoleAdmin"
  shows "fst (RequirePermScope req ident perm s1) =
    (if authorized (database_of s) (id_user ident) (id_role ident) perm (hr_param req ''cluster'') (hr_query req ''namespace'') \<or>
        is_ok r \<and> names_user (database_of s) (id_user ident) st sid \<and>
          scopes_cover (hr_param req ''cluster'') (hr_query req ''namespace'') ss \<and>
          (perm \<in> object_points (database_of s) ot oid \<or> PermAll \<in> object_points (database_of s) ot oid)
     then Inr () else Inl (New Forbidden (''insufficient privilege: '' @ perm)))"
proof -
  let ?w = "server_world s" and ?cl = "hr_param req ''cluster''" and ?ns = "hr_query req ''namespace''"
  obtain r' w1 where "CreateGrant st sid ot oid ss ?w = (r', w1)" by fastforce
  then have w1: "CreateGrant st sid ot oid ss ?w = (r, w1)" and s1: "server_world s1 = w1"
    using assms(3) by (auto simp: on_store_def on_res_def on_sys_def on_world_def)
  have wf1: "db_wf (w_db w1)"
    using preservesD [OF CreateGrant_wf, of ?w st sid ot oid ss] assms(1) w1 by (simp add: database_of_def)
  have auth: "authorized (w_db w1) (id_user ident) (id_role ident) perm ?cl ?ns \<longleftrightarrow>
      authorized (database_of s) (id_user ident) (id_role ident) perm ?cl ?ns \<or>
      is_ok r \<and> names_user (database_of s) (id_user ident) st sid \<and> scopes_cover ?cl ?ns ss \<and>
        (perm \<in> object_points (database_of s) ot oid \<or> PermAll \<in> object_points (database_of s) ot oid)"
  proof (cases r)
    case (Inl e)
    then have "w_db w1 = w_db ?w" using wp_InlD [OF wp_CreateGrant w1 [unfolded Inl]] by simp
    then show ?thesis by (simp add: Inl is_ok_def database_of_def)
  next
    case (Inr x)
    have "Rbac_Effects.granted (w_db ?w) st sid ot oid ss (w_db w1)" by (rule wp_InrD [OF wp_CreateGrant w1 [unfolded Inr]])
    from effective_granted [OF _ _ this assms(5), of "id_user ident" ?cl ?ns] show ?thesis
      using assms(1,2) by (auto simp: Inr is_ok_def database_of_def authorized_def)
  qed
  have "wp (RequirePermScope req ident perm) (\<lambda>_ _. authorized (w_db w1) (id_user ident) (id_role ident) perm ?cl ?ns)
      (\<lambda>e _. \<not> authorized (w_db w1) (id_user ident) (id_role ident) perm ?cl ?ns \<and> e = New Forbidden (''insufficient privilege: '' @ perm)) s1"
    unfolding RequirePermScope_def HasPermScope_def on_store_def wp_rules
    by (rule wp_mono [OF wp_Authorize]) (use wf1 assms(4) in \<open>auto simp: s1\<close>)
  then show ?thesis unfolding auth by (auto simp: wp_def split: prod.splits sum.splits)
qed

definition demo_grant :: "(gerr + grant_item) \<times> thing astate" where
  "demo_grant = on_store (CreateGrant ''group'' 2 ''role'' 5 [(''c1'', ''*'')]) demo_astate"

lemma demo_grant_made: "is_ok (fst demo_grant)" "w_faults (server_world (snd demo_grant)) = []"
proof -
  let ?m = "CreateGrant ''group'' 2 ''role'' 5 [(''c1'', ''*'')] (demo [])"
  have "is_ok (fst ?m)" "w_faults (snd ?m) = []" by code_simp+
  moreover have "fst demo_grant = fst ?m" "server_world (snd demo_grant) = snd ?m"
    by (simp_all add: demo_grant_def demo_astate_def on_store_def on_res_def on_sys_def on_world_def split: prod.split)
  ultimately show "is_ok (fst demo_grant)" "w_faults (server_world (snd demo_grant)) = []" by simp_all
qed

lemma grant_opens_requests_witness:
  "fst (RequirePermScope (demo_http ''GET'' ''pods'' '''' ''ns2'') eve ''audit:read'' (snd demo_grant)) = Inr ()"
proof -
  have d: "database_of demo_astate = demo_db" by (simp add: database_of_def demo_astate_def demo_def)
  have wf: "db_wf demo_db" by code_simp
  have refs: "refs demo_db"
    by (simp add: refs_def grant_refs_def ids_def valid_scope_def demo_db_def type_defs empty_db_def tbl_empty_def)
  have g: "on_store (CreateGrant ''group'' 2 ''role'' 5 [(''c1'', ''*'')]) demo_astate = (fst demo_grant, snd demo_grant)"
    by (simp add: demo_grant_def)
  have eve: "id_role eve \<noteq> RoleAdmin" "id_user eve = 7" by (simp_all add: eve_def RoleAdmin_def)
  have dec: "decodePermissions (encodePermissions [''audit:read'']) = [''audit:read'']" by code_simp
  have o: "''audit:read'' \<in> object_points demo_db ''role'' 5"
    by (auto simp: object_points_def role_points_def type_defs demo_db_def dec)
  have n: "names_user demo_db 7 ''group'' 2 \<and> scopes_cover ''c1'' ''ns2'' [(''c1'', ''*'')]"
    by (simp add: names_user_def type_defs demo_db_def scopes_cover_def)
  have q: "hr_param (demo_http ''GET'' ''pods'' '''' ''ns2'') ''cluster'' = ''c1''" "hr_query (demo_http ''GET'' ''pods'' '''' ''ns2'') ''namespace'' = ''ns2''"
    by (simp_all add: demo_http_def)
  from grant_opens_requests [OF wf [folded d] refs [folded d] g demo_grant_made(2) eve(1), of "demo_http ''GET'' ''pods'' '''' ''ns2''" "''audit:read''"]
  show ?thesis using o n q eve(2) demo_grant_made(1) by (simp add: d)
qed

end
